(* ===== verification/Prelude.thy ===== *)
theory Prelude
  imports Main "HOL-Library.Word"
begin

text \<open>
  Shared vocabulary of the development: C integers, the system-call interface, and the
  state/exit monad in which every stateful routine of the test tools is written.

  The kernel is not part of the sources.  It is a parameter \<open>kernel\<close> of every
  program: a function from the calls issued so far and the call being issued to its
  result.  A program therefore is a function of the kernel and of the process state; the
  state keeps the sequence of calls already issued (\<open>trace\<close>), so that a theorem
  can say which calls a routine makes, in which order, with which arguments.
\<close>

unbundle bit_operations_syntax

named_theorems prog_simps \<open>evaluation of programs\<close>

section \<open>C integers\<close>

type_synonym u64 = "64 word"
type_synonym addr = "64 word"

text \<open>
  A C \<open>int\<close> is an \<open>int\<close> in the range of 32 bits; a value that is stored in an
  \<open>int\<close> is truncated by \<open>s32\<close> (two's complement, as gcc does), one that is stored in
  an \<open>unsigned long\<close> or a pointer is converted by \<open>word_of_int\<close>.
\<close>

definition s32 :: "int \<Rightarrow> int" where
  "s32 x = (x + 2 ^ 31) mod 2 ^ 32 - 2 ^ 31"

definition s64 :: "int \<Rightarrow> int" where
  "s64 x = (x + 2 ^ 63) mod 2 ^ 64 - 2 ^ 63"

abbreviation ul :: "int \<Rightarrow> u64" where
  "ul x \<equiv> word_of_int x"

text \<open>Storing an \<open>unsigned long\<close> in an \<open>int\<close>.\<close>

definition int_of_ul :: "u64 \<Rightarrow> int" where
  "int_of_ul w = s32 (uint w)"

definition in_s32 :: "int \<Rightarrow> bool" where
  "in_s32 x \<longleftrightarrow> - (2 ^ 31) \<le> x \<and> x < 2 ^ 31"

lemma s32_id [simp]: "in_s32 x \<Longrightarrow> s32 x = x"
  by (simp add: s32_def in_s32_def)

lemma in_s32_s32 [simp]: "in_s32 (s32 x)"
proof -
  have "0 \<le> (x + 2 ^ 31) mod 2 ^ 32" "(x + 2 ^ 31) mod 2 ^ 32 < (2 ^ 32 :: int)"
    by simp_all
  then show ?thesis by (simp add: in_s32_def s32_def)
qed

lemma s32_small: "0 \<le> x \<Longrightarrow> x < 2 ^ 31 \<Longrightarrow> s32 x = x"
  by (simp add: in_s32_def)

lemma uint_ul_small: "0 \<le> x \<Longrightarrow> x < 2 ^ 64 \<Longrightarrow> uint (ul x) = x"
  by (simp add: uint_word_of_int)

lemma int_of_ul_small: "0 \<le> x \<Longrightarrow> x < 2 ^ 31 \<Longrightarrow> int_of_ul (ul x) = x"
  by (simp add: int_of_ul_def uint_ul_small in_s32_def)

text \<open>Division and remainder of C \<open>int\<close>s truncate towards zero.\<close>

definition cdiv :: "int \<Rightarrow> int \<Rightarrow> int" where
  "cdiv a b = sgn a * sgn b * (\<bar>a\<bar> div \<bar>b\<bar>)"

definition crem :: "int \<Rightarrow> int \<Rightarrow> int" where
  "crem a b = a - b * cdiv a b"

lemma cdiv_nonneg: "0 \<le> a \<Longrightarrow> 0 < b \<Longrightarrow> cdiv a b = a div b"
  by (cases "a = 0") (simp_all add: cdiv_def)

lemma crem_nonneg: "0 \<le> a \<Longrightarrow> 0 < b \<Longrightarrow> crem a b = a mod b"
  by (simp add: crem_def cdiv_nonneg minus_mult_div_eq_mod)

section \<open>System calls and memory accesses\<close>

text \<open>
  One constructor per system call (or library routine that is a thin wrapper of one) the
  tools issue, with its arguments, plus the loads and stores they make to the memory under
  test.  \<open>Indet\<close> stands for reading a value that the C code never set (the result of
  a function that falls off its end): the program cannot know it, so the environment
  supplies it.  \<open>Poll\<close> is one look at a variable that another party (a signal handler, the
  kernel, another thread) writes.  \<open>LoadN\<close> and \<open>StoreN\<close> are accesses of more than one
  byte; \<open>Syscall\<close> holds the calls that only one tool makes, by name.
\<close>

datatype (plugins only: code) sys =
    Mmap addr u64 int int int u64
  | Munmap addr u64
  | Madvise addr u64 int
  | Mlock addr u64
  | Munlock addr u64
  | Mlock2 addr u64 int
  | Mprotect addr u64 int
  | Mremap addr u64 u64 int addr
  | Mbind addr u64 int "nat list" u64 int
  | MovePages "addr list" "int list" int
  | SetMempolicy int "u64 list option" u64
  | NodeToCpus int
  | SetAffinity int
  | Shmget int u64 int
  | Shmat int addr int
  | Shmdt addr
  | Shmctl int int
  | Open string int int
  | Close int
  | Read int u64
  | Write int string
  | Pread int u64 u64
  | Pwrite int string u64
  | Fsync int
  | SyncFileRange int u64 u64 int
  | Unlink string
  | Access string int
  | Mkdir string int
  | Opendir string
  | Closedir
  | Fopen string string
  | Fclose
  | Malloc u64
  | Lstat string
  | Fcntl int int int
  | Semget int int
  | Semctl int int int
  | Semop int int int
  | Sigaction int int
  | Prctl int int u64
  | ProcessVmReadv int "addr list" u64
  | Sysconf int
  | Fork
  | Wait int
  | Getpid
  | Getuid
  | Random
  | Gettimeofday
  | Usleep u64
  | Sleep u64
  | System string
  | Stdout string
  | Fputs string
  | Free addr
  | Exec "string list"
  | Syscall string "u64 list"
  | Load addr
  | Store addr char
  | LoadN addr nat
  | StoreN addr nat u64
  | Memset addr char u64
  | Memcpy addr addr u64
  | Poll
  | Indet

text \<open>
  The result of a call: its C return value, \<open>errno\<close>, the bytes it hands back
  (\<open>read\<close>, \<open>pread\<close>) and the lines or directory entries that reading it to
  its end yields (\<open>fopen\<close> followed by \<open>fgets\<close>, \<open>opendir\<close> followed by
  \<open>readdir\<close>).
\<close>

record sysres =
  rv :: int
  errno :: int
  bytes :: string
  entries :: "string list"

text \<open>A kernel that answers every call with 0, for evaluating programs on examples.\<close>

definition ok :: sysres where
  "ok = \<lparr>rv = 0, errno = 0, bytes = [], entries = []\<rparr>"

type_synonym kernel = "sys list \<Rightarrow> sys \<Rightarrow> sysres"

section \<open>Programs\<close>

text \<open>
  A program returns a value, ends the process with an exit status, does something C leaves
  undefined (\<open>Fault\<close>: a NULL dereference, an access past the end of an array, the use of a
  value that was never set, ...), or
  has spent the fuel its loops were given (\<open>NoFuel\<close>).
\<close>

datatype fault = NullDeref | OutOfBounds | Overflow | UnsetValue | DivByZero | BadFree

datatype 'a outcome = Val 'a | Exit int | Fault fault | NoFuel

record io =
  trace :: "sys list"

type_synonym ('s, 'a) prog = "kernel \<Rightarrow> 's \<Rightarrow> 'a outcome \<times> 's"

definition ret :: "'a \<Rightarrow> ('s, 'a) prog" where
  "ret a = (\<lambda>k s. (Val a, s))"

definition stop :: "'a outcome \<Rightarrow> ('s, 'a) prog" where
  "stop r = (\<lambda>k s. (r, s))"

definition bnd :: "('s, 'a) prog \<Rightarrow> ('a \<Rightarrow> ('s, 'b) prog) \<Rightarrow> ('s, 'b) prog" where
  "bnd m f = (\<lambda>k s. case m k s of (r, s') \<Rightarrow>
     (case r of Val a \<Rightarrow> f a k s' | Exit c \<Rightarrow> (Exit c, s')
      | Fault e \<Rightarrow> (Fault e, s') | NoFuel \<Rightarrow> (NoFuel, s')))"

definition sqn :: "('s, 'a) prog \<Rightarrow> ('s, 'b) prog \<Rightarrow> ('s, 'b) prog" where
  "sqn m n = bnd m (\<lambda>_. n)"

definition skip :: "('s, unit) prog" where
  "skip = ret ()"

definition exit_failure :: "('s, 'a) prog" where
  "exit_failure = stop (Exit 1)"

definition get :: "('s \<Rightarrow> 'a) \<Rightarrow> ('s, 'a) prog" where
  "get f = (\<lambda>k s. (Val (f s), s))"

definition put :: "('s \<Rightarrow> 's) \<Rightarrow> ('s, unit) prog" where
  "put f = (\<lambda>k s. (Val (), f s))"

definition sys :: "sys \<Rightarrow> ('z io_scheme, sysres) prog" where
  "sys c = (\<lambda>k s. (Val (k (trace s) c), s\<lparr>trace := trace s @ [c]\<rparr>))"

text \<open>A call whose result is ignored, and one of which only the return value is used.\<close>

definition call :: "sys \<Rightarrow> ('z io_scheme, unit) prog" where
  "call c = (\<lambda>k s. (Val (), s\<lparr>trace := trace s @ [c]\<rparr>))"

definition sysv :: "sys \<Rightarrow> ('z io_scheme, int) prog" where
  "sysv c = (\<lambda>k s. (Val (rv (k (trace s) c)), s\<lparr>trace := trace s @ [c]\<rparr>))"

definition cond :: "bool \<Rightarrow> ('s, unit) prog \<Rightarrow> ('s, unit) prog" where
  "cond b m = (if b then m else skip)"

primrec seqs :: "('s, unit) prog list \<Rightarrow> ('s, unit) prog" where
  "seqs [] = skip"
| "seqs (m # ms) = sqn m (seqs ms)"

definition for_each :: "'i list \<Rightarrow> ('i \<Rightarrow> ('s, unit) prog) \<Rightarrow> ('s, unit) prog" where
  "for_each xs f = seqs (map f xs)"

section \<open>Evaluation\<close>

lemma ret_eval [prog_simps]: "ret a k s = (Val a, s)"
  by (simp add: ret_def)

lemma stop_eval [prog_simps]: "stop r k s = (r, s)"
  by (simp add: stop_def)

lemma skip_eval [prog_simps]: "skip k s = (Val (), s)"
  by (simp add: skip_def ret_def)

lemma exit_failure_eval [prog_simps]: "exit_failure k s = (Exit 1, s)"
  by (simp add: exit_failure_def stop_def)

lemma get_eval [prog_simps]: "get f k s = (Val (f s), s)"
  by (simp add: get_def)

lemma put_eval [prog_simps]: "put f k s = (Val (), f s)"
  by (simp add: put_def)

lemma call_eval [prog_simps]: "call c k s = (Val (), s\<lparr>trace := trace s @ [c]\<rparr>)"
  by (simp add: call_def)

lemma sys_eval [prog_simps]: "sys c k s = (Val (k (trace s) c), s\<lparr>trace := trace s @ [c]\<rparr>)"
  by (simp add: sys_def)

lemma sysv_eval [prog_simps]: "sysv c k s = (Val (rv (k (trace s) c)), s\<lparr>trace := trace s @ [c]\<rparr>)"
  by (simp add: sysv_def)

lemma bnd_eval [prog_simps]:
  "bnd m f k s = (case m k s of (r, s') \<Rightarrow>
     (case r of Val a \<Rightarrow> f a k s' | Exit c \<Rightarrow> (Exit c, s')
      | Fault e \<Rightarrow> (Fault e, s') | NoFuel \<Rightarrow> (NoFuel, s')))"
  by (simp add: bnd_def)

lemma sqn_eval [prog_simps]:
  "sqn m n k s = (case m k s of (r, s') \<Rightarrow>
     (case r of Val a \<Rightarrow> n k s' | Exit c \<Rightarrow> (Exit c, s')
      | Fault e \<Rightarrow> (Fault e, s') | NoFuel \<Rightarrow> (NoFuel, s')))"
  by (simp add: sqn_def bnd_def)

lemma cond_eval [prog_simps]: "cond b m k s = (if b then m k s else (Val (), s))"
  by (simp add: cond_def skip_def ret_def)

lemma seqs_Nil_eval [prog_simps]: "seqs [] k s = (Val (), s)"
  by (simp add: skip_def ret_def)

lemma seqs_Cons_eval [prog_simps]:
  "seqs (m # ms) k s = (case m k s of (r, s') \<Rightarrow>
     (case r of Val a \<Rightarrow> seqs ms k s' | Exit c \<Rightarrow> (Exit c, s')
      | Fault e \<Rightarrow> (Fault e, s') | NoFuel \<Rightarrow> (NoFuel, s')))"
  by (simp add: sqn_eval)

lemma for_each_Nil_eval [prog_simps]: "for_each [] f k s = (Val (), s)"
  by (simp add: for_each_def prog_simps)

lemma for_each_Cons_eval [prog_simps]:
  "for_each (x # xs) f k s = (case f x k s of (r, s') \<Rightarrow>
     (case r of Val a \<Rightarrow> for_each xs f k s' | Exit c \<Rightarrow> (Exit c, s')
      | Fault e \<Rightarrow> (Fault e, s') | NoFuel \<Rightarrow> (NoFuel, s')))"
  by (simp add: for_each_def seqs_Cons_eval del: seqs.simps split: prod.split outcome.split)

text \<open>A loop of calls that cannot fail issues exactly those calls, in order.\<close>

lemma for_each_call:
  "for_each xs (\<lambda>i. call (c i)) k s = (Val (), s\<lparr>trace := trace s @ map c xs\<rparr>)"
  by (induction xs arbitrary: s) (simp_all add: prog_simps)

lemma for_each_calls:
  assumes "\<And>x s. x \<in> set xs \<Longrightarrow> f x k s = (Val (), s\<lparr>trace := trace s @ g x\<rparr>)"
  shows "for_each xs f k s = (Val (), s\<lparr>trace := trace s @ concat (map g xs)\<rparr>)"
  using assms by (induction xs arbitrary: s) (simp_all add: prog_simps)

text \<open>Nested loops are one loop over the pairs.\<close>

lemma for_each_append_eval:
  "for_each (xs @ ys) f k s = (case for_each xs f k s of (r, s') \<Rightarrow>
     (case r of Val a \<Rightarrow> for_each ys f k s' | Exit c \<Rightarrow> (Exit c, s')
      | Fault e \<Rightarrow> (Fault e, s') | NoFuel \<Rightarrow> (NoFuel, s')))"
  by (induction xs arbitrary: s) (simp_all add: prog_simps split: prod.split outcome.split)

lemma for_each_map: "for_each (map h xs) f = for_each xs (f \<circ> h)"
  by (simp add: for_each_def)

lemma for_each_nested:
  "for_each xs (\<lambda>x. for_each (ys x) (g x)) k s =
   for_each (concat (map (\<lambda>x. map (Pair x) (ys x)) xs)) (\<lambda>(x, y). g x y) k s"
  by (induction xs arbitrary: s)
    (simp_all add: prog_simps for_each_append_eval for_each_map comp_def split: prod.split outcome.split)

text \<open>A property of the state and of the part of the list already visited, kept by the loop.\<close>

lemma for_each_prefix:
  assumes "I [] s"
    and "\<And>ys x zs s. xs = ys @ x # zs \<Longrightarrow> I ys s \<Longrightarrow> \<exists>s'. f x k s = (Val (), s') \<and> I (ys @ [x]) s'"
  shows "\<exists>s'. for_each xs f k s = (Val (), s') \<and> I xs s'"
proof -
  have "\<exists>s'. for_each zs f k s = (Val (), s') \<and> I (ys @ zs) s'" if "xs = ys @ zs" "I ys s" for ys zs s
    using that
  proof (induction zs arbitrary: ys s)
    case Nil
    then show ?case by (simp add: prog_simps)
  next
    case (Cons z zs)
    then obtain s1 where s1: "f z k s = (Val (), s1)" "I (ys @ [z]) s1"
      using assms(2) by blast
    with Cons.IH [of "ys @ [z]" s1] Cons.prems show ?case by (simp add: prog_simps)
  qed
  from this [of "[]" xs s] assms(1) show ?thesis by simp
qed

section \<open>Invariants of programs\<close>

text \<open>
  A program keeps a property of the state: it holds afterwards, in whichever way the program
  ends.
\<close>

named_theorems keeps_intros \<open>programs that keep a property\<close>

definition keeps :: "('s \<Rightarrow> bool) \<Rightarrow> ('s, 'a) prog \<Rightarrow> bool" where
  "keeps P m \<longleftrightarrow> (\<forall>k s. P s \<longrightarrow> P (snd (m k s)))"

lemma keepsI: "(\<And>k s. P s \<Longrightarrow> P (snd (m k s))) \<Longrightarrow> keeps P m"
  by (simp add: keeps_def)

lemma keepsD: "keeps P m \<Longrightarrow> P s \<Longrightarrow> m k s = (r, s') \<Longrightarrow> P s'"
  by (metis keeps_def snd_conv)

lemma keeps_simple [keeps_intros]:
  "keeps P (ret a)" "keeps P (stop r)" "keeps P skip" "keeps P exit_failure" "keeps P (get f)"
  by (simp_all add: keeps_def prog_simps)

lemma keeps_put [keeps_intros]: "(\<And>s. P s \<Longrightarrow> P (f s)) \<Longrightarrow> keeps P (put f)"
  by (simp add: keeps_def prog_simps)

lemma keeps_bnd [keeps_intros]:
  assumes "keeps P m" "\<And>a. keeps P (f a)"
  shows "keeps P (bnd m f)"
proof (rule keepsI)
  fix k s
  assume "P s"
  obtain r s' where m: "m k s = (r, s')" by (metis surj_pair)
  with assms(1) \<open>P s\<close> have "P s'" by (metis keepsD)
  with assms(2) show "P (snd (bnd m f k s))"
    by (cases r) (simp_all add: prog_simps m keeps_def)
qed

lemma keeps_sqn [keeps_intros]: "keeps P m \<Longrightarrow> keeps P n \<Longrightarrow> keeps P (sqn m n)"
  unfolding sqn_def by (rule keeps_bnd)

lemma keeps_if [keeps_intros]: "keeps P m \<Longrightarrow> keeps P n \<Longrightarrow> keeps P (if b then m else n)"
  by simp

lemma keeps_cond [keeps_intros]: "keeps P m \<Longrightarrow> keeps P (cond b m)"
  unfolding cond_def by (intro keeps_if keeps_simple)

lemma keeps_seqs: "(\<And>m. m \<in> set ms \<Longrightarrow> keeps P m) \<Longrightarrow> keeps P (seqs ms)"
  by (induction ms) (auto intro: keeps_intros)

lemma keeps_seqs_Cons [keeps_intros]: "keeps P m \<Longrightarrow> keeps P (seqs ms) \<Longrightarrow> keeps P (seqs (m # ms))"
  by (simp add: keeps_intros)

lemma keeps_seqs_Nil [keeps_intros]: "keeps P (seqs [])"
  by (simp add: keeps_intros)

lemma keeps_for_each [keeps_intros]: "(\<And>x. keeps P (f x)) \<Longrightarrow> keeps P (for_each xs f)"
  unfolding for_each_def by (rule keeps_seqs) auto

lemma keeps_option [keeps_intros]:
  "keeps P m \<Longrightarrow> (\<And>a. keeps P (f a)) \<Longrightarrow> keeps P (case x of None \<Rightarrow> m | Some a \<Rightarrow> f a)"
  by (simp split: option.split)

lemma keeps_prod [keeps_intros]: "(\<And>a b. keeps P (f a b)) \<Longrightarrow> keeps P (case x of (a, b) \<Rightarrow> f a b)"
  by (simp split: prod.split)

lemma keeps_sum [keeps_intros]:
  "(\<And>a. keeps P (f a)) \<Longrightarrow> (\<And>a. keeps P (g a)) \<Longrightarrow> keeps P (case x of Inl a \<Rightarrow> f a | Inr a \<Rightarrow> g a)"
  by (simp split: sum.split)

lemma keeps_Let [keeps_intros]: "(\<And>a. keeps P (f a)) \<Longrightarrow> keeps P (let a = x in f a)"
  by (simp add: Let_def)

lemma keeps_calls [keeps_intros]:
  assumes "\<And>s t. P s \<Longrightarrow> P (s\<lparr>trace := t\<rparr>)"
  shows "keeps P (call c)" "keeps P (sys c)" "keeps P (sysv c)"
  using assms by (simp_all add: keeps_def prog_simps)

end
