(* ===== verification/CLib.thy ===== *)
theory CLib
  imports Prelude
begin

text \<open>
  The parts of the C library the tools use on strings: tokenising with \<open>strtok\<close>, number
  parsing with \<open>strtol\<close>/\<open>strtoul\<close>, the \<open>sscanf\<close> format of operation arguments,
  prefix and substring tests, and the number conversions of \<open>sprintf\<close>.  A C string is a
  list of characters without its terminating NUL.
\<close>

section \<open>Characters\<close>

definition isspace :: "char \<Rightarrow> bool" where
  "isspace c \<longleftrightarrow> c \<in> set [CHR '' '', CHR 0x09, CHR 0x0A, CHR 0x0B, CHR 0x0C, CHR 0x0D]"

text \<open>The value of a digit in the bases \<open>strtol\<close> knows.\<close>

definition digit_val :: "char \<Rightarrow> nat" where
  "digit_val c = (let n = of_char c :: nat in
     if 48 \<le> n \<and> n \<le> 57 then n - 48
     else if 97 \<le> n \<and> n \<le> 122 then n - 87
     else if 65 \<le> n \<and> n \<le> 90 then n - 55
     else 99)"

section \<open>strtok\<close>

text \<open>
  One call: skip delimiters, return the token up to the next delimiter and what follows
  that delimiter; \<open>None\<close> is the NULL return at the end of the string.
\<close>

definition strtok :: "char list \<Rightarrow> string \<Rightarrow> (string \<times> string) option" where
  "strtok d s = (case dropWhile (\<lambda>c. c \<in> set d) s of
     [] \<Rightarrow> None
   | s' \<Rightarrow> Some (takeWhile (\<lambda>c. c \<notin> set d) s', drop 1 (dropWhile (\<lambda>c. c \<notin> set d) s')))"

lemma strtok_shorter: "strtok d s = Some (t, r) \<Longrightarrow> length r < length s"
proof -
  assume h: "strtok d s = Some (t, r)"
  let ?s = "dropWhile (\<lambda>c. c \<in> set d) s"
  from h have ne: "?s \<noteq> []" and r: "r = drop 1 (dropWhile (\<lambda>c. c \<notin> set d) ?s)"
    by (cases ?s; simp add: strtok_def)+
  have "length r \<le> length (dropWhile (\<lambda>c. c \<notin> set d) ?s) - 1" by (simp add: r)
  also have "\<dots> \<le> length ?s - 1" by (simp add: length_dropWhile_le diff_le_mono)
  also have "\<dots> < length ?s" using ne by simp
  also have "\<dots> \<le> length s" by (rule length_dropWhile_le)
  finally show ?thesis .
qed

text \<open>The loop \<open>for (p = strtok(s, d); p; p = strtok(NULL, d))\<close>: all tokens, in order.\<close>

function tokens :: "char list \<Rightarrow> string \<Rightarrow> string list" where
  "tokens d s = (case strtok d s of None \<Rightarrow> [] | Some (t, r) \<Rightarrow> t # tokens d r)"
  by pat_completeness auto
termination
  by (relation "measure (\<lambda>(d, s). length s)") (auto dest: strtok_shorter)

declare tokens.simps [simp del]

primrec join :: "char \<Rightarrow> string list \<Rightarrow> string" where
  "join c [] = []"
| "join c (t # ts) = (if ts = [] then t else t @ c # join c ts)"

definition is_token :: "char list \<Rightarrow> string \<Rightarrow> bool" where
  "is_token d t \<longleftrightarrow> t \<noteq> [] \<and> (\<forall>c \<in> set t. c \<notin> set d)"

lemma strtok_token:
  assumes "strtok d s = Some (t, r)"
  shows "is_token d t"
proof -
  from assms obtain a u where s: "dropWhile (\<lambda>c. c \<in> set d) s = a # u"
    and t: "t = takeWhile (\<lambda>c. c \<notin> set d) (a # u)"
    by (cases "dropWhile (\<lambda>c. c \<in> set d) s") (auto simp: strtok_def)
  from s have "a \<notin> set d" by (simp add: dropWhile_eq_Cons_conv)
  with t show ?thesis by (auto simp: is_token_def dest: set_takeWhileD)
qed

lemma tokens_are_tokens: "t \<in> set (tokens d s) \<Longrightarrow> is_token d t"
proof (induction d s rule: tokens.induct)
  case (1 d s)
  from "1.prems" have "t \<in> set (case strtok d s of None \<Rightarrow> [] | Some (t, r) \<Rightarrow> t # tokens d r)"
    by (simp only: tokens.simps [of d s])
  then obtain u r where u: "strtok d s = Some (u, r)" and "t = u \<or> t \<in> set (tokens d r)"
    by (cases "strtok d s") auto
  then show ?case using strtok_token [OF u] "1.IH" [OF u refl] by blast
qed

lemma strtok_token_end:
  assumes "is_token d t"
  shows "strtok d t = Some (t, [])"
proof -
  obtain a u where t: "t = a # u" and a: "a \<notin> set d" and u: "\<forall>c \<in> set u. c \<notin> set d"
    using assms by (cases t) (auto simp: is_token_def)
  then show ?thesis
    by (simp add: strtok_def takeWhile_eq_all_conv [THEN iffD2] dropWhile_eq_Nil_conv [THEN iffD2])
qed

lemma strtok_token_delim:
  assumes "is_token d t" "c \<in> set d"
  shows "strtok d (t @ c # s) = Some (t, s)"
proof -
  from assms(1) obtain a u where t: "t = a # u" and a: "a \<notin> set d"
    by (cases t) (auto simp: is_token_def)
  have all: "\<And>x. x \<in> set t \<Longrightarrow> x \<notin> set d"
    using assms(1) by (simp add: is_token_def)
  have d: "dropWhile (\<lambda>c. c \<in> set d) (t @ c # s) = t @ c # s"
    using a by (simp add: t)
  have "takeWhile (\<lambda>c. c \<notin> set d) (t @ c # s) = t"
    "dropWhile (\<lambda>c. c \<notin> set d) (t @ c # s) = c # s"
    using all assms(2) by (simp_all add: takeWhile_append dropWhile_append)
  with d show ?thesis by (simp add: strtok_def t split: list.split)
qed

lemma tokens_join:
  assumes "list_all (is_token d) ts" "c \<in> set d"
  shows "tokens d (join c ts) = ts"
  using assms(1)
proof (induction ts)
  case Nil
  show ?case by (subst tokens.simps) (simp add: strtok_def)
next
  case (Cons t ts)
  then show ?case
    by (subst tokens.simps)
      (auto simp: strtok_token_end strtok_token_delim [OF _ assms(2)] tokens.simps [of d "[]"]
        strtok_def [of d "[]"])
qed

section \<open>Comparison and search\<close>

text \<open>\<open>!strncmp(s, t, n)\<close>: the first \<open>n\<close> characters agree, or both strings end before.\<close>

definition strncmp_eq :: "string \<Rightarrow> string \<Rightarrow> nat \<Rightarrow> bool" where
  "strncmp_eq s t n \<longleftrightarrow> take n s = take n t"

fun strchr :: "string \<Rightarrow> char \<Rightarrow> nat option" where
  "strchr [] c = None"
| "strchr (x # xs) c = (if x = c then Some 0 else map_option Suc (strchr xs c))"

fun strstr :: "string \<Rightarrow> string \<Rightarrow> bool" where
  "strstr [] t = (t = [])"
| "strstr (x # xs) t = (take (length t) (x # xs) = t \<or> strstr xs t)"

lemma strstr_iff: "strstr s t \<longleftrightarrow> (\<exists>u v. s = u @ t @ v)"
proof
  show "strstr s t \<Longrightarrow> \<exists>u v. s = u @ t @ v"
  proof (induction s t rule: strstr.induct)
    case (2 x xs t)
    then consider "take (length t) (x # xs) = t" | "\<exists>u v. xs = u @ t @ v" by auto
    then show ?case
    proof cases
      case 1
      then have "x # xs = [] @ t @ drop (length t) (x # xs)"
        by (metis append_Nil append_take_drop_id)
      then show ?thesis by blast
    next
      case 2
      then obtain u v where "xs = u @ t @ v" by blast
      then have "x # xs = (x # u) @ t @ v" by simp
      then show ?thesis by blast
    qed
  qed simp
next
  assume "\<exists>u v. s = u @ t @ v"
  then obtain u v where "s = u @ t @ v" by blast
  then show "strstr s t"
  proof (induction u arbitrary: s)
    case Nil
    then show ?case by (cases s) (simp, metis append_Nil append_eq_conv_conj strstr.simps(2))
  qed simp
qed

section \<open>Numbers\<close>

fun digits :: "nat \<Rightarrow> nat \<Rightarrow> string \<Rightarrow> nat \<times> string" where
  "digits b acc [] = (acc, [])"
| "digits b acc (c # cs) =
     (if digit_val c < b then digits b (acc * b + digit_val c) cs else (acc, c # cs))"

text \<open>
  The common part of \<open>strtol\<close> and \<open>strtoul\<close>: white space, sign, the prefix that selects
  the base when the base argument is 0, digits.  Gives the sign, the magnitude and the
  unparsed rest; without a digit the rest is the whole string.
\<close>

definition strto_digits :: "nat \<Rightarrow> string \<Rightarrow> (nat \<times> string) option" where
  "strto_digits base s =
    (let hex = ((base = 0 \<or> base = 16) \<and> (take 2 s = ''0x'' \<or> take 2 s = ''0X'')
                \<and> length s > 2 \<and> digit_val (s ! 2) < 16);
         b = (if base \<noteq> 0 then base else if hex then 16 else if take 1 s = ''0'' then 8 else 10);
         s' = (if hex then drop 2 s else s)
     in case s' of [] \<Rightarrow> None
        | c # _ \<Rightarrow> if digit_val c < b then Some (digits b 0 s') else None)"

definition strto :: "nat \<Rightarrow> string \<Rightarrow> bool \<times> nat \<times> string" where
  "strto base s =
    (let s1 = dropWhile isspace s;
         s2 = (if take 1 s1 = ''-'' \<or> take 1 s1 = ''+'' then drop 1 s1 else s1)
     in case strto_digits base s2 of None \<Rightarrow> (False, 0, s)
        | Some (n, r) \<Rightarrow> (take 1 s1 = ''-'', n, r))"

definition strtoul :: "nat \<Rightarrow> string \<Rightarrow> u64" where
  "strtoul base s = (case strto base s of (neg, n, r) \<Rightarrow>
     if 2 ^ 64 \<le> n then - 1 else if neg then - of_nat n else of_nat n)"

definition strtol_rest :: "nat \<Rightarrow> string \<Rightarrow> int \<times> string" where
  "strtol_rest base s = (case strto base s of (neg, n, r) \<Rightarrow>
     (if neg then max (- (2 ^ 63)) (- int n) else min (2 ^ 63 - 1) (int n), r))"

definition strtol :: "nat \<Rightarrow> string \<Rightarrow> int" where
  "strtol base s = fst (strtol_rest base s)"

definition atoi :: "string \<Rightarrow> int" where
  "atoi s = s32 (strtol 10 s)"

text \<open>A number ends at the first character that is neither blank, sign, digit nor base prefix.\<close>

definition ends_number :: "char \<Rightarrow> bool" where
  "ends_number c \<longleftrightarrow> \<not> isspace c \<and> digit_val c = 99 \<and> c \<notin> set ''+-xX''"

lemma digits_append_stop:
  assumes "b \<le> 99" "ends_number c"
  shows "digits b acc (u @ c # cs) = (case digits b acc u of (n, r) \<Rightarrow> (n, r @ c # cs))"
  using assms by (induction u arbitrary: acc) (auto simp: ends_number_def)

lemma strto_digits_append_stop:
  assumes c: "ends_number c" and b: "base \<le> 99"
  shows "strto_digits base (w @ c # cs) =
    map_option (\<lambda>(n, r). (n, r @ c # cs)) (strto_digits base w)"
proof -
  have "digit_val CHR ''0'' = 0" by (simp add: digit_val_def)
  with c have cc: "digit_val c = 99" "c \<noteq> CHR ''0''" "c \<noteq> CHR ''x''" "c \<noteq> CHR ''X''"
    by (auto simp: ends_number_def)
  note da = digits_append_stop [OF _ c, of _ _ _ cs]
  consider "w = []" | x where "w = [x]" | x y where "w = [x, y]" | x y z v where "w = x # y # z # v"
    by (metis list.exhaust)
  then show ?thesis
  proof cases
    case 1
    then show ?thesis using cc b by (simp add: strto_digits_def Let_def)
  next
    case 2
    then show ?thesis using cc b da [of base 0 w]
      by (auto simp: strto_digits_def Let_def)
  next
    case 3
    then show ?thesis using cc b
      by (auto simp: strto_digits_def Let_def)
  next
    case 4
    then show ?thesis using b da [of _ _ v]
      by (auto simp: strto_digits_def Let_def split: prod.split)
  qed
qed

lemma strto_append_stop:
  assumes c: "ends_number c" and b: "base \<le> 99" and s: "strto base u = (neg, n, r)"
  shows "\<exists>r'. strto base (u @ c # cs) = (neg, n, r')"
proof -
  define t where "t = dropWhile isspace u"
  have dw: "dropWhile isspace (u @ c # cs) = t @ c # cs"
    unfolding t_def using c by (induction u) (auto simp: ends_number_def)
  note cc = c [unfolded ends_number_def]
  define w where "w = (if take 1 t = ''-'' \<or> take 1 t = ''+'' then drop 1 t else t)"
  have sgn: "take 1 (t @ c # cs) = ''-'' \<longleftrightarrow> take 1 t = ''-''"
    "take 1 (t @ c # cs) = ''+'' \<longleftrightarrow> take 1 t = ''+''"
    using cc by (cases t; auto)+
  have w: "(if take 1 (t @ c # cs) = ''-'' \<or> take 1 (t @ c # cs) = ''+''
      then drop 1 (t @ c # cs) else t @ c # cs) = w @ c # cs"
    unfolding sgn w_def by (cases t) auto
  show ?thesis
    using s unfolding strto_def Let_def dw t_def [symmetric] w w_def [symmetric]
    by (simp add: strto_digits_append_stop [OF c b] sgn [simplified] split: option.splits prod.splits)
qed

lemma strtol_append_stop:
  assumes "ends_number c"
  shows "strtol 0 (u @ c # cs) = strtol 0 u"
proof -
  obtain neg n r where s: "strto 0 u = (neg, n, r)" by (metis prod_cases3)
  then obtain r' where "strto 0 (u @ c # cs) = (neg, n, r')"
    using strto_append_stop [OF assms] by force
  with s show ?thesis by (simp add: strtol_def strtol_rest_def)
qed

section \<open>sscanf and sprintf\<close>

text \<open>
  \<open>sscanf(arg, "%[^=]=%s", key, value)\<close> on buffers that are zero before: the key is what
  precedes the first \<open>=\<close> (nothing is stored when that is empty), the value the first
  blank-free run after it.
\<close>

definition scan_key_value :: "string \<Rightarrow> string \<times> string" where
  "scan_key_value arg =
    (let key = takeWhile (\<lambda>c. c \<noteq> CHR ''='') arg; rest = drop (length key) arg
     in if key = [] then ([], [])
        else (key, takeWhile (\<lambda>c. \<not> isspace c) (dropWhile isspace (drop 1 rest))))"

lemma scan_key_value_print:
  assumes "key \<noteq> []" "CHR ''='' \<notin> set key" "list_all (\<lambda>c. \<not> isspace c) v"
  shows "scan_key_value (key @ CHR ''='' # v) = (key, v)"
proof -
  have k: "takeWhile (\<lambda>c. c \<noteq> CHR ''='') (key @ CHR ''='' # v) = key"
    using assms(2) by (induction key) auto
  have v: "dropWhile isspace v = v"
    using assms(3) by (cases v) auto
  have "takeWhile (\<lambda>c. \<not> isspace c) v = v"
    using assms(3) by (simp add: list_all_iff takeWhile_eq_all_conv)
  with k v assms(1) show ?thesis by (simp add: scan_key_value_def Let_def)
qed

lemma scan_key_value_bare:
  assumes "CHR ''='' \<notin> set key"
  shows "scan_key_value key = (key, [])"
proof -
  have "takeWhile (\<lambda>c. c \<noteq> CHR ''='') key = key"
    using assms by (induction key) auto
  then show ?thesis unfolding scan_key_value_def Let_def by (simp only:) simp
qed

definition digit_char :: "nat \<Rightarrow> char" where
  "digit_char n = char_of (if n < 10 then n + 48 else n + 87)"

function show_nat :: "nat \<Rightarrow> nat \<Rightarrow> string" where
  "show_nat b n = (if n < b \<or> b < 2 then [digit_char n] else show_nat b (n div b) @ [digit_char (n mod b)])"
  by pat_completeness auto
termination
  by (relation "measure snd") auto

declare show_nat.simps [simp del]

definition show_int :: "int \<Rightarrow> string" where
  "show_int i = (if i < 0 then CHR ''-'' # show_nat 10 (nat (- i)) else show_nat 10 (nat i))"

definition show_hex :: "u64 \<Rightarrow> string" where
  "show_hex w = show_nat 16 (unat w)"

text \<open>\<open>%p\<close> of the GNU C library.\<close>

definition show_ptr :: "u64 \<Rightarrow> string" where
  "show_ptr w = (if w = 0 then ''(nil)'' else ''0x'' @ show_hex w)"

text \<open>
  \<open>sscanf(line, " lit %d", &x)\<close>: the value stored, if the literal and a number are found;
  and \<open>sscanf(line, "%lx", &x)\<close>.
\<close>

definition scan_number :: "nat \<Rightarrow> string \<Rightarrow> int option" where
  "scan_number base str = (let s1 = dropWhile isspace str;
       s2 = (if take 1 s1 = ''-'' \<or> take 1 s1 = ''+'' then drop 1 s1 else s1)
     in case strto_digits base s2 of None \<Rightarrow> None | Some _ \<Rightarrow> Some (strtol base str))"

definition scan_int_after :: "string \<Rightarrow> string \<Rightarrow> int option" where
  "scan_int_after lit line = (let l = dropWhile isspace line in
     if take (length lit) l = lit then map_option s32 (scan_number 10 (drop (length lit) l)) else None)"

definition scan_lx :: "string \<Rightarrow> u64 option" where
  "scan_lx line = (case scan_number 16 line of None \<Rightarrow> None | Some _ \<Rightarrow> Some (strtoul 16 line))"

end
