(* ===== verification/TestCore.thy ===== *)
theory TestCore
  imports CLib
begin

text \<open>
  The helper library of the test framework, \<open>test_core/lib/include.h\<close>: checked system
  calls, the pipe protocol with the controlling script (\<open>pprintf\<close>), waiting for its
  signal (\<open>pprintf_wait\<close>, \<open>pprintf_wait_func\<close>), semaphores, hugepage sizes.
  Output to standard error is not part of the trace; numbers such as \<open>O_RDWR\<close> have
  their Linux x86-64 values.
\<close>

section \<open>Constants\<close>

abbreviation (input) PROT_READ :: int where "PROT_READ \<equiv> 1"
abbreviation (input) PROT_WRITE :: int where "PROT_WRITE \<equiv> 2"
abbreviation (input) PROT_EXEC :: int where "PROT_EXEC \<equiv> 4"
abbreviation (input) MAP_SHARED :: int where "MAP_SHARED \<equiv> 0x1"
abbreviation (input) MAP_PRIVATE :: int where "MAP_PRIVATE \<equiv> 0x2"
abbreviation (input) MAP_FIXED :: int where "MAP_FIXED \<equiv> 0x10"
abbreviation (input) MAP_ANONYMOUS :: int where "MAP_ANONYMOUS \<equiv> 0x20"
abbreviation (input) MAP_NORESERVE :: int where "MAP_NORESERVE \<equiv> 0x4000"
abbreviation (input) MAP_HUGETLB :: int where "MAP_HUGETLB \<equiv> 0x40000"
abbreviation (input) MADV_NORMAL :: int where "MADV_NORMAL \<equiv> 0"
abbreviation (input) MADV_RANDOM :: int where "MADV_RANDOM \<equiv> 1"
abbreviation (input) MADV_SEQUENTIAL :: int where "MADV_SEQUENTIAL \<equiv> 2"
abbreviation (input) MADV_WILLNEED :: int where "MADV_WILLNEED \<equiv> 3"
abbreviation (input) MADV_DONTNEED :: int where "MADV_DONTNEED \<equiv> 4"
abbreviation (input) MADV_FREE :: int where "MADV_FREE \<equiv> 8"
abbreviation (input) MADV_REMOVE :: int where "MADV_REMOVE \<equiv> 9"
abbreviation (input) MADV_DONTFORK :: int where "MADV_DONTFORK \<equiv> 10"
abbreviation (input) MADV_DOFORK :: int where "MADV_DOFORK \<equiv> 11"
abbreviation (input) MADV_MERGEABLE :: int where "MADV_MERGEABLE \<equiv> 12"
abbreviation (input) MADV_UNMERGEABLE :: int where "MADV_UNMERGEABLE \<equiv> 13"
abbreviation (input) MADV_HUGEPAGE :: int where "MADV_HUGEPAGE \<equiv> 14"
abbreviation (input) MADV_NOHUGEPAGE :: int where "MADV_NOHUGEPAGE \<equiv> 15"
abbreviation (input) MADV_DONTDUMP :: int where "MADV_DONTDUMP \<equiv> 16"
abbreviation (input) MADV_DODUMP :: int where "MADV_DODUMP \<equiv> 17"
abbreviation (input) MADV_HWPOISON :: int where "MADV_HWPOISON \<equiv> 100"
abbreviation (input) MADV_SOFT_OFFLINE :: int where "MADV_SOFT_OFFLINE \<equiv> 101"
abbreviation (input) O_RDONLY :: int where "O_RDONLY \<equiv> 0"
abbreviation (input) O_WRONLY :: int where "O_WRONLY \<equiv> 1"
abbreviation (input) O_RDWR :: int where "O_RDWR \<equiv> 2"
abbreviation (input) O_CREAT :: int where "O_CREAT \<equiv> 0x40"
abbreviation (input) O_NONBLOCK :: int where "O_NONBLOCK \<equiv> 0x800"
abbreviation (input) SIGUSR1 :: int where "SIGUSR1 \<equiv> 10"

definition PS :: u64 where "PS = 4096"
definition THPS :: u64 where "THPS = 0x200000"

abbreviation (input) PAGE_SHIFT :: nat where "PAGE_SHIFT \<equiv> 12"
abbreviation (input) THP_SHIFT :: nat where "THP_SHIFT \<equiv> 21"

definition MMAP_PROT :: int where "MMAP_PROT = PROT_READ OR PROT_WRITE"

section \<open>State\<close>

record core = io +
  verbose :: int
  testpipe :: "string option"
  pprintf_wait_flag :: int

section \<open>Checked system calls\<close>

definition checked_open :: "string \<Rightarrow> int \<Rightarrow> ('z io_scheme, int) prog" where
  "checked_open pathname flags =
    bnd (sysv (Open pathname flags 0x1C0)) (\<lambda>fd. if fd < 0 then exit_failure else ret fd)"

definition checked_close :: "int \<Rightarrow> ('z io_scheme, int) prog" where
  "checked_close fd = bnd (sysv (Close fd)) (\<lambda>r. if r < 0 then exit_failure else ret r)"

definition checked_mmap ::
  "addr \<Rightarrow> u64 \<Rightarrow> int \<Rightarrow> int \<Rightarrow> int \<Rightarrow> u64 \<Rightarrow> ('z io_scheme, addr) prog" where
  "checked_mmap start len prot flags fd offset =
    bnd (sysv (Mmap start len prot flags fd offset)) (\<lambda>r. let p = ul r in
      if p = - 1 then exit_failure
      else if start \<noteq> 0 \<and> p \<noteq> start then exit_failure
      else ret p)"

definition checked_malloc :: "u64 \<Rightarrow> ('z io_scheme, addr) prog" where
  "checked_malloc sz = bnd (sysv (Malloc sz)) (\<lambda>p. if p = 0 then exit_failure else ret (ul p))"

definition checked_munmap :: "addr \<Rightarrow> u64 \<Rightarrow> ('z io_scheme, addr) prog" where
  "checked_munmap start len =
    bnd (sysv (Munmap start len)) (\<lambda>r. if r = - 1 then exit_failure else ret 0)"

definition set_mergeable :: "addr \<Rightarrow> int \<Rightarrow> ('z io_scheme, unit) prog" where
  "set_mergeable ptr sz = call (Madvise ptr (ul sz) MADV_MERGEABLE)"

definition clear_mergeable :: "addr \<Rightarrow> int \<Rightarrow> ('z io_scheme, unit) prog" where
  "clear_mergeable ptr sz = call (Madvise ptr (ul sz) MADV_UNMERGEABLE)"

definition set_hugepage :: "addr \<Rightarrow> int \<Rightarrow> ('z io_scheme, unit) prog" where
  "set_hugepage ptr sz = call (Madvise ptr (ul sz) MADV_HUGEPAGE)"

definition clear_hugepage :: "addr \<Rightarrow> int \<Rightarrow> ('z io_scheme, unit) prog" where
  "clear_hugepage ptr sz = call (Madvise ptr (ul sz) MADV_NOHUGEPAGE)"

section \<open>Semaphores\<close>

definition create_and_init_semaphore :: "('z io_scheme, int) prog" where
  "create_and_init_semaphore =
    bnd (sysv (Semget 0 1)) (\<lambda>sem. if sem = - 1 then exit_failure
      else bnd (sysv (Semctl sem 16 1)) (\<lambda>r. if r = - 1 then exit_failure else ret sem))"

definition delete_semaphore :: "int \<Rightarrow> ('z io_scheme, int) prog" where
  "delete_semaphore sem_id = sysv (Semctl sem_id 0 0)"

definition get_semaphore :: "int \<Rightarrow> ('z io_scheme, int) prog" where
  "get_semaphore sem_id = sysv (Semop sem_id (- 1) 0x1000)"

definition put_semaphore :: "int \<Rightarrow> ('z io_scheme, int) prog" where
  "put_semaphore sem_id = sysv (Semop sem_id 1 0x1000)"

section \<open>The pipe to the controlling script\<close>

text \<open>\<open>sizeof(str)\<close> is the size of a pointer: at most 8 bytes are read.\<close>

definition checked_read :: "int \<Rightarrow> ('z io_scheme, int \<times> string) prog" where
  "checked_read fd = bnd (sys (Read fd 8)) (\<lambda>r.
     if rv r < 0 then exit_failure else ret (rv r, bytes r))"

definition checked_write :: "int \<Rightarrow> string \<Rightarrow> ('z io_scheme, int) prog" where
  "checked_write fd str =
    bnd (sysv (Write (if fd = 0 then 1 else fd) str)) (\<lambda>r. if r < 0 then exit_failure else ret r)"

definition pipe_read :: "('z core_scheme, int \<times> string) prog" where
  "pipe_read = bnd (get testpipe) (\<lambda>tp. case tp of None \<Rightarrow> exit_failure | Some path \<Rightarrow>
     bnd (checked_open path O_RDONLY) (\<lambda>pipefd.
     bnd (sysv (Fcntl pipefd 3 0)) (\<lambda>flags.
     sqn (call (Fcntl pipefd 4 (flags OR O_NONBLOCK)))
     (bnd (sys (Read pipefd 8)) (\<lambda>r.
     sqn (checked_close pipefd) (ret (rv r, bytes r)))))))"

definition pipe_printf :: "string \<Rightarrow> ('z core_scheme, int) prog" where
  "pipe_printf buf = bnd (get testpipe) (\<lambda>tp. case tp of None \<Rightarrow> exit_failure | Some path \<Rightarrow>
     bnd (checked_open path O_WRONLY) (\<lambda>pipefd.
     bnd (checked_write pipefd buf) (\<lambda>r.
     sqn (checked_close pipefd) (ret r))))"

text \<open>
  \<open>pprintf\<close> of an already formatted text: \<open>vsprintf\<close> fills a buffer of one page, and
  without a pipe the text is passed to \<open>printf\<close> as its format, so that a \<open>%\<close> in it
  would be read as a conversion with no argument.
\<close>

definition pprintf :: "string \<Rightarrow> ('z core_scheme, int) prog" where
  "pprintf buf = (if 4096 \<le> length buf then stop (Fault OutOfBounds) else
    bnd (get testpipe) (\<lambda>tp. case tp of
      None \<Rightarrow> if CHR ''%'' \<in> set buf then stop (Fault UnsetValue)
              else bnd (sysv (Stdout buf)) ret
    | Some _ \<Rightarrow> bnd (pipe_printf buf) (\<lambda>r. sqn (call (Usleep 10000)) (ret r))))"

text \<open>
  \<open>pprintf(buf)\<close> where \<open>buf\<close> was itself produced by \<open>vsprintf\<close> into a page: the text is
  a format there too.
\<close>

definition pprintf_buf :: "string \<Rightarrow> ('z core_scheme, unit) prog" where
  "pprintf_buf buf = (if 4096 \<le> length buf then stop (Fault OutOfBounds)
     else if CHR ''%'' \<in> set buf then stop (Fault UnsetValue)
     else bnd (pprintf buf) (\<lambda>_. skip))"

definition Dprintf :: "string \<Rightarrow> ('z core_scheme, unit) prog" where
  "Dprintf text = bnd (get verbose) (\<lambda>v. if v \<noteq> 0 then pprintf_buf text else skip)"

section \<open>Waiting for the controlling script\<close>

definition pprintf_wait_sighandler :: "'z core_scheme \<Rightarrow> 'z core_scheme" where
  "pprintf_wait_sighandler s = s\<lparr>pprintf_wait_flag := 0\<rparr>"

text \<open>
  The signal can arrive between any two tests of the flag; whether the handler has run
  before a given test is the kernel's answer to \<open>Poll\<close>.
\<close>

definition poll_flag :: "('z core_scheme, int) prog" where
  "poll_flag = bnd (sysv Poll) (\<lambda>r.
     sqn (cond (r \<noteq> 0) (put pprintf_wait_sighandler)) (get pprintf_wait_flag))"

fun wait_loop :: "nat \<Rightarrow> ('z core_scheme, unit) prog \<Rightarrow> ('z core_scheme, unit) prog" where
  "wait_loop 0 body = stop NoFuel"
| "wait_loop (Suc n) body =
    bnd poll_flag (\<lambda>f. if f \<noteq> 0 then sqn body (wait_loop n body) else skip)"

definition install_handler :: "int \<Rightarrow> ('z core_scheme, unit) prog" where
  "install_handler signum =
    sqn (put (\<lambda>s. s\<lparr>pprintf_wait_flag := 1\<rparr>))
    (bnd (sysv (Sigaction signum 1)) (\<lambda>r. if r = - 1 then exit_failure else skip))"

definition restore_handler :: "int \<Rightarrow> ('z core_scheme, unit) prog" where
  "restore_handler signum =
    bnd (sysv (Sigaction signum 0)) (\<lambda>r. if r = - 1 then exit_failure else skip)"

definition pprintf_wait :: "nat \<Rightarrow> int \<Rightarrow> string \<Rightarrow> ('z core_scheme, unit) prog" where
  "pprintf_wait fuel signum text =
    seqs [install_handler signum, pprintf_buf text, wait_loop fuel skip, restore_handler signum]"

definition pprintf_wait_func ::
  "nat \<Rightarrow> ('z core_scheme, unit) prog option \<Rightarrow> string \<Rightarrow> ('z core_scheme, unit) prog" where
  "pprintf_wait_func fuel func text =
    seqs [install_handler SIGUSR1, pprintf_buf text,
          wait_loop fuel (case func of Some f \<Rightarrow> f | None \<Rightarrow> call (Usleep 1000)),
          restore_handler SIGUSR1]"

section \<open>Hugepage sizes\<close>

text \<open>The entries of the sysfs directory that name a size, in bytes.\<close>

definition hugepage_size_of :: "string \<Rightarrow> u64 option" where
  "hugepage_size_of name = (if strncmp_eq name ''hugepages-'' 10
     then Some (ul (s64 (s64 (strtol 10 (drop 10 name)) * 1024))) else None)"

definition get_hugepage_sizes :: "('z io_scheme, u64 list) prog" where
  "get_hugepage_sizes = bnd (sys (Opendir ''/sys/kernel/mm/hugepages/'')) (\<lambda>r.
     if rv r = 0 then ret []
     else let hp = List.map_filter hugepage_size_of (entries r)
          in sqn (call Closedir) (ret hp))"

text \<open>The caller's array has 16 elements.\<close>

definition validate_hugepage_size :: "u64 \<Rightarrow> ('z io_scheme, unit) prog" where
  "validate_hugepage_size hpsize = bnd get_hugepage_sizes (\<lambda>hpsizes.
     if 16 < length hpsizes then stop (Fault OutOfBounds)
     else if hpsize \<in> set hpsizes then skip else exit_failure)"

section \<open>Lemmas\<close>

lemmas checked_defs = checked_open_def checked_close_def checked_mmap_def checked_munmap_def
  set_mergeable_def

lemma checked_mmap_eval:
  "checked_mmap a len prot flags fd off k s =
    (let r = ul (rv (k (trace s) (Mmap a len prot flags fd off)));
         s' = s\<lparr>trace := trace s @ [Mmap a len prot flags fd off]\<rparr>
     in if r = - 1 \<or> a \<noteq> 0 \<and> r \<noteq> a then (Exit 1, s') else (Val r, s'))"
  by (simp add: checked_mmap_def prog_simps Let_def)

lemma poll_flag_eval:
  "poll_flag k s = (let s' = (if rv (k (trace s) Poll) \<noteq> 0 then pprintf_wait_sighandler s else s)
     in (Val (pprintf_wait_flag s'), s'\<lparr>trace := trace s @ [Poll]\<rparr>))"
  by (simp add: poll_flag_def prog_simps pprintf_wait_sighandler_def Let_def)

text \<open>
  The wait loop runs its body once for each test that finds the flag still set, and leaves
  on the first test after the signal: with the signal before test number \<open>n\<close>
  (from 0), the body runs \<open>n\<close> times.
\<close>

lemma wait_loop_returns:
  assumes body: "\<And>s. body k s = (Val (), s\<lparr>trace := trace s @ cs\<rparr>)"
    and quiet: "\<And>i. i < n \<Longrightarrow> rv (k (trace s @ concat (replicate i (Poll # cs))) Poll) = 0"
    and signal: "rv (k (trace s @ concat (replicate n (Poll # cs))) Poll) \<noteq> 0"
    and flag: "pprintf_wait_flag s \<noteq> 0"
    and fuel: "n < fuel"
  shows "wait_loop fuel body k s =
    (Val (), s\<lparr>pprintf_wait_flag := 0, trace := trace s @ concat (replicate n (Poll # cs)) @ [Poll]\<rparr>)"
  using quiet signal flag fuel
proof (induction n arbitrary: s fuel)
  case 0
  then obtain m where "fuel = Suc m" by (cases fuel) auto
  with 0 show ?case
    by (simp add: prog_simps poll_flag_eval pprintf_wait_sighandler_def Let_def)
next
  case (Suc n)
  then obtain m where m: "fuel = Suc m" "n < m" by (cases fuel) auto
  let ?s = "s\<lparr>trace := trace s @ Poll # cs\<rparr>"
  have q: "rv (k (trace ?s @ concat (replicate i (Poll # cs))) Poll) = 0" if "i < n" for i
    using Suc.prems(1) [of "Suc i"] that by simp
  have r: "rv (k (trace ?s @ concat (replicate n (Poll # cs))) Poll) \<noteq> 0"
    using Suc.prems(2) by simp
  have IH: "wait_loop m body k ?s =
    (Val (), ?s\<lparr>pprintf_wait_flag := 0, trace := trace ?s @ concat (replicate n (Poll # cs)) @ [Poll]\<rparr>)"
    by (rule Suc.IH [OF q r _ m(2)]) (use Suc.prems(3) in simp_all)
  have "rv (k (trace s) Poll) = 0" using Suc.prems(1) [of 0] by simp
  with IH show ?case using Suc.prems(3)
    by (simp add: m prog_simps poll_flag_eval Let_def body)
qed

text \<open>Without the signal the loop never returns, however long it runs.\<close>

lemma wait_loop_no_signal:
  assumes body: "\<And>s. body k s = (Val (), s\<lparr>trace := trace s @ cs\<rparr>)"
    and quiet: "\<And>h. rv (k h Poll) = 0"
    and flag: "pprintf_wait_flag s \<noteq> 0"
  shows "fst (wait_loop fuel body k s) = NoFuel"
  using flag
proof (induction fuel arbitrary: s)
  case 0
  show ?case by (simp add: prog_simps)
next
  case (Suc m)
  then show ?case
    by (simp add: prog_simps poll_flag_eval quiet Let_def body)
qed

section \<open>The handshake with the controlling script\<close>

text \<open>The calls that deliver a message: to the standard output, or through the pipe.\<close>

definition announce :: "kernel \<Rightarrow> sys list \<Rightarrow> string option \<Rightarrow> string \<Rightarrow> sys list" where
  "announce k tr tp text = (case tp of None \<Rightarrow> [Stdout text]
   | Some path \<Rightarrow> let fd = rv (k tr (Open path O_WRONLY 0x1C0)) in
       [Open path O_WRONLY 0x1C0, Write (if fd = 0 then 1 else fd) text, Close fd, Usleep 10000])"

text \<open>A kernel on which the pipe and the signal handlers work.\<close>

definition script_kernel :: "kernel \<Rightarrow> bool" where
  "script_kernel k \<longleftrightarrow> (\<forall>h path flags mode. 0 \<le> rv (k h (Open path flags mode)))
     \<and> (\<forall>h fd buf. 0 \<le> rv (k h (Write fd buf))) \<and> (\<forall>h fd. 0 \<le> rv (k h (Close fd)))
     \<and> (\<forall>h sig a. rv (k h (Sigaction sig a)) = 0)"

text \<open>A message that \<open>pprintf\<close> can print: it fits a page and has no conversion.\<close>

definition printable :: "string \<Rightarrow> bool" where
  "printable text \<longleftrightarrow> length text < 4096 \<and> CHR ''%'' \<notin> set text"

lemma script_kernel_rules:
  assumes "script_kernel k"
  shows "\<not> rv (k h (Open path flags mode)) < 0" "\<not> rv (k h (Write fd buf)) < 0"
    "\<not> rv (k h (Close fd)) < 0" "rv (k h (Sigaction sig a)) = 0"
  using assms by (simp_all add: script_kernel_def not_less)

lemma pprintf_buf_eval:
  assumes "script_kernel k" "printable text"
  shows "pprintf_buf text k s = (Val (), s\<lparr>trace := trace s @ announce k (trace s) (testpipe s) text\<rparr>)"
  using assms(2)
  by (auto simp: pprintf_buf_def printable_def pprintf_def prog_simps announce_def pipe_printf_def
      checked_open_def checked_write_def checked_close_def script_kernel_rules [OF assms(1)] Let_def
      split: option.split)

text \<open>The calls before the wait loop.\<close>

definition wait_start :: "kernel \<Rightarrow> 'z core_scheme \<Rightarrow> int \<Rightarrow> string \<Rightarrow> sys list" where
  "wait_start k s sig text = trace s @ Sigaction sig 1
     # announce k (trace s @ [Sigaction sig 1]) (testpipe s) text"

lemma pprintf_wait_func_eval:
  assumes "script_kernel k" "printable text"
  shows "pprintf_wait_func fuel func text k s =
    (case wait_loop fuel (case func of Some f \<Rightarrow> f | None \<Rightarrow> call (Usleep 1000)) k
        (s\<lparr>pprintf_wait_flag := 1, trace := wait_start k s SIGUSR1 text\<rparr>) of
      (Val x, s') \<Rightarrow> (Val (), s'\<lparr>trace := trace s' @ [Sigaction SIGUSR1 0]\<rparr>)
    | (r, s') \<Rightarrow> (r, s'))"
proof -
  have "install_handler SIGUSR1 k s = (Val (), s\<lparr>pprintf_wait_flag := 1, trace := trace s @ [Sigaction SIGUSR1 1]\<rparr>)"
    by (simp add: install_handler_def prog_simps script_kernel_rules [OF assms(1)])
  then show ?thesis
    by (simp add: pprintf_wait_func_def prog_simps pprintf_buf_eval [OF assms] wait_start_def
        restore_handler_def script_kernel_rules [OF assms(1)] split: prod.split outcome.split)
qed

text \<open>C29: the handshake of a busy wait: the handler is installed and the flag set before the message
  goes out, the given function runs once for every test of the flag until the signal, and
  the old handler is restored.  With the signal before test number \<open>n\<close> the function runs
  \<open>n\<close> times, so it always returns once the signal has come.\<close>

theorem wait_func_handshake:
  assumes "script_kernel k" "printable text"
    and "\<And>s. f k s = (Val (), s\<lparr>trace := trace s @ cs\<rparr>)"
    and "\<And>i. i < n \<Longrightarrow> rv (k (wait_start k s SIGUSR1 text @ concat (replicate i (Poll # cs))) Poll) = 0"
    and "rv (k (wait_start k s SIGUSR1 text @ concat (replicate n (Poll # cs))) Poll) \<noteq> 0"
    and "n < fuel"
  shows "pprintf_wait_func fuel (Some f) text k s =
    (Val (), s\<lparr>pprintf_wait_flag := 0,
       trace := wait_start k s SIGUSR1 text @ concat (replicate n (Poll # cs)) @ [Poll, Sigaction SIGUSR1 0]\<rparr>)"
proof -
  let ?s = "s\<lparr>pprintf_wait_flag := 1, trace := wait_start k s SIGUSR1 text\<rparr>"
  have "wait_loop fuel f k ?s =
    (Val (), ?s\<lparr>pprintf_wait_flag := 0, trace := trace ?s @ concat (replicate n (Poll # cs)) @ [Poll]\<rparr>)"
    by (rule wait_loop_returns) (use assms(3-6) in simp_all)
  then show ?thesis by (simp add: pprintf_wait_func_eval [OF assms(1,2)])
qed

text \<open>A kernel that delivers the signal once three calls were made after the message.\<close>

definition signal_kernel :: kernel where
  "signal_kernel h c = (if c = Poll \<and> 6 \<le> length h then ok\<lparr>rv := 1\<rparr> else ok)"

definition core0 :: core where
  "core0 = \<lparr>trace = [], verbose = 0, testpipe = None, pprintf_wait_flag = 0\<rparr>"

lemma signal_kernel_script: "script_kernel signal_kernel"
  by (simp add: script_kernel_def signal_kernel_def ok_def)

theorem wait_func_handshake_witness:
  "pprintf_wait_func 10 (Some (call (Load 0))) ''hi'' signal_kernel core0 =
    (Val (), core0\<lparr>pprintf_wait_flag := 0, trace := [Sigaction 10 1, Stdout ''hi'', Poll, Load 0, Poll, Load 0, Poll,
       Sigaction 10 0]\<rparr>)"
proof -
  have ws: "wait_start signal_kernel core0 SIGUSR1 ''hi'' = [Sigaction 10 1, Stdout ''hi'']"
    by (simp add: wait_start_def announce_def core0_def)
  have "concat (replicate 2 [Poll, Load 0]) = [Poll, Load 0, Poll, Load 0]" by (simp add: numeral_2_eq_2)
  moreover have "pprintf_wait_func 10 (Some (call (Load 0))) ''hi'' signal_kernel core0 =
    (Val (), core0\<lparr>pprintf_wait_flag := 0, trace := wait_start signal_kernel core0 SIGUSR1 ''hi''
      @ concat (replicate 2 [Poll, Load 0]) @ [Poll, Sigaction SIGUSR1 0]\<rparr>)"
    by (rule wait_func_handshake [OF signal_kernel_script])
      (auto simp: printable_def prog_simps ws signal_kernel_def ok_def numeral_2_eq_2 less_Suc_eq)
  ultimately show ?thesis by (simp add: ws)
qed

text \<open>Without the signal the busy wait never returns, however long it runs.\<close>

theorem wait_func_no_signal:
  assumes "script_kernel k" "printable text"
    and "\<And>s. f k s = (Val (), s\<lparr>trace := trace s @ cs\<rparr>)" and "\<And>h. rv (k h Poll) = 0"
  shows "fst (pprintf_wait_func fuel (Some f) text k s) = NoFuel"
proof -
  let ?s = "s\<lparr>pprintf_wait_flag := 1, trace := wait_start k s SIGUSR1 text\<rparr>"
  have "fst (wait_loop fuel f k ?s) = NoFuel"
    by (rule wait_loop_no_signal [where body = f and cs = cs]) (use assms(3,4) in simp_all)
  then show ?thesis
    by (cases "wait_loop fuel f k ?s") (simp add: pprintf_wait_func_eval [OF assms(1,2)])
qed

theorem wait_func_no_signal_witness:
  "fst (pprintf_wait_func 100 (Some (call (Load 0))) ''hi'' (\<lambda>h c. ok) core0) = NoFuel"
  by (rule wait_func_no_signal [where cs = "[Load 0]"])
    (simp_all add: script_kernel_def ok_def printable_def prog_simps)

end
