(* ===== verification/Pfn.thy ===== *)
theory Pfn
  imports TestCore
begin

text \<open>
  Page frame inspection, \<open>lib/pfn.h\<close>: page flag names and filters, the readers of
  \<open>/proc/PID/pagemap\<close>, \<open>/proc/kpageflags\<close> and \<open>/proc/kpagecount\<close>, and the hooks
  that take a page offline.
\<close>

section \<open>State\<close>

text \<open>The file-scope variables of the header; \<open>opt_mask\<close> and \<open>opt_bits\<close> are arrays of
  \<open>MAX_BIT_FILTERS\<close> elements.\<close>

record pfnst = core +
  opt_raw :: int
  nr_bit_filters :: nat
  opt_mask :: "u64 list"
  opt_bits :: "u64 list"
  pagemap_fd :: int
  kpageflags_fd :: int
  kpagecount_fd :: int

record pagestat =
  pfn :: u64
  pflags :: u64
  pcount :: u64

section \<open>Page flags\<close>

definition BIT :: "nat \<Rightarrow> u64" where
  "BIT n = push_bit n 1"

abbreviation (input) KPF_ERROR :: nat where "KPF_ERROR \<equiv> 1"
abbreviation (input) KPF_ACTIVE :: nat where "KPF_ACTIVE \<equiv> 6"
abbreviation (input) KPF_SLAB :: nat where "KPF_SLAB \<equiv> 7"
abbreviation (input) KPF_WRITEBACK :: nat where "KPF_WRITEBACK \<equiv> 8"
abbreviation (input) KPF_RECLAIM :: nat where "KPF_RECLAIM \<equiv> 9"
abbreviation (input) KPF_COMPOUND_HEAD :: nat where "KPF_COMPOUND_HEAD \<equiv> 15"
abbreviation (input) KPF_COMPOUND_TAIL :: nat where "KPF_COMPOUND_TAIL \<equiv> 16"
abbreviation (input) KPF_HUGE :: nat where "KPF_HUGE \<equiv> 17"
abbreviation (input) KPF_THP :: nat where "KPF_THP \<equiv> 22"
abbreviation (input) KPF_PRIVATE :: nat where "KPF_PRIVATE \<equiv> 35"
abbreviation (input) KPF_SOFTDIRTY :: nat where "KPF_SOFTDIRTY \<equiv> 40"
abbreviation (input) KPF_READAHEAD :: nat where "KPF_READAHEAD \<equiv> 48"
abbreviation (input) KPF_SLOB_FREE :: nat where "KPF_SLOB_FREE \<equiv> 49"
abbreviation (input) KPF_SLUB_FROZEN :: nat where "KPF_SLUB_FROZEN \<equiv> 50"
abbreviation (input) KPF_SLUB_DEBUG :: nat where "KPF_SLUB_DEBUG \<equiv> 51"
abbreviation (input) KPF_FILE :: nat where "KPF_FILE \<equiv> 61"
abbreviation (input) KPF_MMAP_EXCLUSIVE :: nat where "KPF_MMAP_EXCLUSIVE \<equiv> 63"

definition KPF_ALL_BITS :: u64 where "KPF_ALL_BITS = - 1"
definition KPF_HACKERS_BITS :: u64 where "KPF_HACKERS_BITS = push_bit 32 0xffff"
definition BITS_COMPOUND :: u64 where "BITS_COMPOUND = BIT KPF_COMPOUND_HEAD OR BIT KPF_COMPOUND_TAIL"

definition PM_PFRAME :: "u64 \<Rightarrow> u64" where "PM_PFRAME x = x AND mask 55"
definition PM_SOFT_DIRTY :: u64 where "PM_SOFT_DIRTY = push_bit 55 1"
definition PM_MMAP_EXCLUSIVE :: u64 where "PM_MMAP_EXCLUSIVE = push_bit 56 1"
definition PM_FILE :: u64 where "PM_FILE = push_bit 61 1"
definition PM_PRESENT :: u64 where "PM_PRESENT = push_bit 63 1"

text \<open>The array of names, as the list of its initialised elements with their index.\<close>

definition page_flag_names :: "(nat \<times> string) list" where
  "page_flag_names =
    [(0, ''L:locked''), (1, ''E:error''), (2, ''R:referenced''), (3, ''U:uptodate''),
     (4, ''D:dirty''), (5, ''l:lru''), (6, ''A:active''), (7, ''S:slab''),
     (8, ''W:writeback''), (9, ''I:reclaim''), (10, ''B:buddy''), (11, ''M:mmap''),
     (12, ''a:anonymous''), (13, ''s:swapcache''), (14, ''b:swapbacked''),
     (15, ''H:compound_head''), (16, ''T:compound_tail''), (17, ''G:huge''),
     (18, ''u:unevictable''), (19, ''X:hwpoison''), (20, ''n:nopage''), (21, ''x:ksm''),
     (22, ''t:thp''), (23, ''o:balloon''), (24, ''z:zero_page''), (25, ''i:idle_page''),
     (32, ''r:reserved''), (33, ''m:mlocked''), (34, ''d:mappedtodisk''),
     (35, ''P:private''), (36, ''p:private_2''), (37, ''O:owner_private''),
     (38, ''h:arch''), (39, ''c:uncached''), (40, ''f:softdirty''),
     (48, ''I:readahead''), (49, ''P:slob_free''), (50, ''A:slub_frozen''),
     (51, ''E:slub_debug''), (61, ''F:file''), (62, ''w:swap''), (63, ''1:mmap_exclusive'')]"

definition lookup_name :: "nat \<Rightarrow> string option" where
  "lookup_name i = map_option (drop 2) (map_of page_flag_names i)"

definition MAX_BIT_FILTERS :: nat where "MAX_BIT_FILTERS = 1"

definition bit_mask_ok :: "'z pfnst_scheme \<Rightarrow> u64 \<Rightarrow> bool" where
  "bit_mask_ok s flags \<longleftrightarrow> list_all (\<lambda>i.
     if opt_bits s ! i = KPF_ALL_BITS then flags AND opt_mask s ! i \<noteq> 0
     else flags AND opt_mask s ! i = opt_bits s ! i) [0..<nr_bit_filters s]"

definition expand_overloaded_flags :: "u64 \<Rightarrow> u64 \<Rightarrow> u64" where
  "expand_overloaded_flags flags pme =
    (let flags = (if flags AND BIT KPF_SLAB \<noteq> 0 then
           (let flags = (if flags AND BIT KPF_PRIVATE \<noteq> 0
                 then flags XOR (BIT KPF_PRIVATE OR BIT KPF_SLOB_FREE) else flags);
                flags = (if flags AND BIT KPF_ACTIVE \<noteq> 0
                 then flags XOR (BIT KPF_ACTIVE OR BIT KPF_SLUB_FROZEN) else flags)
            in if flags AND BIT KPF_ERROR \<noteq> 0
               then flags XOR (BIT KPF_ERROR OR BIT KPF_SLUB_DEBUG) else flags)
         else flags);
         flags = (if flags AND (BIT KPF_RECLAIM OR BIT KPF_WRITEBACK) = BIT KPF_RECLAIM
           then flags XOR (BIT KPF_RECLAIM OR BIT KPF_READAHEAD) else flags);
         flags = (if pme AND PM_SOFT_DIRTY \<noteq> 0 then flags OR BIT KPF_SOFTDIRTY else flags);
         flags = (if pme AND PM_FILE \<noteq> 0 then flags OR BIT KPF_FILE else flags)
     in if pme AND PM_MMAP_EXCLUSIVE \<noteq> 0 then flags OR BIT KPF_MMAP_EXCLUSIVE else flags)"

definition well_known_flags :: "u64 \<Rightarrow> u64" where
  "well_known_flags flags =
    (let flags = flags AND NOT KPF_HACKERS_BITS
     in if flags AND BITS_COMPOUND \<noteq> 0 \<and> flags AND BIT KPF_HUGE = 0
        then flags AND NOT BITS_COMPOUND else flags)"

definition kpageflags_flags :: "'z pfnst_scheme \<Rightarrow> u64 \<Rightarrow> u64 \<Rightarrow> u64" where
  "kpageflags_flags s flags pme =
    (if opt_raw s \<noteq> 0 then expand_overloaded_flags flags pme else well_known_flags flags)"

definition add_bits_filter :: "u64 \<Rightarrow> u64 \<Rightarrow> ('z pfnst_scheme, unit) prog" where
  "add_bits_filter msk bits = bnd (get nr_bit_filters) (\<lambda>n.
     if MAX_BIT_FILTERS \<le> n then exit_failure
     else put (\<lambda>s. s\<lparr>opt_mask := (opt_mask s)[n := msk], opt_bits := (opt_bits s)[n := bits],
                     nr_bit_filters := n + 1\<rparr>))"

section \<open>Parsing flag names\<close>

text \<open>\<open>None\<close> is the exit in \<open>fatal\<close>.\<close>

definition parse_number :: "string \<Rightarrow> u64 option" where
  "parse_number str = (let n = ul (strtol 0 str) in
     if n = 0 \<and> take 1 str \<noteq> ''0'' then None else Some n)"

definition parse_flag_name :: "string \<Rightarrow> nat \<Rightarrow> u64 option" where
  "parse_flag_name str len =
    (if str = [] \<or> len = 0 then Some 0
     else if len \<le> 8 \<and> strncmp_eq str ''compound'' len then Some BITS_COMPOUND
     else case find (\<lambda>(i, nm). strncmp_eq str (drop 2 nm) len) page_flag_names of
       Some (i, nm) \<Rightarrow> Some (push_bit i 1)
     | None \<Rightarrow> parse_number str)"

text \<open>The character at an index, NUL from the end of the string on.\<close>

definition char_at :: "string \<Rightarrow> nat \<Rightarrow> char" where
  "char_at s i = (if i < length s then s ! i else CHR 0x00)"

text \<open>
  The scanning loop of \<open>parse_flag_names\<close>: \<open>a\<close> is the index of \<open>str\<close>, \<open>i\<close> that of
  \<open>p\<close>.  The flags added at a delimiter: the condition's \<open>*++str\<close> steps over a tilde.
\<close>

definition flag_piece :: "string \<Rightarrow> bool \<Rightarrow> nat \<Rightarrow> nat \<Rightarrow> u64 option" where
  "flag_piece s all a i =
    (let tilde = (char_at s a = CHR ''~'');
         a' = (if tilde \<and> all then a + 1 else a)
     in if \<not> tilde \<or> (all \<and> char_at s a' \<noteq> CHR 0x00)
        then parse_flag_name (drop a' s) (i - a') else Some 0)"

function parse_flag_names_loop :: "string \<Rightarrow> bool \<Rightarrow> nat \<Rightarrow> nat \<Rightarrow> u64 \<Rightarrow> u64 option" where
  "parse_flag_names_loop s all a i flags =
    (if char_at s i = CHR '','' \<or> char_at s i = CHR ''='' \<or> char_at s i = CHR 0x00 then
       (case flag_piece s all a i of
          None \<Rightarrow> None
        | Some f \<Rightarrow> if char_at s i \<noteq> CHR '','' then Some (flags OR f)
                    else parse_flag_names_loop s all (i + 1) (i + 1) (flags OR f))
     else parse_flag_names_loop s all a (i + 1) flags)"
  by pat_completeness auto
termination
  by (relation "measure (\<lambda>(s, all, a, i, flags). length s - i)")
    (auto simp: char_at_def split: if_splits)

declare parse_flag_names_loop.simps [simp del]

definition parse_flag_names :: "string \<Rightarrow> bool \<Rightarrow> u64 option" where
  "parse_flag_names str all = parse_flag_names_loop str all 0 0 0"

text \<open>The mask and the bits that \<open>parse_bits_mask\<close> hands to \<open>add_bits_filter\<close>.\<close>

definition parse_mask_bits :: "string \<Rightarrow> (u64 \<times> u64) option" where
  "parse_mask_bits optarg = (case strchr optarg (CHR ''='') of
     Some 0 \<Rightarrow> Option.bind (parse_flag_names (drop 1 optarg) False) (\<lambda>bits. Some (KPF_ALL_BITS, bits))
   | Some p \<Rightarrow> Option.bind (parse_flag_names optarg False) (\<lambda>msk.
               Option.bind (parse_flag_names (drop (p + 1) optarg) False) (\<lambda>bits. Some (msk, bits)))
   | None \<Rightarrow> if strchr optarg (CHR ''~'') \<noteq> None
             then Option.bind (parse_flag_names optarg True) (\<lambda>msk.
                  Option.bind (parse_flag_names optarg False) (\<lambda>bits. Some (msk, bits)))
             else Option.bind (parse_flag_names optarg False) (\<lambda>msk. Some (msk, KPF_ALL_BITS)))"

definition parse_bits_mask :: "string \<Rightarrow> ('z pfnst_scheme, unit) prog" where
  "parse_bits_mask optarg = (case parse_mask_bits optarg of
     None \<Rightarrow> exit_failure
   | Some (msk, bits) \<Rightarrow> add_bits_filter msk bits)"

section \<open>Reading the page tables of the kernel\<close>

text \<open>The kernel returns the entries as bytes, least significant first.\<close>

fun u64_of_bytes :: "string \<Rightarrow> u64" where
  "u64_of_bytes [] = 0"
| "u64_of_bytes (c # cs) = of_nat (of_char c) OR push_bit 8 (u64_of_bytes cs)"

fun u64s_of_bytes :: "nat \<Rightarrow> string \<Rightarrow> u64 list" where
  "u64s_of_bytes 0 bs = []"
| "u64s_of_bytes (Suc n) bs = u64_of_bytes (take 8 bs) # u64s_of_bytes n (drop 8 bs)"

definition do_u64_read :: "int \<Rightarrow> u64 \<Rightarrow> u64 \<Rightarrow> ('z io_scheme, u64 list) prog" where
  "do_u64_read fd index count =
    (if index > (- 1) div 8 then exit_failure
     else bnd (sys (Pread fd (count * 8) (index * 8))) (\<lambda>r.
       if rv r < 0 then exit_failure
       else if rv r mod 8 \<noteq> 0 then exit_failure
       else ret (u64s_of_bytes (nat (rv r div 8)) (bytes r))))"

definition pagemap_read :: "u64 \<Rightarrow> u64 \<Rightarrow> ('z pfnst_scheme, u64 list) prog" where
  "pagemap_read index pages = bnd (get pagemap_fd) (\<lambda>fd. do_u64_read fd index pages)"

definition kpageflags_read :: "u64 \<Rightarrow> u64 \<Rightarrow> ('z pfnst_scheme, u64 list) prog" where
  "kpageflags_read index pages = bnd (get kpageflags_fd) (\<lambda>fd. do_u64_read fd index pages)"

definition kpagecount_read :: "u64 \<Rightarrow> u64 \<Rightarrow> ('z pfnst_scheme, u64 list) prog" where
  "kpagecount_read index pages = bnd (get kpagecount_fd) (\<lambda>fd. do_u64_read fd index pages)"

definition pagemap_pfn :: "u64 \<Rightarrow> u64" where
  "pagemap_pfn val = (if val AND PM_PRESENT \<noteq> 0 then PM_PFRAME val else 0)"

definition pagemap_name :: "int \<Rightarrow> string" where
  "pagemap_name pid = ''/proc/'' @ show_int pid @ ''/pagemap''"

text \<open>The page frame numbers of \<open>count\<close> pages from \<open>vaddr\<close>.\<close>

definition get_pfn :: "addr \<Rightarrow> int \<Rightarrow> int \<Rightarrow> ('z pfnst_scheme, u64 list) prog" where
  "get_pfn vaddr pid count =
    bnd (if pid = 0 then sysv Getpid else ret pid) (\<lambda>pid.
    bnd (checked_open (pagemap_name pid) O_RDONLY) (\<lambda>fd.
    sqn (put (\<lambda>s. s\<lparr>pagemap_fd := fd\<rparr>))
    (bnd (pagemap_read (vaddr div PS) (ul count)) (\<lambda>ents.
     if int (length ents) < count then exit_failure
     else sqn (checked_close fd) (ret (map pagemap_pfn ents))))))"

text \<open>
  The number of bytes to read is computed from \<open>pages\<close> before it is set, and the offset is
  the frame number itself.
\<close>

definition get_pflags :: "u64 \<Rightarrow> ('z pfnst_scheme, u64 list) prog" where
  "get_pflags frame =
    bnd (sysv (Open ''/proc/kpageflags'' O_RDONLY 0)) (\<lambda>fd. if fd < 0 then exit_failure else
    sqn (put (\<lambda>s. s\<lparr>kpageflags_fd := fd\<rparr>))
    (bnd (sysv Indet) (\<lambda>pages.
     bnd (sys (Pread fd (ul (s32 (pages * 8))) frame)) (\<lambda>r.
     sqn (call (Close fd)) (ret (u64s_of_bytes (nat (cdiv (rv r) 8)) (bytes r)))))))"

definition get_pcount :: "u64 \<Rightarrow> ('z pfnst_scheme, u64 list) prog" where
  "get_pcount frame =
    bnd (sysv (Open ''/proc/kpagecount'' O_RDONLY 0)) (\<lambda>fd. if fd < 0 then exit_failure else
    sqn (put (\<lambda>s. s\<lparr>kpagecount_fd := fd\<rparr>))
    (bnd (kpagecount_read frame 1) (\<lambda>ents. sqn (call (Close fd)) (ret ents))))"

text \<open>The offlining hooks return 1 on an error, 0 otherwise.\<close>

definition kick_hard_offline :: "u64 \<Rightarrow> ('z io_scheme, int) prog" where
  "kick_hard_offline frame =
    bnd (sysv (Open ''/sys/kernel/debug/hwpoison/corrupt-pfn'' O_WRONLY 0)) (\<lambda>fd.
      if fd < 0 then ret 1
      else bnd (sysv (Write fd (''0x'' @ show_hex frame @ [CHR 0x0A]))) (\<lambda>len.
        if len < 0 then ret 1 else sqn (call (Close fd)) (ret 0)))"

definition kick_soft_offline :: "u64 \<Rightarrow> ('z io_scheme, int) prog" where
  "kick_soft_offline frame =
    bnd (sysv (Open ''/sys/devices/system/memory/soft_offline_page'' O_WRONLY 0)) (\<lambda>fd.
      if fd < 0 then ret 1
      else bnd (sysv (Write fd (''0x'' @ show_hex frame @ ''000'' @ [CHR 0x0A]))) (\<lambda>len.
        if len < 0 then ret 1 else sqn (call (Close fd)) (ret 0)))"

text \<open>A field keeps its old value when the corresponding read returns no entry.\<close>

definition get_pagestat :: "addr \<Rightarrow> pagestat \<Rightarrow> ('z pfnst_scheme, pagestat) prog" where
  "get_pagestat vaddr ps =
    bnd (sysv Getpid) (\<lambda>pid.
    bnd (get_pfn vaddr pid 1) (\<lambda>pfns. let ps = (case pfns of [] \<Rightarrow> ps | p # _ \<Rightarrow> ps\<lparr>pfn := p\<rparr>) in
    bnd (get_pflags (pfn ps)) (\<lambda>fl. let ps = (case fl of [] \<Rightarrow> ps | f # _ \<Rightarrow> ps\<lparr>pflags := f\<rparr>) in
    bnd (get_pcount (pfn ps)) (\<lambda>ct. let ps = (case ct of [] \<Rightarrow> ps | c # _ \<Rightarrow> ps\<lparr>pcount := c\<rparr>) in
    ret ps))))"

definition get_my_pfn :: "addr \<Rightarrow> ('z pfnst_scheme, u64) prog" where
  "get_my_pfn vaddr =
    bnd (sysv Getpid) (\<lambda>pid.
    bnd (checked_open (pagemap_name pid) O_RDONLY) (\<lambda>fd.
    sqn (put (\<lambda>s. s\<lparr>pagemap_fd := fd\<rparr>))
    (bnd (pagemap_read (vaddr div PS) 1) (\<lambda>ents. case ents of
       [e] \<Rightarrow> sqn (checked_close fd) (ret (pagemap_pfn e))
     | _ \<Rightarrow> exit_failure))))"

text \<open>The 64-bit flags are returned as an \<open>int\<close>; without an entry the buffer is unset.\<close>

definition get_my_pflags :: "u64 \<Rightarrow> ('z pfnst_scheme, int) prog" where
  "get_my_pflags frame =
    bnd (sysv (Open ''/proc/kpageflags'' O_RDONLY 0)) (\<lambda>fd. if fd < 0 then exit_failure else
    sqn (put (\<lambda>s. s\<lparr>kpageflags_fd := fd\<rparr>))
    (bnd (kpageflags_read frame 1) (\<lambda>ents.
     sqn (call (Close fd))
     (case ents of [] \<Rightarrow> bnd (sysv Indet) ret | e # _ \<Rightarrow> ret (int_of_ul e)))))"

definition check_kpflags :: "addr \<Rightarrow> nat \<Rightarrow> ('z pfnst_scheme, int) prog" where
  "check_kpflags vaddr kpf =
    bnd (get_my_pfn vaddr) (\<lambda>frame.
    bnd (get_my_pflags frame) (\<lambda>kpflags.
    if 31 \<le> kpf then stop (Fault Overflow)
    else ret (int_of_ul (ul kpflags AND ul (2 ^ kpf)))))"

section \<open>What a list of flag names means\<close>

text \<open>
  Reference: the names are the comma-separated pieces before the first \<open>=\<close>; each piece
  contributes its own flags, a piece behind a tilde only when \<open>all\<close> is set; the result
  is their union.
\<close>

fun split_on :: "char \<Rightarrow> string \<Rightarrow> string list" where
  "split_on c [] = [[]]"
| "split_on c (x # xs) = (if x = c then [] # split_on c xs
     else case split_on c xs of [] \<Rightarrow> [[x]] | p # ps \<Rightarrow> (x # p) # ps)"

fun seg_flags :: "bool \<Rightarrow> string \<Rightarrow> u64 option" where
  "seg_flags all [] = Some 0"
| "seg_flags all (c # cs) =
     (if c = CHR ''~'' then (if all then parse_flag_name cs (length cs) else Some 0)
      else parse_flag_name (c # cs) (length (c # cs)))"

fun union_flags :: "u64 \<Rightarrow> u64 option list \<Rightarrow> u64 option" where
  "union_flags acc [] = Some acc"
| "union_flags acc (None # fs) = None"
| "union_flags acc (Some f # fs) = union_flags (acc OR f) fs"

definition names_spec :: "string \<Rightarrow> bool \<Rightarrow> u64 option" where
  "names_spec s all = union_flags 0
     (map (seg_flags all) (split_on (CHR '','') (takeWhile (\<lambda>c. c \<noteq> CHR ''='') s)))"

text \<open>The same by one pass over the string, with the piece read so far.\<close>

fun names_scan :: "bool \<Rightarrow> string \<Rightarrow> string \<Rightarrow> u64 \<Rightarrow> u64 option" where
  "names_scan all seg [] fl = map_option ((OR) fl) (seg_flags all seg)"
| "names_scan all seg (c # cs) fl =
    (if c = CHR ''='' then map_option ((OR) fl) (seg_flags all seg)
     else if c = CHR '','' then (case seg_flags all seg of None \<Rightarrow> None
       | Some f \<Rightarrow> names_scan all [] cs (fl OR f))
     else names_scan all (seg @ [c]) cs fl)"

definition no_delim :: "string \<Rightarrow> bool" where
  "no_delim s \<longleftrightarrow> CHR '','' \<notin> set s \<and> CHR ''='' \<notin> set s \<and> CHR 0x00 \<notin> set s"

lemma split_on_ne: "split_on c s \<noteq> []"
  by (cases s) (auto split: list.splits)

lemma split_on_pre: "c \<notin> set u \<Longrightarrow> split_on c (u @ s) = (case split_on c s of [] \<Rightarrow> [u] | p # ps \<Rightarrow> (u @ p) # ps)"
proof (induction u)
  case Nil
  then show ?case using split_on_ne [of c s] by (auto split: list.splits)
next
  case (Cons x u)
  then show ?case by (auto split: list.splits)
qed

lemma ends_number_delim: "ends_number (CHR '','')" "ends_number (CHR ''='')"
  by (simp_all add: ends_number_def isspace_def digit_val_def)

text \<open>A piece is parsed independently of what follows its delimiter.\<close>

lemma parse_flag_name_local:
  assumes "c = CHR '','' \<or> c = CHR ''=''"
  shows "parse_flag_name (seg @ c # cs) (length seg) = parse_flag_name seg (length seg)"
proof (cases "seg = []")
  case True
  then show ?thesis by (simp add: parse_flag_name_def)
next
  case False
  have "parse_number (seg @ c # cs) = parse_number seg"
    using assms ends_number_delim strtol_append_stop [of c seg cs] False
    by (cases seg) (auto simp: parse_number_def)
  with False show ?thesis
    by (simp add: parse_flag_name_def strncmp_eq_def split: option.split)
qed

lemma flag_piece_seg:
  assumes "no_delim seg" "rest = [] \<or> (\<exists>cs. rest = CHR '','' # cs \<or> rest = CHR ''='' # cs)"
    and s: "s = pre @ seg @ rest"
  shows "flag_piece s all (length pre) (length pre + length seg) = seg_flags all seg"
proof (cases seg)
  case Nil
  with assms(2) s show ?thesis
    by (auto simp: char_at_def nth_append parse_flag_name_def Let_def flag_piece_def)
next
  case (Cons c cs)
  have loc: "parse_flag_name (u @ rest) (length u) = parse_flag_name u (length u)" for u
    using assms(2) parse_flag_name_local by auto
  have at: "char_at s (length pre) = c" by (simp add: s Cons char_at_def nth_append)
  have nul: "char_at s (Suc (length pre)) = CHR 0x00 \<longleftrightarrow> cs = [] \<and> rest = []"
    using assms(1,2) by (cases cs) (auto simp: s Cons char_at_def nth_append no_delim_def)
  have d: "drop (length pre) s = seg @ rest" "drop (Suc (length pre)) s = cs @ rest"
    by (simp_all add: s Cons)
  show ?thesis
    using loc [of cs] loc [of seg]
    by (simp add: at nul d Let_def flag_piece_def) (auto simp: Cons parse_flag_name_def [of "[]"])
qed

lemma parse_flag_names_loop_scan:
  assumes "no_delim seg" "CHR 0x00 \<notin> set rest"
  shows "parse_flag_names_loop (pre @ seg @ rest) all (length pre) (length pre + length seg) fl
    = names_scan all seg rest fl"
  using assms
proof (induction all seg rest fl arbitrary: pre rule: names_scan.induct)
  case (1 all seg fl)
  let ?s = "pre @ seg"
  have c: "char_at ?s (length pre + length seg) = CHR 0x00" by (simp add: char_at_def)
  show ?case
    using flag_piece_seg [OF "1.prems"(1), of "[]" ?s pre all] c
    by (subst parse_flag_names_loop.simps) (auto split: option.splits)
next
  case (2 all seg c cs fl)
  let ?s = "pre @ seg @ c # cs"
  have c: "char_at ?s (length pre + length seg) = c" by (simp add: char_at_def nth_append)
  have ne: "c \<noteq> CHR 0x00" using "2.prems" by auto
  consider "c = CHR ''=''" | "c = CHR '',''" | "c \<noteq> CHR ''=''" "c \<noteq> CHR '',''" by blast
  then show ?case
  proof cases
    case 1
    then show ?thesis
      using flag_piece_seg [OF "2.prems"(1), of "c # cs" ?s pre all] c
      by (subst parse_flag_names_loop.simps) (auto split: option.splits)
  next
    case c2: 2
    have IH: "parse_flag_names_loop ?s all (Suc (length pre + length seg))
        (Suc (length pre + length seg)) fl' = names_scan all [] cs fl'"
      if "seg_flags all seg = Some f" "fl' = fl OR f" for f fl'
      using "2.IH"(1) [OF _ c2 that(1), of "pre @ seg @ [c]"] "2.prems" c2 that
      by (auto simp: no_delim_def)
    show ?thesis
      using flag_piece_seg [OF "2.prems"(1), of "c # cs" ?s pre all] c c2
      by (subst parse_flag_names_loop.simps) (auto simp: IH [unfolded c2] split: option.splits)
  next
    case 3
    have "no_delim (seg @ [c])" using "2.prems" 3 ne by (auto simp: no_delim_def)
    then show ?thesis
      using "2.IH"(2) [OF 3, of pre] "2.prems"(2) c 3 ne
      by (subst parse_flag_names_loop.simps) simp
  qed
qed

lemma union_flags_acc:
  "union_flags acc (f # fs) = (case f of None \<Rightarrow> None | Some x \<Rightarrow> union_flags (acc OR x) fs)"
  by (cases f) auto

lemma names_scan_spec:
  assumes "CHR '','' \<notin> set seg"
  shows "names_scan all seg rest fl = union_flags fl
    (map (seg_flags all) (split_on (CHR '','') (seg @ takeWhile (\<lambda>c. c \<noteq> CHR ''='') rest)))"
  using assms
proof (induction all seg rest fl rule: names_scan.induct)
  case (1 all seg fl)
  then show ?case using split_on_pre [of "CHR '',''" seg "[]"]
    by (auto simp: union_flags_acc split: option.splits)
next
  case (2 all seg c cs fl)
  then show ?case
    using split_on_pre [of "CHR '',''" seg "[]"]
      split_on_pre [of "CHR '',''" seg "CHR '','' # takeWhile (\<lambda>c. c \<noteq> CHR ''='') cs"]
    by (auto simp: union_flags_acc split: option.splits)
qed

lemma parse_flag_names_scan: "CHR 0x00 \<notin> set s \<Longrightarrow> parse_flag_names s all = names_scan all [] s 0"
  using parse_flag_names_loop_scan [of "[]" s "[]" all 0] by (simp add: parse_flag_names_def no_delim_def)

text \<open>
  C34: the pointer loop of \<open>parse_flag_names\<close> computes the reference meaning of a flag list:
  the union over the comma-separated pieces before the first \<open>=\<close>, each parsed on its own,
  with tilded pieces counted only when asked for; it ends the process exactly when one
  counted piece is neither a flag name, an abbreviation of one, nor a number.
\<close>

theorem parse_flag_names_correct:
  assumes "CHR 0x00 \<notin> set s"
  shows "parse_flag_names s all = names_spec s all"
  using parse_flag_names_scan [OF assms] by (simp add: names_scan_spec names_spec_def)

theorem parse_flag_names_correct_witness:
  "parse_flag_names ''huge,~thp,0x30=slab'' True = names_spec ''huge,~thp,0x30=slab'' True
   \<and> names_spec ''huge,~thp,0x30=slab'' True = Some 0x420030"
proof
  show "parse_flag_names ''huge,~thp,0x30=slab'' True = names_spec ''huge,~thp,0x30=slab'' True"
    by (rule parse_flag_names_correct) simp
  show "names_spec ''huge,~thp,0x30=slab'' True = Some 0x420030" by code_simp
qed

section \<open>Names, filters and flag words\<close>

text \<open>
  every flag name of the table parses to its own bit, with one exception: the name of
  bit 62, \<open>swap\<close>, is shadowed by the earlier \<open>swapcache\<close>, because a name is compared up
  to the length of the argument only, and so selects bit 13.
\<close>

theorem page_flag_names_roundtrip:
  "list_all (\<lambda>(i, nm). i = 62 \<or> parse_flag_names (drop 2 nm) False = Some (BIT i)) page_flag_names
   \<and> parse_flag_names ''swap'' False = Some (BIT 13) \<and> lookup_name 62 = Some ''swap''"
  by code_simp

lemma bit_BIT: "bit (BIT n) m \<longleftrightarrow> n = m \<and> m < 64"
  by (auto simp: BIT_def bit_exp_iff)

text \<open>
  The filters that can be written with the names of the table (all but the shadowed bit 62): any of some flags; some flags set and
  others, behind a tilde, clear; the flags under a mask; the exact flags of a page.
\<close>

datatype page_filter = AnyOf "nat list" | Match "(bool \<times> nat) list" | Masked "nat list" "nat list" | Exactly "nat list"

definition flag_text :: "nat \<Rightarrow> string" where
  "flag_text i = (case lookup_name i of Some n \<Rightarrow> n | None \<Rightarrow> [])"

definition piece_text :: "bool \<times> nat \<Rightarrow> string" where
  "piece_text p = (if fst p then ''~'' else []) @ flag_text (snd p)"

definition pieces_text :: "(bool \<times> nat) list \<Rightarrow> string" where
  "pieces_text ps = join (CHR '','') (map piece_text ps)"

fun filter_text :: "page_filter \<Rightarrow> string" where
  "filter_text (AnyOf fs) = pieces_text (map (Pair False) fs)"
| "filter_text (Match ps) = pieces_text ps"
| "filter_text (Masked ms bs) = pieces_text (map (Pair False) ms) @ CHR ''='' # pieces_text (map (Pair False) bs)"
| "filter_text (Exactly bs) = CHR ''='' # pieces_text (map (Pair False) bs)"

fun filter_selects :: "page_filter \<Rightarrow> u64 \<Rightarrow> bool" where
  "filter_selects (AnyOf fs) v = list_ex (bit v) fs"
| "filter_selects (Match ps) v = list_all (\<lambda>(neg, i). bit v i \<noteq> neg) ps"
| "filter_selects (Masked ms bs) v = (set bs \<subseteq> set ms \<and> list_all (\<lambda>i. bit v i \<longleftrightarrow> i \<in> set bs) ms)"
| "filter_selects (Exactly bs) v = list_all (\<lambda>i. bit v i \<longleftrightarrow> i \<in> set bs) [0..<64]"

definition named_flag :: "nat \<Rightarrow> bool" where
  "named_flag i \<longleftrightarrow> i \<in> fst ` set page_flag_names \<and> i \<noteq> 62"

fun filter_ok :: "page_filter \<Rightarrow> bool" where
  "filter_ok (AnyOf fs) = (fs \<noteq> [] \<and> list_all named_flag fs)"
| "filter_ok (Match ps) = (list_all (named_flag \<circ> snd) ps \<and> list_ex fst ps
     \<and> list_all (\<lambda>(neg, i). (\<not> neg, i) \<notin> set ps) ps)"
| "filter_ok (Masked ms bs) = (ms \<noteq> [] \<and> bs \<noteq> [] \<and> list_all named_flag ms \<and> list_all named_flag bs)"
| "filter_ok (Exactly bs) = (bs \<noteq> [] \<and> list_all named_flag bs)"

lemma flag_table:
  "list_all (\<lambda>(i, nm). i = 62 \<or> parse_flag_name (flag_text i) (length (flag_text i)) = Some (BIT i)
     \<and> no_delim (flag_text i) \<and> CHR ''~'' \<notin> set (flag_text i) \<and> flag_text i \<noteq> [] \<and> i < 64) page_flag_names"
  by code_simp

lemma named_flagD:
  assumes "named_flag i"
  shows "parse_flag_name (flag_text i) (length (flag_text i)) = Some (BIT i)" "no_delim (flag_text i)"
    "CHR ''~'' \<notin> set (flag_text i)" "flag_text i \<noteq> []" "i < 64"
  using assms flag_table unfolding named_flag_def list_all_iff by auto

lemma seg_flags_piece:
  assumes "named_flag i"
  shows "seg_flags all (piece_text (neg, i)) = Some (if neg \<and> \<not> all then 0 else BIT i)"
proof -
  obtain c cs where c: "flag_text i = c # cs" using named_flagD(4) [OF assms] by (cases "flag_text i") auto
  with named_flagD(1,3) [OF assms] show ?thesis by (auto simp: piece_text_def)
qed

lemma split_on_join: "ts \<noteq> [] \<Longrightarrow> list_all (\<lambda>t. c \<notin> set t) ts \<Longrightarrow> split_on c (join c ts) = ts"
proof (induction ts)
  case (Cons t ts)
  then show ?case using split_on_pre [of c t "[]"] split_on_pre [of c t "c # join c ts"] by auto
qed simp

lemma set_join: "set (join c ts) \<subseteq> insert c (\<Union> (set ` set ts))"
  by (induction ts) auto

lemma union_flags_bits:
  "\<exists>w. union_flags acc (map (\<lambda>p. Some (g p)) ps) = Some w \<and> (\<forall>n. bit w n \<longleftrightarrow> bit acc n \<or> (\<exists>p\<in>set ps. bit (g p) n))"
proof (induction ps arbitrary: acc)
  case (Cons p ps)
  from Cons.IH [of "acc OR g p"] show ?case by (auto simp: bit_or_iff)
qed simp

lemma pieces_chars:
  assumes "list_all (named_flag \<circ> snd) ps"
  shows "CHR ''='' \<notin> set (pieces_text ps)" "CHR 0x00 \<notin> set (pieces_text ps)"
    "(CHR ''~'' \<in> set (pieces_text ps)) = list_ex fst ps"
proof -
  have t: "no_delim (piece_text p)" "(CHR ''~'' \<in> set (piece_text p)) = fst p" if "p \<in> set ps" for p
    using that assms named_flagD(2,3) [of "snd p"] by (auto simp: list_all_iff piece_text_def no_delim_def)
  show "CHR ''='' \<notin> set (pieces_text ps)" "CHR 0x00 \<notin> set (pieces_text ps)"
    using set_join [of "CHR '',''" "map piece_text ps"] t(1) by (auto simp: pieces_text_def no_delim_def)
  have "(CHR ''~'' \<in> set (join (CHR '','') (map piece_text ps))) = list_ex fst ps" using t(2) by (induction ps) auto
  then show "(CHR ''~'' \<in> set (pieces_text ps)) = list_ex fst ps" by (simp add: pieces_text_def)
qed

text \<open>The value of a list of names: the bits of its flags, those behind a tilde only when asked for.\<close>

lemma parse_pieces:
  assumes "ps \<noteq> []" "list_all (named_flag \<circ> snd) ps" "rest = [] \<or> (\<exists>cs. rest = CHR ''='' # cs)" "CHR 0x00 \<notin> set rest"
  obtains w where "parse_flag_names (pieces_text ps @ rest) all = Some w"
    "\<And>n. bit w n \<longleftrightarrow> (\<exists>neg. (neg, n) \<in> set ps \<and> (neg \<longrightarrow> all))"
proof -
  note c = pieces_chars [OF assms(2)]
  have "list_all (\<lambda>t. CHR '','' \<notin> set t) (map piece_text ps)"
    using assms(2) named_flagD(2) by (auto simp: list_all_iff piece_text_def no_delim_def)
  then have "split_on (CHR '','') (pieces_text ps) = map piece_text ps"
    unfolding pieces_text_def using assms(1) by (intro split_on_join) simp_all
  moreover have "takeWhile (\<lambda>c. c \<noteq> CHR ''='') (pieces_text ps @ rest) = pieces_text ps"
  proof -
    have "\<And>x. x \<in> set (pieces_text ps) \<Longrightarrow> x \<noteq> CHR ''=''" using c(1) by metis
    then have "takeWhile (\<lambda>c. c \<noteq> CHR ''='') (pieces_text ps @ rest) = pieces_text ps @ takeWhile (\<lambda>c. c \<noteq> CHR ''='') rest"
      by (rule takeWhile_append2)
    then show ?thesis using assms(3) by auto
  qed
  moreover have "map (seg_flags all) (map piece_text ps) = map (\<lambda>p. Some (if fst p \<and> \<not> all then 0 else BIT (snd p))) ps"
    using assms(2) seg_flags_piece by (auto simp: list_all_iff)
  ultimately have "parse_flag_names (pieces_text ps @ rest) all
      = union_flags 0 (map (\<lambda>p. Some (if fst p \<and> \<not> all then 0 else BIT (snd p))) ps)"
    using c(2) assms(4) by (simp only: parse_flag_names_scan names_scan_spec set_append Un_iff list.set empty_iff append_Nil
        not_False_eq_True simp_thms)
  with union_flags_bits [of 0 "\<lambda>p. if fst p \<and> \<not> all then 0 else BIT (snd p)" ps]
  obtain w where w: "parse_flag_names (pieces_text ps @ rest) all = Some w"
    "\<And>n. bit w n \<longleftrightarrow> (\<exists>p\<in>set ps. bit (if fst p \<and> \<not> all then 0 else BIT (snd p)) n)" by auto
  have "bit w n \<longleftrightarrow> (\<exists>neg. (neg, n) \<in> set ps \<and> (neg \<longrightarrow> all))" for n
  proof
    assume "bit w n"
    then obtain p where p: "p \<in> set ps" "bit (if fst p \<and> \<not> all then 0 else BIT (snd p)) n" unfolding w(2) by blast
    have "p = (fst p, n)" "fst p \<longrightarrow> all" using p(2) by (auto simp: bit_BIT prod_eq_iff split: if_splits)
    with p(1) show "\<exists>neg. (neg, n) \<in> set ps \<and> (neg \<longrightarrow> all)" by metis
  next
    assume "\<exists>neg. (neg, n) \<in> set ps \<and> (neg \<longrightarrow> all)"
    then obtain neg where n: "(neg, n) \<in> set ps" "neg \<longrightarrow> all" by blast
    then have "n < 64" using assms(2) by (intro named_flagD(5)) (auto simp: list_all_iff)
    with n show "bit w n" unfolding w(2) by (intro bexI [OF _ n(1)]) (auto simp: bit_BIT)
  qed
  with w(1) show thesis by (rule that)
qed

lemma strchr_none: "strchr s c = None \<longleftrightarrow> c \<notin> set s"
  by (induction s) auto

lemma strchr_other: "c \<notin> set s \<Longrightarrow> strchr s c = None"
  by (simp add: strchr_none)

lemma strchr_at: "c \<notin> set l \<Longrightarrow> strchr (l @ c # cs) c = Some (length l)"
  by (induction l) auto

lemma not_all_bits: "\<not> bit w 62 \<Longrightarrow> w \<noteq> KPF_ALL_BITS" for w :: u64
  by (auto simp: KPF_ALL_BITS_def)

lemma masked_eq: "v AND m = b \<longleftrightarrow> (\<forall>n < 64. bit v n \<and> bit m n \<longleftrightarrow> bit b n)" for v m b :: u64
proof -
  have "v AND m = b" if "\<forall>n < 64. bit v n \<and> bit m n \<longleftrightarrow> bit b n"
    by (rule bit_word_eqI) (use that in \<open>simp add: bit_and_iff\<close>)
  then show ?thesis using bit_and_iff [of v m] by blast
qed

lemma and_nonzero: "w AND m \<noteq> 0 \<longleftrightarrow> (\<exists>n. bit w n \<and> bit m n)" for w m :: u64
proof -
  have "w AND m = 0" if "\<nexists>n. bit w n \<and> bit m n"
    by (rule bit_word_eqI) (use that in \<open>simp add: bit_and_iff\<close>)
  moreover have "\<not> (bit w n \<and> bit m n)" if "w AND m = 0" for n
    using that bit_and_iff [of w m n] by simp
  ultimately show ?thesis by blast
qed


text \<open>The mask and the bits of a filter, and the test they make of a page.\<close>

lemma filter_mask_bits:
  assumes "filter_ok F"
  shows "\<exists>m b. parse_mask_bits (filter_text F) = Some (m, b)
    \<and> (\<forall>v. (if b = KPF_ALL_BITS then v AND m \<noteq> 0 else v AND m = b) \<longleftrightarrow> filter_selects F v)"
proof (cases F)
  case (AnyOf fs)
  let ?ps = "map (Pair False) fs"
  have ps: "list_all (named_flag \<circ> snd) ?ps" "?ps \<noteq> []" using assms AnyOf by (simp_all add: list_all_iff)
  obtain m where m: "parse_flag_names (pieces_text ?ps @ []) False = Some m" "\<And>n. bit m n \<longleftrightarrow> (\<exists>neg. (neg, n) \<in> set ?ps \<and> (neg \<longrightarrow> False))"
    by (rule parse_pieces [OF ps(2,1), of "[]" False]) auto
  have "parse_mask_bits (filter_text F) = Some (m, KPF_ALL_BITS)"
    using m(1) pieces_chars [OF ps(1)] by (simp add: AnyOf parse_mask_bits_def strchr_other list_ex_iff)
  moreover have "v AND m \<noteq> 0 \<longleftrightarrow> filter_selects F v" for v
    using m(2) by (auto simp: AnyOf and_nonzero list_ex_iff)
  ultimately show ?thesis by auto
next
  case (Match ps)
  have ps: "list_all (named_flag \<circ> snd) ps" "list_ex fst ps" "ps \<noteq> []" using assms Match by auto
  have clash: "(True, i) \<in> set ps \<Longrightarrow> (False, i) \<notin> set ps" for i using assms Match by (auto simp: list_all_iff)
  obtain m where m: "parse_flag_names (pieces_text ps @ []) True = Some m" "\<And>n. bit m n \<longleftrightarrow> (\<exists>neg. (neg, n) \<in> set ps \<and> (neg \<longrightarrow> True))"
    by (rule parse_pieces [OF ps(3,1), of "[]" True]) auto
  obtain b where b: "parse_flag_names (pieces_text ps @ []) False = Some b" "\<And>n. bit b n \<longleftrightarrow> (\<exists>neg. (neg, n) \<in> set ps \<and> (neg \<longrightarrow> False))"
    by (rule parse_pieces [OF ps(3,1), of "[]" False]) auto
  have "parse_mask_bits (filter_text F) = Some (m, b)"
    using m(1) b(1) ps(2) pieces_chars [OF ps(1)] by (simp add: Match parse_mask_bits_def strchr_other strchr_none)
  moreover have "b \<noteq> KPF_ALL_BITS"
    using b(2) [of 62] ps(1) by (intro not_all_bits) (auto simp: list_all_iff named_flag_def)
  moreover have "v AND m = b \<longleftrightarrow> filter_selects F v" for v
  proof -
    have lt: "i < 64" if "(neg, i) \<in> set ps" for neg i
      using that ps(1) by (intro named_flagD(5)) (auto simp: list_all_iff)
    have "bit m n \<longleftrightarrow> (\<exists>neg. (neg, n) \<in> set ps)" "bit b n \<longleftrightarrow> (False, n) \<in> set ps" for n using m(2) [of n] b(2) [of n] by auto
    then have "v AND m = b \<longleftrightarrow> (\<forall>n < 64. (bit v n \<and> (\<exists>neg. (neg, n) \<in> set ps)) = ((False, n) \<in> set ps))" unfolding masked_eq by simp
    also have "\<dots> \<longleftrightarrow> (\<forall>n. (bit v n \<and> (\<exists>neg. (neg, n) \<in> set ps)) = ((False, n) \<in> set ps))" using lt by blast
    also have "\<dots> \<longleftrightarrow> (\<forall>neg n. (neg, n) \<in> set ps \<longrightarrow> bit v n \<noteq> neg)" using clash by (metis (full_types))
    also have "\<dots> \<longleftrightarrow> filter_selects F v" by (auto simp: Match list_all_iff)
    finally show ?thesis .
  qed
  ultimately show ?thesis by auto
next
  case (Masked ms bs)
  let ?ms = "map (Pair False) ms" and ?bs = "map (Pair False) bs"
  have ps: "list_all (named_flag \<circ> snd) ?ms" "?ms \<noteq> []" "list_all (named_flag \<circ> snd) ?bs" "?bs \<noteq> []"
    using assms Masked by (simp_all add: list_all_iff)
  note c = pieces_chars [OF ps(1)] pieces_chars [OF ps(3)]
  obtain m where m: "parse_flag_names (pieces_text ?ms @ CHR ''='' # pieces_text ?bs) False = Some m" "\<And>n. bit m n \<longleftrightarrow> (\<exists>neg. (neg, n) \<in> set ?ms \<and> (neg \<longrightarrow> False))"
    by (rule parse_pieces [OF ps(2,1), of "CHR ''='' # pieces_text ?bs" False]) (use c in auto)
  obtain b where b: "parse_flag_names (pieces_text ?bs @ []) False = Some b" "\<And>n. bit b n \<longleftrightarrow> (\<exists>neg. (neg, n) \<in> set ?bs \<and> (neg \<longrightarrow> False))"
    by (rule parse_pieces [OF ps(4,3), of "[]" False]) auto
  have "flag_text (hd ms) \<noteq> []" using assms Masked by (intro named_flagD(4)) (auto simp: list_all_iff)
  then have "pieces_text ?ms \<noteq> []" using ps(2) by (cases ms) (auto simp: pieces_text_def piece_text_def)
  then obtain l where l: "length (pieces_text ?ms) = Suc l" by (cases "pieces_text ?ms") auto
  then have "strchr (filter_text F) (CHR ''='') = Some (Suc l)" using strchr_at [OF c(1)] by (simp add: Masked)
  moreover have "drop (Suc l + 1) (filter_text F) = pieces_text ?bs" by (simp add: Masked l)
  ultimately have "parse_mask_bits (filter_text F) = Some (m, b)"
    using m(1) b(1) by (simp add: parse_mask_bits_def) (simp add: Masked)
  moreover have "b \<noteq> KPF_ALL_BITS"
    using b(2) [of 62] ps(3) by (intro not_all_bits) (auto simp: list_all_iff named_flag_def)
  moreover have "v AND m = b \<longleftrightarrow> filter_selects F v" for v
  proof -
    have lt: "i < 64" if "i \<in> set ms \<or> i \<in> set bs" for i
      using that ps(1,3) by (intro named_flagD(5)) (auto simp: list_all_iff)
    have "bit m n \<longleftrightarrow> n \<in> set ms" "bit b n \<longleftrightarrow> n \<in> set bs" for n using m(2) [of n] b(2) [of n] by auto
    then have "v AND m = b \<longleftrightarrow> (\<forall>n < 64. (bit v n \<and> n \<in> set ms) = (n \<in> set bs))" unfolding masked_eq by simp
    also have "\<dots> \<longleftrightarrow> (\<forall>n. (bit v n \<and> n \<in> set ms) = (n \<in> set bs))" using lt by blast
    also have "\<dots> \<longleftrightarrow> filter_selects F v" by (auto simp: Masked list_all_iff)
    finally show ?thesis .
  qed
  ultimately show ?thesis by auto
next
  case (Exactly bs)
  let ?bs = "map (Pair False) bs"
  have ps: "list_all (named_flag \<circ> snd) ?bs" "?bs \<noteq> []" using assms Exactly by (simp_all add: list_all_iff)
  obtain b where b: "parse_flag_names (pieces_text ?bs @ []) False = Some b" "\<And>n. bit b n \<longleftrightarrow> (\<exists>neg. (neg, n) \<in> set ?bs \<and> (neg \<longrightarrow> False))"
    by (rule parse_pieces [OF ps(2,1), of "[]" False]) auto
  have "parse_mask_bits (filter_text F) = Some (KPF_ALL_BITS, b)"
    using b(1) by (simp add: Exactly parse_mask_bits_def)
  moreover have "b \<noteq> KPF_ALL_BITS"
    using b(2) [of 62] ps(1) by (intro not_all_bits) (auto simp: list_all_iff named_flag_def)
  moreover have "v AND KPF_ALL_BITS = b \<longleftrightarrow> filter_selects F v" for v
  proof -
    have "bit b n \<longleftrightarrow> n \<in> set bs" for n using b(2) [of n] by auto
    then show ?thesis unfolding masked_eq by (auto simp: Exactly list_all_iff KPF_ALL_BITS_def bit_simps)
  qed
  ultimately show ?thesis by auto
qed

text \<open>
  C35: a filter given once selects the pages its text describes: a list of flag names any page with one
  of them; with a name behind a tilde the pages that have all the plain flags and none of the others; two lists
  around \<open>=\<close> the pages that, of the flags of the first list, have exactly those of the second; \<open>=\<close> and a list the pages with
  exactly these flags.  A second filter ends the process, since only one is supported.
\<close>

theorem parse_bits_mask_filter:
  assumes "nr_bit_filters s = 0" "length (opt_mask s) = MAX_BIT_FILTERS"
    "length (opt_bits s) = MAX_BIT_FILTERS" "filter_ok F"
  shows "\<exists>s'. parse_bits_mask (filter_text F) k s = (Val (), s') \<and> trace s' = trace s
    \<and> (\<forall>v. bit_mask_ok s' v \<longleftrightarrow> filter_selects F v)
    \<and> (\<forall>arg k'. fst (parse_bits_mask arg k' s') = Exit 1)"
proof -
  have one: "MAX_BIT_FILTERS = 1" by (simp add: MAX_BIT_FILTERS_def)
  obtain x y where xy: "opt_mask s = [x]" "opt_bits s = [y]"
    using assms(2,3) by (auto simp: one length_Suc_conv)
  obtain m b where mb: "parse_mask_bits (filter_text F) = Some (m, b)"
      "\<And>v. (if b = KPF_ALL_BITS then v AND m \<noteq> 0 else v AND m = b) \<longleftrightarrow> filter_selects F v"
    using filter_mask_bits [OF assms(4)] by blast
  let ?s = "s\<lparr>opt_mask := [m], opt_bits := [b], nr_bit_filters := 1\<rparr>"
  have "parse_bits_mask (filter_text F) k s = (Val (), ?s)"
    using assms(1) by (simp add: mb(1) parse_bits_mask_def add_bits_filter_def prog_simps one xy)
  moreover have "fst (parse_bits_mask arg k' ?s) = Exit 1" for arg k'
    by (cases "parse_mask_bits arg")
      (auto simp: parse_bits_mask_def add_bits_filter_def prog_simps one split: prod.split)
  moreover have "bit_mask_ok ?s v \<longleftrightarrow> filter_selects F v" for v
    unfolding mb(2) [symmetric] by (simp add: bit_mask_ok_def)
  ultimately show ?thesis by (intro exI [of _ ?s]) simp
qed

definition pfnst0 :: pfnst where
  "pfnst0 = \<lparr>trace = [], verbose = 0, testpipe = None, pprintf_wait_flag = 0, opt_raw = 0,
     nr_bit_filters = 0, opt_mask = [0], opt_bits = [0], pagemap_fd = 0, kpageflags_fd = 0,
     kpagecount_fd = 0\<rparr>"

theorem parse_bits_mask_filter_witness:
  "\<exists>s'. parse_bits_mask ''huge,~thp'' (\<lambda>h c. ok) pfnst0 = (Val (), s') \<and> trace s' = trace pfnst0
    \<and> (\<forall>v. bit_mask_ok s' v \<longleftrightarrow> bit v 17 \<and> \<not> bit v 22)
    \<and> (\<forall>arg k'. fst (parse_bits_mask arg k' s') = Exit 1)"
proof -
  have t: "filter_text (Match [(False, 17), (True, 22)]) = ''huge,~thp''" "filter_ok (Match [(False, 17), (True, 22)])"
    by code_simp+
  have p: "nr_bit_filters pfnst0 = 0" "length (opt_mask pfnst0) = MAX_BIT_FILTERS" "length (opt_bits pfnst0) = MAX_BIT_FILTERS"
    by (simp_all add: pfnst0_def MAX_BIT_FILTERS_def)
  from parse_bits_mask_filter [OF p t(2), of "\<lambda>h c. ok", unfolded t(1)] show ?thesis by simp
qed

lemma and_BIT_iff: "n < 64 \<Longrightarrow> w AND BIT n \<noteq> 0 \<longleftrightarrow> bit w n" for w :: u64
  by (auto simp: and_nonzero bit_BIT)

lemma bit_hackers: "bit KPF_HACKERS_BITS n \<longleftrightarrow> 32 \<le> n \<and> n < 48"
proof -
  have "KPF_HACKERS_BITS = push_bit 32 (mask 16)"
    by (simp add: KPF_HACKERS_BITS_def mask_eq_exp_minus_1)
  then have "bit KPF_HACKERS_BITS n \<longleftrightarrow> bit (push_bit 32 (mask 16) :: u64) n" by (simp only:)
  then show ?thesis by (auto simp: bit_push_bit_iff bit_mask_iff)
qed

lemma bit_well_known:
  "bit (well_known_flags f) n \<longleftrightarrow>
     bit f n \<and> \<not> (32 \<le> n \<and> n < 48) \<and> (n = KPF_COMPOUND_HEAD \<or> n = KPF_COMPOUND_TAIL \<longrightarrow> bit f KPF_HUGE)"
proof -
  let ?f = "f AND NOT KPF_HACKERS_BITS"
  have b: "bit ?f n \<longleftrightarrow> bit f n \<and> \<not> (32 \<le> n \<and> n < 48)" for n
    by (auto simp: bit_and_iff bit_not_iff bit_hackers dest: bit_imp_le_length)
  have c: "?f AND BITS_COMPOUND \<noteq> 0 \<longleftrightarrow> bit f KPF_COMPOUND_HEAD \<or> bit f KPF_COMPOUND_TAIL"
    unfolding and_nonzero by (auto simp: b BITS_COMPOUND_def bit_or_iff bit_BIT)
  have h: "?f AND BIT KPF_HUGE = 0 \<longleftrightarrow> \<not> bit f KPF_HUGE"
    using and_BIT_iff [of KPF_HUGE ?f] by (auto simp: b)
  have d: "bit (?f AND NOT BITS_COMPOUND) n \<longleftrightarrow>
      bit ?f n \<and> n \<noteq> KPF_COMPOUND_HEAD \<and> n \<noteq> KPF_COMPOUND_TAIL" for n
    by (auto simp: BITS_COMPOUND_def bit_and_iff bit_or_iff bit_not_iff bit_BIT dest: bit_imp_le_length)
  show ?thesis
    unfolding well_known_flags_def Let_def c h by (auto simp: b d)
qed

text \<open>
  hiding the flags meant for kernel developers is idempotent, adds no flag, leaves no
  bit of the range 32 to 47, and leaves the compound bits of hugeTLB pages only.
\<close>

theorem well_known_flags_hides:
  "well_known_flags (well_known_flags f) = well_known_flags f
   \<and> well_known_flags f AND NOT f = 0
   \<and> well_known_flags f AND KPF_HACKERS_BITS = 0
   \<and> (bit (well_known_flags f) KPF_COMPOUND_HEAD \<or> bit (well_known_flags f) KPF_COMPOUND_TAIL
      \<longrightarrow> bit (well_known_flags f) KPF_HUGE)"
proof (intro conjI)
  show "well_known_flags (well_known_flags f) = well_known_flags f"
    by (rule bit_word_eqI) (auto simp: bit_well_known)
  show "well_known_flags f AND NOT f = 0" "well_known_flags f AND KPF_HACKERS_BITS = 0"
    by (rule bit_word_eqI, simp add: bit_and_iff bit_not_iff bit_well_known bit_hackers)+
qed (auto simp: bit_well_known)

theorem well_known_flags_hides_witness: "bit (well_known_flags 0x100028000) KPF_HUGE"
proof -
  have "bit (well_known_flags 0x100028000) KPF_COMPOUND_HEAD" by code_simp
  then show ?thesis using well_known_flags_hides [of "0x100028000"] by blast
qed

text \<open>
  One overloaded flag: when bit \<open>a\<close> is set in a word whose bit \<open>b\<close> is clear, the flag
  moves from \<open>a\<close> to \<open>b\<close>.
\<close>

lemma bit_move:
  assumes "a < 64" "b < 64" "a \<noteq> b" "\<not> bit f b"
  shows "bit (if f AND BIT a \<noteq> 0 then f XOR (BIT a OR BIT b) else f) n \<longleftrightarrow>
    (if n = a then False else if n = b then bit f a else bit f n)"
  using assms and_BIT_iff [of a f]
  by (auto simp: bit_xor_iff bit_or_iff bit_BIT dest: bit_imp_le_length)

lemma bit_add:
  assumes "b < 64"
  shows "bit (if p then f OR BIT b else f) n \<longleftrightarrow> bit f n \<or> p \<and> n = b"
  using assms by (auto simp: bit_or_iff bit_BIT)

lemma and_pm_iff:
  "pme AND PM_SOFT_DIRTY \<noteq> 0 \<longleftrightarrow> bit pme 55" "pme AND PM_FILE \<noteq> 0 \<longleftrightarrow> bit pme 61"
  "pme AND PM_MMAP_EXCLUSIVE \<noteq> 0 \<longleftrightarrow> bit pme 56"
  unfolding PM_SOFT_DIRTY_def PM_FILE_def PM_MMAP_EXCLUSIVE_def BIT_def [symmetric]
  by (rule and_BIT_iff, simp)+

text \<open>
  \<open>expand_overloaded_flags\<close> bit by bit, for flags as the kernel exports them (bits 48
  to 51 clear): on slab pages the private, active and error bits move to slob_free,
  slub_frozen and slub_debug; reclaim without writeback moves to readahead; the soft-dirty,
  file and exclusive bits of the pagemap entry are added; every other bit is kept.
\<close>

theorem expand_overloaded_flags_bits:
  assumes clear: "\<not> bit f 48" "\<not> bit f 49" "\<not> bit f 50" "\<not> bit f 51"
  shows "bit (expand_overloaded_flags f pme) n \<longleftrightarrow>
    (if n = KPF_PRIVATE \<or> n = KPF_ACTIVE \<or> n = KPF_ERROR then bit f n \<and> \<not> bit f KPF_SLAB
     else if n = KPF_SLOB_FREE then bit f KPF_PRIVATE \<and> bit f KPF_SLAB
     else if n = KPF_SLUB_FROZEN then bit f KPF_ACTIVE \<and> bit f KPF_SLAB
     else if n = KPF_SLUB_DEBUG then bit f KPF_ERROR \<and> bit f KPF_SLAB
     else if n = KPF_RECLAIM then bit f KPF_RECLAIM \<and> bit f KPF_WRITEBACK
     else if n = KPF_READAHEAD then bit f KPF_RECLAIM \<and> \<not> bit f KPF_WRITEBACK
     else bit f n \<or> n = KPF_SOFTDIRTY \<and> bit pme 55 \<or> n = KPF_FILE \<and> bit pme 61
       \<or> n = KPF_MMAP_EXCLUSIVE \<and> bit pme 56)"
proof -
  define f1 where "f1 = (if f AND BIT KPF_PRIVATE \<noteq> 0 then f XOR (BIT KPF_PRIVATE OR BIT KPF_SLOB_FREE) else f)"
  define f2 where "f2 = (if f1 AND BIT KPF_ACTIVE \<noteq> 0 then f1 XOR (BIT KPF_ACTIVE OR BIT KPF_SLUB_FROZEN) else f1)"
  define f3 where "f3 = (if f2 AND BIT KPF_ERROR \<noteq> 0 then f2 XOR (BIT KPF_ERROR OR BIT KPF_SLUB_DEBUG) else f2)"
  define g where "g = (if f AND BIT KPF_SLAB \<noteq> 0 then f3 else f)"
  define h where "h = (if g AND (BIT KPF_RECLAIM OR BIT KPF_WRITEBACK) = BIT KPF_RECLAIM
    then g XOR (BIT KPF_RECLAIM OR BIT KPF_READAHEAD) else g)"
  have b1: "bit f1 n \<longleftrightarrow> (if n = 35 then False else if n = 49 then bit f 35 else bit f n)" for n
    unfolding f1_def using clear by (intro bit_move) simp_all
  have b2: "bit f2 n \<longleftrightarrow> (if n = 6 then False else if n = 50 then bit f1 6 else bit f1 n)" for n
    unfolding f2_def using clear by (intro bit_move) (simp_all add: b1)
  have b3: "bit f3 n \<longleftrightarrow> (if n = 1 then False else if n = 51 then bit f2 1 else bit f2 n)" for n
    unfolding f3_def using clear by (intro bit_move) (simp_all add: b1 b2)
  have bg: "bit g n \<longleftrightarrow> (if bit f 7 then bit f3 n else bit f n)" for n
    by (simp add: g_def and_BIT_iff [of 7 f])
  have cnd: "g AND (BIT KPF_RECLAIM OR BIT KPF_WRITEBACK) = BIT KPF_RECLAIM \<longleftrightarrow> bit g 9 \<and> \<not> bit g 8"
  proof
    assume eq: "g AND (BIT KPF_RECLAIM OR BIT KPF_WRITEBACK) = BIT KPF_RECLAIM"
    have "bit (g AND (BIT KPF_RECLAIM OR BIT KPF_WRITEBACK)) m \<longleftrightarrow> bit (BIT KPF_RECLAIM) m" for m
      by (simp only: eq)
    from this [of 9] this [of 8] show "bit g 9 \<and> \<not> bit g 8"
      by (simp add: bit_and_iff bit_or_iff bit_BIT)
  next
    assume "bit g 9 \<and> \<not> bit g 8"
    then show "g AND (BIT KPF_RECLAIM OR BIT KPF_WRITEBACK) = BIT KPF_RECLAIM"
      by (intro bit_word_eqI) (auto simp: bit_and_iff bit_or_iff bit_BIT)
  qed
  have bh: "bit h n \<longleftrightarrow> (if n = 9 then bit g 9 \<and> bit g 8
      else if n = 48 then bit g 9 \<and> \<not> bit g 8 else bit g n)" for n
    using clear unfolding h_def cnd
    by (auto simp: bit_xor_iff bit_or_iff bit_BIT bg b1 b2 b3 dest: bit_imp_le_length)
  have e: "expand_overloaded_flags f pme =
    (let a = (if pme AND PM_SOFT_DIRTY \<noteq> 0 then h OR BIT KPF_SOFTDIRTY else h);
         b = (if pme AND PM_FILE \<noteq> 0 then a OR BIT KPF_FILE else a)
     in if pme AND PM_MMAP_EXCLUSIVE \<noteq> 0 then b OR BIT KPF_MMAP_EXCLUSIVE else b)"
    unfolding expand_overloaded_flags_def f1_def [symmetric] Let_def
    by (simp only: f2_def [symmetric] f3_def [symmetric] g_def [symmetric] h_def [symmetric])
  have "bit (expand_overloaded_flags f pme) n \<longleftrightarrow> bit h n \<or> bit pme 55 \<and> n = KPF_SOFTDIRTY
      \<or> bit pme 61 \<and> n = KPF_FILE \<or> bit pme 56 \<and> n = KPF_MMAP_EXCLUSIVE"
    unfolding e Let_def and_pm_iff by (simp add: bit_add disj_ac)
  then show ?thesis
    using clear by (simp add: bh bg b1 b2 b3) blast
qed

theorem expand_overloaded_flags_bits_witness:
  "\<not> bit (0x80 OR 0x40 :: u64) 48 \<and> bit (expand_overloaded_flags (0x80 OR 0x40) 0) KPF_SLUB_FROZEN"
proof -
  have h: "\<not> bit (0x80 OR 0x40 :: u64) 48" "\<not> bit (0x80 OR 0x40 :: u64) 49"
    "\<not> bit (0x80 OR 0x40 :: u64) 50" "\<not> bit (0x80 OR 0x40 :: u64) 51"
    by (simp_all add: bit_numeral_rec)
  show ?thesis using h(1) expand_overloaded_flags_bits [OF h, of 0 KPF_SLUB_FROZEN]
    by (simp add: bit_numeral_rec)
qed

section \<open>Page frame numbers\<close>

lemma pagemap_pfn_bound: "pagemap_pfn e < 2 ^ 55"
proof -
  have "e AND mask 55 < 2 ^ 55" for e :: u64
    by (rule and_mask_less') simp
  then show ?thesis by (simp add: pagemap_pfn_def PM_PFRAME_def)
qed

lemma length_u64s_of_bytes: "length (u64s_of_bytes n bs) = n"
  by (induction n arbitrary: bs) simp_all

lemma do_u64_read_cases:
  "do_u64_read fd index count k s =
    (let c = Pread fd (count * 8) (index * 8); r = k (trace s) c; s' = s\<lparr>trace := trace s @ [c]\<rparr>
     in if index > (- 1) div 8 then (Exit 1, s)
        else if rv r < 0 \<or> rv r mod 8 \<noteq> 0 then (Exit 1, s')
        else (Val (u64s_of_bytes (nat (rv r div 8)) (bytes r)), s'))"
  by (simp add: do_u64_read_def prog_simps Let_def)

text \<open>
  \<open>get_pfn\<close> either ends the process with status 1 or returns at least as many frame
  numbers as were asked for, each below 2 to the 55; it never reads past the end of what
  the kernel supplied and never faults.
\<close>

theorem get_pfn_result:
  "case fst (get_pfn vaddr pid count k s) of
     Val pfns \<Rightarrow> count \<le> int (length pfns) \<and> list_all (\<lambda>p. p < 2 ^ 55) pfns
   | Exit c \<Rightarrow> c = 1
   | _ \<Rightarrow> False"
  by (cases "pid = 0")
    (auto simp: get_pfn_def prog_simps checked_open_def checked_close_def pagemap_read_def
      do_u64_read_cases length_u64s_of_bytes pagemap_pfn_bound [simplified] list_all_iff Let_def)

end
