(* ===== verification/Hugepage.thy ===== *)
theory Hugepage
  imports Pfn
begin

text \<open>
  Hugepage helpers, \<open>lib/hugepage.h\<close>: filling and checking hugepages with a pattern,
  finding the hugetlbfs mount, and allocating and freeing hugepages through shared memory,
  anonymous mappings and files.
\<close>

section \<open>State\<close>

record hpst = pfnst +
  HPS :: u64
  filepath :: string
  hugetlbfsdir :: string
  shmkey :: int
  hpfd :: int

definition GPS :: u64 where "GPS = 0x40000000"

abbreviation (input) SHM_HUGETLB :: int where "SHM_HUGETLB \<equiv> 0x800"
abbreviation (input) IPC_CREAT :: int where "IPC_CREAT \<equiv> 0x200"
abbreviation (input) SHM_R :: int where "SHM_R \<equiv> 0x100"
abbreviation (input) SHM_W :: int where "SHM_W \<equiv> 0x80"
abbreviation (input) IPC_RMID :: int where "IPC_RMID \<equiv> 0"

section \<open>The fill pattern\<close>

text \<open>The counters \<open>i\<close> and \<open>j\<close> of the code are \<open>int\<close>.  With hugepages of at most 1 GB and fewer than \<open>2^30\<close> of them, \<open>i + j\<close>
  stays below \<open>2^31\<close> and is the natural number used here; the offset \<open>i * HPS\<close> is a product in \<open>unsigned long\<close>.\<close>

definition pattern_char :: "nat \<Rightarrow> nat \<Rightarrow> char" where
  "pattern_char i j = char_of (97 + (i + j) mod 26 :: nat)"

definition hp_addr :: "addr \<Rightarrow> u64 \<Rightarrow> nat \<Rightarrow> addr" where
  "hp_addr a hps i = a + of_nat i * hps"

definition write_hugepage :: "addr \<Rightarrow> int \<Rightarrow> addr \<Rightarrow> ('z hpst_scheme, unit) prog" where
  "write_hugepage a nr_hugepage avoid_addr = bnd (get HPS) (\<lambda>hps.
     for_each [0..<nat nr_hugepage] (\<lambda>i.
       if hp_addr a hps i = avoid_addr then skip
       else for_each [0..<unat hps] (\<lambda>j.
         call (Store (hp_addr a hps i + of_nat j) (pattern_char i j)))))"

text \<open>One hugepage: read until the first byte that differs; \<open>True\<close> when one did.\<close>

fun read_one :: "addr \<Rightarrow> nat \<Rightarrow> nat list \<Rightarrow> ('z io_scheme, bool) prog" where
  "read_one p i [] = ret False"
| "read_one p i (j # js) = bnd (sysv (Load (p + of_nat j))) (\<lambda>v.
     if v \<noteq> int (of_char (pattern_char i j)) then ret True else read_one p i js)"

fun read_pages :: "addr \<Rightarrow> u64 \<Rightarrow> addr \<Rightarrow> nat list \<Rightarrow> int \<Rightarrow> ('z io_scheme, int) prog" where
  "read_pages a hps avoid_addr [] r = ret r"
| "read_pages a hps avoid_addr (i # is) r =
    (if hp_addr a hps i = avoid_addr then read_pages a hps avoid_addr is r
     else bnd (read_one (hp_addr a hps i) i [0..<unat hps]) (\<lambda>bad.
       read_pages a hps avoid_addr is (if bad then - 1 else r)))"

definition read_hugepage :: "addr \<Rightarrow> int \<Rightarrow> addr \<Rightarrow> ('z hpst_scheme, int) prog" where
  "read_hugepage a nr_hugepage avoid_addr = bnd (get HPS) (\<lambda>hps.
     read_pages a hps avoid_addr [0..<nat nr_hugepage] 0)"

section \<open>The hugetlbfs mount\<close>

definition scan_word :: "string \<Rightarrow> string \<times> string" where
  "scan_word s = (let s' = dropWhile isspace s in
     (takeWhile (\<lambda>c. \<not> isspace c) s', dropWhile (\<lambda>c. \<not> isspace c) s'))"

text \<open>
  \<open>sscanf(line, "%s %s hugetlbfs %[^ ]", dummy1, dir, dummy2)\<close>: the words stored and the
  number of conversions.
\<close>

definition scan_mount :: "string \<Rightarrow> string list" where
  "scan_mount line = (case scan_word line of (w1, r1) \<Rightarrow> if w1 = [] then [] else
     (case scan_word r1 of (w2, r2) \<Rightarrow> if w2 = [] then [w1] else
       (let r3 = dropWhile isspace r2 in
        if take 9 r3 \<noteq> ''hugetlbfs'' then [w1, w2]
        else (let w3 = takeWhile (\<lambda>c. c \<noteq> CHR '' '') (dropWhile isspace (drop 9 r3))
              in if w3 = [] then [w1, w2] else [w1, w2, w3]))))"

text \<open>The loop over the lines of \<open>/proc/mounts\<close>: whether one matched, and the contents of
  \<open>dir\<close>, which every line with two words overwrites.  \<open>None\<close>: a word does not fit its
  buffer.\<close>

fun mounts_loop :: "string list \<Rightarrow> string \<Rightarrow> (bool \<times> string) option" where
  "mounts_loop [] dir = Some (False, dir)"
| "mounts_loop (l # ls) dir = (case scan_mount l of
     [w1, w2, w3] \<Rightarrow> if 100 \<le> length w1 \<or> 256 \<le> length w2 \<or> 100 \<le> length w3 then None
                     else Some (True, w2)
   | [w1, w2] \<Rightarrow> if 100 \<le> length w1 \<or> 256 \<le> length w2 then None else mounts_loop ls w2
   | [w1] \<Rightarrow> if 100 \<le> length w1 then None else mounts_loop ls dir
   | _ \<Rightarrow> mounts_loop ls dir)"

definition hugetlbfs_root :: "string \<Rightarrow> ('z io_scheme, bool \<times> string) prog" where
  "hugetlbfs_root dir = bnd (sys (Fopen ''/proc/mounts'' ''r'')) (\<lambda>r.
     if rv r = 0 then exit_failure
     else case mounts_loop (entries r) dir of
       None \<Rightarrow> stop (Fault OutOfBounds)
     | Some found \<Rightarrow> sqn (call Fclose) (ret found))"

definition get_hugetlbfs_filepath :: "string \<Rightarrow> ('z hpst_scheme, unit) prog" where
  "get_hugetlbfs_filepath basename =
    bnd (get hugetlbfsdir) (\<lambda>dir0. bnd (hugetlbfs_root dir0) (\<lambda>(found, dir).
    sqn (put (\<lambda>s. s\<lparr>hugetlbfsdir := dir\<rparr>))
    (if \<not> found then exit_failure
     else bnd (sysv (Access dir 0)) (\<lambda>r.
       if r = - 1 then exit_failure
       else if 256 \<le> length (dir @ basename) then stop (Fault OutOfBounds)
       else put (\<lambda>s. s\<lparr>filepath := dir @ basename\<rparr>)))))"

text \<open>\<open>sscanf(name, "hugepages-%dkB", &n)\<close>: the number, when there is one.\<close>

definition scan_hugepages :: "string \<Rightarrow> int option" where
  "scan_hugepages name = (if take 10 name \<noteq> ''hugepages-'' then None
     else case strto 10 (drop 10 name) of (neg, n, r) \<Rightarrow>
       if r = drop 10 name then None else Some (s32 (if neg then - int n else int n)))"

definition gethugepagesize :: "('z io_scheme, int) prog" where
  "gethugepagesize = bnd (sys (Opendir ''/sys/kernel/mm/hugepages'')) (\<lambda>r.
     if rv r = 0 then exit_failure
     else let hpagesize = (case List.map_filter scan_hugepages (entries r) of [] \<Rightarrow> 0 | n # _ \<Rightarrow> n)
          in sqn (call Closedir) (ret (s32 (hpagesize * 1024))))"

section \<open>Allocation\<close>

text \<open>A NULL pointer is the address 0.\<close>

definition alloc_shm_hugepage :: "int \<Rightarrow> ('z hpst_scheme, addr) prog" where
  "alloc_shm_hugepage sz = bnd (get shmkey) (\<lambda>key.
    bnd (sysv (Shmget key (ul sz) (SHM_HUGETLB OR IPC_CREAT OR SHM_R OR SHM_W))) (\<lambda>shmid.
      if shmid < 0 then ret 0
      else bnd (sysv (Shmat shmid 0 0)) (\<lambda>r. let a = ul r in
        if a = - 1 then sqn (call (Shmctl shmid IPC_RMID)) (ret 0)
        else sqn (put (\<lambda>s. s\<lparr>shmkey := shmid\<rparr>)) (ret a))))"

definition alloc_shm_hugepage2 :: "int \<Rightarrow> addr \<Rightarrow> ('z hpst_scheme, addr) prog" where
  "alloc_shm_hugepage2 sz exp_addr = bnd (get shmkey) (\<lambda>key.
    bnd (sysv (Shmget key (ul sz) (SHM_HUGETLB OR IPC_CREAT OR SHM_R OR SHM_W))) (\<lambda>shmid.
      if shmid < 0 then ret 0
      else bnd (sysv (Shmat shmid exp_addr 0)) (\<lambda>r. let a = ul r in
        if a = - 1 then sqn (call (Shmctl shmid IPC_RMID)) exit_failure
        else if a \<noteq> exp_addr then sqn (call (Shmctl shmid IPC_RMID)) exit_failure
        else sqn (put (\<lambda>s. s\<lparr>shmkey := shmid\<rparr>)) (ret a))))"

definition alloc_anonymous_hugepage :: "int \<Rightarrow> bool \<Rightarrow> addr \<Rightarrow> ('z io_scheme, addr) prog" where
  "alloc_anonymous_hugepage sz private exp_addr =
    bnd (sysv (Mmap exp_addr (ul sz) MMAP_PROT
      (MAP_ANONYMOUS OR 0x40000 OR (if private then MAP_PRIVATE else MAP_SHARED)) (- 1) 0)) (\<lambda>r.
      let a = ul r in
      if a = - 1 then exit_failure
      else if exp_addr \<noteq> 0 \<and> a \<noteq> exp_addr then exit_failure
      else ret a)"

definition alloc_filebacked_hugepage :: "int \<Rightarrow> bool \<Rightarrow> ('z hpst_scheme, addr) prog" where
  "alloc_filebacked_hugepage sz private = bnd (get filepath) (\<lambda>path.
    bnd (sysv (Open path (O_CREAT OR O_RDWR) 0x1FF)) (\<lambda>fd.
    sqn (put (\<lambda>s. s\<lparr>hpfd := fd\<rparr>))
    (if fd < 0 then ret 0
     else bnd (sysv (Mmap 0 (ul sz) MMAP_PROT (if private then MAP_PRIVATE else MAP_SHARED) fd 0)) (\<lambda>r.
       let a = ul r in if a = - 1 then sqn (call (Unlink path)) (ret 0) else ret a))))"

definition alloc_hugepage :: "int \<Rightarrow> int \<Rightarrow> bool \<Rightarrow> ('z hpst_scheme, addr) prog" where
  "alloc_hugepage sz hptype private =
    bnd (if hptype = 2 then alloc_shm_hugepage sz
         else if hptype = 1 then alloc_anonymous_hugepage sz private 0
         else alloc_filebacked_hugepage sz private)
     (\<lambda>a. if a = 0 then exit_failure else ret a)"

definition free_shm_hugepage :: "int \<Rightarrow> addr \<Rightarrow> ('z io_scheme, int) prog" where
  "free_shm_hugepage key a = bnd (sysv (Shmdt a)) (\<lambda>r.
     sqn (call (Shmctl key IPC_RMID)) (ret (if r \<noteq> 0 then - 1 else 0)))"

definition free_anonymous_hugepage :: "addr \<Rightarrow> int \<Rightarrow> ('z io_scheme, int) prog" where
  "free_anonymous_hugepage a sz = bnd (sysv (Munmap a (ul sz))) (\<lambda>r. ret (if r \<noteq> 0 then - 1 else 0))"

text \<open>The array \<open>filepath\<close> is never a null pointer, so the file is always unlinked.\<close>

definition free_filebacked_hugepage :: "addr \<Rightarrow> int \<Rightarrow> ('z hpst_scheme, int) prog" where
  "free_filebacked_hugepage a sz = bnd (sysv (Munmap a (ul sz))) (\<lambda>r1.
     bnd (get hpfd) (\<lambda>fd. bnd (sysv (Close fd)) (\<lambda>r2.
     bnd (get filepath) (\<lambda>path. bnd (sysv (Unlink path)) (\<lambda>r3.
     ret (if r1 \<noteq> 0 \<or> r2 \<noteq> 0 \<or> r3 \<noteq> 0 then - 1 else 0))))))"

definition free_hugepage :: "addr \<Rightarrow> int \<Rightarrow> int \<Rightarrow> ('z hpst_scheme, unit) prog" where
  "free_hugepage a hptype sz =
    bnd (if hptype = 2 then bnd (get shmkey) (\<lambda>key. free_shm_hugepage key a)
         else if hptype = 1 then free_anonymous_hugepage a sz
         else free_filebacked_hugepage a sz)
     (\<lambda>r. if r = - 1 then stop (Exit 2) else skip)"

section \<open>Writing and reading back\<close>

text \<open>
  What the memory holds at an address after a sequence of calls, as far as the program's own
  stores determine it: any call that may remap or rewrite memory forgets it.  A kernel is
  coherent when a load returns what was stored last.
\<close>

definition mem_step :: "addr \<Rightarrow> sys \<Rightarrow> char option \<Rightarrow> char option" where
  "mem_step a c m = (case c of
     Store b v \<Rightarrow> if b = a then Some v else m
   | Memset b v n \<Rightarrow> if a - b < n then Some v else m
   | Load b \<Rightarrow> m | Poll \<Rightarrow> m | Getpid \<Rightarrow> m | Stdout x \<Rightarrow> m
   | _ \<Rightarrow> None)"

definition mem_at :: "sys list \<Rightarrow> addr \<Rightarrow> char option" where
  "mem_at h a = fold (mem_step a) h None"

definition coherent :: "kernel \<Rightarrow> bool" where
  "coherent k \<longleftrightarrow> (\<forall>h a v. mem_at h a = Some v \<longrightarrow> rv (k h (Load a)) = int (of_char v))"

lemma mem_at_snoc [simp]: "mem_at (h @ [c]) a = mem_step a c (mem_at h a)"
  by (simp add: mem_at_def)

lemma mem_at_stores:
  assumes "p \<in> set ps" "inj_on ad (set ps)"
  shows "mem_at (h @ map (\<lambda>q. Store (ad q) (pt q)) ps) (ad p) = Some (pt p)"
  using assms
proof (induction ps rule: rev_induct)
  case Nil
  then show ?case by simp
next
  case (snoc x ps)
  show ?case
  proof (cases "ad p = ad x")
    case True
    then have "p = x" using snoc.prems by (meson in_set_conv_decomp inj_onD)
    then show ?thesis by (simp add: append_assoc [symmetric] mem_step_def del: append_assoc)
  next
    case False
    then have "p \<in> set ps" using snoc.prems(1) by auto
    with snoc False show ?thesis
      by (auto simp: append_assoc [symmetric] mem_step_def simp del: append_assoc)
  qed
qed

definition reads_back :: "sys list \<Rightarrow> addr \<Rightarrow> nat \<Rightarrow> nat list \<Rightarrow> bool" where
  "reads_back h p i js \<longleftrightarrow> (\<forall>j \<in> set js. mem_at h (p + of_nat j) = Some (pattern_char i j))"

lemma reads_back_load: "reads_back (h @ [Load b]) p i js = reads_back h p i js"
  by (simp add: reads_back_def mem_step_def)

lemma read_one_ok:
  assumes "coherent k" "reads_back (trace s) p i js"
  shows "\<exists>ls. read_one p i js k s = (Val False, s\<lparr>trace := trace s @ map Load ls\<rparr>)"
  using assms(2)
proof (induction js arbitrary: s)
  case Nil
  show ?case by (rule exI [of _ "[]"]) (simp add: prog_simps)
next
  case (Cons j js)
  let ?l = "Load (p + of_nat j)"
  have "rv (k (trace s) ?l) = int (of_char (pattern_char i j))"
    using Cons.prems assms(1) by (simp add: coherent_def reads_back_def)
  moreover have "reads_back (trace (s\<lparr>trace := trace s @ [?l]\<rparr>)) p i js"
    using Cons.prems by (simp add: reads_back_load) (simp add: reads_back_def)
  then obtain ls where "read_one p i js k (s\<lparr>trace := trace s @ [?l]\<rparr>)
      = (Val False, s\<lparr>trace := trace s @ ?l # map Load ls\<rparr>)"
    using Cons.IH by fastforce
  ultimately show ?case
    by (intro exI [of _ "(p + of_nat j) # ls"]) (simp add: prog_simps)
qed

lemma reads_back_loads: "reads_back (h @ map Load ls) p i js = reads_back h p i js"
proof (induction ls rule: rev_induct)
  case (snoc x xs)
  then show ?case using reads_back_load [of "h @ map Load xs"] by simp
qed simp

lemma read_pages_ok:
  assumes "coherent k"
    "\<And>i. i \<in> set is \<Longrightarrow> hp_addr a hps i \<noteq> avoid \<Longrightarrow> reads_back (trace s) (hp_addr a hps i) i [0..<unat hps]"
  shows "fst (read_pages a hps avoid is r k s) = Val r"
  using assms(2)
proof (induction "is" arbitrary: s)
  case Nil
  show ?case by (simp add: prog_simps)
next
  case (Cons i "is")
  show ?case
  proof (cases "hp_addr a hps i = avoid")
    case True
    then show ?thesis using Cons by simp
  next
    case False
    obtain ls where r: "read_one (hp_addr a hps i) i [0..<unat hps] k s
        = (Val False, s\<lparr>trace := trace s @ map Load ls\<rparr>)"
      using read_one_ok [OF assms(1) Cons.prems [OF _ False]] by auto
    show ?thesis
      using False Cons.prems by (simp add: prog_simps r) (intro Cons.IH, simp add: reads_back_loads)
  qed
qed

text \<open>The pairs of page and byte that \<open>write_hugepage\<close> stores to.\<close>

definition hp_cells :: "addr \<Rightarrow> u64 \<Rightarrow> nat \<Rightarrow> addr \<Rightarrow> (nat \<times> nat) list" where
  "hp_cells a hps nr avoid = concat (map (\<lambda>i. if hp_addr a hps i = avoid then []
     else map (Pair i) [0..<unat hps]) [0..<nr])"

lemma write_hugepage_trace:
  "write_hugepage a nr avoid k s = (Val (), s\<lparr>trace := trace s @
     map (\<lambda>(i, j). Store (hp_addr a (HPS s) i + of_nat j) (pattern_char i j))
       (hp_cells a (HPS s) (nat nr) avoid)\<rparr>)"
proof -
  let ?g = "\<lambda>i. if hp_addr a (HPS s) i = avoid then [] else
    map (\<lambda>j. Store (hp_addr a (HPS s) i + of_nat j) (pattern_char i j)) [0..<unat (HPS s)]"
  have "map (\<lambda>(i, j). Store (hp_addr a (HPS s) i + of_nat j) (pattern_char i j))
      (hp_cells a (HPS s) (nat nr) avoid) = concat (map ?g [0..<nat nr])"
    unfolding hp_cells_def map_concat map_map
    by (intro arg_cong [of _ _ concat] map_cong) (auto simp: comp_def)
  then show ?thesis
    by (simp add: write_hugepage_def prog_simps)
      (rule for_each_calls, auto simp: prog_simps for_each_call)
qed

lemma hp_cells_inj:
  assumes "nr * unat hps \<le> 2 ^ 64"
  shows "inj_on (\<lambda>(i, j). hp_addr a hps i + of_nat j) (set (hp_cells a hps nr avoid))"
proof (rule inj_onI)
  fix p q
  assume pq: "p \<in> set (hp_cells a hps nr avoid)" "q \<in> set (hp_cells a hps nr avoid)"
    and eq: "(case p of (i, j) \<Rightarrow> hp_addr a hps i + of_nat j) = (case q of (i, j) \<Rightarrow> hp_addr a hps i + of_nat j)"
  obtain i j i' j' where p: "p = (i, j)" and q: "q = (i', j')" by (cases p, cases q)
  from pq have b: "i < nr" "j < unat hps" "i' < nr" "j' < unat hps"
    by (auto simp: p q hp_cells_def split: if_splits)
  have lt: "x * unat hps + y < 2 ^ 64" if "x < nr" "y < unat hps" for x y
  proof -
    have "x * unat hps + y < (x + 1) * unat hps" using that by simp
    also have "\<dots> \<le> nr * unat hps" using that by (intro mult_le_mono1) simp
    finally show ?thesis using assms by linarith
  qed
  have u: "unat (of_nat x * hps + of_nat y) = x * unat hps + y" if "x < nr" "y < unat hps" for x y
  proof -
    have "of_nat x * hps + of_nat y = (of_nat (x * unat hps + y) :: u64)" by simp
    then show ?thesis using lt [OF that] by (simp only: unat_of_nat) simp
  qed
  from eq have "of_nat i * hps + of_nat j = of_nat i' * hps + of_nat j'"
    by (simp add: p q hp_addr_def)
  then have "i * unat hps + j = i' * unat hps + j'" using u b by metis
  then have "(i * unat hps + j) div unat hps = (i' * unat hps + j') div unat hps"
    "(i * unat hps + j) mod unat hps = (i' * unat hps + j') mod unat hps" by simp_all
  then show "p = q" using b by (simp add: p q)
qed

text \<open>
  C36: what \<open>write_hugepage\<close> fills in, \<open>read_hugepage\<close> accepts: on a kernel whose loads
  return what was stored, reading back the same hugepages (the avoided one left out both
  times) returns 0, for any hugepage size and count that fit the address space.
\<close>

theorem write_read_hugepage:
  assumes "coherent k" "nat nr * unat (HPS s) \<le> 2 ^ 64"
  shows "fst (read_hugepage a nr avoid k (snd (write_hugepage a nr avoid k s))) = Val 0"
proof -
  let ?cells = "hp_cells a (HPS s) (nat nr) avoid"
  let ?s = "s\<lparr>trace := trace s @
     map (\<lambda>(i, j). Store (hp_addr a (HPS s) i + of_nat j) (pattern_char i j)) ?cells\<rparr>"
  have "reads_back (trace ?s) (hp_addr a (HPS s) i) i [0..<unat (HPS s)]"
    if i: "i \<in> set [0..<nat nr]" "hp_addr a (HPS s) i \<noteq> avoid" for i
  proof -
    have "mem_at (trace ?s) (hp_addr a (HPS s) i + of_nat j) = Some (pattern_char i j)"
      if "j < unat (HPS s)" for j
    proof -
      have "(i, j) \<in> set ?cells" using i that by (fastforce simp: hp_cells_def)
      from mem_at_stores [OF this hp_cells_inj [OF assms(2)], of "trace s" "\<lambda>(i, j). pattern_char i j"]
      show ?thesis by (simp add: case_prod_unfold)
    qed
    then show ?thesis by (simp add: reads_back_def)
  qed
  then show ?thesis
    using read_pages_ok [OF assms(1), of "[0..<nat nr]" a "HPS s" avoid ?s 0]
    by (simp add: write_hugepage_trace read_hugepage_def prog_simps)
qed

text \<open>A kernel that answers loads from the stores before it.\<close>

definition mem_kernel :: kernel where
  "mem_kernel h c = (case c of
     Load a \<Rightarrow> ok\<lparr>rv := (case mem_at h a of None \<Rightarrow> 0 | Some v \<Rightarrow> int (of_char v))\<rparr>
   | _ \<Rightarrow> ok)"

lemma mem_kernel_coherent: "coherent mem_kernel"
  by (simp add: coherent_def mem_kernel_def)

definition hpst0 :: hpst where
  "hpst0 = \<lparr>trace = [], verbose = 0, testpipe = None, pprintf_wait_flag = 0, opt_raw = 0,
     nr_bit_filters = 0, opt_mask = [0], opt_bits = [0], pagemap_fd = 0, kpageflags_fd = 0,
     kpagecount_fd = 0, HPS = 0x200000, filepath = [], hugetlbfsdir = [], shmkey = 0, hpfd = 0\<rparr>"

theorem write_read_hugepage_witness:
  "fst (read_hugepage 0x700000000000 4 0x700000200000 mem_kernel
     (snd (write_hugepage 0x700000000000 4 0x700000200000 mem_kernel hpst0))) = Val 0"
  by (rule write_read_hugepage [OF mem_kernel_coherent]) (simp add: hpst0_def)

section \<open>Allocation and release\<close>

text \<open>
  C37: shared-memory hugepages do not leak.  When \<open>alloc_hugepage\<close> of type 2 succeeds, the
  segment it created is the one \<open>free_hugepage\<close> detaches and removes; when it fails after
  creating a segment, that segment has been removed before the process exits.
\<close>

theorem shm_hugepage_no_leak:
  assumes attach: "\<And>h i. ul (rv (k h (Shmat i 0 0))) \<noteq> 0"
    and g: "g = Shmget (shmkey s) (ul sz) (SHM_HUGETLB OR IPC_CREAT OR SHM_R OR SHM_W)"
    and shmid: "shmid = rv (k (trace s) g)"
  shows "case alloc_hugepage sz 2 private k s of (out, s') \<Rightarrow> (case out of
      Val a \<Rightarrow> trace s' = trace s @ [g, Shmat shmid 0 0] \<and>
        trace (snd (free_hugepage a 2 sz k' s')) = trace s' @ [Shmdt a, Shmctl shmid IPC_RMID]
    | _ \<Rightarrow> out = Exit 1 \<and>
        trace s' = trace s @ g # (if shmid < 0 then [] else [Shmat shmid 0 0, Shmctl shmid IPC_RMID]))"
  using attach [of "trace s @ [g]" shmid] unfolding g shmid
  by (auto simp: alloc_hugepage_def alloc_shm_hugepage_def free_hugepage_def free_shm_hugepage_def
      prog_simps Let_def)

theorem shm_hugepage_no_leak_witness:
  "case alloc_hugepage 0x200000 2 True (\<lambda>h c. ok\<lparr>rv := 7\<rparr>) hpst0 of (out, s') \<Rightarrow> (case out of
      Val a \<Rightarrow> trace s' = [] @ [Shmget 0 0x200000 0xB80, Shmat 7 0 0] \<and>
        trace (snd (free_hugepage a 2 0x200000 (\<lambda>h c. ok) s')) = trace s' @ [Shmdt a, Shmctl 7 IPC_RMID]
    | _ \<Rightarrow> False)"
  using shm_hugepage_no_leak [of "\<lambda>h c. ok\<lparr>rv := 7\<rparr>" "Shmget 0 0x200000 0xB80" hpst0 "0x200000" 7 "\<lambda>h c. ok" True]
  by (simp add: hpst0_def alloc_hugepage_def alloc_shm_hugepage_def prog_simps Let_def)

end
