(* ===== verification/KeyValue.thy ===== *)
theory KeyValue
  imports Prelude
begin

text \<open>
  The interface of an operation's arguments: a small key/value store with at most one value
  per key, in which an empty value reads as absent and an update may fail because a C
  buffer is too small.  Both \<open>lib/include.h\<close> and \<open>lib/hugetlb_1gb.c\<close> implement it.
\<close>

section \<open>Searching an array of strings\<close>

text \<open>The index of the first element equal to the key, as the \<open>strcmp\<close> loops compute it.\<close>

fun key_index :: "string list \<Rightarrow> string \<Rightarrow> nat option" where
  "key_index [] key = None"
| "key_index (k # ks) key = (if k = key then Some 0 else map_option Suc (key_index ks key))"

lemma key_index_None [simp]: "key_index ks key = None \<longleftrightarrow> key \<notin> set ks"
  by (induction ks) auto

lemma key_index_Some: "key_index ks key = Some i \<Longrightarrow> i < length ks \<and> ks ! i = key"
  by (induction ks arbitrary: i) (auto split: if_splits)

lemma key_index_less [dest]: "key_index ks key = Some i \<Longrightarrow> i < length ks"
  by (simp add: key_index_Some)

lemma key_index_mem: "key_index ks key = Some i \<Longrightarrow> key \<in> set ks"
  by (metis key_index_None option.distinct(1))

lemma key_index_first: "key_index ks key = Some i \<Longrightarrow> j < i \<Longrightarrow> ks ! j \<noteq> key"
  by (induction ks arbitrary: i j) (auto split: if_splits simp: nth_Cons split: nat.splits)

lemma key_index_append_in: "key \<in> set ks \<Longrightarrow> key_index (ks @ ls) key = key_index ks key"
  by (induction ks) auto

lemma key_index_append_notin:
  "key \<notin> set ks \<Longrightarrow> key_index (ks @ ls) key = map_option (\<lambda>i. i + length ks) (key_index ls key)"
  by (induction ks) (auto simp: option.map_comp comp_def option.map_ident)

lemma key_index_inj: "key_index ks a = Some i \<Longrightarrow> key_index ks b = Some i \<Longrightarrow> a = b"
  using key_index_Some by metis

section \<open>The interface\<close>

locale kv_store =
  fixes defd :: "'c \<Rightarrow> string \<Rightarrow> bool"
    and get_value :: "'c \<Rightarrow> string \<Rightarrow> string option"
    and set_value :: "'c \<Rightarrow> string \<Rightarrow> string \<Rightarrow> fault + 'c"
    and inv :: "'c \<Rightarrow> bool"
  assumes get_set_same: "inv c \<Longrightarrow> set_value c k v = Inr c' \<Longrightarrow>
      get_value c' k = (if v = [] then None else Some v)"
    and get_set_other: "inv c \<Longrightarrow> set_value c k v = Inr c' \<Longrightarrow> k' \<noteq> k \<Longrightarrow> get_value c' k' = get_value c k'"
    and defd_set: "inv c \<Longrightarrow> set_value c k v = Inr c' \<Longrightarrow> defd c' k' \<longleftrightarrow> k' = k \<or> defd c k'"
    and inv_set: "inv c \<Longrightarrow> set_value c k v = Inr c' \<Longrightarrow> inv c'"
    and get_defd: "inv c \<Longrightarrow> get_value c k = Some v \<Longrightarrow> defd c k \<and> v \<noteq> []"
begin

text \<open>Setting a list of keys one after the other, as the composite operations do.\<close>

fun set_values :: "'c \<Rightarrow> (string \<times> string) list \<Rightarrow> fault + 'c" where
  "set_values c [] = Inr c"
| "set_values c ((k, v) # kvs) = (case set_value c k v of Inl f \<Rightarrow> Inl f | Inr c' \<Rightarrow> set_values c' kvs)"

lemma set_values_inv: "inv c \<Longrightarrow> set_values c kvs = Inr c' \<Longrightarrow> inv c'"
proof (induction kvs arbitrary: c)
  case (Cons kv kvs)
  obtain a v where kv: "kv = (a, v)" by (cases kv)
  from Cons.prems obtain c1 where "set_value c a v = Inr c1" "set_values c1 kvs = Inr c'"
    by (auto simp: kv split: sum.splits)
  then show ?case using Cons.IH [of c1] inv_set [OF Cons.prems(1)] by blast
qed simp

lemma set_values_other:
  "inv c \<Longrightarrow> set_values c kvs = Inr c' \<Longrightarrow> k \<notin> fst ` set kvs \<Longrightarrow> get_value c' k = get_value c k"
proof (induction kvs arbitrary: c)
  case (Cons kv kvs)
  obtain a v where kv: "kv = (a, v)" by (cases kv)
  from Cons.prems obtain c1 where c1: "set_value c a v = Inr c1" "set_values c1 kvs = Inr c'"
    by (auto simp: kv split: sum.splits)
  then have "get_value c' k = get_value c1 k"
    using Cons inv_set [OF _ c1(1)] by (simp add: kv)
  also have "\<dots> = get_value c k"
    using Cons.prems get_set_other [OF _ c1(1)] by (simp add: kv)
  finally show ?case .
qed simp

text \<open>After setting distinct keys every one of them reads as its value.\<close>

lemma set_values_get:
  assumes "inv c" "set_values c kvs = Inr c'" "distinct (map fst kvs)" "(k, v) \<in> set kvs"
  shows "get_value c' k = (if v = [] then None else Some v)"
  using assms
proof (induction kvs arbitrary: c)
  case (Cons kv kvs)
  obtain a w where kv: "kv = (a, w)" by (cases kv)
  from Cons.prems obtain c1 where c1: "set_value c a w = Inr c1" "set_values c1 kvs = Inr c'"
    by (auto simp: kv split: sum.splits)
  have i: "inv c1" using Cons.prems(1) c1(1) by (rule inv_set)
  show ?case
  proof (cases "(k, v) \<in> set kvs")
    case True
    then show ?thesis using Cons.IH [OF i c1(2)] Cons.prems(3) by simp
  next
    case False
    then have "k = a" "v = w" using Cons.prems(4) by (auto simp: kv)
    moreover have "k \<notin> fst ` set kvs" using Cons.prems(3) calculation(1) by (simp add: kv)
    ultimately show ?thesis
      using set_values_other [OF i c1(2)] get_set_same [OF Cons.prems(1) c1(1)] by simp
  qed
qed simp

lemma set_values_defd:
  "inv c \<Longrightarrow> set_values c kvs = Inr c' \<Longrightarrow> defd c' k \<longleftrightarrow> k \<in> fst ` set kvs \<or> defd c k"
proof (induction kvs arbitrary: c)
  case (Cons kv kvs)
  obtain a w where kv: "kv = (a, w)" by (cases kv)
  from Cons.prems obtain c1 where c1: "set_value c a w = Inr c1" "set_values c1 kvs = Inr c'"
    by (auto simp: kv split: sum.splits)
  then show ?case using Cons inv_set [OF _ c1(1)] defd_set [OF _ c1(1)] by (auto simp: kv)
qed simp

end

end
