(* ===== verification/OpControl.thy ===== *)
theory OpControl
  imports Hugepage KeyValue
begin

text \<open>
  Operation descriptions of \<open>lib/include.h\<close>: the \<open>op_control\<close> structure, its key/value
  accessors, the tables of operations and of the arguments each supports, and the parser
  of one operation string \<open>name:key=value:key:...\<close>.
\<close>

section \<open>The structure\<close>

text \<open>
  \<open>keys\<close> and \<open>values\<close> are arrays of 10 pointers of which \<open>nr_args\<close> are in use;
  \<open>value_size\<close> is the size of the buffer behind each value.  \<open>tag\<close> points into
  the array of values, so it is kept as an index.
\<close>

record op_control =
  opc_name :: string
  opc_wait_before :: int
  opc_wait_after :: int
  opc_tag :: "nat option"
  opc_keys :: "string list"
  opc_values :: "string list"
  opc_value_size :: "nat list"
  opc_nr_args :: nat

abbreviation (input) OP_CONTROL_KEY_SIZE :: nat where "OP_CONTROL_KEY_SIZE \<equiv> 64"
abbreviation (input) OP_CONTROL_VALUE_SIZE :: nat where "OP_CONTROL_VALUE_SIZE \<equiv> 128"

definition opc_defined :: "op_control \<Rightarrow> string \<Rightarrow> bool" where
  "opc_defined opc key \<longleftrightarrow> key_index (take (opc_nr_args opc) (opc_keys opc)) key \<noteq> None"

definition opc_get_value :: "op_control \<Rightarrow> string \<Rightarrow> string option" where
  "opc_get_value opc key =
    (case key_index (take (opc_nr_args opc) (opc_keys opc)) key of
       None \<Rightarrow> None
     | Some i \<Rightarrow> if opc_values opc ! i = [] then None else Some (opc_values opc ! i))"

text \<open>
  An existing value is overwritten in its buffer; a new key gets two buffers of 64 bytes in
  the next slot of the arrays.
\<close>

definition opc_set_value :: "op_control \<Rightarrow> string \<Rightarrow> string \<Rightarrow> fault + op_control" where
  "opc_set_value opc key val =
    (case key_index (take (opc_nr_args opc) (opc_keys opc)) key of
       Some i \<Rightarrow> if opc_value_size opc ! i \<le> length val then Inl OutOfBounds
                 else Inr (opc\<lparr>opc_values := (opc_values opc)[i := val]\<rparr>)
     | None \<Rightarrow> if 10 \<le> opc_nr_args opc \<or> 64 \<le> length key \<or> 64 \<le> length val then Inl OutOfBounds
               else Inr (opc\<lparr>opc_keys := take (opc_nr_args opc) (opc_keys opc) @ [key],
                             opc_values := take (opc_nr_args opc) (opc_values opc) @ [val],
                             opc_value_size := take (opc_nr_args opc) (opc_value_size opc) @ [64],
                             opc_nr_args := opc_nr_args opc + 1\<rparr>))"

definition print_opc :: "op_control \<Rightarrow> ('z core_scheme, unit) prog" where
  "print_opc opc =
    seqs (Dprintf (''===> op_name:'' @ opc_name opc)
      # map (\<lambda>i. Dprintf (if opc_values opc ! i = [] then '', '' @ opc_keys opc ! i
           else '', '' @ opc_keys opc ! i @ ''='' @ opc_values opc ! i)) [0..<opc_nr_args opc]
      @ [Dprintf [CHR 0x0A]])"

section \<open>The tables\<close>

definition operation_name :: "string list" where
  "operation_name =
    [''start'', ''noop'', ''exit'', ''open'', ''mmap'', ''mmap_numa'', ''access'', ''busyloop'',
     ''munmap'', ''mbind'', ''move_pages'', ''mlock'', ''mlock2'', ''memory_error_injection'',
     ''auto_numa'', ''mprotect'', ''change_cpuset'', ''migratepages'', ''memory_compaction'',
     ''allocate_more'', ''madv_soft'', ''iterate_mapping'', ''iterate_fault_dontneed'',
     ''iterate_mlock'', ''iterate_write_fsync'', ''mremap'', ''mremap_stress'', ''hotremove'',
     ''process_vm_access'', ''fork_stress'', ''mbind_pingpong'', ''move_pages_pingpong'',
     ''mbind_fuzz'', ''fork'', ''split_thp'', ''fork_pmd_split'', ''madvise'', ''vm86'', ''prctl'',
     ''set_mempolicy'']"

definition op_supported_args :: "string list list" where
  "op_supported_args =
    [[], [], [], [''path''], [], [''preferred_cpu_node'', ''preferred_mem_node''],
     [''type'', ''check'', ''reverse''], [''type''], [''hp_partial''], [''hp_partial'', ''flags''],
     [], [''hp_partial''], [''hp_partial''],
     [''error_type'', ''access_after_injection'', ''error_offset''], [''busyloop''],
     [''hp_partial'', ''permission''], [''busyloop''], [''busyloop''], [], [], [], [], [], [], [],
     [], [], [''busyloop'', ''pageflags''], [''busyloop''], [], [], [], [], [], [''only_pmd''], [],
     [''advice'', ''size'', ''hp_partial'', ''offset'', ''length'', ''step''], [],
     [''early_kill'', ''late_kill''], [''mode'', ''node'']]"

text \<open>\<open>None\<close>: the function ends without returning a value.\<close>

definition get_op_index :: "op_control \<Rightarrow> nat option" where
  "get_op_index opc = key_index operation_name (opc_name opc)"

section \<open>Parsing\<close>

text \<open>
  One argument: scan it into fresh buffers of 64 and 128 bytes, note the waits and the tag,
  otherwise require that the operation supports the key.
\<close>

definition parse_one_arg :: "op_control \<Rightarrow> string \<Rightarrow> op_control outcome" where
  "parse_one_arg opc arg =
    (case scan_key_value arg of (key, val) \<Rightarrow>
      if OP_CONTROL_KEY_SIZE \<le> length key \<or> OP_CONTROL_VALUE_SIZE \<le> length val then Fault OutOfBounds
      else let i = length (opc_keys opc);
               opc' = opc\<lparr>opc_keys := opc_keys opc @ [key], opc_values := opc_values opc @ [val],
                          opc_value_size := opc_value_size opc @ [OP_CONTROL_VALUE_SIZE]\<rparr>
           in if key = ''wait_before'' then Val (opc'\<lparr>opc_wait_before := 1\<rparr>)
              else if key = ''wait_after'' then Val (opc'\<lparr>opc_wait_after := 1\<rparr>)
              else if key = ''tag'' then Val (opc'\<lparr>opc_tag := Some i\<rparr>)
              else case get_op_index opc of
                None \<Rightarrow> Fault UnsetValue
              | Some op_idx \<Rightarrow> if key \<in> set (op_supported_args ! op_idx) then Val opc' else Exit 1)"

fun parse_operation_arg :: "op_control \<Rightarrow> string list \<Rightarrow> op_control outcome" where
  "parse_operation_arg opc [] = Val opc"
| "parse_operation_arg opc (arg # args) = (case parse_one_arg opc arg of
     Val opc' \<Rightarrow> parse_operation_arg opc' args
   | r \<Rightarrow> r)"

definition opc_zero :: op_control where
  "opc_zero = \<lparr>opc_name = [], opc_wait_before = 0, opc_wait_after = 0, opc_tag = None,
     opc_keys = [], opc_values = [], opc_value_size = [], opc_nr_args = 0\<rparr>"

lemma opc_zero_sel:
  fixes nm :: string and n :: nat
  defines "z \<equiv> opc_zero\<lparr>opc_name := nm, opc_nr_args := n\<rparr>"
  shows "opc_name z = nm" "opc_nr_args z = n" "opc_wait_before z = 0" "opc_wait_after z = 0"
    "opc_tag z = None" "opc_keys z = []" "opc_values z = []" "opc_value_size z = []"
  by (simp_all add: z_def opc_zero_def)

text \<open>
  The string is copied into a buffer of 256 bytes and cut at the colons; \<open>args\<close> has room
  for 10 pointers.
\<close>

definition parse_opc :: "string \<Rightarrow> op_control outcome" where
  "parse_opc str =
    (if 256 \<le> length str then Fault OutOfBounds
     else case tokens '':'' str of
       [] \<Rightarrow> Fault NullDeref
     | nm # args \<Rightarrow> if 10 < length args then Fault OutOfBounds
         else parse_operation_arg (opc_zero\<lparr>opc_name := nm, opc_nr_args := length args\<rparr>) args)"

definition lift :: "'a outcome \<Rightarrow> ('s, 'a) prog" where
  "lift r = stop r"

definition parse_operation_args :: "string \<Rightarrow> ('z core_scheme, op_control) prog" where
  "parse_operation_args str = bnd (lift (parse_opc str)) (\<lambda>opc. sqn (print_opc opc) (ret opc))"

section \<open>Waiting before and after an operation\<close>

definition wait_key_string :: "string \<Rightarrow> op_control \<Rightarrow> string" where
  "wait_key_string pos opc = pos @ ''_'' @ opc_name opc @
     (case opc_tag opc of Some i \<Rightarrow> ''_'' @ opc_values opc ! i | None \<Rightarrow> [])"

definition do_wait :: "nat \<Rightarrow> string \<Rightarrow> string option \<Rightarrow> op_control \<Rightarrow> ('z core_scheme, unit) prog" where
  "do_wait fuel pos sleep opc =
    (let key = wait_key_string pos opc in
     if 256 \<le> length key then stop (Fault OutOfBounds)
     else sqn (case sleep of None \<Rightarrow> skip
               | Some t \<Rightarrow> call (Usleep (take_bit 32 (strtoul 0 t))))
          (pprintf_wait fuel SIGUSR1 (key @ [CHR 0x0A])))"

definition do_wait_before :: "nat \<Rightarrow> op_control \<Rightarrow> ('z core_scheme, unit) prog" where
  "do_wait_before fuel opc = do_wait fuel ''before'' (opc_get_value opc ''wait_before'') opc"

definition do_wait_after :: "nat \<Rightarrow> op_control \<Rightarrow> ('z core_scheme, unit) prog" where
  "do_wait_after fuel opc = do_wait fuel ''after'' (opc_get_value opc ''wait_after'') opc"

section \<open>Well-formedness\<close>

text \<open>
  The arrays agree with \<open>nr_args\<close>, fit their 10 slots, every string fits its buffer, and the
  tag points into the array of values.
\<close>

definition opc_wf :: "op_control \<Rightarrow> bool" where
  "opc_wf opc \<longleftrightarrow>
     length (opc_keys opc) = opc_nr_args opc \<and> length (opc_values opc) = opc_nr_args opc
   \<and> length (opc_value_size opc) = opc_nr_args opc \<and> opc_nr_args opc \<le> 10
   \<and> list_all (\<lambda>k. length k < OP_CONTROL_KEY_SIZE) (opc_keys opc)
   \<and> list_all2 (\<lambda>v n. length v < n) (opc_values opc) (opc_value_size opc)
   \<and> (case opc_tag opc of None \<Rightarrow> True | Some i \<Rightarrow> i < opc_nr_args opc)"

lemma opc_set_value_cases:
  assumes "opc_wf c" "opc_set_value c k v = Inr c'"
  obtains i where "key_index (opc_keys c) k = Some i" "length v < opc_value_size c ! i"
      "c' = c\<lparr>opc_values := (opc_values c)[i := v]\<rparr>"
  | "k \<notin> set (opc_keys c)" "opc_nr_args c < 10" "length k < 64" "length v < 64"
      "c' = c\<lparr>opc_keys := opc_keys c @ [k], opc_values := opc_values c @ [v],
         opc_value_size := opc_value_size c @ [64], opc_nr_args := opc_nr_args c + 1\<rparr>"
  using assms
  by (cases "key_index (opc_keys c) k") (auto simp: opc_set_value_def opc_wf_def split: if_splits)

lemma opc_get_value_wf:
  "opc_wf c \<Longrightarrow> opc_get_value c k = (case key_index (opc_keys c) k of None \<Rightarrow> None
     | Some i \<Rightarrow> if opc_values c ! i = [] then None else Some (opc_values c ! i))"
  by (simp add: opc_get_value_def opc_wf_def)

lemma opc_defined_wf: "opc_wf c \<Longrightarrow> opc_defined c k \<longleftrightarrow> k \<in> set (opc_keys c)"
  by (simp add: opc_defined_def opc_wf_def)

lemma opc_set_value_wf:
  assumes "opc_wf c" "opc_set_value c k v = Inr c'"
  shows "opc_wf c'"
  using assms
proof (cases rule: opc_set_value_cases)
  case (1 i)
  then show ?thesis using assms(1)
    by (auto simp: opc_wf_def list_all2_conv_all_nth nth_list_update dest!: key_index_less split: option.splits)
next
  case 2
  then show ?thesis using assms(1)
    by (auto simp: opc_wf_def list_all2_appendI split: option.splits)
qed

interpretation opc: kv_store opc_defined opc_get_value opc_set_value opc_wf
proof
  fix c k v c' k'
  assume wf: "opc_wf c" and set: "opc_set_value c k v = Inr c'"
  have wf': "opc_wf c'" using wf set by (rule opc_set_value_wf)
  show "opc_wf c'" by (rule wf')
  from wf set show "opc_get_value c' k = (if v = [] then None else Some v)"
  proof (cases rule: opc_set_value_cases)
    case (1 i)
    then show ?thesis using wf wf'
      by (auto simp: opc_get_value_wf opc_wf_def dest: key_index_less)
  next
    case 2
    then show ?thesis using wf wf'
      by (auto simp: opc_get_value_wf key_index_append_notin opc_wf_def nth_append)
  qed
  from wf set show "opc_defined c' k' \<longleftrightarrow> k' = k \<or> opc_defined c k'"
  proof (cases rule: opc_set_value_cases)
    case (1 i)
    then show ?thesis using wf wf' by (auto simp: opc_defined_wf dest: key_index_Some)
  next
    case 2
    then show ?thesis using wf wf' by (auto simp: opc_defined_wf)
  qed
  assume other: "k' \<noteq> k"
  from wf set show "opc_get_value c' k' = opc_get_value c k'"
  proof (cases rule: opc_set_value_cases)
    case (1 i)
    then have "key_index (opc_keys c) k' \<noteq> Some i"
      using other key_index_inj by blast
    then show ?thesis using 1 wf wf'
      by (auto simp: opc_get_value_wf nth_list_update split: option.split dest: key_index_mem)
  next
    case 2
    have "\<And>i. key_index (opc_keys c) k' = Some i \<Longrightarrow> i < length (opc_values c)"
      using wf by (auto simp: opc_wf_def dest: key_index_less)
    then show ?thesis using 2 other wf wf'
      by (cases "k' \<in> set (opc_keys c)")
        (auto simp: opc_get_value_wf key_index_append_in key_index_append_notin nth_append
          split: option.splits dest: key_index_mem)
  qed
next
  fix c k v
  assume "opc_wf c" "opc_get_value c k = Some v"
  then show "opc_defined c k \<and> v \<noteq> []"
    by (auto simp: opc_get_value_wf opc_defined_wf split: option.splits if_splits dest: key_index_Some)
qed

lemmas opc_access = opc_get_value_wf opc_defined_wf

section \<open>What the parser accepts\<close>

definition special_keys :: "string list" where
  "special_keys = [''wait_before'', ''wait_after'', ''tag'']"

text \<open>A key an operation of this name may carry.\<close>

definition key_allowed :: "string \<Rightarrow> string \<Rightarrow> bool" where
  "key_allowed nm key \<longleftrightarrow> key \<in> set special_keys \<or>
     (case key_index operation_name nm of None \<Rightarrow> False | Some i \<Rightarrow> key \<in> set (op_supported_args ! i))"

lemma parse_one_arg_Val:
  "parse_one_arg opc arg = Val opc' \<longleftrightarrow>
    (case scan_key_value arg of (key, val) \<Rightarrow>
       length key < 64 \<and> length val < 128 \<and> key_allowed (opc_name opc) key \<and>
       opc' = opc\<lparr>opc_keys := opc_keys opc @ [key], opc_values := opc_values opc @ [val],
                  opc_value_size := opc_value_size opc @ [128],
                  opc_wait_before := (if key = ''wait_before'' then 1 else opc_wait_before opc),
                  opc_wait_after := (if key = ''wait_after'' then 1 else opc_wait_after opc),
                  opc_tag := (if key = ''tag'' then Some (length (opc_keys opc)) else opc_tag opc)\<rparr>)"
  by (auto simp: parse_one_arg_def key_allowed_def special_keys_def get_op_index_def Let_def
      not_le split: prod.split option.splits dest: key_index_mem)

text \<open>The invariant of the parsing loop.\<close>

definition opc_partial :: "op_control \<Rightarrow> bool" where
  "opc_partial opc \<longleftrightarrow>
     length (opc_values opc) = length (opc_keys opc) \<and> length (opc_value_size opc) = length (opc_keys opc)
   \<and> list_all (\<lambda>k. length k < 64 \<and> key_allowed (opc_name opc) k) (opc_keys opc)
   \<and> list_all2 (\<lambda>v n. length v < n) (opc_values opc) (opc_value_size opc)
   \<and> (case opc_tag opc of None \<Rightarrow> True | Some i \<Rightarrow> i < length (opc_keys opc))"

lemma parse_one_arg_partial:
  assumes "opc_partial opc" "parse_one_arg opc arg = Val opc'"
  shows "opc_partial opc' \<and> opc_name opc' = opc_name opc \<and> opc_nr_args opc' = opc_nr_args opc
    \<and> length (opc_keys opc') = length (opc_keys opc) + 1"
proof -
  obtain key val where "scan_key_value arg = (key, val)" by fastforce
  with assms show ?thesis
    unfolding parse_one_arg_Val opc_partial_def
    by (auto simp: list_all2_appendI split: option.splits)
qed

lemma parse_operation_arg_partial:
  "opc_partial opc \<Longrightarrow> parse_operation_arg opc args = Val opc' \<Longrightarrow>
   opc_partial opc' \<and> opc_name opc' = opc_name opc \<and> opc_nr_args opc' = opc_nr_args opc
    \<and> length (opc_keys opc') = length (opc_keys opc) + length args"
proof (induction opc args rule: parse_operation_arg.induct)
  case (2 opc arg args)
  from "2.prems"(2) obtain o1 where
    o1: "parse_one_arg opc arg = Val o1" "parse_operation_arg o1 args = Val opc'"
    by (cases "parse_one_arg opc arg") simp_all
  with parse_one_arg_partial [OF "2.prems"(1) o1(1)] "2.IH" [OF o1(1)] show ?case by simp
qed simp

text \<open>
  C9: whatever string is parsed, an accepted operation is well-formed (arrays within their
  10 slots, every string within its buffer, the tag inside the value array) and carries
  only keys that its name supports or that control waiting and tagging.
\<close>

theorem parse_opc_sound:
  assumes "parse_opc str = Val opc"
  shows "opc_wf opc \<and> list_all (key_allowed (opc_name opc)) (opc_keys opc)"
proof -
  from assms obtain nm args where "length args \<le> 10"
    and p: "parse_operation_arg (opc_zero\<lparr>opc_name := nm, opc_nr_args := length args\<rparr>) args = Val opc"
    by (cases "tokens '':'' str") (auto simp: parse_opc_def not_less split: if_splits)
  moreover have "opc_partial (opc_zero\<lparr>opc_name := nm, opc_nr_args := length args\<rparr>)"
    by (simp add: opc_partial_def opc_zero_def)
  from parse_operation_arg_partial [OF this p]
  have "opc_partial opc" "opc_nr_args opc = length args" "length (opc_keys opc) = length args"
    by (simp_all add: opc_zero_def)
  ultimately show ?thesis
    by (auto simp: opc_partial_def opc_wf_def list_all_iff split: option.splits)
qed

theorem parse_opc_sound_witness:
  "\<exists>opc. parse_opc ''madvise:advice=soft_offline:tag=a:wait_after'' = Val opc
     \<and> opc_wf opc \<and> list_all (key_allowed (opc_name opc)) (opc_keys opc)"
proof -
  have "\<exists>opc. parse_opc ''madvise:advice=soft_offline:tag=a:wait_after'' = Val opc"
    by (rule exI) code_simp
  then show ?thesis using parse_opc_sound by blast
qed

section \<open>Printing and parsing back\<close>

definition render_arg :: "string \<times> string \<Rightarrow> string" where
  "render_arg kv = (if snd kv = [] then fst kv else fst kv @ CHR ''='' # snd kv)"

definition render_op :: "string \<Rightarrow> (string \<times> string) list \<Rightarrow> string" where
  "render_op nm kvs = join (CHR '':'') (nm # map render_arg kvs)"

definition printable_arg :: "string \<Rightarrow> string \<times> string \<Rightarrow> bool" where
  "printable_arg nm kv \<longleftrightarrow>
     fst kv \<noteq> [] \<and> length (fst kv) < 64 \<and> length (snd kv) < 128 \<and> key_allowed nm (fst kv)
   \<and> list_all (\<lambda>c. c \<noteq> CHR '':'' \<and> c \<noteq> CHR ''='') (fst kv)
   \<and> list_all (\<lambda>c. c \<noteq> CHR '':'' \<and> \<not> isspace c) (snd kv)"

lemma scan_render_arg:
  assumes "printable_arg nm kv"
  shows "scan_key_value (render_arg kv) = kv"
proof -
  obtain k v where kv: "kv = (k, v)" by (cases kv)
  have k: "k \<noteq> []" "CHR ''='' \<notin> set k" and v: "list_all (\<lambda>c. \<not> isspace c) v"
    using assms by (auto simp: kv printable_arg_def list_all_iff)
  show ?thesis
    using scan_key_value_bare [OF k(2)] scan_key_value_print [OF k v] by (simp add: kv render_arg_def)
qed

lemma render_arg_token: "printable_arg nm kv \<Longrightarrow> is_token '':'' (render_arg kv)"
  by (auto simp: render_arg_def printable_arg_def is_token_def list_all_iff)

text \<open>The position of the last argument named \<open>tag\<close>, from position \<open>i\<close> on.\<close>

primrec tag_index :: "nat \<Rightarrow> (string \<times> string) list \<Rightarrow> nat option \<Rightarrow> nat option" where
  "tag_index i [] t = t"
| "tag_index i (kv # kvs) t = tag_index (Suc i) kvs (if fst kv = ''tag'' then Some i else t)"

lemma tag_index_last:
  "\<forall>i. t = Some i \<longrightarrow> i < length ps \<Longrightarrow>
   map_option ((!) (ps @ kvs)) (tag_index (length ps) kvs t)
     = (case map_of (rev kvs) ''tag'' of Some v \<Rightarrow> Some (''tag'', v) | None \<Rightarrow> map_option ((!) ps) t)"
proof (induction kvs arbitrary: ps t)
  case Nil
  then show ?case by (cases t) auto
next
  case (Cons kv kvs)
  let ?t = "if fst kv = ''tag'' then Some (length ps) else t"
  have "\<forall>i. ?t = Some i \<longrightarrow> i < length (ps @ [kv])" using Cons.prems by auto
  from Cons.IH [OF this]
  have ih: "map_option ((!) (ps @ kv # kvs)) (tag_index (length ps) (kv # kvs) t)
    = (case map_of (rev kvs) ''tag'' of Some v \<Rightarrow> Some (''tag'', v) | None \<Rightarrow> map_option ((!) (ps @ [kv])) ?t)" by simp
  have old: "map_option ((!) (ps @ [kv])) t = map_option ((!) ps) t"
    using Cons.prems by (cases t) (auto simp: nth_append)
  have m: "map_of (rev (kv # kvs)) ''tag'' = (case map_of (rev kvs) ''tag'' of Some v \<Rightarrow> Some v
      | None \<Rightarrow> if fst kv = ''tag'' then Some (snd kv) else None)"
    by (cases kv) (simp add: map_add_def split: option.split)
  show ?case
  proof (cases "fst kv = ''tag''")
    case True
    then have "Some kv = Some (''tag'', snd kv)" by (metis prod.collapse)
    with True show ?thesis
      unfolding ih m by (cases "map_of (rev kvs) ''tag''") (simp_all only: option.case option.map if_True refl simp_thms nth_append_length)
  next
    case False
    then show ?thesis
      unfolding ih m by (cases "map_of (rev kvs) ''tag''") (simp_all only: option.case if_False old)
  qed
qed

lemma parse_rendered_args:
  assumes "list_all (printable_arg (opc_name opc)) kvs"
  shows "\<exists>opc'. parse_operation_arg opc (map render_arg kvs) = Val opc'
    \<and> opc_name opc' = opc_name opc \<and> opc_nr_args opc' = opc_nr_args opc
    \<and> opc_keys opc' = opc_keys opc @ map fst kvs \<and> opc_values opc' = opc_values opc @ map snd kvs
    \<and> opc_wait_before opc' = (if ''wait_before'' \<in> fst ` set kvs then 1 else opc_wait_before opc)
    \<and> opc_wait_after opc' = (if ''wait_after'' \<in> fst ` set kvs then 1 else opc_wait_after opc)
    \<and> opc_tag opc' = tag_index (length (opc_keys opc)) kvs (opc_tag opc)"
  using assms
proof (induction kvs arbitrary: opc)
  case (Cons kv kvs)
  have p: "printable_arg (opc_name opc) kv" using Cons.prems by simp
  obtain o1 where o1: "parse_one_arg opc (render_arg kv) = Val o1"
    and eq: "o1 = opc\<lparr>opc_keys := opc_keys opc @ [fst kv], opc_values := opc_values opc @ [snd kv],
                  opc_value_size := opc_value_size opc @ [128],
                  opc_wait_before := (if fst kv = ''wait_before'' then 1 else opc_wait_before opc),
                  opc_wait_after := (if fst kv = ''wait_after'' then 1 else opc_wait_after opc),
                  opc_tag := (if fst kv = ''tag'' then Some (length (opc_keys opc)) else opc_tag opc)\<rparr>"
    using p by (auto simp: parse_one_arg_Val scan_render_arg [OF p] printable_arg_def case_prod_unfold)
  have "list_all (printable_arg (opc_name o1)) kvs" using Cons.prems by (simp add: eq)
  from Cons.IH [OF this] obtain o2 where o2: "parse_operation_arg o1 (map render_arg kvs) = Val o2
    \<and> opc_name o2 = opc_name o1 \<and> opc_nr_args o2 = opc_nr_args o1
    \<and> opc_keys o2 = opc_keys o1 @ map fst kvs \<and> opc_values o2 = opc_values o1 @ map snd kvs
    \<and> opc_wait_before o2 = (if ''wait_before'' \<in> fst ` set kvs then 1 else opc_wait_before o1)
    \<and> opc_wait_after o2 = (if ''wait_after'' \<in> fst ` set kvs then 1 else opc_wait_after o1)
    \<and> opc_tag o2 = tag_index (length (opc_keys o1)) kvs (opc_tag o1)" ..
  then show ?case by (intro exI [of _ o2]) (simp add: o1 eq)
qed simp

text \<open>
  C10: parsing inverts printing: an operation name and a list of at most ten printable
  arguments, written as \<open>name:key=value:key:...\<close> in fewer than 256 characters, parses back
  to exactly that name, those keys and those values in order, with the wait flags
  set when the corresponding keys are present, and the tag at the last argument
  named \<open>tag\<close>, so that it reads as the value given there.
\<close>

theorem parse_render_roundtrip:
  assumes "is_token '':'' nm" "list_all (printable_arg nm) kvs" "length kvs \<le> 10"
    "length (render_op nm kvs) < 256"
  shows "\<exists>opc. parse_opc (render_op nm kvs) = Val opc \<and> opc_name opc = nm
    \<and> opc_keys opc = map fst kvs \<and> opc_values opc = map snd kvs \<and> opc_nr_args opc = length kvs
    \<and> opc_wait_before opc = (if ''wait_before'' \<in> fst ` set kvs then 1 else 0)
    \<and> opc_wait_after opc = (if ''wait_after'' \<in> fst ` set kvs then 1 else 0)
    \<and> map_option ((!) kvs) (opc_tag opc) = map_option (Pair ''tag'') (map_of (rev kvs) ''tag'')"
proof -
  have "list_all (is_token '':'') (nm # map render_arg kvs)"
    using assms(1,2) render_arg_token by (auto simp: list_all_iff)
  then have t: "tokens '':'' (render_op nm kvs) = nm # map render_arg kvs"
    unfolding render_op_def by (rule tokens_join) simp
  let ?o = "opc_zero\<lparr>opc_name := nm, opc_nr_args := length kvs\<rparr>"
  have "list_all (printable_arg (opc_name ?o)) kvs" using assms(2) by simp
  from parse_rendered_args [OF this, unfolded opc_zero_sel append_Nil simp_thms list.size(3)] obtain opc where
    o: "parse_operation_arg ?o (map render_arg kvs) = Val opc \<and> opc_name opc = nm
      \<and> opc_nr_args opc = length kvs \<and> opc_keys opc = map fst kvs \<and> opc_values opc = map snd kvs
      \<and> opc_wait_before opc = (if ''wait_before'' \<in> fst ` set kvs then 1 else 0)
      \<and> opc_wait_after opc = (if ''wait_after'' \<in> fst ` set kvs then 1 else 0)
      \<and> opc_tag opc = tag_index 0 kvs None" ..
  then have p: "parse_opc (render_op nm kvs) = Val opc"
    using assms(3,4) by (simp add: parse_opc_def t)
  have "map_option ((!) kvs) (opc_tag opc) = map_option (Pair ''tag'') (map_of (rev kvs) ''tag'')"
    using tag_index_last [of None "[]" kvs] o by (simp split: option.split)
  then show ?thesis by (intro exI [of _ opc] conjI) (simp_all only: p o)
qed

theorem parse_render_roundtrip_witness:
  "let kvs = [(''advice'', ''hugepage''), (''tag'', ''a''), (''wait_after'', [])] in
   \<exists>opc. parse_opc (render_op ''madvise'' kvs) = Val opc \<and> opc_name opc = ''madvise''
    \<and> opc_keys opc = map fst kvs \<and> opc_values opc = map snd kvs \<and> opc_nr_args opc = length kvs
    \<and> opc_wait_before opc = (if ''wait_before'' \<in> fst ` set kvs then 1 else 0)
    \<and> opc_wait_after opc = (if ''wait_after'' \<in> fst ` set kvs then 1 else 0)
    \<and> map_option ((!) kvs) (opc_tag opc) = map_option (Pair ''tag'') (map_of (rev kvs) ''tag'')"
  unfolding Let_def by (rule parse_render_roundtrip) code_simp+

text \<open>
  After two updates of an operation's arguments under different keys, each key reads as
  the value given to it, every other key reads as before, and the structure is still
  well-formed.
\<close>

theorem opc_set_two_values:
  assumes "opc_wf c" "opc_set_value c k1 v1 = Inr c1" "opc_set_value c1 k2 v2 = Inr c2" "k1 \<noteq> k2"
  shows "opc_get_value c2 k1 = (if v1 = [] then None else Some v1)
    \<and> opc_get_value c2 k2 = (if v2 = [] then None else Some v2)
    \<and> (k \<noteq> k1 \<longrightarrow> k \<noteq> k2 \<longrightarrow> opc_get_value c2 k = opc_get_value c k) \<and> opc_wf c2"
proof -
  have s: "opc.set_values c [(k1, v1), (k2, v2)] = Inr c2" using assms(2,3) by simp
  have d: "distinct (map fst [(k1, v1), (k2, v2)])" using assms(4) by simp
  show ?thesis
    using opc.set_values_get [OF assms(1) s d, of k1 v1] opc.set_values_get [OF assms(1) s d, of k2 v2]
      opc.set_values_other [OF assms(1) s, of k] opc.set_values_inv [OF assms(1) s]
    by auto
qed

theorem opc_set_two_values_witness:
  "\<exists>c1 c2. opc_set_value opc_zero ''advice'' ''soft_offline'' = Inr c1
     \<and> opc_set_value c1 ''size'' ''4096'' = Inr c2 \<and> opc_get_value c2 ''advice'' = Some ''soft_offline''"
proof -
  obtain c1 where c1: "opc_set_value opc_zero ''advice'' ''soft_offline'' = Inr c1"
    by (simp add: opc_set_value_def opc_zero_def)
  obtain c2 where c2: "opc_set_value c1 ''size'' ''4096'' = Inr c2"
    using c1 by (auto simp: opc_set_value_def opc_zero_def)
  have "opc_wf opc_zero" by (simp add: opc_wf_def opc_zero_def)
  from opc_set_two_values [OF this c1 c2] c1 c2 show ?thesis by auto
qed

end
