(* ===== verification/Chunks.thy ===== *)
theory Chunks
  imports OpControl
begin

text \<open>
  Test memory of \<open>lib/include.h\<close>: the backend bitmap, the division of the test area into
  chunks, and mapping, touching and unmapping those chunks.
\<close>

section \<open>State\<close>

record mem_chunk =
  mc_type :: nat
  mc_size :: int
  mc_p :: addr
  mc_shmkey :: int
  mc_offset :: u64

text \<open>The global variables of the header, after those of the headers it includes.\<close>

record mm = hpst +
  g_flag :: int
  allocate_base :: addr
  nr_nodes :: u64
  nodemask :: u64
  protflag :: int
  nr_p :: int
  nr_chunk :: int
  workdir :: string
  filebase :: "string option"
  g_fd :: int
  hugetlbfd :: int
  chunkset :: "mem_chunk list"
  nr_all_chunks :: int
  nr_mem_types :: int
  backend_bitmap :: u64
  memblk_order :: u64
  memblk_size :: u64
  op_strings :: "string list"

definition ADDR_INPUT :: addr where "ADDR_INPUT = 0x700000000000"
definition CHUNKSIZE :: int where "CHUNKSIZE = 0x1000"

text \<open>The values the globals start with, and a chunk of zero bytes.\<close>

definition mm0 :: mm where
  "mm0 = \<lparr>trace = [], verbose = 0, testpipe = None, pprintf_wait_flag = 0, opt_raw = 0,
     nr_bit_filters = 0, opt_mask = [0], opt_bits = [0], pagemap_fd = 0, kpageflags_fd = 0,
     kpagecount_fd = 0, HPS = 0x200000, filepath = [], hugetlbfsdir = [], shmkey = 0, hpfd = 0,
     g_flag = 1, allocate_base = ADDR_INPUT, nr_nodes = 0, nodemask = 0,
     protflag = PROT_READ OR PROT_WRITE, nr_p = 512, nr_chunk = 1, workdir = ''tmp'',
     filebase = Some ''testfile'', g_fd = 0, hugetlbfd = 0, chunkset = [], nr_all_chunks = 0,
     nr_mem_types = 1, backend_bitmap = 0, memblk_order = 0, memblk_size = 0, op_strings = []\<rparr>"

definition chunk0 :: mem_chunk where
  "chunk0 = \<lparr>mc_type = 0, mc_size = 0, mc_p = 0, mc_shmkey = 0, mc_offset = 0\<rparr>"

abbreviation (input) PAGECACHE :: nat where "PAGECACHE \<equiv> 0"
abbreviation (input) ANONYMOUS :: nat where "ANONYMOUS \<equiv> 1"
abbreviation (input) THP :: nat where "THP \<equiv> 2"
abbreviation (input) HUGETLB_ANON :: nat where "HUGETLB_ANON \<equiv> 3"
abbreviation (input) HUGETLB_SHMEM :: nat where "HUGETLB_SHMEM \<equiv> 4"
abbreviation (input) HUGETLB_FILE :: nat where "HUGETLB_FILE \<equiv> 5"
abbreviation (input) KSM :: nat where "KSM \<equiv> 6"
abbreviation (input) ZERO :: nat where "ZERO \<equiv> 7"
abbreviation (input) HUGE_ZERO :: nat where "HUGE_ZERO \<equiv> 8"
abbreviation (input) NORMAL_SHMEM :: nat where "NORMAL_SHMEM \<equiv> 9"
abbreviation (input) DEVMEM :: nat where "DEVMEM \<equiv> 10"

definition NR_BACKEND_TYPES :: nat where "NR_BACKEND_TYPES = 11"

definition BE :: "nat \<Rightarrow> u64" where "BE i = push_bit i 1"

section \<open>Backends\<close>

function find_next_backend :: "u64 \<Rightarrow> nat \<Rightarrow> nat" where
  "find_next_backend bm i =
    (if i < NR_BACKEND_TYPES then (if bm AND push_bit i 1 \<noteq> 0 then i else find_next_backend bm (i + 1))
     else i)"
  by pat_completeness auto
termination
  by (relation "measure (\<lambda>(bm, i). NR_BACKEND_TYPES - i)") auto

declare find_next_backend.simps [simp del]

lemma find_next_backend_ge: "i \<le> find_next_backend bm i"
proof (induction bm i rule: find_next_backend.induct)
  case (1 bm i)
  then show ?case by (subst find_next_backend.simps) (auto intro: Suc_leD)
qed

text \<open>The values the loop variable of \<open>for_each_backend\<close> takes, from \<open>i\<close> on.\<close>

function for_each_backend_from :: "u64 \<Rightarrow> nat \<Rightarrow> nat list" where
  "for_each_backend_from bm i = (let j = find_next_backend bm i in
     if j < NR_BACKEND_TYPES then j # for_each_backend_from bm (j + 1) else [])"
  by pat_completeness auto
termination
proof (relation "measure (\<lambda>(bm, i). NR_BACKEND_TYPES - i)")
  fix bm i x
  assume x: "x = find_next_backend bm i" and lt: "x < NR_BACKEND_TYPES"
  have "i \<le> x" using find_next_backend_ge x by simp
  then show "((bm, x + 1), (bm, i)) \<in> measure (\<lambda>(bm, i). NR_BACKEND_TYPES - i)"
    using lt by auto
qed simp

declare for_each_backend_from.simps [simp del]

abbreviation for_each_backend :: "u64 \<Rightarrow> nat list" where
  "for_each_backend bm \<equiv> for_each_backend_from bm 0"

definition get_nr_mem_types :: "u64 \<Rightarrow> int" where
  "get_nr_mem_types bm = int (length (for_each_backend bm))"

section \<open>Sizes and page loops\<close>

definition get_size_of_chunked_mmap_area :: "int \<Rightarrow> int \<Rightarrow> int \<Rightarrow> int" where
  "get_size_of_chunked_mmap_area nrp nrc i =
    (if crem i nrc = nrc - 1 then int_of_ul (ul (crem (nrp - 1) CHUNKSIZE + 1) * PS)
     else int_of_ul (ul CHUNKSIZE * PS))"

text \<open>
  Offsets of the pages below \<open>size\<close>, upwards and downwards.  A chunk has at most 16 MB
  (lemma \<open>chunk_size_bounds\<close>), so the \<open>int\<close> index of the upward loop does not overflow.
\<close>

function up_pages :: "int \<Rightarrow> int \<Rightarrow> int list" where
  "up_pages i sz = (if i < sz then i # up_pages (i + 4096) sz else [])"
  by pat_completeness auto
termination
  by (relation "measure (\<lambda>(i, sz). nat (sz - i))") auto

function down_pages :: "int \<Rightarrow> int list" where
  "down_pages i = (if 0 \<le> i then i # down_pages (i - 4096) else [])"
  by pat_completeness auto
termination
  by (relation "measure (\<lambda>i. nat (i + 4096))") auto

declare up_pages.simps [simp del] down_pages.simps [simp del]

definition read_memory :: "addr \<Rightarrow> int \<Rightarrow> bool \<Rightarrow> ('z io_scheme, unit) prog" where
  "read_memory p sz reverse =
    for_each (if reverse then down_pages (s32 (sz - 4096)) else up_pages 0 sz) (\<lambda>i. call (Load (p + ul i)))"

definition write_memory :: "addr \<Rightarrow> int \<Rightarrow> bool \<Rightarrow> ('z io_scheme, unit) prog" where
  "write_memory p sz reverse =
    (if reverse then for_each (down_pages (s32 (sz - 4096))) (\<lambda>i. call (Store (p + ul i) (CHR ''a'')))
     else call (Memset p (CHR ''a'') (ul sz)))"

section \<open>Files\<close>

definition create_workdir :: "string \<Rightarrow> ('z io_scheme, unit) prog" where
  "create_workdir dpath = bnd (sys (Mkdir dpath 0x1C0)) (\<lambda>r.
     if rv r \<noteq> 0 \<and> errno r \<noteq> 17 then exit_failure else skip)"

definition page_of_a :: string where
  "page_of_a = replicate 4096 (CHR ''a'')"

text \<open>
  Opening a file that exists, or creating it: shared by two operations.  Messages that go
  to the standard output with \<open>printf\<close> are not part of the model.
\<close>

definition open_or_create ::
  "string \<Rightarrow> string \<Rightarrow> ('z mm_scheme, unit) prog \<Rightarrow> ('z mm_scheme, unit) prog" where
  "open_or_create func path fill =
    bnd (sysv (Access path 0)) (\<lambda>r.
      if r \<noteq> - 1 then
        sqn (Dprintf (func @ '': '' @ path @ '' already exists.'' @ [CHR 0x0A]))
        (bnd (sysv (Open path O_RDWR 0x1ED)) (\<lambda>fd. sqn (put (\<lambda>s. s\<lparr>g_fd := fd\<rparr>))
          (if fd = - 1 then exit_failure else skip)))
      else
        bnd (sysv (Open path (O_CREAT OR O_RDWR) 0x1ED)) (\<lambda>fd. sqn (put (\<lambda>s. s\<lparr>g_fd := fd\<rparr>))
          (if fd = - 1 then exit_failure else fill)))"

definition create_regular_file :: "('z mm_scheme, unit) prog" where
  "create_regular_file =
    bnd (get workdir) (\<lambda>dir. bnd (get filebase) (\<lambda>base. case base of None \<Rightarrow> stop (Fault NullDeref) | Some base \<Rightarrow>
    sqn (create_workdir dir)
    (let fpath = dir @ ''/'' @ base in
     if 256 \<le> length fpath then stop (Fault OutOfBounds)
     else sqn (Dprintf (''create_regular_file: fpath '' @ fpath @ [CHR 0x0A]))
         (sqn (open_or_create ''create_regular_file'' fpath
            (bnd (get nr_p) (\<lambda>n. bnd (get g_fd) (\<lambda>fd.
              for_each [0..<nat n] (\<lambda>i. call (Write fd page_of_a))))))
          (bnd (get g_fd) (\<lambda>fd. call (Fsync fd)))))))"

definition create_hugetlbfs_file :: "('z mm_scheme, unit) prog" where
  "create_hugetlbfs_file =
    bnd (get workdir) (\<lambda>dir. bnd (get filebase) (\<lambda>base. case base of None \<Rightarrow> stop (Fault NullDeref) | Some base \<Rightarrow>
    (let dpath = dir @ ''/hugetlbfs''; fpath = dpath @ ''/'' @ base in
     if 256 \<le> length fpath then stop (Fault OutOfBounds)
     else sqn (create_workdir dpath)
       (bnd (sysv (Open fpath (O_CREAT OR O_RDWR) 0x1ED)) (\<lambda>fd.
        sqn (put (\<lambda>s. s\<lparr>hugetlbfd := fd\<rparr>))
        (if fd = - 1 then exit_failure
         else bnd (get nr_p) (\<lambda>n. bnd (get protflag) (\<lambda>prot.
          bnd (checked_mmap 0 (ul n * PS) prot MAP_SHARED fd 0) (\<lambda>p.
          seqs [call (Memset p (CHR ''a'') (ul n * PS)), call (Munmap p (ul n * PS))])))))))))"

section \<open>Mapping a chunk\<close>

definition alloc_shmem :: "mem_chunk \<Rightarrow> addr \<Rightarrow> bool \<Rightarrow> ('z mm_scheme, mem_chunk) prog" where
  "alloc_shmem mc exp_addr hugetlb =
    bnd (get shmkey) (\<lambda>key.
    bnd (sysv (Shmget key (ul (mc_size mc))
      (if hugetlb then IPC_CREAT OR SHM_R OR SHM_W OR SHM_HUGETLB else IPC_CREAT OR SHM_R OR SHM_W))) (\<lambda>shmid.
      if shmid < 0 then ret (mc\<lparr>mc_p := 0\<rparr>)
      else bnd (sysv (Shmat shmid exp_addr 0)) (\<lambda>r. let a = ul r in
        if a = - 1 then sqn (call (Shmctl shmid IPC_RMID)) exit_failure
        else if a \<noteq> exp_addr then sqn (call (Shmctl shmid IPC_RMID)) exit_failure
        else ret (mc\<lparr>mc_shmkey := shmid, mc_p := a\<rparr>))))"

definition free_shmem :: "mem_chunk \<Rightarrow> ('z io_scheme, unit) prog" where
  "free_shmem mc = seqs [call (Shmdt (mc_p mc)), call (Shmctl (mc_shmkey mc) IPC_RMID)]"

abbreviation (input) ANON_FLAGS :: int where "ANON_FLAGS \<equiv> MAP_PRIVATE OR MAP_ANONYMOUS"

definition map_chunk ::
  "mem_chunk \<Rightarrow> addr \<Rightarrow> int \<Rightarrow> int \<Rightarrow> u64 \<Rightarrow> ('z mm_scheme, mem_chunk) prog" where
  "map_chunk mc baseaddr flags fd off =
    bnd (get protflag) (\<lambda>prot. bnd (checked_mmap baseaddr (ul (mc_size mc)) prot flags fd off)
      (\<lambda>p. ret (mc\<lparr>mc_p := p\<rparr>)))"

definition advise_chunk :: "int \<Rightarrow> mem_chunk \<Rightarrow> ('z mm_scheme, mem_chunk) prog" where
  "advise_chunk adv mc = sqn (call (Madvise (mc_p mc) (ul (mc_size mc)) adv)) (ret mc)"

definition prepare_memory :: "mem_chunk \<Rightarrow> addr \<Rightarrow> u64 \<Rightarrow> ('z mm_scheme, mem_chunk) prog" where
  "prepare_memory mc0 baseaddr offset =
    (let mc = mc0\<lparr>mc_offset := offset\<rparr>; t = mc_type mc in
     if t = PAGECACHE then bnd (get g_fd) (\<lambda>fd. map_chunk mc baseaddr MAP_SHARED fd offset)
     else if t = ANONYMOUS then bnd (map_chunk mc baseaddr ANON_FLAGS (- 1) 0) (advise_chunk MADV_NOHUGEPAGE)
     else if t = THP then bnd (map_chunk mc baseaddr ANON_FLAGS (- 1) 0) (\<lambda>mc.
        bnd (sysv (Madvise (mc_p mc) (ul (mc_size mc)) MADV_HUGEPAGE)) (\<lambda>r.
          if r = - 1 then exit_failure else ret mc))
     else if t = HUGETLB_ANON then bnd (map_chunk mc baseaddr (ANON_FLAGS OR MAP_HUGETLB) (- 1) 0)
        (advise_chunk MADV_DONTNEED)
     else if t = HUGETLB_SHMEM then alloc_shmem mc baseaddr True
     else if t = HUGETLB_FILE then bnd (get hugetlbfd) (\<lambda>fd. map_chunk mc baseaddr MAP_SHARED fd offset)
     else if t = KSM then bnd (map_chunk mc baseaddr ANON_FLAGS (- 1) 0) (\<lambda>mc.
        sqn (set_mergeable (mc_p mc) (mc_size mc)) (ret mc))
     else if t = ZERO then bnd (map_chunk mc baseaddr ANON_FLAGS (- 1) 0) (advise_chunk MADV_NOHUGEPAGE)
     else if t = HUGE_ZERO then bnd (map_chunk mc baseaddr ANON_FLAGS (- 1) 0) (advise_chunk MADV_HUGEPAGE)
     else if t = NORMAL_SHMEM then alloc_shmem mc baseaddr False
     else if t = DEVMEM then
       bnd (checked_open ''/dev/mem'' O_RDWR) (\<lambda>fd. bnd (get protflag) (\<lambda>prot.
       bnd (checked_mmap baseaddr PS prot ANON_FLAGS fd 0) (\<lambda>p.
       sqn (checked_mmap (baseaddr + PS) PS PROT_READ MAP_SHARED fd 0xf0000)
       (sqn (checked_mmap (baseaddr + 2 * PS) PS prot ANON_FLAGS fd 0)
       (ret (mc\<lparr>mc_p := p\<rparr>))))))
     else ret mc)"

section \<open>Touching a chunk\<close>

text \<open>
  The reverse loop over an \<open>unsigned long\<close> index: its condition \<open>i >= 0\<close> always holds, so
  the model takes fuel.
\<close>

fun syswrite_reverse :: "nat \<Rightarrow> int \<Rightarrow> u64 \<Rightarrow> u64 \<Rightarrow> ('z io_scheme, unit) prog" where
  "syswrite_reverse 0 fd off i = stop NoFuel"
| "syswrite_reverse (Suc n) fd off i =
    (if i \<ge> 0 then sqn (call (Pwrite fd page_of_a (off + i))) (syswrite_reverse n fd off (i - PS))
     else skip)"

definition access_memory ::
  "nat \<Rightarrow> mem_chunk \<Rightarrow> string option \<Rightarrow> bool \<Rightarrow> ('z mm_scheme, unit) prog" where
  "access_memory fuel mc type reverse = (case type of
     None \<Rightarrow> if mc_type mc = ZERO \<or> mc_type mc = HUGE_ZERO then read_memory (mc_p mc) (mc_size mc) reverse
             else if mc_type mc = DEVMEM then
               seqs [call (Memset (mc_p mc) (CHR ''a'') PS), call (Memset (mc_p mc + 2 * PS) (CHR ''a'') PS)]
             else write_memory (mc_p mc) (mc_size mc) reverse
   | Some t \<Rightarrow>
      if t = ''read'' then read_memory (mc_p mc) (mc_size mc) reverse
      else if t = ''write'' then write_memory (mc_p mc) (mc_size mc) reverse
      else if t = ''syswrite'' then bnd (get g_fd) (\<lambda>fd.
        if reverse then syswrite_reverse fuel fd (mc_offset mc) (ul (mc_size mc) - PS)
        else for_each (up_pages 0 (uint (ul (mc_size mc)))) (\<lambda>i.
          call (Pwrite fd page_of_a (mc_offset mc + ul i))))
      else skip)"

text \<open>Only KSM chunks are looked at, by running an external command.\<close>

definition check_memory :: "mem_chunk \<Rightarrow> ('z mm_scheme, unit) prog" where
  "check_memory mc = (if mc_type mc = KSM then
     bnd (sysv Getpid) (\<lambda>pid. call (System (''/usr/local/bin/page-types -p '' @ show_int pid
       @ '' -Nrl -a 0x700000000+0x1000000 | head'')))
   else skip)"

text \<open>Without a path both calls get \<open>NULL\<close>, which the kernel refuses.\<close>

definition do_open :: "op_control \<Rightarrow> ('z mm_scheme, unit) prog" where
  "do_open opc = (case opc_get_value opc ''path'' of
     None \<Rightarrow> exit_failure
   | Some path \<Rightarrow> open_or_create ''do_open'' path skip)"

section \<open>All chunks\<close>

definition chunk_base :: "addr \<Rightarrow> int \<Rightarrow> addr" where
  "chunk_base base k = base + ul (s32 (k * CHUNKSIZE)) * PS"

text \<open>One chunk of \<open>do_mmap\<close>: number \<open>i\<close> of the backend with row \<open>j\<close>.\<close>

definition mmap_chunk :: "nat \<Rightarrow> nat \<Rightarrow> nat \<Rightarrow> ('z mm_scheme, unit) prog" where
  "mmap_chunk backend j i =
    bnd (get nr_chunk) (\<lambda>nrc. bnd (get nr_p) (\<lambda>nrp. bnd (get allocate_base) (\<lambda>base.
    bnd (get chunkset) (\<lambda>cs.
     let k = i + j * nat nrc in
     if length cs \<le> k then stop (Fault OutOfBounds)
     else bnd (prepare_memory ((cs ! k)\<lparr>mc_size := get_size_of_chunked_mmap_area nrp nrc (int i), mc_type := backend\<rparr>)
            (chunk_base base (int k)) (ul (s32 (int i * CHUNKSIZE)) * PS))
          (\<lambda>mc. put (\<lambda>s. s\<lparr>chunkset := (chunkset s)[k := mc]\<rparr>))))))"

definition do_mmap :: "op_control \<Rightarrow> ('z mm_scheme, unit) prog" where
  "do_mmap opc = bnd (get backend_bitmap) (\<lambda>bm. bnd (get nr_chunk) (\<lambda>nrc.
     for_each (enumerate 0 (for_each_backend bm)) (\<lambda>(j, backend).
       for_each [0..<nat nrc] (mmap_chunk backend j))))"

text \<open>
  Applying a function to every chunk: a result other than 0 ends the row of its backend
  only.  The last result is returned, or nothing was set if there was no chunk.
\<close>

fun work_row :: "(mem_chunk \<Rightarrow> ('z mm_scheme, int) prog) \<Rightarrow> nat list \<Rightarrow> int option \<Rightarrow> ('z mm_scheme, int option) prog" where
  "work_row f [] r = ret r"
| "work_row f (k # ks) r = bnd (get chunkset) (\<lambda>cs.
     if length cs \<le> k then stop (Fault OutOfBounds)
     else bnd (f (cs ! k)) (\<lambda>x. if x \<noteq> 0 then ret (Some x) else work_row f ks (Some x)))"

fun work_rows :: "(mem_chunk \<Rightarrow> ('z mm_scheme, int) prog) \<Rightarrow> nat list list \<Rightarrow> int option \<Rightarrow> ('z mm_scheme, int option) prog" where
  "work_rows f [] r = ret r"
| "work_rows f (row # rows) r = bnd (work_row f row r) (work_rows f rows)"

definition chunk_rows :: "int \<Rightarrow> int \<Rightarrow> nat list list" where
  "chunk_rows nmt nrc = map (\<lambda>j. map (\<lambda>i. i + j * nat nrc) [0..<nat nrc]) [0..<nat nmt]"

definition do_work_memory :: "(mem_chunk \<Rightarrow> ('z mm_scheme, int) prog) \<Rightarrow> ('z mm_scheme, unit) prog" where
  "do_work_memory f = bnd (get nr_mem_types) (\<lambda>nmt. bnd (get nr_chunk) (\<lambda>nrc.
     bnd (work_rows f (chunk_rows nmt nrc) None) (\<lambda>_. skip)))"

text \<open>The result of a chunk function that ends without a \<open>return\<close>.\<close>

definition no_return :: "('z io_scheme, unit) prog \<Rightarrow> ('z io_scheme, int) prog" where
  "no_return m = sqn m (sysv Indet)"

text \<open>
  The indices of the hugepages of a chunk: \<open>i < (size - 1) / HPS + 1\<close>, and the loop over them.
\<close>

definition hp_indices :: "int \<Rightarrow> u64 \<Rightarrow> nat list" where
  "hp_indices sz hps = [0..<unat (ul (s32 (sz - 1)) div hps + 1)]"

definition each_hugepage :: "int \<Rightarrow> (u64 \<Rightarrow> nat \<Rightarrow> ('z mm_scheme, unit) prog) \<Rightarrow> ('z mm_scheme, unit) prog" where
  "each_hugepage sz f = bnd (get HPS) (\<lambda>hps.
     if hps = 0 then stop (Fault DivByZero) else for_each (hp_indices sz hps) (f hps))"

definition munmap_chunk :: "bool \<Rightarrow> mem_chunk \<Rightarrow> ('z mm_scheme, int) prog" where
  "munmap_chunk hp_partial mc = no_return (
     if mc_type mc = HUGETLB_SHMEM \<or> mc_type mc = NORMAL_SHMEM then free_shmem mc
     else if mc_type mc = DEVMEM then sqn (checked_munmap (mc_p mc) (3 * PS)) skip
     else if hp_partial then each_hugepage (mc_size mc) (\<lambda>hps i.
       sqn (checked_munmap (mc_p mc + of_nat i * hps) (511 * PS)) skip)
     else sqn (checked_munmap (mc_p mc) (ul (mc_size mc))) skip)"

definition do_munmap :: "op_control \<Rightarrow> ('z mm_scheme, unit) prog" where
  "do_munmap opc = do_work_memory (munmap_chunk (opc_defined opc ''hp_partial''))"

text \<open>
  The guard on the access type can never hold: it asks for a string that is equal to all
  three names.
\<close>

definition do_access :: "nat \<Rightarrow> op_control \<Rightarrow> ('z mm_scheme, unit) prog" where
  "do_access fuel opc =
    (let type = opc_get_value opc ''type''; check = opc_defined opc ''check'';
         reverse = opc_defined opc ''reverse''
     in if type \<noteq> None \<and> type = Some ''read'' \<and> type = Some ''write'' \<and> type = Some ''syswrite''
        then exit_failure
        else bnd (get nr_mem_types) (\<lambda>nmt. bnd (get nr_chunk) (\<lambda>nrc.
          for_each (concat (chunk_rows nmt nrc)) (\<lambda>k. bnd (get chunkset) (\<lambda>cs.
            if length cs \<le> k then stop (Fault OutOfBounds)
            else sqn (access_memory fuel (cs ! k) type reverse) (cond check (check_memory (cs ! k))))))))"

definition do_busyloop :: "nat \<Rightarrow> op_control \<Rightarrow> ('z mm_scheme, unit) prog" where
  "do_busyloop fuel opc =
    pprintf_wait_func fuel (Some (do_access fuel opc)) (''entering busy loop'' @ [CHR 0x0A])"

end
