(* ===== verification/ChunkLaws.thy ===== *)
theory ChunkLaws
  imports Chunks
begin

text \<open>
  Laws of the test memory: which backends a bitmap selects, how the area is divided into
  chunks, in which order pages are touched, what \<open>do_mmap\<close> lays out and that
  \<open>do_munmap\<close> gives it back.
\<close>

section \<open>Backends\<close>

lemma and_push_bit_1: "(w :: u64) AND push_bit i 1 \<noteq> 0 \<longleftrightarrow> bit w i"
  by (simp add: push_bit_eq_mult and_exp_eq_0_iff_not_bit)

lemmas and_exp_bit = and_push_bit_1 [simplified]

lemma find_next_backend_spec:
  "find_next_backend bm i =
    (case filter (bit bm) [i..<NR_BACKEND_TYPES] of [] \<Rightarrow> max i NR_BACKEND_TYPES | j # _ \<Rightarrow> j)"
proof (induction bm i rule: find_next_backend.induct)
  case (1 bm i)
  show ?case
  proof (cases "i < NR_BACKEND_TYPES")
    case True
    then have "[i..<NR_BACKEND_TYPES] = i # [Suc i..<NR_BACKEND_TYPES]" by (rule upt_conv_Cons)
    then show ?thesis using 1 True
      by (subst find_next_backend.simps) (auto simp: and_exp_bit max_def split: list.split)
  next
    case False
    then show ?thesis by (subst find_next_backend.simps) simp
  qed
qed

lemma filter_upt_Cons:
  assumes "filter P [i..<n] = j # js"
  shows "i \<le> j \<and> j < n \<and> P j \<and> js = filter P [Suc j..<n]"
  using assms
proof (induction "n - i" arbitrary: i)
  case 0
  then show ?case by simp
next
  case (Suc m)
  then have "[i..<n] = i # [Suc i..<n]" by (intro upt_conv_Cons) simp
  moreover have "m = n - Suc i" using Suc.hyps(2) by simp
  ultimately show ?case using Suc.hyps(1) [of "Suc i"] Suc.hyps(2) Suc.prems
    by (cases "P i") auto
qed

lemma for_each_backend_from_filter:
  "for_each_backend_from bm i = filter (bit bm) [i..<NR_BACKEND_TYPES]"
proof (induction bm i rule: for_each_backend_from.induct)
  case (1 bm i)
  show ?case
  proof (cases "filter (bit bm) [i..<NR_BACKEND_TYPES]")
    case Nil
    then show ?thesis
      by (subst for_each_backend_from.simps) (simp add: find_next_backend_spec)
  next
    case (Cons j js)
    have f: "find_next_backend bm i = j" using Cons by (simp add: find_next_backend_spec)
    have j: "j < NR_BACKEND_TYPES" "js = filter (bit bm) [Suc j..<NR_BACKEND_TYPES]"
      using filter_upt_Cons [OF Cons] by auto
    have "for_each_backend_from bm (j + 1) = filter (bit bm) [j + 1..<NR_BACKEND_TYPES]"
      using 1 [OF f [symmetric]] j(1) by simp
    then show ?thesis using Cons f j
      by (subst for_each_backend_from.simps) simp
  qed
qed

text \<open>\<open>for_each_backend\<close> visits exactly the backend types whose bit is set in the bitmap,
  each once and in increasing order, and \<open>get_nr_mem_types\<close> counts them.\<close>

theorem for_each_backend_correct:
  "for_each_backend bm = filter (bit bm) [0..<NR_BACKEND_TYPES]
   \<and> get_nr_mem_types bm = int (card {i. i < NR_BACKEND_TYPES \<and> bit bm i})"
proof -
  have f: "for_each_backend bm = filter (bit bm) [0..<NR_BACKEND_TYPES]"
    by (rule for_each_backend_from_filter)
  have "length (filter (bit bm) [0..<NR_BACKEND_TYPES]) = card (set (filter (bit bm) [0..<NR_BACKEND_TYPES]))"
    by (rule distinct_card [symmetric]) simp
  also have "set (filter (bit bm) [0..<NR_BACKEND_TYPES]) = {i. i < NR_BACKEND_TYPES \<and> bit bm i}"
    by auto
  finally show ?thesis by (simp add: f get_nr_mem_types_def)
qed

section \<open>Chunk sizes\<close>

text \<open>The number of chunks that \<open>setup\<close> computes.\<close>

definition chunks_for :: "int \<Rightarrow> int" where
  "chunks_for nrp = cdiv (nrp - 1) CHUNKSIZE + 1"

lemma chunk_size_eq:
  assumes "0 < nrp" "0 \<le> i" "i < nrc"
  shows "get_size_of_chunked_mmap_area nrp nrc i =
    (if i = nrc - 1 then ((nrp - 1) mod CHUNKSIZE + 1) * 4096 else CHUNKSIZE * 4096)"
proof -
  have m: "0 \<le> (nrp - 1) mod CHUNKSIZE" "(nrp - 1) mod CHUNKSIZE < 0x1000"
    by (simp_all add: CHUNKSIZE_def)
  have a: "ul ((nrp - 1) mod CHUNKSIZE + 1) * PS = ul (((nrp - 1) mod CHUNKSIZE + 1) * 4096)"
    "ul CHUNKSIZE * PS = ul (CHUNKSIZE * 4096)" by (simp_all add: PS_def CHUNKSIZE_def)
  have b: "int_of_ul (ul (((nrp - 1) mod CHUNKSIZE + 1) * 4096)) = ((nrp - 1) mod CHUNKSIZE + 1) * 4096"
    "int_of_ul (ul (CHUNKSIZE * 4096)) = CHUNKSIZE * 4096"
    using m by (intro int_of_ul_small; simp add: CHUNKSIZE_def)+
  have "crem i nrc = i" "crem (nrp - 1) CHUNKSIZE = (nrp - 1) mod CHUNKSIZE"
    using assms by (simp_all add: crem_nonneg CHUNKSIZE_def)
  then show ?thesis by (simp only: get_size_of_chunked_mmap_area_def a b)
qed

lemma chunk_size_bounds:
  assumes "0 < nrp" "0 \<le> i" "i < nrc"
  shows "4096 \<le> get_size_of_chunked_mmap_area nrp nrc i
    \<and> get_size_of_chunked_mmap_area nrp nrc i \<le> CHUNKSIZE * 4096
    \<and> 4096 dvd get_size_of_chunked_mmap_area nrp nrc i"
proof -
  have "0 \<le> (nrp - 1) mod CHUNKSIZE" "(nrp - 1) mod CHUNKSIZE < CHUNKSIZE"
    by (simp_all add: CHUNKSIZE_def)
  then show ?thesis using assms by (auto simp: chunk_size_eq CHUNKSIZE_def)
qed

text \<open>C12: with the number of chunks that \<open>setup\<close> computes, the chunk sizes add up to exactly
  the requested number of pages: the division into chunks loses no page and adds none.\<close>

theorem chunk_sizes_sum:
  assumes "0 < nrp"
  shows "sum_list (map (\<lambda>i. get_size_of_chunked_mmap_area nrp (chunks_for nrp) (int i))
           [0..<nat (chunks_for nrp)]) = nrp * 4096"
proof -
  let ?n = "nat ((nrp - 1) div CHUNKSIZE)"
  have pos: "0 \<le> (nrp - 1) div CHUNKSIZE" using assms by (simp add: CHUNKSIZE_def pos_imp_zdiv_nonneg_iff)
  have c: "chunks_for nrp = int ?n + 1" using assms pos
    by (simp add: chunks_for_def cdiv_nonneg CHUNKSIZE_def)
  have "map (\<lambda>i. get_size_of_chunked_mmap_area nrp (chunks_for nrp) (int i)) [0..<?n]
      = map (\<lambda>i. CHUNKSIZE * 4096) [0..<?n]"
    using assms pos by (intro map_cong) (simp_all only: c, auto simp: chunk_size_eq)
  then have front: "sum_list (map (\<lambda>i. get_size_of_chunked_mmap_area nrp (chunks_for nrp) (int i)) [0..<?n])
      = int ?n * (CHUNKSIZE * 4096)"
    by (simp only: sum_list_triv length_upt diff_zero)
  have last: "get_size_of_chunked_mmap_area nrp (chunks_for nrp) (int ?n) = ((nrp - 1) mod CHUNKSIZE + 1) * 4096"
    using assms by (simp add: c chunk_size_eq)
  have "nat (chunks_for nrp) = Suc ?n" by (simp add: c nat_add_distrib)
  then have "sum_list (map (\<lambda>i. get_size_of_chunked_mmap_area nrp (chunks_for nrp) (int i))
      [0..<nat (chunks_for nrp)]) = (int ?n * CHUNKSIZE + (nrp - 1) mod CHUNKSIZE + 1) * 4096"
    using front last by (simp add: algebra_simps)
  also have "int ?n * CHUNKSIZE + (nrp - 1) mod CHUNKSIZE = nrp - 1"
    using pos by simp
  finally show ?thesis by simp
qed

lemma chunks_for_1000: "chunks_for 10000 = 3"
  by (simp add: chunks_for_def cdiv_def CHUNKSIZE_def)

theorem chunk_sizes_sum_witness:
  "0 < (10000 :: int) \<and>
   sum_list (map (\<lambda>i. get_size_of_chunked_mmap_area 10000 3 (int i)) [0..<3]) = 10000 * 4096"
  using chunk_sizes_sum [of 10000] by (simp only: chunks_for_1000) simp

section \<open>Page loops\<close>

lemma up_pages_eq: "up_pages i sz = map (\<lambda>n. i + int n * 4096) [0..<nat ((sz - i + 4095) div 4096)]"
proof (induction i sz rule: up_pages.induct)
  case (1 i sz)
  show ?case
  proof (cases "i < sz")
    case True
    have "(sz - i + 4095) div 4096 = (sz - (i + 4096) + 4095) div 4096 + 1"
      by (simp add: algebra_simps)
    moreover have "0 \<le> (sz - (i + 4096) + 4095) div 4096" using True by (simp add: pos_imp_zdiv_nonneg_iff)
    ultimately have "nat ((sz - i + 4095) div 4096) = Suc (nat ((sz - (i + 4096) + 4095) div 4096))"
      by (simp add: nat_add_distrib)
    then show ?thesis using True 1
      by (subst up_pages.simps) (simp add: map_upt_Suc algebra_simps del: upt_Suc)
  next
    case False
    then have "(sz - i + 4095) div 4096 \<le> 0" by simp
    with False show ?thesis by (subst up_pages.simps) simp
  qed
qed

lemma down_pages_eq: "down_pages (int n * 4096) = rev (map (\<lambda>n. int n * 4096) [0..<Suc n])"
proof (induction n)
  case 0
  show ?case by (simp add: down_pages.simps)
next
  case (Suc n)
  have "down_pages (int (Suc n) * 4096) = int (Suc n) * 4096 # down_pages (int n * 4096)"
    by (subst down_pages.simps) simp
  with Suc show ?case by simp
qed

lemma pages_dual:
  assumes "4096 dvd sz" "0 \<le> sz"
  shows "down_pages (sz - 4096) = rev (up_pages 0 sz)"
proof -
  obtain n where n: "sz = int n * 4096" using assms
    by (metis dvd_def mult.commute nonneg_int_cases zero_le_mult_iff not_numeral_le_zero mult_zero_left)
  show ?thesis
  proof (cases n)
    case 0
    then show ?thesis using n by (simp add: down_pages.simps up_pages.simps)
  next
    case (Suc m)
    have "nat ((sz - 0 + 4095) div 4096) = n" "sz - 4096 = int m * 4096" using n Suc by simp_all
    then show ?thesis using Suc by (simp only: up_pages_eq down_pages_eq) simp
  qed
qed

section \<open>Mapping and unmapping\<close>

text \<open>
  A kernel that grants what the tool asks for: a mapping is placed at the address given
  (which Linux does for a free range), shared memory is attached where asked, no call fails.
\<close>

definition grants :: "kernel \<Rightarrow> bool" where
  "grants k \<longleftrightarrow>
     (\<forall>h a len prot flags fd off. a \<noteq> 0 \<longrightarrow> rv (k h (Mmap a len prot flags fd off)) = uint a)
   \<and> (\<forall>h len prot flags fd off. ul (rv (k h (Mmap 0 len prot flags fd off))) \<noteq> - 1)
   \<and> (\<forall>h key len flags. 0 \<le> rv (k h (Shmget key len flags)))
   \<and> (\<forall>h i a flags. rv (k h (Shmat i a flags)) = uint a)
   \<and> (\<forall>h a len adv. rv (k h (Madvise a len adv)) = 0)
   \<and> (\<forall>h path flags mode. 0 \<le> rv (k h (Open path flags mode)))
   \<and> (\<forall>h a len. rv (k h (Munmap a len)) = 0)"

text \<open>
  The value of a function that ends without \<open>return\<close> happens to be 0, which is what the
  callers of the chunk functions expect.
\<close>

definition indet_zero :: "kernel \<Rightarrow> bool" where
  "indet_zero k \<longleftrightarrow> (\<forall>h. rv (k h Indet) = 0)"

text \<open>
  What a process holds after a sequence of calls: the pages mapped, wherever the kernel put the mapping,
  the addresses at which shared memory is attached, and the shared memory segments that exist.  The answers
  of the kernel count for mapping and unmapping; the code does not look at the results of
  \<open>shmdt\<close> and \<open>shmctl\<close>.
\<close>

type_synonym foot = "addr set \<times> addr set \<times> int set"

definition range_pages :: "addr \<Rightarrow> u64 \<Rightarrow> addr set" where
  "range_pages a len = (\<lambda>i. a + of_nat i * PS) ` {i. i * 4096 < unat len}"

fun foot_step :: "foot \<Rightarrow> sys \<Rightarrow> int \<Rightarrow> foot" where
  "foot_step (P, S, I) (Mmap _ len _ _ _ _) r = (if ul r = - 1 then P else P \<union> range_pages (ul r) len, S, I)"
| "foot_step (P, S, I) (Munmap a len) r = (if r = 0 then P - range_pages a len else P, S, I)"
| "foot_step (P, S, I) (Mremap a len newlen _ _) r =
     (if ul r = - 1 then P else (P - range_pages a len) \<union> range_pages (ul r) newlen, S, I)"
| "foot_step (P, S, I) (Shmget _ _ _) r = (P, S, if r < 0 then I else insert r I)"
| "foot_step (P, S, I) (Shmat _ _ _) r = (P, if ul r = - 1 then S else insert (ul r) S, I)"
| "foot_step (P, S, I) (Shmdt a) r = (P, S - {a}, I)"
| "foot_step (P, S, I) (Shmctl i cmd) r = (P, S, if cmd = IPC_RMID then I - {i} else I)"
| "foot_step F _ r = F"

primrec foot_run :: "kernel \<Rightarrow> sys list \<Rightarrow> foot \<Rightarrow> sys list \<Rightarrow> foot" where
  "foot_run k h F [] = F"
| "foot_run k h F (c # cs) = foot_run k (h @ [c]) (foot_step F c (rv (k h c))) cs"

definition footprint :: "kernel \<Rightarrow> sys list \<Rightarrow> foot" where
  "footprint k tr = foot_run k [] ({}, {}, {}) tr"

definition chunk_foot :: "mem_chunk \<Rightarrow> foot" where
  "chunk_foot mc =
    (if mc_type mc = HUGETLB_SHMEM \<or> mc_type mc = NORMAL_SHMEM then ({}, {mc_p mc}, {mc_shmkey mc})
     else if mc_type mc = DEVMEM then (range_pages (mc_p mc) (3 * PS), {}, {})
     else (range_pages (mc_p mc) (ul (mc_size mc)), {}, {}))"

text \<open>Adding and removing a footprint, and the footprint of a list of chunks.\<close>

fun foot_add :: "foot \<Rightarrow> foot \<Rightarrow> foot" where
  "foot_add (P, S, I) (P', S', I') = (P \<union> P', S \<union> S', I \<union> I')"

fun foot_del :: "foot \<Rightarrow> foot \<Rightarrow> foot" where
  "foot_del (P, S, I) (P', S', I') = (P - P', S - S', I - I')"

definition all_foot :: "mem_chunk list \<Rightarrow> foot" where
  "all_foot cs = foldr (\<lambda>mc. foot_add (chunk_foot mc)) cs ({}, {}, {})"

lemma foot_run_append: "foot_run k h F (xs @ ys) = foot_run k (h @ xs) (foot_run k h F xs) ys"
  by (induction xs arbitrary: h F) auto

lemma footprint_append: "footprint k (xs @ ys) = foot_run k xs (footprint k xs) ys"
  by (simp add: footprint_def foot_run_append)

lemma foot_add_empty [simp]: "foot_add F ({}, {}, {}) = F" "foot_del F ({}, {}, {}) = F" "foot_add ({}, {}, {}) F = F"
  by (cases F; simp)+

lemma foot_del_none: "foot_del ({}, {}, {}) F = ({}, {}, {})"
  by (cases F) simp

lemma foot_add_assoc: "foot_add (foot_add F G) H = foot_add F (foot_add G H)"
  by (cases F; cases G; cases H) auto

lemma foot_del_add: "foot_del F (foot_add G H) = foot_del (foot_del F G) H"
  by (cases F; cases G; cases H) auto

lemma foot_add_del: "foot_del (foot_add F G) G = foot_del F G"
  by (cases F; cases G) auto

lemma all_foot_simps [simp]:
  "all_foot [] = ({}, {}, {})" "all_foot (mc # cs) = foot_add (chunk_foot mc) (all_foot cs)"
  by (simp_all add: all_foot_def)

lemma all_foot_append: "all_foot (cs @ ds) = foot_add (all_foot cs) (all_foot ds)"
  by (induction cs) (simp_all add: foot_add_assoc)

lemma range_pages_3: "range_pages a (3 * PS) =
  range_pages a PS \<union> range_pages (a + PS) PS \<union> range_pages (a + 2 * PS) PS"
proof -
  have 1: "{i. i * 4096 < unat PS} = {0}" by (auto simp: PS_def)
  have 3: "{i. i * 4096 < unat (3 * PS)} = {0, 1, 2}" by (auto simp: PS_def)
  show ?thesis unfolding range_pages_def 1 3 by auto
qed

text \<open>A base address from which the three pages of the \<open>devmem\<close> backend can be mapped.\<close>

definition base_ok :: "addr \<Rightarrow> bool" where
  "base_ok a \<longleftrightarrow> a \<noteq> 0 \<and> uint a + 3 * 4096 < 2 ^ 64 - 1"

lemma base_ok_addrs:
  assumes "base_ok a"
  shows "a \<noteq> 0" "a \<noteq> - 1" "a + PS \<noteq> 0" "a + PS \<noteq> - 1" "a + 2 * PS \<noteq> 0" "a + 2 * PS \<noteq> - 1"
proof -
  have m: "uint (- 1 :: addr) = 2 ^ 64 - 1" "uint (0 :: addr) = 0"
    by (simp_all add: unsigned_minus_1_eq_mask mask_eq_exp_minus_1)
  have n: "x \<noteq> 0 \<and> x \<noteq> - 1" if "0 < uint x" "uint x < 2 ^ 64 - 1" for x :: addr
    using that m by (metis less_irrefl)
  have "uint a \<noteq> 0" using assms by (simp add: base_ok_def unsigned_eq_0_iff)
  then have u: "0 < uint a" by (simp add: order_less_le)
  have b: "uint a + 3 * 4096 < 2 ^ 64 - 1" using assms by (simp add: base_ok_def)
  have p: "uint (a + PS) = uint a + 4096" "uint (a + 2 * PS) = uint a + 8192"
    using u b by (simp_all add: PS_def uint_word_ariths)
  show "a \<noteq> 0" "a \<noteq> - 1" using n [of a] u b by simp_all
  show "a + PS \<noteq> 0" "a + PS \<noteq> - 1" using n [of "a + PS"] u b p by simp_all
  show "a + 2 * PS \<noteq> 0" "a + 2 * PS \<noteq> - 1" using n [of "a + 2 * PS"] u b p by simp_all
qed

text \<open>Mapping one chunk puts it where asked and adds its footprint.\<close>

lemma grants_rules:
  assumes "grants k"
  shows "a \<noteq> 0 \<Longrightarrow> rv (k h (Mmap a len prot flags fd off)) = uint a" "\<not> rv (k h (Shmget key len flags)) < 0"
    "rv (k h (Shmat i a flags)) = uint a" "rv (k h (Madvise a len adv)) = 0"
    "\<not> rv (k h (Open path flags mode)) < 0" "rv (k h (Munmap a len)) = 0"
  using assms by (simp_all add: grants_def not_less)

lemma checked_mmap_grants:
  assumes "grants k" "a \<noteq> - 1" "a \<noteq> 0"
  shows "checked_mmap a len prot flags fd off k s =
    (Val a, s\<lparr>trace := trace s @ [Mmap a len prot flags fd off]\<rparr>)"
  using assms(2,3) by (simp add: checked_mmap_eval grants_rules [OF assms(1)] Let_def)

lemma alloc_shmem_grants:
  assumes "grants k" "a \<noteq> - 1"
  obtains key len flags i where "alloc_shmem mc a h k s =
    (Val (mc\<lparr>mc_shmkey := i, mc_p := a\<rparr>),
     s\<lparr>trace := trace s @ [Shmget key len flags, Shmat i a 0]\<rparr>)" "i = rv (k (trace s) (Shmget key len flags))"
  using assms(2) by (cases h) (force simp: alloc_shmem_def prog_simps grants_rules [OF assms(1)] Let_def)+

lemma checked_open_grants:
  assumes "grants k"
  obtains fd where "checked_open path flags k s = (Val fd, s\<lparr>trace := trace s @ [Open path flags 0x1C0]\<rparr>)"
  by (simp add: checked_open_def prog_simps grants_rules [OF assms])

lemma backend_cases:
  "t < NR_BACKEND_TYPES \<Longrightarrow> t = PAGECACHE \<or> t = ANONYMOUS \<or> t = THP \<or> t = HUGETLB_ANON
     \<or> t = HUGETLB_SHMEM \<or> t = HUGETLB_FILE \<or> t = KSM \<or> t = ZERO \<or> t = HUGE_ZERO
     \<or> t = NORMAL_SHMEM \<or> t = DEVMEM"
  unfolding NR_BACKEND_TYPES_def by presburger

lemmas map_defs = prepare_memory_def map_chunk_def advise_chunk_def set_mergeable_def prog_simps Let_def

lemma prepare_memory_grants:
  assumes k: "grants k" and a: "base_ok a" and t: "mc_type mc < NR_BACKEND_TYPES"
  shows "\<exists>tr i. let mc' = mc\<lparr>mc_offset := off, mc_p := a, mc_shmkey := i\<rparr> in
    prepare_memory mc a off k s = (Val mc', s\<lparr>trace := trace s @ tr\<rparr>)
    \<and> (\<forall>F. foot_run k (trace s) F tr = foot_add F (chunk_foot mc'))"
proof -
  note g = checked_mmap_grants [OF k] base_ok_addrs [OF a]
  have madv: "rv (k h (Madvise x y z)) = 0" for h x y z using k by (simp add: grants_def)
  have id: "mc\<lparr>mc_offset := off, mc_p := a\<rparr> = mc\<lparr>mc_offset := off, mc_p := a, mc_shmkey := mc_shmkey mc\<rparr>"
    by simp
  consider (map) "mc_type mc = PAGECACHE \<or> mc_type mc = ANONYMOUS \<or> mc_type mc = THP
      \<or> mc_type mc = HUGETLB_ANON \<or> mc_type mc = HUGETLB_FILE \<or> mc_type mc = KSM
      \<or> mc_type mc = ZERO \<or> mc_type mc = HUGE_ZERO"
    | (shm) "mc_type mc = HUGETLB_SHMEM \<or> mc_type mc = NORMAL_SHMEM" | (dev) "mc_type mc = DEVMEM"
    using backend_cases [OF t] by blast
  then show ?thesis
  proof cases
    case map
    have "\<exists>tr. prepare_memory mc a off k s = (Val (mc\<lparr>mc_offset := off, mc_p := a\<rparr>), s\<lparr>trace := trace s @ tr\<rparr>)
      \<and> (\<forall>P S I. foot_run k (trace s) (P, S, I) tr = (P \<union> range_pages a (ul (mc_size mc)), S, I))"
      using map by (elim disjE) (simp add: map_defs g madv, rule exI, rule conjI, rule refl, simp add: g grants_rules [OF k])+
    then obtain tr where "prepare_memory mc a off k s =
        (Val (mc\<lparr>mc_offset := off, mc_p := a\<rparr>), s\<lparr>trace := trace s @ tr\<rparr>)"
      "\<And>P S I. foot_run k (trace s) (P, S, I) tr = (P \<union> range_pages a (ul (mc_size mc)), S, I)" by blast
    then show ?thesis using map
      by (intro exI [of _ tr] exI [of _ "mc_shmkey mc"]) (auto simp: Let_def chunk_foot_def)
  next
    case shm
    have "prepare_memory mc a off k s =
      alloc_shmem (mc\<lparr>mc_offset := off\<rparr>) a (mc_type mc = HUGETLB_SHMEM) k s"
      using shm by (auto simp: map_defs)
    moreover obtain key len flags i where "alloc_shmem (mc\<lparr>mc_offset := off\<rparr>) a (mc_type mc = HUGETLB_SHMEM) k s =
      (Val (mc\<lparr>mc_offset := off, mc_shmkey := i, mc_p := a\<rparr>), s\<lparr>trace := trace s @ [Shmget key len flags, Shmat i a 0]\<rparr>)"
      and i: "i = rv (k (trace s) (Shmget key len flags))"
      by (rule alloc_shmem_grants [OF k g(3)])
    ultimately have "prepare_memory mc a off k s =
      (Val (mc\<lparr>mc_offset := off, mc_shmkey := i, mc_p := a\<rparr>), s\<lparr>trace := trace s @ [Shmget key len flags, Shmat i a 0]\<rparr>)"
      by simp
    then show ?thesis using shm g(3) grants_rules(2) [OF k, of "trace s" key len flags] unfolding i
      by (intro exI [of _ "[Shmget key len flags, Shmat i a 0]"] exI [of _ i])
        (auto simp: chunk_foot_def Let_def i grants_rules [OF k])
  next
    case dev
    obtain fd where fd: "checked_open ''/dev/mem'' O_RDWR k s =
      (Val fd, s\<lparr>trace := trace s @ [Open ''/dev/mem'' O_RDWR 0x1C0]\<rparr>)"
      using checked_open_grants [OF k] by blast
    let ?tr = "[Open ''/dev/mem'' O_RDWR 0x1C0, Mmap a PS (protflag s) ANON_FLAGS fd 0,
      Mmap (a + PS) PS PROT_READ MAP_SHARED fd 0xf0000, Mmap (a + 2 * PS) PS (protflag s) ANON_FLAGS fd 0]"
    have "prepare_memory mc a off k s = (Val (mc\<lparr>mc_offset := off, mc_p := a\<rparr>), s\<lparr>trace := trace s @ ?tr\<rparr>)"
      using dev by (simp add: map_defs g fd)
    moreover have "foot_run k (trace s) F ?tr = foot_add F (range_pages a (3 * PS), {}, {})" for F
      by (cases F) (simp add: range_pages_3 Un_assoc g grants_rules [OF k])
    ultimately show ?thesis using dev
      by (intro exI [of _ ?tr] exI [of _ "mc_shmkey mc"]) (simp add: chunk_foot_def Let_def)
  qed
qed

text \<open>Unmapping one chunk, not partially, removes its footprint.\<close>

lemma munmap_chunk_grants:
  assumes "grants k" "\<And>h. rv (k h Indet) = c"
  shows "\<exists>tr. munmap_chunk False mc k s = (Val c, s\<lparr>trace := trace s @ tr\<rparr>)
    \<and> (\<forall>h F. foot_run k h F tr = foot_del F (chunk_foot mc))"
  using assms
  by (auto simp: munmap_chunk_def no_return_def free_shmem_def checked_munmap_def prog_simps
      grants_rules chunk_foot_def)

section \<open>The layout of the chunks\<close>

text \<open>Chunk number \<open>i\<close> of the backend in row \<open>j\<close>, as \<open>do_mmap\<close> should leave it.\<close>

definition chunk_at :: "'z mm_scheme \<Rightarrow> nat \<Rightarrow> nat \<Rightarrow> nat \<Rightarrow> mem_chunk \<Rightarrow> bool" where
  "chunk_at s backend j i mc \<longleftrightarrow>
     mc_type mc = backend
   \<and> mc_size mc = get_size_of_chunked_mmap_area (nr_p s) (nr_chunk s) (int i)
   \<and> mc_p mc = allocate_base s + of_nat (i + j * nat (nr_chunk s)) * (ul CHUNKSIZE * PS)
   \<and> mc_offset mc = of_nat i * (ul CHUNKSIZE * PS)"

text \<open>
  The state \<open>setup\<close> leaves: one zeroed chunk for every chunk of every backend.  The sizes
  keep the \<open>int\<close> products of \<open>do_mmap\<close> and the addresses below their limits.
\<close>

definition chunks_ready :: "'z mm_scheme \<Rightarrow> bool" where
  "chunks_ready s \<longleftrightarrow>
     0 < nr_p s \<and> 0 < nr_chunk s
   \<and> nr_mem_types s = get_nr_mem_types (backend_bitmap s)
   \<and> int (length (chunkset s)) = nr_chunk s * nr_mem_types s
   \<and> length (chunkset s) * 4096 < 2 ^ 31
   \<and> allocate_base s \<noteq> 0
   \<and> uint (allocate_base s) + int (length (chunkset s)) * (CHUNKSIZE * 4096) < 2 ^ 64 - 2 ^ 24"

lemma chunks_readyD:
  assumes "chunks_ready s"
  shows "0 < nr_p s" "0 < nr_chunk s" "nr_mem_types s = get_nr_mem_types (backend_bitmap s)"
    "int (length (chunkset s)) = nr_chunk s * nr_mem_types s" "length (chunkset s) * 4096 < 2 ^ 31"
    "allocate_base s \<noteq> 0"
    "uint (allocate_base s) + int (length (chunkset s)) * (CHUNKSIZE * 4096) < 2 ^ 64 - 2 ^ 24"
  using assms unfolding chunks_ready_def by blast+

text \<open>What changes in the state: the calls issued and the set of chunks.\<close>

definition same_area :: "'z mm_scheme \<Rightarrow> 'z mm_scheme \<Rightarrow> bool" where
  "same_area s s' \<longleftrightarrow> (\<exists>tr cs. s' = s\<lparr>trace := tr, chunkset := cs\<rparr> \<and> length cs = length (chunkset s))"

lemma same_area_refl: "same_area s s"
  unfolding same_area_def by (intro exI [of _ "trace s"] exI [of _ "chunkset s"]) simp

lemma same_area_upd:
  assumes "same_area s s'" "length cs = length (chunkset s)"
  shows "same_area s (s'\<lparr>trace := tr, chunkset := cs\<rparr>)"
proof -
  have "s'\<lparr>trace := tr, chunkset := cs\<rparr> = s\<lparr>trace := tr, chunkset := cs\<rparr>"
    using assms(1) by (auto simp: same_area_def)
  with assms(2) show ?thesis unfolding same_area_def by blast
qed

lemma same_area_sel:
  assumes "same_area s s'"
  shows "nr_p s' = nr_p s" "nr_chunk s' = nr_chunk s" "allocate_base s' = allocate_base s"
    "length (chunkset s') = length (chunkset s)" "backend_bitmap s' = backend_bitmap s"
    "nr_mem_types s' = nr_mem_types s"
  using assms by (auto simp: same_area_def)

lemma same_area_ready: "same_area s s' \<Longrightarrow> chunks_ready s \<Longrightarrow> chunks_ready s'"
  unfolding chunks_ready_def
  using same_area_sel [of s s'] by metis

lemma same_area_chunk_at: "same_area s s' \<Longrightarrow> chunk_at s' b j i mc = chunk_at s b j i mc"
  by (simp add: chunk_at_def same_area_sel)

text \<open>The address of chunk \<open>k\<close>.\<close>

lemma chunk_base_eq:
  assumes "int k * 4096 < 2 ^ 31"
  shows "chunk_base base (int k) = base + of_nat k * (ul CHUNKSIZE * PS)"
proof -
  have "s32 (int k * CHUNKSIZE) = int k * 4096" using assms by (simp add: s32_small CHUNKSIZE_def)
  then show ?thesis by (simp add: chunk_base_def CHUNKSIZE_def algebra_simps)
qed

lemma uint_chunk_addr:
  assumes "chunks_ready s" "k < length (chunkset s)"
  shows "uint (allocate_base s + of_nat k * (ul CHUNKSIZE * PS)) = uint (allocate_base s) + int k * (CHUNKSIZE * 4096)"
    "base_ok (allocate_base s + of_nat k * (ul CHUNKSIZE * PS))"
proof -
  have le: "int k * 16777216 \<le> int (length (chunkset s)) * 16777216" using assms(2) by simp
  have lim: "uint (allocate_base s) + int (length (chunkset s)) * 16777216 < 2 ^ 64 - 2 ^ 24"
    and nz: "uint (allocate_base s) \<noteq> 0"
    using chunks_readyD(6,7) [OF assms(1)] by (simp_all add: CHUNKSIZE_def unsigned_eq_0_iff)
  have pos: "0 \<le> uint (allocate_base s)" "0 \<le> int k * 16777216" by simp_all
  have "allocate_base s + of_nat k * (ul CHUNKSIZE * PS) = ul (uint (allocate_base s) + int k * 16777216)"
    by (simp add: CHUNKSIZE_def PS_def)
  then have u: "uint (allocate_base s + of_nat k * (ul CHUNKSIZE * PS)) = uint (allocate_base s) + int k * 16777216"
    using uint_ul_small [of "uint (allocate_base s) + int k * 16777216"] le lim pos by simp
  then show "uint (allocate_base s + of_nat k * (ul CHUNKSIZE * PS)) = uint (allocate_base s) + int k * (CHUNKSIZE * 4096)"
    by (simp add: CHUNKSIZE_def)
  have "uint (allocate_base s + of_nat k * (ul CHUNKSIZE * PS)) \<noteq> 0" using u nz pos by linarith
  then have "allocate_base s + of_nat k * (ul CHUNKSIZE * PS) \<noteq> 0" by (auto simp del: of_int_mult)
  then show "base_ok (allocate_base s + of_nat k * (ul CHUNKSIZE * PS))"
    using u le lim unfolding base_ok_def by simp
qed

lemma chunk_index_less: "j < m \<Longrightarrow> i < n \<Longrightarrow> i + j * n < m * (n :: nat)"
proof -
  assume "j < m" "i < n"
  then have "i + j * n < n + j * n" by simp
  also have "\<dots> = Suc j * n" by simp
  also have "\<dots> \<le> m * n" using \<open>j < m\<close> by (intro mult_le_mono) simp_all
  finally show ?thesis .
qed

lemma chunks_ready_length:
  assumes "chunks_ready s"
  shows "length (chunkset s) = length (for_each_backend (backend_bitmap s)) * nat (nr_chunk s)"
proof -
  have "int (length (chunkset s)) = nr_chunk s * int (length (for_each_backend (backend_bitmap s)))" "0 < nr_chunk s"
    using assms by (simp_all add: chunks_ready_def get_nr_mem_types_def)
  then have "int (length (chunkset s)) = int (length (for_each_backend (backend_bitmap s)) * nat (nr_chunk s))"
    by simp
  then show ?thesis by (simp only: of_nat_eq_iff)
qed

lemma mmap_chunk_grants:
  assumes k: "grants k" and ready: "chunks_ready s"
    and j: "j < length (for_each_backend (backend_bitmap s))" and i: "i < nat (nr_chunk s)"
    and b: "b < NR_BACKEND_TYPES"
  shows "\<exists>tr mc. mmap_chunk b j i k s =
      (Val (), s\<lparr>trace := trace s @ tr, chunkset := (chunkset s)[i + j * nat (nr_chunk s) := mc]\<rparr>)
    \<and> chunk_at s b j i mc \<and> (\<forall>F. foot_run k (trace s) F tr = foot_add F (chunk_foot mc))"
proof -
  define q where "q = i + j * nat (nr_chunk s)"
  have q: "q < length (chunkset s)"
    using chunk_index_less [OF j i] by (simp add: q_def chunks_ready_length [OF ready])
  have q31: "int q * 4096 < 2 ^ 31" "int i * 4096 < 2 ^ 31"
  proof -
    have l: "length (chunkset s) < 524288" using chunks_readyD(5) [OF ready] by simp
    show "int q * 4096 < 2 ^ 31" using q l by simp
    have "i \<le> q" by (simp add: q_def)
    then show "int i * 4096 < 2 ^ 31" using q l by simp
  qed
  have base: "chunk_base (allocate_base s) (int q) = allocate_base s + of_nat q * (ul CHUNKSIZE * PS)"
    using q31(1) by (rule chunk_base_eq)
  have off: "ul (s32 (int i * CHUNKSIZE)) * PS = of_nat i * (ul CHUNKSIZE * PS)"
    using chunk_base_eq [OF q31(2), of 0] by (simp add: chunk_base_def)
  let ?mc = "(chunkset s ! q)\<lparr>mc_size := get_size_of_chunked_mmap_area (nr_p s) (nr_chunk s) (int i), mc_type := b\<rparr>"
  have "mc_type ?mc < NR_BACKEND_TYPES" using b by simp
  from prepare_memory_grants [OF k uint_chunk_addr(2) [OF ready q] this, of "of_nat i * (ul CHUNKSIZE * PS)" s]
  obtain tr mc where *: "prepare_memory ?mc (allocate_base s + of_nat q * (ul CHUNKSIZE * PS)) (of_nat i * (ul CHUNKSIZE * PS)) k s
       = (Val mc, s\<lparr>trace := trace s @ tr\<rparr>)" "\<forall>F. foot_run k (trace s) F tr = foot_add F (chunk_foot mc)"
    "mc_type mc = b" "mc_size mc = mc_size ?mc" "mc_p mc = allocate_base s + of_nat q * (ul CHUNKSIZE * PS)"
    "mc_offset mc = of_nat i * (ul CHUNKSIZE * PS)"
    unfolding Let_def by (elim exE conjE) simp
  then show ?thesis using q
    by (intro exI [of _ tr] exI [of _ mc])
      (simp add: mmap_chunk_def prog_simps Let_def q_def [symmetric] base off chunk_at_def not_le)
qed

text \<open>The chunks in the order in which \<open>do_mmap\<close> maps them.\<close>

definition mmap_order :: "'z mm_scheme \<Rightarrow> ((nat \<times> nat) \<times> nat) list" where
  "mmap_order s = concat (map (\<lambda>jb. map (Pair jb) [0..<nat (nr_chunk s)])
     (enumerate 0 (for_each_backend (backend_bitmap s))))"

definition slot :: "'z mm_scheme \<Rightarrow> (nat \<times> nat) \<times> nat \<Rightarrow> nat" where
  "slot s = (\<lambda>((j, b), i). i + j * nat (nr_chunk s))"

lemma do_mmap_order:
  "do_mmap opc k s = for_each (mmap_order s) (\<lambda>x. mmap_chunk (snd (fst x)) (fst (fst x)) (snd x)) k s"
  by (simp add: do_mmap_def prog_simps mmap_order_def case_prod_unfold
      for_each_nested [where g = "\<lambda>jb. mmap_chunk (snd jb) (fst jb)"])

lemma mmap_order_mem:
  assumes "((j, b), i) \<in> set (mmap_order s)"
  shows "j < length (for_each_backend (backend_bitmap s))" "b = for_each_backend (backend_bitmap s) ! j"
    "i < nat (nr_chunk s)" "b < NR_BACKEND_TYPES"
proof -
  have "(j, b) \<in> set (enumerate 0 (for_each_backend (backend_bitmap s)))" "i < nat (nr_chunk s)"
    using assms by (auto simp: mmap_order_def)
  then show *: "j < length (for_each_backend (backend_bitmap s))" "b = for_each_backend (backend_bitmap s) ! j"
    "i < nat (nr_chunk s)" by (auto simp: in_set_enumerate_eq)
  then have "b \<in> set (for_each_backend (backend_bitmap s))" by simp
  then show "b < NR_BACKEND_TYPES" by (auto simp: for_each_backend_from_filter)
qed

lemma slots: "map (slot s) (mmap_order s) = [0..<length (for_each_backend (backend_bitmap s)) * nat (nr_chunk s)]"
proof -
  have "map (slot s) (concat (map (\<lambda>jb. map (Pair jb) [0..<nat (nr_chunk s)]) (enumerate 0 bs)))
    = [0..<length bs * nat (nr_chunk s)]" for bs
  proof (induction bs rule: rev_induct)
    case Nil
    show ?case by simp
  next
    case (snoc b bs)
    have "map (\<lambda>i. i + length bs * nat (nr_chunk s)) [0..<nat (nr_chunk s)]
      = [length bs * nat (nr_chunk s)..<length bs * nat (nr_chunk s) + nat (nr_chunk s)]"
      by (simp add: map_add_upt add.commute [of "nat (nr_chunk s)"])
    moreover have "map (slot s) (concat (map (\<lambda>jb. map (Pair jb) [0..<nat (nr_chunk s)]) (enumerate 0 (bs @ [b]))))
      = [0..<length bs * nat (nr_chunk s)] @ map (\<lambda>i. i + length bs * nat (nr_chunk s)) [0..<nat (nr_chunk s)]"
      using snoc by (simp add: enumerate_append_eq slot_def comp_def)
    ultimately have "map (slot s) (concat (map (\<lambda>jb. map (Pair jb) [0..<nat (nr_chunk s)]) (enumerate 0 (bs @ [b]))))
      = [0..<length bs * nat (nr_chunk s) + nat (nr_chunk s)]"
      by (simp only: upt_add_eq_append [OF zero_le])
    moreover have "length bs * nat (nr_chunk s) + nat (nr_chunk s) = length (bs @ [b]) * nat (nr_chunk s)" by simp
    ultimately show ?case by (simp only:)
  qed
  then show ?thesis by (simp add: mmap_order_def)
qed

lemma slot_mem:
  assumes "chunks_ready s" "x \<in> set (mmap_order s)"
  shows "slot s x < length (chunkset s)"
proof -
  have "slot s x \<in> set (map (slot s) (mmap_order s))" using assms(2) by simp
  then show ?thesis by (simp only: slots chunks_ready_length [OF assms(1)]) simp
qed

text \<open>What the loop has done after visiting the chunks \<open>ys\<close>.\<close>

definition mapped :: "kernel \<Rightarrow> 'z mm_scheme \<Rightarrow> ((nat \<times> nat) \<times> nat) list \<Rightarrow> 'z mm_scheme \<Rightarrow> bool" where
  "mapped k s ys s' \<longleftrightarrow> same_area s s'
   \<and> (\<forall>y \<in> set ys. chunk_at s (snd (fst y)) (fst (fst y)) (snd y) (chunkset s' ! slot s y))
   \<and> footprint k (trace s') = foot_add (footprint k (trace s)) (all_foot (map (\<lambda>y. chunkset s' ! slot s y) ys))"

lemma mapped_step:
  assumes k: "grants k" and ready: "chunks_ready s"
    and ord: "mmap_order s = ys @ x # zs" and m: "mapped k s ys s'"
  shows "\<exists>s''. mmap_chunk (snd (fst x)) (fst (fst x)) (snd x) k s' = (Val (), s'') \<and> mapped k s (ys @ [x]) s''"
proof -
  obtain j b i where x: "x = ((j, b), i)" by (metis surj_pair)
  have area: "same_area s s'" using m by (simp add: mapped_def)
  note sel = same_area_sel [OF area]
  have "((j, b), i) \<in> set (mmap_order s)" using ord x by simp
  note mem = mmap_order_mem [OF this] slot_mem [OF ready this]
  have "distinct (map (slot s) (mmap_order s))" by (simp only: slots distinct_upt)
  then have "slot s x \<notin> slot s ` set ys" using ord by simp
  then have new: "slot s y \<noteq> slot s x" if "y \<in> set ys" for y using that by (metis imageI)
  from mmap_chunk_grants [OF k same_area_ready [OF area ready], of j i b] mem
  obtain tr mc where *: "mmap_chunk b j i k s' =
      (Val (), s'\<lparr>trace := trace s' @ tr, chunkset := (chunkset s')[slot s x := mc]\<rparr>)"
    "chunk_at s b j i mc" "\<forall>F. foot_run k (trace s') F tr = foot_add F (chunk_foot mc)"
    by (auto simp: sel slot_def x same_area_chunk_at [OF area])
  let ?s = "s'\<lparr>trace := trace s' @ tr, chunkset := (chunkset s')[slot s x := mc]\<rparr>"
  have area': "same_area s ?s" by (rule same_area_upd [OF area]) (simp add: sel)
  have "slot s x < length (chunkset s')" using mem(5) by (simp add: x sel)
  then have at: "chunkset ?s ! slot s x = mc"
    "\<And>y. y \<in> set ys \<Longrightarrow> chunkset ?s ! slot s y = chunkset s' ! slot s y"
    by (simp_all add: new [THEN not_sym])
  have un: "map (\<lambda>y. chunkset ?s ! slot s y) (ys @ [x]) = map (\<lambda>y. chunkset s' ! slot s y) ys @ [mc]"
    using at by simp
  have "footprint k (trace ?s) = foot_add (footprint k (trace s')) (chunk_foot mc)"
    by (simp add: footprint_append spec [OF *(3), of "footprint k (trace s')"])
  then have "footprint k (trace ?s) = foot_add (footprint k (trace s)) (all_foot (map (\<lambda>y. chunkset ?s ! slot s y) (ys @ [x])))"
    using m unfolding un mapped_def by (simp add: all_foot_append foot_add_assoc)
  moreover have "\<forall>y \<in> set (ys @ [x]). chunk_at s (snd (fst y)) (fst (fst y)) (snd y) (chunkset ?s ! slot s y)"
    using m *(2) at by (auto simp: mapped_def x)
  ultimately have "mapped k s (ys @ [x]) ?s" using area' unfolding mapped_def by blast
  with *(1) show ?thesis by (auto simp: x)
qed

lemma do_mmap_mapped:
  assumes "grants k" "chunks_ready s"
  shows "\<exists>s'. do_mmap opc k s = (Val (), s') \<and> mapped k s (mmap_order s) s'"
proof -
  have "mapped k s [] s" by (simp add: mapped_def same_area_refl)
  then show ?thesis unfolding do_mmap_order
    by (rule for_each_prefix [where I = "mapped k s"]) (rule mapped_step [OF assms])
qed

section \<open>Working through the chunks\<close>

text \<open>
  The chunks of a row that \<open>do_work_memory\<close> visits, when the function returns \<open>r q\<close> for
  chunk \<open>q\<close>: up to and with the first that does not return 0.
\<close>

fun visited :: "(nat \<Rightarrow> int) \<Rightarrow> nat list \<Rightarrow> nat list" where
  "visited r [] = []"
| "visited r (q # qs) = q # (if r q \<noteq> 0 then [] else visited r qs)"

lemma visited_all: "(\<And>q. q \<in> set qs \<Longrightarrow> r q = 0) \<Longrightarrow> visited r qs = qs"
  by (induction qs) auto

lemma visited_first: "c \<noteq> 0 \<Longrightarrow> visited (\<lambda>_. c) qs = take 1 qs"
  by (cases qs) auto

lemma visited_set: "set (visited r qs) \<subseteq> set qs"
  by (induction qs) auto

lemma chunk_rows_concat: "concat (chunk_rows nmt nrc) = [0..<nat nmt * nat nrc]"
proof -
  have "concat (map (\<lambda>j. map (\<lambda>i. i + j * n) [0..<n]) [0..<m]) = [0..<m * n]" for m n :: nat
  proof (induction m)
    case (Suc m)
    have "map (\<lambda>i. i + m * n) [0..<n] = [m * n..<m * n + n]"
      by (simp add: map_add_upt add.commute [of n])
    with Suc have "concat (map (\<lambda>j. map (\<lambda>i. i + j * n) [0..<n]) [0..<Suc m]) = [0..<m * n + n]"
      by (simp add: upt_add_eq_append [OF zero_le])
    moreover have "m * n + n = Suc m * n" by simp
    ultimately show ?case by (simp only:)
  qed simp
  then show ?thesis by (simp add: chunk_rows_def)
qed

lemma visited_rows_all:
  "concat (map (visited (\<lambda>_. 0)) (chunk_rows nmt nrc)) = [0..<nat nmt * nat nrc]"
  unfolding chunk_rows_concat [symmetric]
  by (rule arg_cong [where f = concat], rule map_idI) (simp add: visited_all)

lemma work_row_visits:
  assumes f: "\<And>q s. q \<in> set row \<Longrightarrow> \<exists>tr. f (cs ! q) k s = (Val (r q), s\<lparr>trace := trace s @ tr\<rparr>) \<and> Q q tr"
    and b: "\<And>q. q \<in> set row \<Longrightarrow> q < length cs" and cs: "chunkset s = cs"
  shows "\<exists>trs x. work_row f row x0 k s = (Val x, s\<lparr>trace := trace s @ concat trs\<rparr>)
    \<and> list_all2 Q (visited r row) trs"
  using f b cs
proof (induction row arbitrary: s x0)
  case Nil
  show ?case by (intro exI [of _ "[]"]) (simp add: prog_simps)
next
  case (Cons q qs)
  obtain tr where tr: "f (cs ! q) k s = (Val (r q), s\<lparr>trace := trace s @ tr\<rparr>)" "Q q tr"
    using Cons.prems(1) [of q s] by auto
  have q: "q < length cs" using Cons.prems(2) by simp
  show ?case
  proof (cases "r q = 0")
    case True
    have "\<exists>trs x. work_row f qs (Some (r q)) k (s\<lparr>trace := trace s @ tr\<rparr>) =
        (Val x, s\<lparr>trace := trace s @ tr\<rparr>\<lparr>trace := trace (s\<lparr>trace := trace s @ tr\<rparr>) @ concat trs\<rparr>)
        \<and> list_all2 Q (visited r qs) trs"
      by (rule Cons.IH) (use Cons.prems in auto)
    then obtain trs x where "work_row f qs (Some (r q)) k (s\<lparr>trace := trace s @ tr\<rparr>) =
        (Val x, s\<lparr>trace := trace s @ tr @ concat trs\<rparr>)" "list_all2 Q (visited r qs) trs"
      by auto
    then show ?thesis using True tr q Cons.prems(3)
      by (intro exI [of _ "tr # trs"] exI [of _ x]) (simp add: prog_simps)
  next
    case False
    then show ?thesis using tr q Cons.prems(3)
      by (intro exI [of _ "[tr]"] exI [of _ "Some (r q)"]) (simp add: prog_simps)
  qed
qed

lemma work_rows_visits:
  assumes f: "\<And>q s. q \<in> set (concat rows) \<Longrightarrow> \<exists>tr. f (cs ! q) k s = (Val (r q), s\<lparr>trace := trace s @ tr\<rparr>) \<and> Q q tr"
    and b: "\<And>q. q \<in> set (concat rows) \<Longrightarrow> q < length cs" and cs: "chunkset s = cs"
  shows "\<exists>trs x. work_rows f rows x0 k s = (Val x, s\<lparr>trace := trace s @ concat trs\<rparr>)
    \<and> list_all2 Q (concat (map (visited r) rows)) trs"
  using f b cs
proof (induction rows arbitrary: s x0)
  case Nil
  show ?case by (intro exI [of _ "[]"]) (simp add: prog_simps)
next
  case (Cons row rows)
  have "\<exists>trs x. work_row f row x0 k s = (Val x, s\<lparr>trace := trace s @ concat trs\<rparr>)
      \<and> list_all2 Q (visited r row) trs"
    by (rule work_row_visits) (use Cons.prems in auto)
  then obtain t1 x1 where 1: "work_row f row x0 k s = (Val x1, s\<lparr>trace := trace s @ concat t1\<rparr>)"
    "list_all2 Q (visited r row) t1" by auto
  have "\<exists>trs x. work_rows f rows x1 k (s\<lparr>trace := trace s @ concat t1\<rparr>) =
      (Val x, s\<lparr>trace := trace s @ concat t1\<rparr>\<lparr>trace := trace (s\<lparr>trace := trace s @ concat t1\<rparr>) @ concat trs\<rparr>)
      \<and> list_all2 Q (concat (map (visited r) rows)) trs"
    by (rule Cons.IH) (use Cons.prems in auto)
  then obtain t2 x2 where 2: "work_rows f rows x1 k (s\<lparr>trace := trace s @ concat t1\<rparr>) =
      (Val x2, s\<lparr>trace := trace s @ concat t1 @ concat t2\<rparr>)" "list_all2 Q (concat (map (visited r) rows)) t2"
    by auto
  show ?case using 1 2
    by (intro exI [of _ "t1 @ t2"] exI [of _ x2]) (simp add: prog_simps list_all2_appendI)
qed

lemma do_work_memory_visits:
  assumes f: "\<And>q s'. q < length (chunkset s) \<Longrightarrow>
      \<exists>tr. f (chunkset s ! q) k s' = (Val (r q), s'\<lparr>trace := trace s' @ tr\<rparr>) \<and> Q q tr"
    and b: "nat (nr_mem_types s) * nat (nr_chunk s) \<le> length (chunkset s)"
  shows "\<exists>trs. do_work_memory f k s = (Val (), s\<lparr>trace := trace s @ concat trs\<rparr>)
    \<and> list_all2 Q (concat (map (visited r) (chunk_rows (nr_mem_types s) (nr_chunk s)))) trs"
proof -
  have "\<exists>trs x. work_rows f (chunk_rows (nr_mem_types s) (nr_chunk s)) None k s =
      (Val x, s\<lparr>trace := trace s @ concat trs\<rparr>)
      \<and> list_all2 Q (concat (map (visited r) (chunk_rows (nr_mem_types s) (nr_chunk s)))) trs"
  proof (rule work_rows_visits [where cs = "chunkset s"])
    fix q s'
    assume "q \<in> set (concat (chunk_rows (nr_mem_types s) (nr_chunk s)))"
    then show q: "q < length (chunkset s)" unfolding chunk_rows_concat using b by simp
    show "\<exists>tr. f (chunkset s ! q) k s' = (Val (r q), s'\<lparr>trace := trace s' @ tr\<rparr>) \<and> Q q tr"
      using q by (rule f)
  qed simp
  then show ?thesis by (auto simp: do_work_memory_def prog_simps)
qed

section \<open>Theorems on the whole area\<close>

lemma mapped_nth:
  assumes ready: "chunks_ready s" and m: "mapped k s (mmap_order s) s'" and q: "q < length (chunkset s)"
  defines "n \<equiv> nat (nr_chunk s)"
  shows "chunk_at s (for_each_backend (backend_bitmap s) ! (q div n)) (q div n) (q mod n) (chunkset s' ! q)"
proof -
  have len: "length (mmap_order s) = length (chunkset s)"
    using slots [of s] by (metis chunks_ready_length [OF ready] length_map length_upt minus_nat.diff_0)
  let ?y = "mmap_order s ! q"
  obtain j b i where y: "?y = ((j, b), i)" by (metis surj_pair)
  have mem: "?y \<in> set (mmap_order s)" using q len by simp
  have "slot s ?y = map (slot s) (mmap_order s) ! q" using q len by simp
  also have "\<dots> = q" using q by (simp add: slots chunks_ready_length [OF ready])
  finally have sl: "slot s ?y = q" .
  then have "q = i + j * n" by (simp add: y slot_def n_def)
  moreover have "i < n" using mmap_order_mem(3) mem by (simp add: y n_def)
  ultimately have "j = q div n" "i = q mod n" by simp_all
  moreover have "b = for_each_backend (backend_bitmap s) ! j" using mmap_order_mem(2) mem by (simp add: y)
  moreover have "chunk_at s b j i (chunkset s' ! q)" using m mem sl y unfolding mapped_def by force
  ultimately show ?thesis by simp
qed

text \<open>C3: on a kernel that grants the requests, \<open>do_mmap\<close> succeeds and lays out one chunk per
  chunk number and backend: chunk \<open>q\<close> has the backend of row \<open>q div nr_chunk\<close>, the size of
  chunk \<open>q mod nr_chunk\<close>, its address at \<open>q\<close> times the chunk size above the base and the
  file offset of its number; and the chunks do not overlap.\<close>

theorem do_mmap_layout:
  assumes "grants k" "chunks_ready s"
  shows "\<exists>s'. do_mmap opc k s = (Val (), s') \<and> length (chunkset s') = length (chunkset s)
    \<and> (\<forall>q < length (chunkset s). chunk_at s (for_each_backend (backend_bitmap s) ! (q div nat (nr_chunk s)))
          (q div nat (nr_chunk s)) (q mod nat (nr_chunk s)) (chunkset s' ! q))
    \<and> (\<forall>q < length (chunkset s). \<forall>p < q.
          uint (mc_p (chunkset s' ! p)) + mc_size (chunkset s' ! p) \<le> uint (mc_p (chunkset s' ! q)))"
proof -
  obtain s' where s': "do_mmap opc k s = (Val (), s')" "mapped k s (mmap_order s) s'"
    using do_mmap_mapped [OF assms] by blast
  note at = mapped_nth [OF assms(2) s'(2)]
  have len: "length (chunkset s') = length (chunkset s)"
    using s'(2) same_area_sel(4) unfolding mapped_def by blast
  have n: "0 < nr_chunk s" "0 < nr_p s" using chunks_readyD [OF assms(2)] by simp_all
  have p: "uint (mc_p (chunkset s' ! q)) = uint (allocate_base s) + int q * (CHUNKSIZE * 4096)"
    "mc_size (chunkset s' ! q) \<le> CHUNKSIZE * 4096" if q: "q < length (chunkset s)" for q
  proof -
    have "mc_p (chunkset s' ! q) = allocate_base s + of_nat q * (ul CHUNKSIZE * PS)"
      using at [OF q] unfolding chunk_at_def by (metis add.commute div_mult_mod_eq)
    then show "uint (mc_p (chunkset s' ! q)) = uint (allocate_base s) + int q * (CHUNKSIZE * 4096)"
      using uint_chunk_addr(1) [OF assms(2) q] by simp
    have "int (q mod nat (nr_chunk s)) < nr_chunk s" using n(1) by (simp add: zmod_int)
    then show "mc_size (chunkset s' ! q) \<le> CHUNKSIZE * 4096"
      using at [OF q] chunk_size_bounds [OF n(2), of "int (q mod nat (nr_chunk s))" "nr_chunk s"]
      unfolding chunk_at_def by simp
  qed
  have "uint (mc_p (chunkset s' ! p)) + mc_size (chunkset s' ! p) \<le> uint (mc_p (chunkset s' ! q))"
    if "q < length (chunkset s)" "p < q" for p q
  proof -
    have "(int p + 1) * (CHUNKSIZE * 4096) \<le> int q * (CHUNKSIZE * 4096)"
      using that by (intro mult_right_mono) (simp_all add: CHUNKSIZE_def)
    then show ?thesis using p [of p] p [of q] that by (simp add: algebra_simps)
  qed
  with s' at len show ?thesis by blast
qed

lemma foot_concat:
  assumes "list_all2 (\<lambda>q tr. \<forall>h F. foot_run k h F tr = foot_del F (chunk_foot (cs ! q))) qs trs"
  shows "foot_run k h F (concat trs) = foot_del F (all_foot (map ((!) cs) qs))"
  using assms
proof (induction qs trs arbitrary: h F rule: list_all2_induct)
  case (Cons q qs tr trs)
  then show ?case by (simp add: foot_run_append foot_del_add del: split_paired_All)
qed simp

lemma do_mmap_foot:
  assumes "grants k" "chunks_ready s"
  obtains s' where "do_mmap opc k s = (Val (), s')" "same_area s s'"
    "footprint k (trace s') = foot_add (footprint k (trace s)) (all_foot (chunkset s'))"
proof -
  obtain s' where s': "do_mmap opc k s = (Val (), s')" "mapped k s (mmap_order s) s'"
    using do_mmap_mapped [OF assms] by blast
  then have area: "same_area s s'" by (simp add: mapped_def)
  have "map (\<lambda>y. chunkset s' ! slot s y) (mmap_order s) = map ((!) (chunkset s')) (map (slot s) (mmap_order s))" by simp
  also have "\<dots> = chunkset s'"
    by (simp only: slots chunks_ready_length [OF assms(2), symmetric] same_area_sel(4) [OF area, symmetric] map_nth)
  finally show thesis using that s' area unfolding mapped_def by simp
qed

lemma chunks_ready_count:
  assumes "chunks_ready s"
  shows "nat (nr_mem_types s) * nat (nr_chunk s) = length (chunkset s)"
  using chunks_ready_length [OF assms] chunks_readyD(3) [OF assms] by (simp add: get_nr_mem_types_def)

lemma do_munmap_foot:
  assumes "grants k" "indet_zero k" "chunks_ready s" "\<not> opc_defined opc ''hp_partial''"
  obtains tr where "do_munmap opc k s = (Val (), s\<lparr>trace := trace s @ tr\<rparr>)"
    "footprint k (trace s @ tr) = foot_del (footprint k (trace s)) (all_foot (chunkset s))"
proof -
  note n = chunks_ready_count [OF assms(3)]
  have "\<exists>trs. do_munmap opc k s = (Val (), s\<lparr>trace := trace s @ concat trs\<rparr>)
    \<and> list_all2 (\<lambda>q tr. \<forall>h F. foot_run k h F tr = foot_del F (chunk_foot (chunkset s ! q)))
        (concat (map (visited (\<lambda>_. 0)) (chunk_rows (nr_mem_types s) (nr_chunk s)))) trs"
    unfolding do_munmap_def using assms(4) munmap_chunk_grants [OF assms(1), of 0] assms(2)
    by (intro do_work_memory_visits) (simp_all add: n indet_zero_def)
  then obtain trs where trs: "do_munmap opc k s = (Val (), s\<lparr>trace := trace s @ concat trs\<rparr>)"
    "list_all2 (\<lambda>q tr. \<forall>h F. foot_run k h F tr = foot_del F (chunk_foot (chunkset s ! q)))
       [0..<length (chunkset s)] trs"
    unfolding visited_rows_all n by blast
  have "footprint k (trace s @ concat trs) = foot_del (footprint k (trace s)) (all_foot (chunkset s))"
    using foot_concat [OF trs(2)] by (simp add: footprint_append map_nth)
  then show thesis using that trs(1) by blast
qed

text \<open>C2: \<open>do_munmap\<close> (without \<open>hp_partial\<close>) undoes \<open>do_mmap\<close>: on a kernel that grants the requests, and with 0 for
  the result the chunk function never sets, the pages, attachments and shared memory segments that \<open>do_mmap\<close> adds are
  those of the chunks, and \<open>do_munmap\<close> unmaps, detaches and removes exactly these.\<close>

theorem mmap_munmap_restores:
  assumes "grants k" "indet_zero k" "chunks_ready s" "\<not> opc_defined opc' ''hp_partial''"
  shows "\<exists>s' s''. do_mmap opc k s = (Val (), s') \<and> do_munmap opc' k s' = (Val (), s'')
    \<and> footprint k (trace s') = foot_add (footprint k (trace s)) (all_foot (chunkset s'))
    \<and> footprint k (trace s'') = foot_del (footprint k (trace s)) (all_foot (chunkset s'))"
proof -
  obtain s' where s': "do_mmap opc k s = (Val (), s')" "same_area s s'"
      "footprint k (trace s') = foot_add (footprint k (trace s)) (all_foot (chunkset s'))"
    by (rule do_mmap_foot [OF assms(1,3)])
  obtain tr where tr: "do_munmap opc' k s' = (Val (), s'\<lparr>trace := trace s' @ tr\<rparr>)"
      "footprint k (trace s' @ tr) = foot_del (footprint k (trace s')) (all_foot (chunkset s'))"
    by (rule do_munmap_foot [OF assms(1,2) same_area_ready [OF s'(2) assms(3)] assms(4)])
  with s' show ?thesis by (auto simp: foot_add_del)
qed

text \<open>A kernel that grants the requests, and a tool set up for two backends of two chunks.\<close>

definition grant_kernel :: kernel where
  "grant_kernel h c = ok\<lparr>rv := (case c of Mmap a len prot flags fd off \<Rightarrow> uint a
     | Shmat i a flags \<Rightarrow> uint a | _ \<Rightarrow> 0)\<rparr>"

lemma grant_kernel_grants: "grants grant_kernel" "indet_zero grant_kernel"
  by (simp_all add: grants_def indet_zero_def grant_kernel_def)

definition demo :: mm where
  "demo = mm0\<lparr>backend_bitmap := BE ANONYMOUS OR BE NORMAL_SHMEM, nr_p := 5000, nr_chunk := 2,
     nr_mem_types := 2, nr_all_chunks := 4, chunkset := replicate 4 chunk0\<rparr>"

lemma demo_backends: "for_each_backend (backend_bitmap demo) = [ANONYMOUS, NORMAL_SHMEM]"
  by code_simp

lemma demo_ready: "chunks_ready demo"
proof -
  have "get_nr_mem_types (backend_bitmap demo) = 2"
    by (simp add: get_nr_mem_types_def demo_backends)
  then show ?thesis by (simp add: chunks_ready_def demo_def mm0_def ADDR_INPUT_def CHUNKSIZE_def)
qed

theorem do_mmap_layout_witness:
  "\<exists>s'. do_mmap opc_zero grant_kernel demo = (Val (), s')
    \<and> chunk_at demo NORMAL_SHMEM 1 1 (chunkset s' ! 3)
    \<and> uint (mc_p (chunkset s' ! 2)) + mc_size (chunkset s' ! 2) \<le> uint (mc_p (chunkset s' ! 3))"
proof -
  have "length (chunkset demo) = 4" "nat (nr_chunk demo) = 2" by (simp_all add: demo_def)
  note * = do_mmap_layout [OF grant_kernel_grants(1) demo_ready, of opc_zero, unfolded this]
  then obtain s' where s': "do_mmap opc_zero grant_kernel demo = (Val (), s')"
    "\<forall>q < 4. chunk_at demo (for_each_backend (backend_bitmap demo) ! (q div 2)) (q div 2) (q mod 2) (chunkset s' ! q)"
    "\<forall>q < 4. \<forall>p < q. uint (mc_p (chunkset s' ! p)) + mc_size (chunkset s' ! p) \<le> uint (mc_p (chunkset s' ! q))"
    by blast
  have "chunk_at demo NORMAL_SHMEM 1 1 (chunkset s' ! 3)"
    using spec [OF s'(2), of 3] by (simp add: demo_backends)
  moreover have "uint (mc_p (chunkset s' ! 2)) + mc_size (chunkset s' ! 2) \<le> uint (mc_p (chunkset s' ! 3))"
    using s'(3) by simp
  ultimately show ?thesis using s'(1) by blast
qed

theorem mmap_munmap_restores_witness:
  "\<exists>s' s''. do_mmap opc_zero grant_kernel demo = (Val (), s') \<and> do_munmap opc_zero grant_kernel s' = (Val (), s'')
    \<and> footprint grant_kernel (trace s'') = ({}, {}, {})"
proof -
  have e: "footprint grant_kernel (trace demo) = ({}, {}, {})" "\<not> opc_defined opc_zero ''hp_partial''"
    by (simp_all add: footprint_def demo_def mm0_def opc_defined_def opc_zero_def)
  show ?thesis
    using mmap_munmap_restores [OF grant_kernel_grants demo_ready e(2), of opc_zero]
    by (auto simp: e(1) foot_del_none)
qed

text \<open>C33: \<open>__munmap_chunk\<close> has no \<open>return\<close>, and \<open>do_work_memory\<close> leaves the row of a backend
  when its function returns anything but 0.  When the unset value happens not to be 0,
  \<open>do_munmap\<close> reports nothing and releases only the first chunk of every backend.\<close>

theorem munmap_missing_return:
  assumes "grants k" "c \<noteq> 0" "\<forall>h. rv (k h Indet) = c"
    and "chunks_ready s" "\<not> opc_defined opc ''hp_partial''"
  shows "\<exists>s'. do_munmap opc k s = (Val (), s')
    \<and> footprint k (trace s') = foot_del (footprint k (trace s))
        (all_foot (map (\<lambda>j. chunkset s ! (j * nat (nr_chunk s))) [0..<nat (nr_mem_types s)]))"
proof -
  let ?rows = "chunk_rows (nr_mem_types s) (nr_chunk s)"
  note n = chunks_ready_count [OF assms(4)]
  have "\<exists>trs. do_munmap opc k s = (Val (), s\<lparr>trace := trace s @ concat trs\<rparr>)
    \<and> list_all2 (\<lambda>q tr. \<forall>h F. foot_run k h F tr = foot_del F (chunk_foot (chunkset s ! q)))
        (concat (map (visited (\<lambda>_. c)) ?rows)) trs"
    unfolding do_munmap_def using assms(5) munmap_chunk_grants [OF assms(1), of c] assms(3)
    by (intro do_work_memory_visits) (simp_all add: n)
  then obtain trs where trs: "do_munmap opc k s = (Val (), s\<lparr>trace := trace s @ concat trs\<rparr>)"
    "list_all2 (\<lambda>q tr. \<forall>h F. foot_run k h F tr = foot_del F (chunk_foot (chunkset s ! q)))
        (concat (map (visited (\<lambda>_. c)) ?rows)) trs" by blast
  have "0 < nat (nr_chunk s)" using chunks_readyD(2) [OF assms(4)] by simp
  then have "[0..<nat (nr_chunk s)] = 0 # [1..<nat (nr_chunk s)]" by (simp add: upt_conv_Cons)
  then have "map (visited (\<lambda>_. c)) ?rows = map (\<lambda>j. [j * nat (nr_chunk s)]) [0..<nat (nr_mem_types s)]"
    by (simp add: chunk_rows_def assms(2))
  then have "concat (map (visited (\<lambda>_. c)) ?rows) = map (\<lambda>j. j * nat (nr_chunk s)) [0..<nat (nr_mem_types s)]"
    by (simp only: concat_map_singleton)
  then have un: "map ((!) (chunkset s)) (concat (map (visited (\<lambda>_. c)) ?rows))
      = map (\<lambda>j. chunkset s ! (j * nat (nr_chunk s))) [0..<nat (nr_mem_types s)]" by simp
  from foot_concat [OF trs(2), of "trace s" "footprint k (trace s)", unfolded un] trs(1)
  show ?thesis by (auto simp: footprint_append)
qed

text \<open>The four chunks of the demonstration, mapped: the second chunk of either backend is still there afterwards.\<close>

definition forgetful_kernel :: kernel where
  "forgetful_kernel h c = (if c = Indet then ok\<lparr>rv := 1\<rparr> else grant_kernel h c)"

theorem munmap_missing_return_witness:
  "\<exists>s s'. do_mmap opc_zero forgetful_kernel demo = (Val (), s) \<and> do_munmap opc_zero forgetful_kernel s = (Val (), s')
    \<and> footprint forgetful_kernel (trace s) = all_foot (chunkset s)
    \<and> footprint forgetful_kernel (trace s') = foot_del (all_foot (chunkset s)) (all_foot [chunkset s ! 0, chunkset s ! 2])"
proof -
  have 1: "grants forgetful_kernel" by (simp add: grants_def forgetful_kernel_def grant_kernel_def)
  have 2: "\<forall>h. rv (forgetful_kernel h Indet) = 1" by (simp add: forgetful_kernel_def)
  have e: "footprint forgetful_kernel (trace demo) = ({}, {}, {})" "\<not> opc_defined opc_zero ''hp_partial''"
    by (simp_all add: footprint_def demo_def mm0_def opc_defined_def opc_zero_def)
  obtain s where s: "do_mmap opc_zero forgetful_kernel demo = (Val (), s)" "same_area demo s"
      "footprint forgetful_kernel (trace s) = all_foot (chunkset s)"
    by (rule do_mmap_foot [OF 1 demo_ready, of opc_zero]) (simp add: e(1))
  have n: "nat (nr_mem_types s) = 2" "nat (nr_chunk s) = 2"
    using same_area_sel [OF s(2)] by (simp_all add: demo_def)
  have "map (\<lambda>j. chunkset s ! (j * 2)) [0..<2] = [chunkset s ! 0, chunkset s ! 2]" by (simp add: upt_rec)
  with munmap_missing_return [OF 1 _ 2 same_area_ready [OF s(2) demo_ready] e(2)] s show ?thesis
    unfolding n by simp
qed

section \<open>Accesses\<close>

lemma chunks_in_bounds:
  assumes "nat nmt * nat nrc = length cs" "q \<in> set (concat (chunk_rows nmt nrc))"
  shows "q < length cs"
  using assms unfolding chunk_rows_concat by simp

text \<open>
  When accessing a chunk issues a fixed sequence of calls, \<open>do_access\<close> issues those of all
  chunks in order.
\<close>

lemma do_access_calls:
  fixes s :: "'z mm_scheme"
  assumes n: "nat (nr_mem_types s) * nat (nr_chunk s) = length (chunkset s)"
    and check: "\<not> opc_defined opc ''check''"
    and acc: "\<And>mc (s' :: 'z mm_scheme). mc \<in> set (chunkset s) \<Longrightarrow>
      access_memory fuel mc (opc_get_value opc ''type'') (opc_defined opc ''reverse'') k s'
        = (Val (), s'\<lparr>trace := trace s' @ g mc\<rparr>)"
  shows "do_access fuel opc k s = (Val (), s\<lparr>trace := trace s @ concat (map g (chunkset s))\<rparr>)"
proof -
  let ?body = "\<lambda>q. bnd (get chunkset :: ('z mm_scheme, mem_chunk list) prog) (\<lambda>cs. if length cs \<le> q then stop (Fault OutOfBounds)
     else sqn (access_memory fuel (cs ! q) (opc_get_value opc ''type'') (opc_defined opc ''reverse''))
            (cond False (check_memory (cs ! q))))"
  have body: "?body q k s' = (Val (), s'\<lparr>trace := trace s' @ g (chunkset s ! q)\<rparr>)"
    if "q < length (chunkset s)" "chunkset s' = chunkset s" for q and s' :: "'z mm_scheme"
    using acc [OF nth_mem [OF that(1)]] that by (simp add: prog_simps)
  have "for_each qs ?body k s' = (Val (), s'\<lparr>trace := trace s' @ concat (map (\<lambda>q. g (chunkset s ! q)) qs)\<rparr>)"
    if "set qs \<subseteq> {..<length (chunkset s)}" "chunkset s' = chunkset s" for qs and s' :: "'z mm_scheme"
    using that
  proof (induction qs arbitrary: s')
    case (Cons q qs)
    then have "q < length (chunkset s)" by simp
    with Cons show ?case by (simp add: for_each_Cons_eval body)
  qed (simp add: for_each_Nil_eval)
  from this [of "[0..<length (chunkset s)]" s]
  have "for_each [0..<length (chunkset s)] ?body k s =
      (Val (), s\<lparr>trace := trace s @ concat (map g (map ((!) (chunkset s)) [0..<length (chunkset s)]))\<rparr>)"
    by (simp add: comp_def lessThan_atLeast0)
  then have "for_each [0..<length (chunkset s)] ?body k s =
      (Val (), s\<lparr>trace := trace s @ concat (map g (chunkset s))\<rparr>)" by (simp only: map_nth)
  then show ?thesis using check
    by (auto simp: do_access_def prog_simps Let_def chunk_rows_concat n)
qed

text \<open>C38: \<open>do_access\<close> with type \<open>read\<close> loads the first byte of every page of every chunk, chunk by
  chunk; with \<open>reverse\<close> the pages of each chunk are loaded from the last to the first.\<close>

theorem access_read_pages:
  fixes s :: "'z mm_scheme"
  assumes "nat (nr_mem_types s) * nat (nr_chunk s) = length (chunkset s)"
    and "opc_get_value opc ''type'' = Some ''read''" "\<not> opc_defined opc ''check''"
    and "\<forall>mc \<in> set (chunkset s). 4096 dvd mc_size mc \<and> 0 \<le> mc_size mc \<and> mc_size mc < 2 ^ 31"
  shows "do_access fuel opc k s = (Val (), s\<lparr>trace := trace s @ concat (map (\<lambda>mc.
      let pages = map (\<lambda>n. Load (mc_p mc + of_nat (n * 4096))) [0..<nat (mc_size mc div 4096)]
      in if opc_defined opc ''reverse'' then rev pages else pages) (chunkset s))\<rparr>)"
proof (rule do_access_calls [OF assms(1,3)])
  fix mc and s' :: "'z mm_scheme"
  assume "mc \<in> set (chunkset s)"
  then have mc: "4096 dvd mc_size mc" "0 \<le> mc_size mc" "mc_size mc < 2 ^ 31" using assms(4) by auto
  have "(mc_size mc + 4095) div 4096 = mc_size mc div 4096" using mc(1) by (auto elim: dvdE)
  then have up: "map (\<lambda>i. Load (mc_p mc + ul i)) (up_pages 0 (mc_size mc)) =
    map (\<lambda>n. Load (mc_p mc + of_nat (n * 4096))) [0..<nat (mc_size mc div 4096)]"
    by (simp add: up_pages_eq comp_def)
  have down: "down_pages (s32 (mc_size mc - 4096)) = rev (up_pages 0 (mc_size mc))"
    using pages_dual mc by (simp add: in_s32_def)
  show "access_memory fuel mc (opc_get_value opc ''type'') (opc_defined opc ''reverse'') k s' =
    (Val (), s'\<lparr>trace := trace s' @ (let pages = map (\<lambda>n. Load (mc_p mc + of_nat (n * 4096))) [0..<nat (mc_size mc div 4096)]
      in if opc_defined opc ''reverse'' then rev pages else pages)\<rparr>)"
    by (simp add: access_memory_def assms(2) read_memory_def for_each_call down up Let_def
        flip: rev_map del: of_nat_mult)
qed

text \<open>A type other than the three that exist is not reported: the guard that should reject it
  never holds, and \<open>do_access\<close> succeeds without touching any memory.\<close>

theorem access_unknown_type:
  fixes s :: "'z mm_scheme"
  assumes "nat (nr_mem_types s) * nat (nr_chunk s) = length (chunkset s)"
    and "opc_get_value opc ''type'' = Some t" "t \<notin> {''read'', ''write'', ''syswrite''}"
    and "\<not> opc_defined opc ''check''"
  shows "do_access fuel opc k s = (Val (), s)"
proof -
  have "do_access fuel opc k s = (Val (), s\<lparr>trace := trace s @ concat (map (\<lambda>mc. []) (chunkset s))\<rparr>)"
    by (rule do_access_calls [OF assms(1,4)]) (use assms(2,3) in \<open>simp add: access_memory_def prog_simps\<close>)
  then show ?thesis by simp
qed

lemma syswrite_reverse_NoFuel: "fst (syswrite_reverse fuel fd off i k s) = NoFuel"
  by (induction fuel arbitrary: i s) (simp_all add: prog_simps)

text \<open>C40: with type \<open>syswrite\<close> and \<open>reverse\<close>, \<open>do_access\<close> does not return, however long it runs: the
  index of its loop is unsigned, so the test \<open>i >= 0\<close> never fails.\<close>

theorem access_syswrite_reverse_diverges:
  fixes s :: "'z mm_scheme"
  assumes "0 < nr_mem_types s" "0 < nr_chunk s"
    and "nat (nr_mem_types s) * nat (nr_chunk s) = length (chunkset s)"
    and "opc_get_value opc ''type'' = Some ''syswrite''" "opc_defined opc ''reverse''"
  shows "fst (do_access fuel opc k s) = NoFuel"
proof -
  have l: "0 < length (chunkset s)" using assms(1,2) by (simp flip: assms(3))
  then have "[0..<length (chunkset s)] = 0 # [1..<length (chunkset s)]" by (simp add: upt_conv_Cons)
  moreover have "fst (access_memory fuel mc (Some ''syswrite'') True k s') = NoFuel"
    for mc and s' :: "'z mm_scheme"
    by (simp add: access_memory_def prog_simps syswrite_reverse_NoFuel)
  then have "\<exists>s''. access_memory fuel mc (Some ''syswrite'') True k s' = (NoFuel, s'')"
    for mc and s' :: "'z mm_scheme" by (metis prod.collapse)
  then obtain s'' where "access_memory fuel (chunkset s ! 0) (Some ''syswrite'') True k s = (NoFuel, s'')" by blast
  ultimately show ?thesis using l
    by (simp add: do_access_def prog_simps Let_def chunk_rows_concat assms(3-5))
qed

text \<open>The witnesses parse an operation string and run it on two mapped chunks.\<close>

definition two_chunks :: mm where
  "two_chunks = mm0\<lparr>nr_chunk := 2, chunkset :=
     [chunk0\<lparr>mc_p := 0x700000000000, mc_size := 0x1000000\<rparr>, chunk0\<lparr>mc_p := 0x700001000000, mc_size := 8192\<rparr>]\<rparr>"

lemma two_chunks_sel:
  "nr_mem_types two_chunks = 1" "nr_chunk two_chunks = 2" "length (chunkset two_chunks) = 2"
  "\<forall>mc \<in> set (chunkset two_chunks). 4096 dvd mc_size mc \<and> 0 \<le> mc_size mc \<and> mc_size mc < 2 ^ 31"
  by (simp_all add: two_chunks_def mm0_def chunk0_def)

definition op_of :: "string \<Rightarrow> op_control" where
  "op_of str = (case parse_opc str of Val opc \<Rightarrow> opc | _ \<Rightarrow> opc_zero)"

theorem access_read_pages_witness:
  "fst (do_access 0 (op_of ''access:type=read:reverse'') grant_kernel two_chunks) = Val ()"
proof -
  have "opc_get_value (op_of ''access:type=read:reverse'') ''type'' = Some ''read''" by code_simp
  moreover have "\<not> opc_defined (op_of ''access:type=read:reverse'') ''check''" by code_simp
  ultimately show ?thesis
    by (subst access_read_pages) (use two_chunks_sel in simp_all)
qed

theorem access_unknown_type_witness:
  "do_access 0 (op_of ''access:type=reed'') grant_kernel two_chunks = (Val (), two_chunks)"
proof (rule access_unknown_type)
  show "opc_get_value (op_of ''access:type=reed'') ''type'' = Some ''reed''" by code_simp
  show "\<not> opc_defined (op_of ''access:type=reed'') ''check''" by code_simp
qed (simp_all add: two_chunks_sel)

theorem access_syswrite_reverse_diverges_witness:
  "fst (do_access 1000 (op_of ''access:type=syswrite:reverse'') grant_kernel two_chunks) = NoFuel"
proof (rule access_syswrite_reverse_diverges)
  show "opc_get_value (op_of ''access:type=syswrite:reverse'') ''type'' = Some ''syswrite''" by code_simp
  show "opc_defined (op_of ''access:type=syswrite:reverse'') ''reverse''" by code_simp
qed (simp_all add: two_chunks_sel)

end
