(* ===== verification/NumaOps.thy ===== *)
theory NumaOps
  imports ChunkLaws
begin

text \<open>
  NUMA and memory-block operations of \<open>lib/include.h\<close>: memory policies, \<open>mbind\<close> and
  \<open>move_pages\<close> on the chunks, and the search for the memory block to hot-remove.  The
  masks of \<open>libnuma\<close> are lists of the bits set; \<open>numa_bitmask_setbit\<close> ignores a bit
  beyond the size of the mask, as its documentation says.
\<close>

abbreviation (input) MPOL_DEFAULT :: int where "MPOL_DEFAULT \<equiv> 0"
abbreviation (input) MPOL_PREFERRED :: int where "MPOL_PREFERRED \<equiv> 1"
abbreviation (input) MPOL_BIND :: int where "MPOL_BIND \<equiv> 2"
abbreviation (input) MPOL_MF_STRICT :: int where "MPOL_MF_STRICT \<equiv> 1"
abbreviation (input) MPOL_MF_MOVE :: int where "MPOL_MF_MOVE \<equiv> 2"
abbreviation (input) MPOL_MF_MOVE_ALL :: int where "MPOL_MF_MOVE_ALL \<equiv> 4"
abbreviation (input) MAXNODES :: nat where "MAXNODES \<equiv> 256"
abbreviation (input) BITS_PER_LONG :: nat where "BITS_PER_LONG \<equiv> 64"

text \<open>The newline that ends a message.\<close>

abbreviation (input) NL :: string where "NL \<equiv> [CHR 0x0A]"

section \<open>Policies and affinity\<close>

text \<open>\<open>None\<close>: a store past the end of the array.\<close>

definition set_node :: "u64 list \<Rightarrow> nat \<Rightarrow> u64 list option" where
  "set_node arr node = (let i = node div BITS_PER_LONG in
     if i < length arr then Some (arr[i := arr ! i OR push_bit (node mod BITS_PER_LONG) 1]) else None)"

text \<open>The function has no \<open>return\<close>.\<close>

definition set_mempolicy_node :: "int \<Rightarrow> int \<Rightarrow> ('z io_scheme, int) prog" where
  "set_mempolicy_node mode nid =
    (case set_node (replicate (MAXNODES div BITS_PER_LONG) 0) (nat (nid mod 2 ^ 32)) of
       None \<Rightarrow> stop (Fault OutOfBounds)
     | Some nmask \<Rightarrow>
         sqn (call (SetMempolicy mode (if mode = MPOL_DEFAULT then None else Some nmask) (of_nat MAXNODES)))
             (sysv Indet))"

definition numa_sched_setaffinity_node :: "int \<Rightarrow> ('z io_scheme, unit) prog" where
  "numa_sched_setaffinity_node nid =
    bnd (sysv (NodeToCpus nid)) (\<lambda>r. if r \<noteq> 0 then exit_failure
      else bnd (sysv (SetAffinity nid)) (\<lambda>r. if r \<noteq> 0 then exit_failure else skip))"

text \<open>Waiting for the controlling script, accessing the memory meanwhile with \<open>busyloop\<close>.\<close>

definition wait_busy :: "nat \<Rightarrow> op_control \<Rightarrow> string \<Rightarrow> ('z mm_scheme, unit) prog" where
  "wait_busy fuel opc text =
    pprintf_wait_func fuel (if opc_defined opc ''busyloop'' then Some (do_access fuel opc) else None) text"

definition do_migratepages :: "nat \<Rightarrow> op_control \<Rightarrow> ('z mm_scheme, unit) prog" where
  "do_migratepages fuel opc = wait_busy fuel opc (''waiting for migratepages'' @ NL)"

section \<open>\<open>mbind\<close>\<close>

record mbind_arg =
  mb_mode :: int
  mb_flags :: int
  mb_nodes :: "nat list"
  mb_size :: u64
  mb_hp_partial :: bool

definition setbit :: "nat \<Rightarrow> mbind_arg \<Rightarrow> mbind_arg" where
  "setbit n a = (if n < unat (mb_size a) then a\<lparr>mb_nodes := List.insert n (mb_nodes a)\<rparr> else a)"

definition clearall :: "mbind_arg \<Rightarrow> mbind_arg" where
  "clearall a = a\<lparr>mb_nodes := []\<rparr>"

definition mbind_chunk :: "mbind_arg \<Rightarrow> mem_chunk \<Rightarrow> ('z mm_scheme, int) prog" where
  "mbind_chunk a mc = no_return (
     if mb_hp_partial a then each_hugepage (mc_size mc) (\<lambda>hps i.
       call (Mbind (mc_p mc + of_nat i * hps) PS (mb_mode a) (mb_nodes a) (mb_size a + 1) (mb_flags a)))
     else call (Mbind (mc_p mc) (ul (mc_size mc)) (mb_mode a) (mb_nodes a) (mb_size a + 1) (mb_flags a)))"

definition mbind_flags :: "string option \<Rightarrow> int" where
  "mbind_flags tmp = (let f = MPOL_MF_MOVE OR MPOL_MF_STRICT in
     if tmp = Some ''move'' then f OR MPOL_MF_MOVE
     else if tmp = Some ''move_all'' then (f AND NOT MPOL_MF_MOVE) OR MPOL_MF_MOVE_ALL
     else f)"

definition do_mbind :: "op_control \<Rightarrow> ('z mm_scheme, unit) prog" where
  "do_mbind opc = bnd (get nr_nodes) (\<lambda>n.
     do_work_memory (mbind_chunk (setbit 1 \<lparr>mb_mode = MPOL_BIND,
       mb_flags = mbind_flags (opc_get_value opc ''flags''), mb_nodes = [], mb_size = n,
       mb_hp_partial = opc_defined opc ''hp_partial''\<rparr>)))"

definition initialize_random :: "('z io_scheme, unit) prog" where
  "initialize_random = call Gettimeofday"

text \<open>\<open>random()\<close> returns a number of 31 bits.\<close>

definition random31 :: "('z io_scheme, nat) prog" where
  "random31 = bnd (sysv Random) (\<lambda>r. ret (nat (r mod 2 ^ 31)))"

text \<open>
  The mask is shared by all calls, so the nodes chosen accumulate in it: the chunk function
  returns the new argument with its (unset) result.
\<close>

definition mbind_fuzz_chunk :: "mem_chunk \<Rightarrow> mbind_arg \<Rightarrow> ('z mm_scheme, mbind_arg \<times> int) prog" where
  "mbind_fuzz_chunk mc a =
    bnd random31 (\<lambda>r1. bnd (get nr_nodes) (\<lambda>nodes. if nodes = 0 then stop (Fault DivByZero) else
    bnd random31 (\<lambda>r2. bnd (get nr_p) (\<lambda>nrp. if nrp = 0 then stop (Fault DivByZero) else
    bnd random31 (\<lambda>r3.
     let node = s32 (int (r1 mod unat nodes));
         offset = ul (crem (int r2) nrp) * PS;
         rest = ul nrp - offset div PS;
         len = (of_nat r3 mod rest) * PS;
         a' = setbit (nat node) a
     in if rest = 0 then stop (Fault DivByZero)
        else sqn (Dprintf (show_ptr (mc_p mc) @ '': node:'' @ show_hex (ul node)
               @ '', offset:'' @ show_hex (take_bit 32 offset) @ '', length:'' @ show_hex (take_bit 32 len) @ NL))
          (sqn (call (Mbind (mc_p mc + offset) (ul (mc_size mc) + len) (mb_mode a') (mb_nodes a')
                 (mb_size a' + 1) (mb_flags a')))
            (bnd (sysv Indet) (\<lambda>x. ret (a', x)))))))))"

text \<open>\<open>do_work_memory\<close> with an argument that the chunk function changes.\<close>

fun fuzz_row :: "nat list \<Rightarrow> mbind_arg \<Rightarrow> ('z mm_scheme, mbind_arg) prog" where
  "fuzz_row [] a = ret a"
| "fuzz_row (q # qs) a = bnd (get chunkset) (\<lambda>cs.
     if length cs \<le> q then stop (Fault OutOfBounds)
     else bnd (mbind_fuzz_chunk (cs ! q) a) (\<lambda>(a', x). if x \<noteq> 0 then ret a' else fuzz_row qs a'))"

fun fuzz_rows :: "nat list list \<Rightarrow> mbind_arg \<Rightarrow> ('z mm_scheme, mbind_arg) prog" where
  "fuzz_rows [] a = ret a"
| "fuzz_rows (row # rows) a = bnd (fuzz_row row a) (fuzz_rows rows)"

text \<open>
  The \<open>while (flag)\<close> loops.  The handler installed for the signal that should end them,
  \<open>sig_handle\<close>, does nothing, so the flag is never cleared.
\<close>

definition sig_handle :: "'z mm_scheme \<Rightarrow> 'z mm_scheme" where
  "sig_handle s = s"

fun while_flag :: "nat \<Rightarrow> ('z mm_scheme, unit) prog \<Rightarrow> ('z mm_scheme, unit) prog" where
  "while_flag 0 body = stop NoFuel"
| "while_flag (Suc n) body = bnd (get g_flag) (\<lambda>f.
     if f \<noteq> 0 then sqn body (while_flag n body) else skip)"

fun fuzz_loop :: "nat \<Rightarrow> mbind_arg \<Rightarrow> ('z mm_scheme, unit) prog" where
  "fuzz_loop 0 a = stop NoFuel"
| "fuzz_loop (Suc n) a = bnd (get g_flag) (\<lambda>f. if f \<noteq> 0
     then bnd (get nr_mem_types) (\<lambda>nmt. bnd (get nr_chunk) (\<lambda>nrc.
       bnd (fuzz_rows (chunk_rows nmt nrc) a) (fuzz_loop n)))
     else skip)"

definition do_mbind_fuzz :: "nat \<Rightarrow> op_control \<Rightarrow> ('z mm_scheme, unit) prog" where
  "do_mbind_fuzz fuel opc =
    sqn initialize_random
    (bnd (get nr_nodes) (\<lambda>n.
     sqn (pprintf (''doing mbind_fuzz'' @ NL))
     (fuzz_loop fuel \<lparr>mb_mode = MPOL_BIND, mb_flags = MPOL_MF_MOVE OR MPOL_MF_STRICT, mb_nodes = [],
        mb_size = n, mb_hp_partial = False\<rparr>)))"

section \<open>\<open>move_pages\<close>\<close>

definition move_pages_chunk :: "int \<Rightarrow> mem_chunk \<Rightarrow> ('z mm_scheme, int) prog" where
  "move_pages_chunk node mc =
    (let n = unat (ul (mc_size mc) div PS) in
     if nat CHUNKSIZE + 1 < n then stop (Fault OutOfBounds)
     else no_return (call (MovePages (map (\<lambda>i. mc_p mc + of_nat i * PS) [0..<n]) (replicate n node)
            MPOL_MF_MOVE_ALL)))"

definition do_move_pages :: "op_control \<Rightarrow> ('z mm_scheme, unit) prog" where
  "do_move_pages opc = do_work_memory (move_pages_chunk 1)"

section \<open>Memory blocks\<close>

text \<open>Every line is scanned; the last number found stays.\<close>

definition probe_memory_block_size :: "('z mm_scheme, u64) prog" where
  "probe_memory_block_size =
    bnd (sys (Fopen ''/sys/devices/system/memory/block_size_bytes'' ''r'')) (\<lambda>r.
      if rv r = 0 then stop (Fault NullDeref)
      else sqn (put (\<lambda>s. s\<lparr>memblk_size := foldl (\<lambda>m line. case scan_lx line of None \<Rightarrow> m | Some v \<Rightarrow> v)
             (memblk_size s) (entries r)\<rparr>))
           (get memblk_size))"

definition get_memblk_size :: "('z mm_scheme, u64) prog" where
  "get_memblk_size =
    sqn (bnd (get memblk_size) (\<lambda>m. if m = 0
          then bnd probe_memory_block_size (\<lambda>v. put (\<lambda>s. s\<lparr>memblk_size := v\<rparr>)) else skip))
        (get memblk_size)"

definition memblk_order_of :: "u64 \<Rightarrow> nat option" where
  "memblk_order_of sz = List.find (\<lambda>i. drop_bit i sz = 1) [0..<64]"

definition get_memblk_order :: "('z mm_scheme, u64) prog" where
  "get_memblk_order =
    sqn (bnd (get memblk_order) (\<lambda>m. if m = 0
          then bnd get_memblk_size (\<lambda>sz. case memblk_order_of sz of None \<Rightarrow> skip
            | Some i \<Rightarrow> put (\<lambda>s. s\<lparr>memblk_order := of_nat i\<rparr>)) else skip))
        (get memblk_order)"

text \<open>Both variables keep the value of the last line that matched; neither is initialised.\<close>

definition last_scanned :: "string \<Rightarrow> string list \<Rightarrow> int option" where
  "last_scanned lit lines = foldl (\<lambda>v line. case scan_int_after lit line of None \<Rightarrow> v | Some x \<Rightarrow> Some x) None lines"

definition get_max_memblock :: "('z mm_scheme, int) prog" where
  "get_max_memblock =
    bnd (sys (Fopen ''/proc/zoneinfo'' ''r'')) (\<lambda>r.
      if rv r = 0 then stop (Fault NullDeref)
      else sqn (call Fclose)
        (bnd get_memblk_order (\<lambda>order.
         case (last_scanned ''spanned'' (entries r), last_scanned ''start_pfn:'' (entries r)) of
           (Some spanned, Some start_pfn) \<Rightarrow>
             if \<not> in_s32 (spanned + start_pfn) \<or> 32 \<le> order - 12 then stop (Fault Overflow)
             else ret (drop_bit (unat (order - 12)) (spanned + start_pfn))
         | _ \<Rightarrow> stop (Fault UnsetValue))))"

definition check_compound :: "'z mm_scheme \<Rightarrow> bool" where
  "check_compound s \<longleftrightarrow> opt_bits s ! 0 AND BIT KPF_COMPOUND_HEAD \<noteq> 0"

text \<open>
  The buffer of page flags, \<open>None\<close> where nothing was read yet: a short read leaves the rest
  as it was.
\<close>

type_synonym flagbuf = "u64 option list"

definition overwrite :: "u64 list \<Rightarrow> flagbuf \<Rightarrow> flagbuf" where
  "overwrite vs buf = map Some (take (length buf) vs) @ drop (length vs) buf"

definition count_matched :: "'z mm_scheme \<Rightarrow> bool \<Rightarrow> u64 list \<Rightarrow> int" where
  "count_matched s compound flags = (if compound then 512 else 1) * int (length (filter (bit_mask_ok s) flags))"

definition flag_at :: "flagbuf \<Rightarrow> nat \<Rightarrow> u64" where
  "flag_at buf i = (if i < length buf then case buf ! i of None \<Rightarrow> 0 | Some v \<Rightarrow> v else 0)"

text \<open>
  The loop over the blocks \<open>is\<close>: the block with the most matching pages so far is
  \<open>best\<close>, with \<open>most\<close> of them; a block full of matching pages ends the search.
\<close>

fun memblock_scan :: "nat list \<Rightarrow> u64 \<Rightarrow> bool \<Rightarrow> flagbuf \<Rightarrow> int \<Rightarrow> int \<Rightarrow> ('z mm_scheme, int) prog" where
  "memblock_scan [] bsize compound buf most best = ret best"
| "memblock_scan (i # is) bsize compound buf most best =
    bnd (kpageflags_read (ul (int_of_ul (of_nat i * bsize))) bsize) (\<lambda>vs.
     let buf' = overwrite vs buf in
     if None \<in> set buf' then stop (Fault UnsetValue)
     else bnd (get (\<lambda>s. count_matched s compound (map the buf'))) (\<lambda>matched.
       sqn (if 0 < matched then sqn (pprintf (''memblock:'' @ show_int (int i) @ '', readret:'' @ show_int (int (length vs))
               @ '' matched:'' @ show_int matched @ '' ('' @ show_int (int_of_ul (ul (matched * 100) div bsize)) @ ''%), 1:''
               @ show_hex (flag_at buf' 0) @ '', 2:'' @ show_hex (flag_at buf' 1) @ NL)) skip else skip)
         (if most < matched then
            (if matched = uint bsize then ret (int i) else memblock_scan is bsize compound buf' matched (int i))
          else memblock_scan is bsize compound buf' most best)))"

definition memblock_check :: "('z mm_scheme, int) prog" where
  "memblock_check =
    bnd get_max_memblock (\<lambda>max_memblock.
    bnd (get check_compound) (\<lambda>compound.
    bnd get_memblk_size (\<lambda>sz. let bsize = drop_bit 12 sz in
    sqn (call (Malloc (bsize * 8)))
    (bnd (sysv (Open ''/proc/kpageflags'' O_RDONLY 0)) (\<lambda>fd.
     sqn (put (\<lambda>s. s\<lparr>kpageflags_fd := fd\<rparr>))
     (bnd (memblock_scan [2..<nat max_memblock] bsize compound (replicate (unat bsize) None) 0 (- 1)) (\<lambda>pmemblk.
      if pmemblk = - 1 then exit_failure
      else sqn (call (Close fd)) (ret pmemblk))))))))"

definition do_hotremove :: "nat \<Rightarrow> op_control \<Rightarrow> ('z mm_scheme, unit) prog" where
  "do_hotremove fuel opc = (case opc_get_value opc ''pageflags'' of
     None \<Rightarrow> exit_failure
   | Some pageflags \<Rightarrow>
      sqn (parse_bits_mask pageflags)
      (bnd (set_mempolicy_node MPOL_PREFERRED 1) (\<lambda>r. if r = - 1 then exit_failure else
       bnd memblock_check (\<lambda>pmemblk.
       sqn (call (Usleep 100))
       (wait_busy fuel opc (''waiting for memory_hotremove: '' @ show_int pmemblk @ NL))))))"

section \<open>Other operations that wait\<close>

definition do_auto_numa :: "nat \<Rightarrow> op_control \<Rightarrow> ('z mm_scheme, unit) prog" where
  "do_auto_numa fuel opc =
    sqn (numa_sched_setaffinity_node 1) (wait_busy fuel opc (''waiting for auto_numa'' @ NL))"

definition do_change_cpuset :: "nat \<Rightarrow> op_control \<Rightarrow> ('z mm_scheme, unit) prog" where
  "do_change_cpuset fuel opc = wait_busy fuel opc (''waiting for change_cpuset'' @ NL)"

definition do_mmap_numa :: "op_control \<Rightarrow> ('z mm_scheme, unit) prog" where
  "do_mmap_numa opc =
    (let cpu = (case opc_get_value opc ''preferred_cpu_node'' of None \<Rightarrow> - 1 | Some t \<Rightarrow> s32 (strtol 0 t));
         mem = (case opc_get_value opc ''preferred_mem_node'' of None \<Rightarrow> 0 | Some t \<Rightarrow> s32 (strtol 0 t))
     in sqn (cond (cpu \<noteq> - 1) (numa_sched_setaffinity_node cpu))
        (bnd (set_mempolicy_node MPOL_BIND mem) (\<lambda>r. if r = - 1 then exit_failure else
         sqn (do_mmap opc)
         (bnd (set_mempolicy_node MPOL_DEFAULT 0) (\<lambda>r. if r = - 1 then exit_failure else skip)))))"

end
