(* ===== verification/MemOps.thy ===== *)
theory MemOps
  imports NumaOps
begin

text \<open>
  The other operations of \<open>lib/include.h\<close>: error injection, locking and protection,
  compaction, \<open>mremap\<close>, the endless iterations, \<open>fork\<close>, splitting of transparent
  hugepages, \<open>madvise\<close>, \<open>process_vm_readv\<close>, \<open>prctl\<close> and memory policies.  An
  operation that changes the \<open>op_control\<close> it was given returns the new one.
\<close>

section \<open>Error injection\<close>

text \<open>
  The offset of the injection is parsed and thrown away (\<open>strtol\<close> without an assignment),
  so the first page of the first chunk is always the target.
\<close>

definition do_memory_error_injection :: "nat \<Rightarrow> op_control \<Rightarrow> ('z mm_scheme, unit) prog" where
  "do_memory_error_injection fuel opc = (case opc_get_value opc ''error_type'' of
     None \<Rightarrow> exit_failure
   | Some error_type \<Rightarrow>
      sqn (if error_type = ''mce-srao'' \<or> error_type = ''hard-offline'' \<or> error_type = ''soft-offline''
           then pprintf_wait_func fuel None (''waiting for injection from outside'' @ NL)
           else if error_type = ''madv_hard'' \<or> error_type = ''madv_soft''
           then bnd (get chunkset) (\<lambda>cs. if cs = [] then stop (Fault OutOfBounds) else
             let offset = 0; a = mc_p (cs ! 0) + offset * PS in
             seqs [Dprintf (''madvise inject to addr '' @ show_hex a @ NL),
               call (Madvise a PS (if error_type = ''madv_hard'' then MADV_HWPOISON else MADV_SOFT_OFFLINE)),
               pprintf_wait_func fuel None (''after madvise injection'' @ NL)])
           else exit_failure)
       (cond (opc_defined opc ''access_after_injection'')
         (sqn (pprintf_wait_func fuel None (''writing affected region'' @ NL)) (do_access fuel opc))))"

section \<open>Locking and protection\<close>

text \<open>A call on every hugepage's first page, or one call on the whole chunk.\<close>

definition on_chunk :: "bool \<Rightarrow> (addr \<Rightarrow> u64 \<Rightarrow> sys) \<Rightarrow> mem_chunk \<Rightarrow> ('z mm_scheme, int) prog" where
  "on_chunk hp_partial c mc = no_return (
     if hp_partial then each_hugepage (mc_size mc) (\<lambda>hps i. call (c (mc_p mc + of_nat i * hps) PS))
     else call (c (mc_p mc) (ul (mc_size mc))))"

definition mlock_chunk :: "op_control \<Rightarrow> mem_chunk \<Rightarrow> ('z mm_scheme, int) prog" where
  "mlock_chunk opc = on_chunk (opc_defined opc ''hp_partial'') Mlock"

definition do_mlock :: "op_control \<Rightarrow> ('z mm_scheme, unit) prog" where
  "do_mlock opc = do_work_memory (mlock_chunk opc)"

definition munlock_chunk :: "op_control \<Rightarrow> mem_chunk \<Rightarrow> ('z mm_scheme, int) prog" where
  "munlock_chunk opc = on_chunk (opc_defined opc ''hp_partial'') Munlock"

definition do_munlock :: "op_control \<Rightarrow> ('z mm_scheme, unit) prog" where
  "do_munlock opc = do_work_memory (munlock_chunk opc)"

definition mlock2_chunk :: "op_control \<Rightarrow> mem_chunk \<Rightarrow> ('z mm_scheme, int) prog" where
  "mlock2_chunk opc = on_chunk (opc_defined opc ''hp_partial'') (\<lambda>a len. Mlock2 a len 1)"

definition do_mlock2 :: "op_control \<Rightarrow> ('z mm_scheme, unit) prog" where
  "do_mlock2 opc = do_work_memory (mlock2_chunk opc)"

text \<open>A numeric argument stored in an \<open>int\<close>, with a value for its absence.\<close>

definition int_arg :: "op_control \<Rightarrow> string \<Rightarrow> int \<Rightarrow> int" where
  "int_arg opc key dflt = (case opc_get_value opc key of None \<Rightarrow> dflt | Some t \<Rightarrow> int_of_ul (strtoul 0 t))"

definition mprotect_chunk :: "int \<Rightarrow> int \<Rightarrow> mem_chunk \<Rightarrow> ('z mm_scheme, int) prog" where
  "mprotect_chunk permission hp_partial mc = bnd (get protflag) (\<lambda>pf.
     let prot = (if permission \<noteq> - 1 then permission else pf OR PROT_EXEC)
     in on_chunk (hp_partial \<noteq> 0) (\<lambda>a len. Mprotect a len prot) mc)"

definition do_mprotect :: "op_control \<Rightarrow> ('z mm_scheme, unit) prog" where
  "do_mprotect opc =
    do_work_memory (mprotect_chunk (int_arg opc ''permission'' (- 1)) (int_arg opc ''hp_partial'' 0))"

section \<open>Compaction\<close>

text \<open>A pointer stored to memory, least significant byte first.\<close>

definition store_word :: "addr \<Rightarrow> u64 \<Rightarrow> ('z io_scheme, unit) prog" where
  "store_word a v = for_each [0..<8] (\<lambda>j. call (Store (a + of_nat j) (char_of (unat (drop_bit (8 * j) v)))))"

definition allocate_transhuge :: "addr \<Rightarrow> ('z io_scheme, unit) prog" where
  "allocate_transhuge ptr =
    bnd (sysv (Mmap ptr THPS (PROT_READ OR PROT_WRITE)
       (MAP_FIXED OR MAP_ANONYMOUS OR MAP_NORESERVE OR MAP_PRIVATE) (- 1) 0)) (\<lambda>r.
     if ul r \<noteq> ptr then exit_failure
     else bnd (sysv (Madvise ptr THPS MADV_HUGEPAGE)) (\<lambda>r. if r \<noteq> 0 then exit_failure
       else for_each [0..<2 ^ (THP_SHIFT - PAGE_SHIFT)] (\<lambda>i. store_word (ptr + of_nat i * PS) ptr)))"

fun compaction_loop :: "nat \<Rightarrow> addr \<Rightarrow> addr \<Rightarrow> ('z io_scheme, unit) prog" where
  "compaction_loop 0 p lim = stop NoFuel"
| "compaction_loop (Suc n) p lim = (if p < lim then
     sqn (allocate_transhuge p)
     (bnd (sysv (Madvise p (THPS - PS) MADV_DONTNEED)) (\<lambda>r. if r \<noteq> 0 then exit_failure
       else compaction_loop n (p + THPS) lim))
   else skip)"

definition SIZE_MAX :: u64 where "SIZE_MAX = - 1"

definition do_memory_compaction :: "nat \<Rightarrow> op_control \<Rightarrow> ('z mm_scheme, unit) prog" where
  "do_memory_compaction fuel opc =
    bnd (sysv (Sysconf 85)) (\<lambda>pages. bnd (sysv (Sysconf 30)) (\<lambda>ps.
     if ul ps = 0 then stop (Fault DivByZero) else
     bnd (if ul pages > SIZE_MAX div ul ps div 4 then ret (SIZE_MAX div 4)
          else bnd (sysv (Sysconf 30)) (\<lambda>ps. ret (ul pages * ul ps))) (\<lambda>ram.
     let len = ram - ram mod THPS in
     bnd (sysv (Mmap ADDR_INPUT (len + THPS) (PROT_READ OR PROT_WRITE)
       (MAP_ANONYMOUS OR MAP_NORESERVE OR MAP_PRIVATE) (- 1) 0)) (\<lambda>r. let ptr = ul r in
     bnd (sysv (Madvise ptr len MADV_HUGEPAGE)) (\<lambda>r. if r \<noteq> 0 then exit_failure
     else pprintf_wait_func fuel (Some (compaction_loop fuel ptr (ptr + len)))
            (''now doing memory compaction'' @ NL))))))"

definition do_allocate_more :: "op_control \<Rightarrow> ('z mm_scheme, unit) prog" where
  "do_allocate_more opc = bnd (get nr_p) (\<lambda>n. let sz = int_of_ul (ul n * PS) in
     bnd (checked_mmap (ADDR_INPUT + ul sz) (ul sz) MMAP_PROT ANON_FLAGS (- 1) 0) (\<lambda>panon.
     sqn (pprintf (''anonymous address starts at '' @ show_ptr panon @ NL))
     (call (Memset panon (CHR ''a'') (ul sz)))))"

section \<open>Endless iterations\<close>

text \<open>The child leaves the loop and goes on with the operations that follow.\<close>

fun fork_stress_loop :: "nat \<Rightarrow> nat \<Rightarrow> op_control \<Rightarrow> ('z mm_scheme, unit) prog" where
  "fork_stress_loop 0 fuel opc = stop NoFuel"
| "fork_stress_loop (Suc n) fuel opc = bnd (get g_flag) (\<lambda>f. if f \<noteq> 0
     then bnd (sysv Fork) (\<lambda>pid. if pid = 0 then do_access fuel opc
       else sqn (call (Wait pid)) (fork_stress_loop n fuel opc))
     else skip)"

definition do_fork_stress :: "nat \<Rightarrow> op_control \<Rightarrow> ('z mm_scheme, unit) prog" where
  "do_fork_stress fuel opc = fork_stress_loop fuel fuel opc"

definition mremap_chunk :: "bool \<Rightarrow> mem_chunk \<Rightarrow> ('z mm_scheme, int) prog" where
  "mremap_chunk back mc = bnd (get nr_chunk) (\<lambda>nrc.
     let sz = ul (mc_size mc); off = ul (int_of_ul (ul (s32 (nrc * CHUNKSIZE)) * PS));
         src = (if back then mc_p mc + off else mc_p mc); dst = (if back then mc_p mc else mc_p mc + off)
     in sqn (Dprintf (''mremap p:'' @ show_ptr src @ ''+'' @ show_hex sz @ '' -> '' @ show_ptr dst @ NL))
        (bnd (sysv (Mremap src sz sz 3 dst)) (\<lambda>r. ret (if ul r = - 1 then - 1 else 0))))"

definition do_mremap_stress :: "nat \<Rightarrow> op_control \<Rightarrow> ('z mm_scheme, unit) prog" where
  "do_mremap_stress fuel opc = while_flag fuel
     (sqn (do_work_memory (mremap_chunk False)) (do_work_memory (mremap_chunk True)))"

definition do_mremap :: "op_control \<Rightarrow> ('z mm_scheme, unit) prog" where
  "do_mremap opc = do_work_memory (mremap_chunk False)"

definition do_iterate_mapping :: "nat \<Rightarrow> op_control \<Rightarrow> ('z mm_scheme, unit) prog" where
  "do_iterate_mapping fuel opc = while_flag fuel (seqs [do_mmap opc, do_access fuel opc, do_munmap opc])"

definition sync_file_range_chunk :: "mem_chunk \<Rightarrow> ('z mm_scheme, int) prog" where
  "sync_file_range_chunk mc = no_return (bnd (get g_fd) (\<lambda>fd.
     call (SyncFileRange fd (mc_p mc - ADDR_INPUT) (ul (mc_size mc)) 2)))"

definition do_fsync_file_range :: "op_control \<Rightarrow> ('z mm_scheme, unit) prog" where
  "do_fsync_file_range opc = do_work_memory sync_file_range_chunk"

definition set_val :: "op_control \<Rightarrow> string \<Rightarrow> string \<Rightarrow> ('s, op_control) prog" where
  "set_val opc key val = (case opc_set_value opc key val of Inl e \<Rightarrow> stop (Fault e) | Inr opc' \<Rightarrow> ret opc')"

definition do_iterate_mlock :: "nat \<Rightarrow> op_control \<Rightarrow> ('z mm_scheme, op_control) prog" where
  "do_iterate_mlock fuel opc = bnd (set_val opc ''type'' ''syswrite'') (\<lambda>opc.
     sqn (while_flag fuel (seqs [do_mlock opc, do_access fuel opc, do_fsync_file_range opc, do_munlock opc]))
       (ret opc))"

definition do_iterate_write_fsync :: "nat \<Rightarrow> op_control \<Rightarrow> ('z mm_scheme, op_control) prog" where
  "do_iterate_write_fsync fuel opc = bnd (set_val opc ''type'' ''syswrite'') (\<lambda>opc.
     sqn (while_flag fuel (seqs [do_access fuel opc, do_fsync_file_range opc])) (ret opc))"

section \<open>Ping-pong\<close>

definition iterate_mbind_pingpong :: "mbind_arg \<Rightarrow> ('z mm_scheme, unit) prog" where
  "iterate_mbind_pingpong a = sqn (do_work_memory (mbind_chunk (setbit 1 (clearall a))))
     (do_work_memory (mbind_chunk (setbit 0 (clearall a))))"

definition do_mbind_pingpong :: "nat \<Rightarrow> op_control \<Rightarrow> ('z mm_scheme, unit) prog" where
  "do_mbind_pingpong fuel opc = bnd (get nr_nodes) (\<lambda>n.
     pprintf_wait_func fuel (Some (iterate_mbind_pingpong \<lparr>mb_mode = MPOL_BIND,
       mb_flags = MPOL_MF_MOVE OR MPOL_MF_STRICT, mb_nodes = [], mb_size = n, mb_hp_partial = False\<rparr>))
      (''entering iterate_mbind_pingpong'' @ NL))"

definition move_pages_pingpong :: "('z mm_scheme, unit) prog" where
  "move_pages_pingpong = sqn (do_work_memory (move_pages_chunk 1)) (do_work_memory (move_pages_chunk 0))"

definition do_move_pages_pingpong :: "nat \<Rightarrow> op_control \<Rightarrow> ('z mm_scheme, unit) prog" where
  "do_move_pages_pingpong fuel opc =
    pprintf_wait_func fuel (Some move_pages_pingpong) (''entering move_pages_pingpong'' @ NL)"

section \<open>Fork and hugepage splitting\<close>

text \<open>What the child does first: it becomes a reader that waits after its operation.\<close>

definition child_setup :: "op_control \<Rightarrow> ('z mm_scheme, op_control) prog" where
  "child_setup opc = bnd (set_val (opc\<lparr>opc_name := ''access'', opc_wait_after := 1\<rparr>) ''type'' ''read'') (\<lambda>opc.
     sqn (put (\<lambda>s. s\<lparr>testpipe := None\<rparr>)) (ret opc))"

definition do_fork :: "nat \<Rightarrow> op_control \<Rightarrow> ('z mm_scheme, int \<times> op_control) prog" where
  "do_fork fuel opc = bnd (sysv Fork) (\<lambda>pid. if pid = 0
     then bnd (child_setup opc) (\<lambda>opc. sqn (do_access fuel opc) (ret (0, opc)))
     else ret (pid, opc))"

text \<open>The hugepages of a chunk: \<open>i * THPS < size\<close>.\<close>

definition thp_indices :: "int \<Rightarrow> nat list" where
  "thp_indices sz = [0..<(unat (ul sz) + 0x1FFFFF) div 0x200000]"

definition split_thp_chunk :: "mem_chunk \<Rightarrow> ('z mm_scheme, int) prog" where
  "split_thp_chunk mc = no_return (for_each (thp_indices (mc_size mc)) (\<lambda>i.
     bnd (sysv (Madvise (mc_p mc + of_nat (i + 1) * THPS - PS) PS MADV_DONTNEED)) (\<lambda>r.
       if r < 0 then exit_failure else skip)))"

definition do_split_thp :: "op_control \<Rightarrow> ('z mm_scheme, unit) prog" where
  "do_split_thp opc = (if opc_defined opc ''only_pmd'' then do_work_memory split_thp_chunk
     else bnd (sysv Getpid) (\<lambda>pid. bnd (get nr_p) (\<lambda>n.
       call (System (''echo '' @ show_int pid @ '',0x'' @ show_hex ADDR_INPUT @ '',0x''
         @ show_hex (ADDR_INPUT + ul n * PS) @ '' > /sys/kernel/debug/split_huge_pages'')))))"

definition do_fork_pmd_split :: "nat \<Rightarrow> op_control \<Rightarrow> ('z mm_scheme, int \<times> op_control) prog" where
  "do_fork_pmd_split fuel opc = bnd (sysv Fork) (\<lambda>pid. if pid = 0
     then bnd (child_setup opc) (\<lambda>opc.
       sqn (seqs [do_access fuel opc, do_work_memory split_thp_chunk, do_access fuel opc]) (ret (0, opc)))
     else ret (pid, opc))"

section \<open>\<open>madvise\<close>\<close>

record madvise_arg =
  ma_advice :: int
  ma_size :: int
  ma_hp_partial :: int
  ma_offset :: int
  ma_length :: int
  ma_step :: int

text \<open>Calls made until one does not return 0.\<close>

fun first_failure :: "sys list \<Rightarrow> ('z io_scheme, int) prog" where
  "first_failure [] = ret 0"
| "first_failure (c # cs) = bnd (sysv c) (\<lambda>r. if r \<noteq> 0 then ret r else first_failure cs)"

text \<open>The length of the range that starts at page \<open>i\<close>: cut at the end of the chunk.\<close>

definition step_len :: "int \<Rightarrow> int \<Rightarrow> int \<Rightarrow> int" where
  "step_len len sz i = (let tmplen = int_of_ul (ul len * PS) in
     if ul i * PS + ul tmplen > ul sz then int_of_ul (ul sz - ul i * PS) else tmplen)"

fun madvise_steps :: "nat \<Rightarrow> madvise_arg \<Rightarrow> mem_chunk \<Rightarrow> int \<Rightarrow> ('z io_scheme, int) prog" where
  "madvise_steps 0 a mc i = stop NoFuel"
| "madvise_steps (Suc n) a mc i =
    bnd (sysv (Madvise (mc_p mc + ul i * PS) (ul (step_len (ma_length a) (mc_size mc) i)) (ma_advice a))) (\<lambda>r.
      if r \<noteq> 0 then ret r
      else if ma_step a = 0 then ret 0
      else let i' = s32 (i + ma_step a) in
        if ul i' * PS > ul (mc_size mc) then ret 0 else madvise_steps n a mc i')"

text \<open>With \<open>size\<close> given, success ends the function without a \<open>return\<close>.\<close>

definition madvise_chunk :: "nat \<Rightarrow> madvise_arg \<Rightarrow> mem_chunk \<Rightarrow> ('z mm_scheme, int) prog" where
  "madvise_chunk fuel a mc =
    (if ma_size a \<noteq> 0 then
       bnd (sysv (Madvise (mc_p mc) (ul (ma_size a)) (ma_advice a))) (\<lambda>r. if r \<noteq> 0 then ret r else sysv Indet)
     else if ma_hp_partial a \<noteq> 0 then bnd (get HPS) (\<lambda>hps.
       if hps = 0 then stop (Fault DivByZero)
       else first_failure (map (\<lambda>i. Madvise (mc_p mc + of_nat i * hps) (ul (ma_hp_partial a) * PS) (ma_advice a))
              (hp_indices (mc_size mc) hps)))
     else if ma_offset a \<noteq> 0 \<or> ma_length a \<noteq> 0 \<or> ma_step a \<noteq> 0 then madvise_steps fuel a mc (ma_offset a)
     else sysv (Madvise (mc_p mc) (ul (mc_size mc)) (ma_advice a)))"

definition advice_names :: "(string \<times> int) list" where
  "advice_names =
    [(''normal'', MADV_NORMAL), (''random'', MADV_RANDOM), (''sequential'', MADV_SEQUENTIAL),
     (''willneed'', MADV_WILLNEED), (''dontneed'', MADV_DONTNEED), (''free'', MADV_FREE),
     (''remove'', MADV_REMOVE), (''dontfork'', MADV_DONTFORK), (''fork'', MADV_DOFORK),
     (''hwpoison'', MADV_HWPOISON), (''hard_offline'', MADV_HWPOISON),
     (''soft_offline'', MADV_SOFT_OFFLINE), (''mergeable'', MADV_MERGEABLE),
     (''unmergeable'', MADV_UNMERGEABLE), (''hugepage'', MADV_HUGEPAGE),
     (''nohugepage'', MADV_NOHUGEPAGE), (''dontdump'', MADV_DONTDUMP), (''dodump'', MADV_DODUMP)]"

definition do_madvise :: "nat \<Rightarrow> op_control \<Rightarrow> ('z mm_scheme, unit) prog" where
  "do_madvise fuel opc = (case opc_get_value opc ''advice'' of
     None \<Rightarrow> exit_failure
   | Some t \<Rightarrow> (case map_of advice_names t of
       None \<Rightarrow> exit_failure
     | Some adv \<Rightarrow> do_work_memory (madvise_chunk fuel \<lparr>ma_advice = adv,
         ma_size = int_arg opc ''size'' 0, ma_hp_partial = int_arg opc ''hp_partial'' 0,
         ma_offset = int_arg opc ''offset'' 0, ma_length = int_arg opc ''length'' 0,
         ma_step = int_arg opc ''step'' 0\<rparr>)))"

definition do_madv_soft :: "nat \<Rightarrow> op_control \<Rightarrow> ('z mm_scheme, op_control) prog" where
  "do_madv_soft fuel opc =
    bnd (set_val opc ''advice'' ''soft_offline'') (\<lambda>opc. bnd (set_val opc ''size'' ''4096'') (\<lambda>opc.
     sqn (do_madvise fuel opc) (ret opc)))"

definition do_iterate_fault_dontneed :: "nat \<Rightarrow> op_control \<Rightarrow> ('z mm_scheme, op_control) prog" where
  "do_iterate_fault_dontneed fuel opc = sqn (do_mmap opc)
     (bnd (set_val opc ''advice'' ''dontneed'') (\<lambda>opc.
       sqn (while_flag fuel (sqn (do_access fuel opc) (do_madvise fuel opc))) (ret opc)))"

section \<open>The rest\<close>

text \<open>The two arrays of \<open>iovec\<close> have 1024 elements.\<close>

definition process_vm_access_chunk :: "int \<Rightarrow> mem_chunk \<Rightarrow> ('z mm_scheme, int) prog" where
  "process_vm_access_chunk pid mc = bnd (get HPS) (\<lambda>hps.
     if hps = 0 then stop (Fault DivByZero)
     else let n = unat (ul (mc_size mc) div hps) in
       if 1024 < n then stop (Fault OutOfBounds)
       else no_return (call (ProcessVmReadv pid (map (\<lambda>i. mc_p mc + of_nat i * hps) [0..<n]) hps)))"

definition do_process_vm_access :: "nat \<Rightarrow> op_control \<Rightarrow> ('z mm_scheme, op_control) prog" where
  "do_process_vm_access fuel opc = bnd (do_fork fuel opc) (\<lambda>(pid, opc).
     sqn (wait_busy fuel opc (''waiting for process_vm_access'' @ NL))
     (sqn (do_work_memory (process_vm_access_chunk pid)) (ret opc)))"

definition do_vm86 :: "op_control \<Rightarrow> ('z mm_scheme, unit) prog" where
  "do_vm86 opc = skip"

definition do_prctl :: "op_control \<Rightarrow> ('z mm_scheme, unit) prog" where
  "do_prctl opc = (let fl = (if opc_defined opc ''early_kill'' then 1 else 0) in call (Prctl 33 1 fl))"

text \<open>A \<open>bind\<close> without \<open>node\<close> uses a variable that was never set.\<close>

definition do_set_mempolicy :: "op_control \<Rightarrow> ('z mm_scheme, unit) prog" where
  "do_set_mempolicy opc =
    (let node = map_option (\<lambda>t. int_of_ul (strtoul 0 t)) (opc_get_value opc ''node'') in
     case opc_get_value opc ''mode'' of
       None \<Rightarrow> stop (Fault NullDeref)
     | Some mode \<Rightarrow>
        if mode = ''default'' then
          bnd (set_mempolicy_node MPOL_DEFAULT 0) (\<lambda>r. if r = - 1 then exit_failure else skip)
        else if mode = ''bind'' then (case node of None \<Rightarrow> stop (Fault UnsetValue)
          | Some n \<Rightarrow> bnd (set_mempolicy_node MPOL_BIND n) (\<lambda>r. if r = - 1 then exit_failure else skip))
        else exit_failure)"

end
