(* ===== verification/MemLaws.thy ===== *)
theory MemLaws
  imports MemOps
begin

text \<open>
  Laws of the operations: node masks, the order of a memory block, the ranges
  \<open>madvise\<close> is applied to, soft offlining, \<open>mremap\<close>, error injection, and the
  iterations that never end.
\<close>

section \<open>Node masks and block sizes\<close>

text \<open>\<open>set_node\<close> on the cleared array of \<open>set_mempolicy_node\<close> sets the bit of the node and no
  other, for every node the array has room for; any other node is a store out of bounds.\<close>

theorem set_node_mask:
  "(case set_node (replicate (MAXNODES div BITS_PER_LONG) 0) node of
      None \<Rightarrow> MAXNODES \<le> node
    | Some m \<Rightarrow> node < MAXNODES \<and> length m = MAXNODES div BITS_PER_LONG
        \<and> {n. n < MAXNODES \<and> bit (m ! (n div BITS_PER_LONG)) (n mod BITS_PER_LONG)} = {node})"
proof (cases "node < MAXNODES")
  case True
  then have i: "node div 64 < 4" by simp
  then have m: "set_node (replicate 4 0) node = Some ((replicate 4 0)[node div 64 := push_bit (node mod 64) 1])"
    by (simp add: set_node_def Let_def)
  have "bit ((replicate 4 (0 :: u64))[node div 64 := push_bit (node mod 64) 1] ! (n div 64)) (n mod 64) \<longleftrightarrow> n = node"
    if "n < MAXNODES" for n
  proof (cases "n div 64 = node div 64")
    case eq: True
    have "bit (push_bit (node mod 64) (1 :: u64)) (n mod 64) \<longleftrightarrow> n mod 64 = node mod 64"
      by (auto simp: bit_simps)
    moreover have "n mod 64 = node mod 64 \<longleftrightarrow> n = node" using eq by (metis div_mult_mod_eq)
    ultimately show ?thesis using eq i by simp
  next
    case False
    moreover have "n div 64 < 4" using that by simp
    ultimately show ?thesis using i by auto
  qed
  then have "{n. n < MAXNODES \<and> bit ((replicate 4 (0 :: u64))[node div 64 := push_bit (node mod 64) 1] ! (n div 64)) (n mod 64)} = {node}"
    using True by auto
  then show ?thesis using True m by simp
next
  case False
  then have "\<not> node div 64 < 4" by simp
  then show ?thesis using False by (simp add: set_node_def Let_def)
qed

lemma div_eq_1_iff: "0 < d \<Longrightarrow> n div d = 1 \<longleftrightarrow> d \<le> n \<and> n < 2 * (d :: nat)"
proof
  assume "0 < d" "n div d = 1"
  moreover have "n = d * (n div d) + n mod d" "0 < d \<Longrightarrow> n mod d < d" by simp_all
  ultimately show "d \<le> n \<and> n < 2 * d" by (metis add_less_cancel_left le_add1 mult_2 nat_mult_1_right)
next
  assume "d \<le> n \<and> n < 2 * d"
  then show "n div d = 1" by (intro div_nat_eqI) simp_all
qed

lemma drop_bit_eq_1_iff: "drop_bit i (w :: u64) = 1 \<longleftrightarrow> 2 ^ i \<le> unat w \<and> unat w < 2 * 2 ^ i"
proof -
  have "drop_bit i w = 1 \<longleftrightarrow> unat (drop_bit i w) = 1" by (metis unat_1 word_unat_eq_iff)
  also have "unat (drop_bit i w) = drop_bit i (unat w)" by (rule unat_drop_bit_eq)
  also have "drop_bit i (unat w) = unat w div 2 ^ i" by (rule drop_bit_eq_div)
  also have "unat w div 2 ^ i = 1 \<longleftrightarrow> 2 ^ i \<le> unat w \<and> unat w < 2 * 2 ^ i"
    by (rule div_eq_1_iff) simp
  finally show ?thesis .
qed

text \<open>\<open>get_memblk_order\<close> finds the binary logarithm of the block size, rounded down, for
  every size but 0.\<close>

theorem memblk_order_log:
  "(case memblk_order_of sz of None \<Rightarrow> sz = 0 | Some i \<Rightarrow> i < 64 \<and> 2 ^ i \<le> unat sz \<and> unat sz < 2 * 2 ^ i)"
proof (cases "memblk_order_of sz")
  case None
  then have none: "\<not> (2 ^ i \<le> unat sz \<and> unat sz < 2 * 2 ^ i)" if "i < 64" for i
    using that by (auto simp: memblk_order_of_def find_None_iff drop_bit_eq_1_iff)
  have "sz = 0"
  proof (rule ccontr)
    assume "sz \<noteq> 0"
    then have pos: "0 < unat sz" by (simp add: unat_gt_0)
    have "2 ^ i \<le> unat sz" if "i \<le> 64" for i
      using that
    proof (induction i)
      case 0
      then show ?case using pos by simp
    next
      case (Suc i)
      then show ?case using none [of i] by simp
    qed
    from this [of 64] have "2 ^ 64 \<le> unat sz" by simp
    moreover have "unat sz < 2 ^ 64" using unsigned_less [of sz] by simp
    ultimately show False by simp
  qed
  then show ?thesis unfolding None by simp
next
  case (Some i)
  then have "drop_bit i sz = 1" "i < 64"
    by (auto simp: memblk_order_of_def find_Some_iff)
  then show ?thesis using Some by (simp add: drop_bit_eq_1_iff)
qed

section \<open>\<open>madvise\<close>\<close>

text \<open>The pages at which the step loop advises.\<close>

definition step_pages :: "int \<Rightarrow> int \<Rightarrow> int \<Rightarrow> int list" where
  "step_pages off st sz = map (\<lambda>j. off + int j * st) [0..<nat ((sz div 4096 - off) div st + 1)]"

lemma step_pages_Cons:
  assumes "0 < st" "off * 4096 \<le> sz"
  shows "step_pages off st sz = off # (if (off + st) * 4096 \<le> sz then step_pages (off + st) st sz else [])"
proof -
  have le: "off \<le> sz div 4096" using assms(2) by linarith
  have d: "(sz div 4096 - (off + st)) div st + 1 = (sz div 4096 - off) div st"
  proof -
    have "sz div 4096 - off = (sz div 4096 - (off + st)) + st" by simp
    then show ?thesis using assms(1) by (metis div_add_self2 order_less_irrefl)
  qed
  have "0 \<le> (sz div 4096 - off) div st" using le assms(1) by (simp add: pos_imp_zdiv_nonneg_iff)
  then have *: "nat ((sz div 4096 - off) div st + 1) = Suc (nat ((sz div 4096 - off) div st))" by simp
  show ?thesis
  proof (cases "(off + st) * 4096 \<le> sz")
    case True
    have "map (\<lambda>j. off + int j * st) [Suc 0..<Suc n] = map (\<lambda>j. off + st + int j * st) [0..<n]" for n
      by (simp add: map_Suc_upt [symmetric] comp_def algebra_simps del: map_Suc_upt upt_Suc)
    then show ?thesis using True
      unfolding step_pages_def * d by (simp add: upt_conv_Cons del: upt_Suc)
  next
    case False
    moreover obtain q where q: "q = sz div 4096" by simp
    moreover have "4096 * q \<le> sz" unfolding q by simp
    ultimately have "sz div 4096 - off < st" unfolding q [symmetric] by (simp add: not_le)
    then have "(sz div 4096 - off) div st = 0" using le by simp
    then show ?thesis using False by (simp add: step_pages_def)
  qed
qed

lemma ul_page: "0 \<le> i \<Longrightarrow> i * 4096 < 2 ^ 64 \<Longrightarrow> uint (ul i * PS) = i * 4096"
  using uint_ul_small [of "i * 4096"] by (simp add: PS_def)

lemma step_len_eq:
  assumes "0 \<le> i" "i * 4096 \<le> sz" "sz < 2 ^ 31" "0 \<le> len" "len < 2 ^ 19"
  shows "step_len len sz i = min (len * 4096) (sz - i * 4096)"
proof -
  have l: "int_of_ul (ul len * PS) = len * 4096"
    using int_of_ul_small [of "len * 4096"] assms(4,5) by (simp add: PS_def)
  have "ul i * PS + ul (len * 4096) = ul (i * 4096 + len * 4096)" by (simp add: PS_def)
  moreover have "uint (ul (i * 4096 + len * 4096)) = i * 4096 + len * 4096"
    using assms by (intro uint_ul_small) simp_all
  moreover have "uint (ul sz) = sz" using assms by (intro uint_ul_small) simp_all
  ultimately have c: "ul i * PS + ul (len * 4096) > ul sz \<longleftrightarrow> sz < i * 4096 + len * 4096"
    by (simp add: word_less_def)
  have "ul sz - ul i * PS = ul (sz - i * 4096)" by (simp add: PS_def)
  then have "int_of_ul (ul sz - ul i * PS) = sz - i * 4096"
    using assms by (simp only:) (intro int_of_ul_small; simp)
  then show ?thesis unfolding step_len_def Let_def l c by auto
qed

lemma madvise_steps_run:
  assumes madv: "\<And>h a len adv. rv (k h (Madvise a len adv)) = 0"
    and st: "0 < ma_step a" and len: "0 \<le> ma_length a" "ma_length a < 2 ^ 19"
    and sz: "mc_size mc < 2 ^ 31" and i: "0 \<le> i" "i * 4096 \<le> mc_size mc"
    and fuel: "(mc_size mc div 4096 - i) < int fuel" and step: "ma_step a < 2 ^ 30"
  shows "madvise_steps fuel a mc i k s = (Val 0, s\<lparr>trace := trace s @ map (\<lambda>i.
      Madvise (mc_p mc + ul (i * 4096)) (ul (min (ma_length a * 4096) (mc_size mc - i * 4096))) (ma_advice a))
      (step_pages i (ma_step a) (mc_size mc))\<rparr>)"
  using i fuel
proof (induction fuel arbitrary: i s)
  case 0
  then show ?case by linarith
next
  case (Suc n)
  let ?c = "\<lambda>i. Madvise (mc_p mc + ul (i * 4096)) (ul (min (ma_length a * 4096) (mc_size mc - i * 4096))) (ma_advice a)"
  have i: "0 \<le> i" "i * 4096 \<le> mc_size mc" using Suc.prems by simp_all
  have c: "Madvise (mc_p mc + ul i * PS) (ul (step_len (ma_length a) (mc_size mc) i)) (ma_advice a) = ?c i"
    by (simp add: step_len_eq [OF i sz len] PS_def)
  have i': "s32 (i + ma_step a) = i + ma_step a"
    using i sz st step by (intro s32_small) simp_all
  have big: "uint (ul (i + ma_step a) * PS) = (i + ma_step a) * 4096"
    using i sz st step by (intro ul_page) simp_all
  have "uint (ul (mc_size mc)) = mc_size mc" using i sz by (intro uint_ul_small) simp_all
  then have cmp: "ul (i + ma_step a) * PS > ul (mc_size mc) \<longleftrightarrow> mc_size mc < (i + ma_step a) * 4096"
    by (simp only: word_less_def big)
  have run: "madvise_steps (Suc n) a mc i k s =
    (if mc_size mc < (i + ma_step a) * 4096 then (Val 0, s\<lparr>trace := trace s @ [?c i]\<rparr>)
     else madvise_steps n a mc (i + ma_step a) k (s\<lparr>trace := trace s @ [?c i]\<rparr>))"
    using st unfolding madvise_steps.simps c i' Let_def cmp by (simp add: prog_simps madv)
  show ?case
  proof (cases "(i + ma_step a) * 4096 \<le> mc_size mc")
    case True
    have "madvise_steps n a mc (i + ma_step a) k (s\<lparr>trace := trace s @ [?c i]\<rparr>) =
      (Val 0, s\<lparr>trace := trace s @ [?c i]\<rparr>\<lparr>trace := trace (s\<lparr>trace := trace s @ [?c i]\<rparr>)
         @ map ?c (step_pages (i + ma_step a) (ma_step a) (mc_size mc))\<rparr>)"
      by (rule Suc.IH) (use True st i Suc.prems(3) in auto)
    then show ?thesis using True run by (simp add: step_pages_Cons [OF st i(2)])
  next
    case False
    then show ?thesis using run by (simp add: step_pages_Cons [OF st i(2)])
  qed
qed

text \<open>C30: with a positive step, \<open>madvise\<close> on a chunk advises the ranges of \<open>length\<close> pages that start at
  the pages \<open>offset\<close>, \<open>offset + step\<close>, ..., each cut at the end of the chunk, so that no range
  leaves the chunk; the loop ends, and its last range is empty when a start falls on the end
  of the chunk.\<close>

theorem madvise_step_ranges:
  assumes "\<forall>h p len adv. rv (k h (Madvise p len adv)) = 0"
    and "ma_size a = 0" "ma_hp_partial a = 0" "0 < ma_step a" "ma_step a < 2 ^ 30"
    and "0 \<le> ma_length a" "ma_length a < 2 ^ 19"
    and "0 \<le> ma_offset a" "ma_offset a * 4096 \<le> mc_size mc" "mc_size mc < 2 ^ 31"
    and "mc_size mc div 4096 - ma_offset a < int fuel"
  shows "madvise_chunk fuel a mc k s = (Val 0, s\<lparr>trace := trace s @ map (\<lambda>i.
      Madvise (mc_p mc + ul (i * 4096)) (ul (min (ma_length a * 4096) (mc_size mc - i * 4096))) (ma_advice a))
      (step_pages (ma_offset a) (ma_step a) (mc_size mc))\<rparr>)"
proof -
  have "madvise_steps fuel a mc (ma_offset a) k s = (Val 0, s\<lparr>trace := trace s @ map (\<lambda>i.
      Madvise (mc_p mc + ul (i * 4096)) (ul (min (ma_length a * 4096) (mc_size mc - i * 4096))) (ma_advice a))
      (step_pages (ma_offset a) (ma_step a) (mc_size mc))\<rparr>)"
    using assms by (intro madvise_steps_run) simp_all
  then show ?thesis using assms(2-4) by (simp add: madvise_chunk_def)
qed

text \<open>Two pages at pages 0, 2 and 4 of a chunk of four pages: the third range is empty.\<close>

theorem madvise_step_ranges_witness:
  "madvise_chunk 9 \<lparr>ma_advice = 4, ma_size = 0, ma_hp_partial = 0, ma_offset = 0, ma_length = 2, ma_step = 2\<rparr>
     (chunk0\<lparr>mc_p := 0x700000000000, mc_size := 16384\<rparr>) (\<lambda>h c. ok) mm0 =
   (Val 0, mm0\<lparr>trace := [Madvise 0x700000000000 8192 4, Madvise 0x700000002000 8192 4, Madvise 0x700000004000 0 4]\<rparr>)"
proof -
  have "step_pages 0 2 16384 = [0, 2, 4]" by (simp add: step_pages_def upt_rec)
  then show ?thesis
    by (subst madvise_step_ranges) (simp_all add: chunk0_def ok_def, simp add: mm0_def)
qed

section \<open>\<open>mremap\<close>\<close>

text \<open>the destination of \<open>mremap\<close> is one row of chunks further: with more than one backend,
  every chunk but those of the last row is moved, with \<open>MREMAP_FIXED\<close>, onto the chunk of the
  same number of the next backend.\<close>

theorem mremap_next_row:
  assumes "chunk_at s b j i mc" "chunk_at s b' (j + 1) i mc'" "0 < nr_chunk s" "nr_chunk s < 128"
    and "verbose s = 0"
  shows "mremap_chunk False mc k s =
    (let c = Mremap (mc_p mc) (ul (mc_size mc)) (ul (mc_size mc)) 3 (mc_p mc') in
     (Val (if ul (rv (k (trace s) c)) = - 1 then - 1 else 0), s\<lparr>trace := trace s @ [c]\<rparr>))"
proof -
  have "s32 (nr_chunk s * CHUNKSIZE) = nr_chunk s * 4096"
    using assms(3,4) by (simp add: CHUNKSIZE_def s32_small)
  moreover have "int_of_ul (ul (nr_chunk s * 4096) * PS) = nr_chunk s * 16777216"
    using int_of_ul_small [of "nr_chunk s * 16777216"] assms(3,4) by (simp add: PS_def mult.commute)
  moreover have "mc_p mc' = mc_p mc + ul (nr_chunk s * 16777216)"
    using assms(1-3) by (simp add: chunk_at_def CHUNKSIZE_def PS_def algebra_simps)
  ultimately show ?thesis
    by (simp add: mremap_chunk_def prog_simps Let_def Dprintf_def assms(5))
qed

definition row_chunk :: "nat \<Rightarrow> mem_chunk" where
  "row_chunk j = \<lparr>mc_type = ANONYMOUS, mc_size = 0x1000000, mc_p = ADDR_INPUT + of_nat j * 0x2000000,
     mc_shmkey = 0, mc_offset = 0\<rparr>"

theorem mremap_next_row_witness:
  "mremap_chunk False (row_chunk 0) (\<lambda>h c. ok) demo =
    (Val 0, demo\<lparr>trace := [Mremap (mc_p (row_chunk 0)) 0x1000000 0x1000000 3 (mc_p (row_chunk 1))]\<rparr>)"
proof -
  have sz: "get_size_of_chunked_mmap_area 5000 2 0 = 0x1000000"
    by (simp add: chunk_size_eq CHUNKSIZE_def)
  have "chunk_at demo ANONYMOUS 0 0 (row_chunk 0)" "chunk_at demo ANONYMOUS (0 + 1) 0 (row_chunk 1)"
    by (simp_all add: chunk_at_def demo_def mm0_def row_chunk_def sz CHUNKSIZE_def PS_def)
  moreover have "nr_chunk demo = 2" "verbose demo = 0" "trace demo = []" by (simp_all add: demo_def mm0_def)
  moreover have "mc_size (row_chunk 0) = 0x1000000" by (simp add: row_chunk_def)
  ultimately show ?thesis
    by (subst mremap_next_row [where mc' = "row_chunk 1"]) (simp_all add: Let_def ok_def)
qed

section \<open>Soft offlining\<close>

lemma set_val_room:
  assumes "opc_wf opc" "\<not> opc_defined opc key" "opc_nr_args opc < 10" "length key < 64" "length val < 64"
  obtains opc' where "opc_set_value opc key val = Inr opc'" "opc_wf opc'"
    "opc_nr_args opc' = opc_nr_args opc + 1"
proof -
  have "key_index (take (opc_nr_args opc) (opc_keys opc)) key = None" using assms(2) by (simp add: opc_defined_def)
  then obtain opc' where "opc_set_value opc key val = Inr opc'" "opc_nr_args opc' = opc_nr_args opc + 1"
    using assms(3-5) by (simp add: opc_set_value_def)
  then show thesis using that assms(1) opc_set_value_wf by blast
qed

text \<open>A chunk function that returns 0 and issues a fixed sequence of calls.\<close>

lemma do_work_memory_calls:
  fixes s :: "'z mm_scheme"
  assumes n: "nat (nr_mem_types s) * nat (nr_chunk s) = length (chunkset s)"
    and f: "\<And>mc (s' :: 'z mm_scheme). mc \<in> set (chunkset s) \<Longrightarrow> f mc k s' = (Val 0, s'\<lparr>trace := trace s' @ g mc\<rparr>)"
  shows "do_work_memory f k s = (Val (), s\<lparr>trace := trace s @ concat (map g (chunkset s))\<rparr>)"
proof -
  let ?rows = "chunk_rows (nr_mem_types s) (nr_chunk s)"
  have "\<exists>trs. do_work_memory f k s = (Val (), s\<lparr>trace := trace s @ concat trs\<rparr>)
    \<and> list_all2 (\<lambda>q tr. tr = g (chunkset s ! q)) (concat (map (visited (\<lambda>_. 0)) ?rows)) trs"
    using f n by (intro do_work_memory_visits) simp_all
  moreover have "concat (map (visited (\<lambda>_. 0)) ?rows) = [0..<length (chunkset s)]"
    by (simp only: visited_rows_all n)
  ultimately obtain trs where "do_work_memory f k s = (Val (), s\<lparr>trace := trace s @ concat trs\<rparr>)"
    and "list_all2 (\<lambda>q tr. tr = g (chunkset s ! q)) [0..<length (chunkset s)] trs" by auto
  moreover from this(2) have "trs = map (\<lambda>q. g (chunkset s ! q)) [0..<length (chunkset s)]"
    by (auto simp: list_all2_conv_all_nth intro: nth_equalityI)
  moreover have "map (\<lambda>q. g (chunkset s ! q)) [0..<length (chunkset s)] = map g (chunkset s)"
    by (simp add: map_equality_iff)
  ultimately show ?thesis by simp
qed

text \<open>\<open>do_madv_soft\<close> on an operation without \<open>advice\<close> and \<open>size\<close> soft-offlines exactly the first
  page of every chunk, with both values added to the operation.\<close>

theorem madv_soft_first_pages:
  fixes s :: "'z mm_scheme"
  assumes "opc_wf opc" "opc_nr_args opc \<le> 8" "\<not> opc_defined opc ''advice''" "\<not> opc_defined opc ''size''"
    and "\<forall>h p len adv. rv (k h (Madvise p len adv)) = 0" "indet_zero k"
    and "nat (nr_mem_types s) * nat (nr_chunk s) = length (chunkset s)"
  shows "\<exists>opc'. do_madv_soft fuel opc k s = (Val opc', s\<lparr>trace := trace s
      @ concat (map (\<lambda>mc. [Madvise (mc_p mc) 4096 MADV_SOFT_OFFLINE, Indet]) (chunkset s))\<rparr>)
    \<and> opc_get_value opc' ''advice'' = Some ''soft_offline'' \<and> opc_get_value opc' ''size'' = Some ''4096''"
proof -
  obtain c1 where c1: "opc_set_value opc ''advice'' ''soft_offline'' = Inr c1" "opc_wf c1"
      "opc_nr_args c1 = opc_nr_args opc + 1"
    using set_val_room [OF assms(1,3), of "''soft_offline''"] assms(2) by auto
  have "\<not> opc_defined c1 ''size''" using opc.defd_set [OF assms(1) c1(1)] assms(4) by simp
  then obtain c2 where c2: "opc_set_value c1 ''size'' ''4096'' = Inr c2" "opc_wf c2"
    using set_val_room [OF c1(2), of "''size''" "''4096''"] c1(3) assms(2) by auto
  have adv: "opc_get_value c2 ''advice'' = Some ''soft_offline''"
    using opc.get_set_other [OF c1(2) c2(1), of "''advice''"] opc.get_set_same [OF assms(1) c1(1)] by simp
  have sz: "opc_get_value c2 ''size'' = Some ''4096''"
    using opc.get_set_same [OF c1(2) c2(1)] by simp
  have "int_of_ul (strtoul 0 ''4096'') = 4096"
    by (simp add: strtoul_def strto_def strto_digits_def isspace_def digit_val_def int_of_ul_def s32_def)
  then have arg: "int_arg c2 ''size'' 0 = 4096" by (simp add: int_arg_def sz)
  have code: "map_of advice_names ''soft_offline'' = Some MADV_SOFT_OFFLINE" by (simp add: advice_names_def)
  have "do_madvise fuel c2 k s = (Val (), s\<lparr>trace := trace s
      @ concat (map (\<lambda>mc. [Madvise (mc_p mc) 4096 MADV_SOFT_OFFLINE, Indet]) (chunkset s))\<rparr>)"
    unfolding do_madvise_def adv option.case code
    by (rule do_work_memory_calls [OF assms(7)])
      (use assms(5,6) in \<open>simp add: madvise_chunk_def arg prog_simps indet_zero_def\<close>)
  then show ?thesis using adv sz by (simp add: do_madv_soft_def set_val_def c1(1) c2(1) prog_simps)
qed

theorem madv_soft_first_pages_witness:
  "\<exists>opc'. do_madv_soft 1 (op_of ''madv_soft:wait_after'') (\<lambda>h c. ok) two_chunks =
    (Val opc', two_chunks\<lparr>trace := [Madvise 0x700000000000 4096 101, Indet, Madvise 0x700001000000 4096 101, Indet]\<rparr>)"
proof -
  have "opc_wf (op_of ''madv_soft:wait_after'')" by code_simp
  moreover have "opc_nr_args (op_of ''madv_soft:wait_after'') \<le> 8" by code_simp
  moreover have "\<not> opc_defined (op_of ''madv_soft:wait_after'') ''advice''" by code_simp
  moreover have "\<not> opc_defined (op_of ''madv_soft:wait_after'') ''size''" by code_simp
  ultimately have "\<exists>opc'. do_madv_soft 1 (op_of ''madv_soft:wait_after'') (\<lambda>h c. ok) two_chunks =
      (Val opc', two_chunks\<lparr>trace := trace two_chunks
        @ concat (map (\<lambda>mc. [Madvise (mc_p mc) 4096 MADV_SOFT_OFFLINE, Indet]) (chunkset two_chunks))\<rparr>)
    \<and> opc_get_value opc' ''advice'' = Some ''soft_offline'' \<and> opc_get_value opc' ''size'' = Some ''4096''"
    by (rule madv_soft_first_pages) (simp_all add: ok_def indet_zero_def two_chunks_sel)
  moreover have "trace two_chunks = []" "map mc_p (chunkset two_chunks) = [0x700000000000, 0x700001000000]"
    by (simp_all add: two_chunks_def mm0_def)
  ultimately show ?thesis by (auto simp: two_chunks_def)
qed

section \<open>Endless iterations\<close>

text \<open>No operation clears the flag of the \<open>while (flag)\<close> loops.\<close>

abbreviation (input) flag_is :: "int \<Rightarrow> 'z mm_scheme \<Rightarrow> bool" where
  "flag_is v \<equiv> \<lambda>s. g_flag s = v"

lemma keeps_work:
  assumes "\<And>mc. keeps P (f mc)"
  shows "keeps P (do_work_memory f)"
proof -
  have row: "keeps P (work_row f row r)" for row r
    using assms by (induction row arbitrary: r) (auto intro!: keeps_intros)
  have "keeps P (work_rows f rows r)" for rows r
    by (induction rows arbitrary: r) (auto intro!: keeps_intros row)
  then show ?thesis unfolding do_work_memory_def by (intro keeps_intros)
qed

lemma keeps_flag_mem:
  "keeps (flag_is v) (read_memory p sz back)" "keeps (flag_is v) (write_memory p sz back)"
  "keeps (flag_is v) (check_memory mc)"
  unfolding read_memory_def write_memory_def check_memory_def by (intro keeps_intros; simp)+

lemma keeps_flag_syswrite: "keeps (flag_is v) (syswrite_reverse n fd off i)"
  by (induction n arbitrary: i) (simp_all, (intro keeps_intros; simp)+)

lemma keeps_flag_access: "keeps (flag_is v) (do_access fuel opc)"
proof -
  have "keeps (flag_is v) (access_memory fuel mc type down)" for mc type down
    unfolding access_memory_def by (intro keeps_intros keeps_flag_mem keeps_flag_syswrite; simp)
  then show ?thesis unfolding do_access_def by (intro keeps_intros keeps_flag_mem)
qed

lemma keeps_flag_prepare: "keeps (flag_is v) (prepare_memory mc a off)"
  unfolding prepare_memory_def map_chunk_def advise_chunk_def alloc_shmem_def set_mergeable_def
    checked_mmap_def checked_open_def
  by (intro keeps_intros; simp)

lemma keeps_flag_mmap: "keeps (flag_is v) (do_mmap opc)"
  unfolding do_mmap_def mmap_chunk_def by (intro keeps_intros keeps_flag_prepare; simp)

lemma keeps_flag_munmap: "keeps (flag_is v) (do_munmap opc)"
  unfolding do_munmap_def munmap_chunk_def no_return_def free_shmem_def checked_munmap_def each_hugepage_def
  by (intro keeps_work keeps_intros; simp)

lemma keeps_flag_lock: "keeps (flag_is v) (do_mlock opc)" "keeps (flag_is v) (do_munlock opc)"
  unfolding do_mlock_def mlock_chunk_def do_munlock_def munlock_chunk_def on_chunk_def no_return_def each_hugepage_def
  by (intro keeps_work keeps_intros; simp)+

lemma keeps_flag_sync: "keeps (flag_is v) (do_fsync_file_range opc)"
  unfolding do_fsync_file_range_def sync_file_range_chunk_def no_return_def by (intro keeps_work keeps_intros; simp)

lemma keeps_flag_print: "keeps (flag_is v) (Dprintf text)"
  unfolding Dprintf_def pprintf_buf_def pprintf_def pipe_printf_def checked_open_def checked_write_def checked_close_def
  by (intro keeps_intros; simp)

lemma keeps_flag_mremap: "keeps (flag_is v) (mremap_chunk back mc)"
  unfolding mremap_chunk_def by (intro keeps_intros keeps_flag_print; simp)

lemma keeps_flag_madvise: "keeps (flag_is v) (do_madvise fuel opc)"
proof -
  have "keeps (flag_is v) (first_failure cs)" for cs
    by (induction cs) (simp_all, (intro keeps_intros; simp)+)
  moreover have "keeps (flag_is v) (madvise_steps n a mc i)" for n a mc i
  proof (induction n arbitrary: i)
    case (Suc n)
    then show ?case unfolding madvise_steps.simps by (intro keeps_intros; simp)
  qed (simp add: keeps_intros)
  ultimately show ?thesis unfolding do_madvise_def madvise_chunk_def
    by (intro keeps_work keeps_intros; simp)
qed

lemmas keeps_flag = keeps_flag_access keeps_flag_mmap keeps_flag_munmap keeps_flag_lock keeps_flag_sync
  keeps_flag_mremap keeps_flag_madvise

lemma while_flag_endless:
  assumes "keeps (flag_is v) body" "v \<noteq> 0" "g_flag s = v"
  shows "fst (while_flag n body k s) \<noteq> Val ()"
  using assms(3)
proof (induction n arbitrary: s)
  case (Suc n)
  obtain r s' where m: "body k s = (r, s')" by (metis surj_pair)
  with assms(1) Suc.prems have "g_flag s' = v" by (rule keepsD [where P = "flag_is v"])
  with Suc m assms(2) show ?case by (cases r) (simp_all add: prog_simps)
qed (simp add: prog_simps)

text \<open>C39: \<open>iterate_mapping\<close>, \<open>mremap_stress\<close>, \<open>iterate_mlock\<close>, \<open>iterate_write_fsync\<close> and
  \<open>iterate_fault_dontneed\<close> never return: whatever the kernel answers and however long they run,
  they end by an error or not at all, because nothing clears the flag they test.\<close>

theorem endless_iterations:
  assumes "g_flag s \<noteq> 0"
  shows "fst (do_iterate_mapping fuel opc k s) \<noteq> Val () \<and> fst (do_mremap_stress fuel opc k s) \<noteq> Val ()
    \<and> fst (do_iterate_mlock fuel opc k s) \<noteq> Val opc' \<and> fst (do_iterate_write_fsync fuel opc k s) \<noteq> Val opc'
    \<and> fst (do_iterate_fault_dontneed fuel opc k s) \<noteq> Val opc'"
proof (intro conjI)
  note endless = while_flag_endless [OF _ assms refl]
  show "fst (do_iterate_mapping fuel opc k s) \<noteq> Val ()"
    unfolding do_iterate_mapping_def by (intro endless keeps_intros keeps_flag)
  show "fst (do_mremap_stress fuel opc k s) \<noteq> Val ()"
    unfolding do_mremap_stress_def by (intro endless keeps_intros keeps_work keeps_flag)
  have after: "fst (sqn m n k s') \<noteq> Val y" if "fst (m k s') \<noteq> Val ()"
    for m :: "('a mm_scheme, unit) prog" and n :: "('a mm_scheme, op_control) prog" and y s'
    using that by (cases "m k s'") (auto simp: prog_simps split: outcome.split)
  have set: "fst (bnd (set_val c key val) f k s') \<noteq> Val y" if "\<And>c. fst (f c k s') \<noteq> Val y"
    for c key val and f :: "op_control \<Rightarrow> ('a mm_scheme, op_control) prog" and y s'
    using that by (simp add: set_val_def prog_simps split: sum.split)
  show "fst (do_iterate_mlock fuel opc k s) \<noteq> Val opc'"
    unfolding do_iterate_mlock_def by (intro set after endless keeps_intros keeps_flag)
  show "fst (do_iterate_write_fsync fuel opc k s) \<noteq> Val opc'"
    unfolding do_iterate_write_fsync_def by (intro set after endless keeps_intros keeps_flag)
  obtain r s' where m: "do_mmap opc k s = (r, s')" by (metis surj_pair)
  have flag: "g_flag s' = g_flag s" by (rule keepsD [OF keeps_flag_mmap _ m]) simp
  have "fst (bnd (set_val opc ''advice'' ''dontneed'') (\<lambda>opc. sqn (while_flag fuel
      (sqn (do_access fuel opc) (do_madvise fuel opc))) (ret opc)) k s') \<noteq> Val opc'"
    by (intro set after while_flag_endless [OF _ assms flag] keeps_intros keeps_flag)
  then show "fst (do_iterate_fault_dontneed fuel opc k s) \<noteq> Val opc'"
    by (cases r) (simp_all add: do_iterate_fault_dontneed_def sqn_eval [of "do_mmap opc"] m)
qed

theorem endless_iterations_witness:
  "g_flag mm0 \<noteq> 0 \<and> fst (do_iterate_mapping 10 opc_zero (\<lambda>h c. ok) mm0) \<noteq> Val ()"
proof -
  have "g_flag mm0 \<noteq> 0" by (simp add: mm0_def)
  then show ?thesis using endless_iterations by blast
qed

section \<open>Error injection\<close>

text \<open>Waiting without a function: 1000 microseconds of sleep for every test of the flag.\<close>

lemma wait_none_returns:
  assumes "script_kernel k" "printable text"
    and "\<And>i. i < n \<Longrightarrow> rv (k (wait_start k s SIGUSR1 text @ concat (replicate i [Poll, Usleep 1000])) Poll) = 0"
    and "rv (k (wait_start k s SIGUSR1 text @ concat (replicate n [Poll, Usleep 1000])) Poll) \<noteq> 0"
    and "n < fuel"
  shows "pprintf_wait_func fuel None text k s = (Val (), s\<lparr>pprintf_wait_flag := 0,
    trace := wait_start k s SIGUSR1 text @ concat (replicate n [Poll, Usleep 1000]) @ [Poll, Sigaction SIGUSR1 0]\<rparr>)"
proof -
  let ?s = "s\<lparr>pprintf_wait_flag := 1, trace := wait_start k s SIGUSR1 text\<rparr>"
  have "wait_loop fuel (call (Usleep 1000)) k ?s = (Val (), ?s\<lparr>pprintf_wait_flag := 0,
      trace := trace ?s @ concat (replicate n (Poll # [Usleep 1000])) @ [Poll]\<rparr>)"
    by (rule wait_loop_returns) (use assms(3-5) in \<open>simp_all add: prog_simps\<close>)
  then show ?thesis by (simp add: pprintf_wait_func_eval [OF assms(1,2)])
qed

text \<open>An injection by \<open>madvise\<close> always hits the first page of the first chunk, whatever
  \<open>error_offset\<close> says: the parsed offset is not used.  Then the tool waits for its script and
  returns.\<close>

theorem injection_first_page:
  fixes s :: "'z mm_scheme"
  defines "s1 \<equiv> \<lambda>e. s\<lparr>trace := trace s @ [Madvise (mc_p (chunkset s ! 0)) 4096 (if e = ''madv_hard'' then 100 else 101)]\<rparr>"
    and "msg \<equiv> ''after madvise injection'' @ NL"
  assumes "opc_get_value opc ''error_type'' = Some e" "e = ''madv_hard'' \<or> e = ''madv_soft''"
    and "\<not> opc_defined opc ''access_after_injection''" "chunkset s \<noteq> []" "verbose s = 0" "script_kernel k"
    and "\<And>i. i < n \<Longrightarrow> rv (k (wait_start k (s1 e) SIGUSR1 msg @ concat (replicate i [Poll, Usleep 1000])) Poll) = 0"
    and "rv (k (wait_start k (s1 e) SIGUSR1 msg @ concat (replicate n [Poll, Usleep 1000])) Poll) \<noteq> 0" "n < fuel"
  shows "do_memory_error_injection fuel opc k s = (Val (), s\<lparr>pprintf_wait_flag := 0,
    trace := wait_start k (s1 e) SIGUSR1 msg @ concat (replicate n [Poll, Usleep 1000]) @ [Poll, Sigaction SIGUSR1 0]\<rparr>)"
proof -
  have "printable msg" unfolding msg_def printable_def by code_simp
  then have "pprintf_wait_func fuel None msg k (s1 e) = (Val (), (s1 e)\<lparr>pprintf_wait_flag := 0,
      trace := wait_start k (s1 e) SIGUSR1 msg @ concat (replicate n [Poll, Usleep 1000]) @ [Poll, Sigaction SIGUSR1 0]\<rparr>)"
    using assms(8-11) by (intro wait_none_returns)
  then show ?thesis using assms(3-7)
    by (auto simp: do_memory_error_injection_def prog_simps Let_def Dprintf_def s1_def msg_def PS_def)
qed

definition prompt_kernel :: kernel where
  "prompt_kernel h c = (if c = Poll then ok\<lparr>rv := 1\<rparr> else ok)"

theorem injection_first_page_witness:
  "\<exists>t. do_memory_error_injection 1 (op_of ''memory_error_injection:error_type=madv_hard:error_offset=5'')
      prompt_kernel two_chunks = (Val (), two_chunks\<lparr>pprintf_wait_flag := 0,
        trace := Madvise 0x700000000000 4096 100 # t\<rparr>)"
proof -
  let ?op = "op_of ''memory_error_injection:error_type=madv_hard:error_offset=5''"
  have "opc_get_value ?op ''error_type'' = Some ''madv_hard''" by code_simp
  moreover have "\<not> opc_defined ?op ''access_after_injection''" by code_simp
  moreover have "script_kernel prompt_kernel" by (simp add: script_kernel_def prompt_kernel_def ok_def)
  moreover have "chunkset two_chunks \<noteq> []" "verbose two_chunks = 0" "trace two_chunks = []"
    "mc_p (chunkset two_chunks ! 0) = 0x700000000000" by (simp_all add: two_chunks_def mm0_def)
  ultimately show ?thesis
    by (subst injection_first_page [where e = "''madv_hard''" and n = 0])
      (simp_all add: prompt_kernel_def wait_start_def, rule exI, rule refl)
qed

end
