(* ===== verification/OpLoop.thy ===== *)
theory OpLoop
  imports MemLaws
begin

text \<open>
  The interpreter of operation strings: \<open>parse_operations\<close> and \<open>do_operation_loop\<close> of
  \<open>lib/include.h\<close>, with the options, the setup and the \<open>main\<close> function of
  \<open>lib/test_alloc_generic.c\<close>.  The options reach \<open>main\<close> through \<open>getopt\<close>, as pairs of
  an option letter and its argument; \<open>numa_max_node\<close> is a parameter.
\<close>

section \<open>Operations\<close>

text \<open>An operation that leaves its \<open>op_control\<close> as it is.\<close>

definition keep :: "op_control \<Rightarrow> ('s, unit) prog \<Rightarrow> ('s, op_control) prog" where
  "keep opc m = sqn m (ret opc)"

text \<open>The branches of the dispatcher, in the order of the code.\<close>

definition do_operation :: "nat \<Rightarrow> op_control \<Rightarrow> ('z mm_scheme, op_control) prog" where
  "do_operation fuel opc =
    (let nm = opc_name opc in
     if nm = ''start'' then ret opc
     else if nm = ''noop'' then ret opc
     else if nm = ''exit'' then ret opc
     else if nm = ''open'' then keep opc (do_open opc)
     else if nm = ''mmap'' then keep opc (do_mmap opc)
     else if nm = ''mmap_numa'' then keep opc (do_mmap_numa opc)
     else if nm = ''access'' then keep opc (do_access fuel opc)
     else if nm = ''busyloop'' then keep opc (do_busyloop fuel opc)
     else if nm = ''munmap'' then keep opc (do_munmap opc)
     else if nm = ''mbind'' then keep opc (do_mbind opc)
     else if nm = ''move_pages'' then keep opc (do_move_pages opc)
     else if nm = ''mlock'' then keep opc (do_mlock opc)
     else if nm = ''mlock2'' then keep opc (do_mlock2 opc)
     else if nm = ''memory_error_injection'' then keep opc (do_memory_error_injection fuel opc)
     else if nm = ''auto_numa'' then keep opc (do_auto_numa fuel opc)
     else if nm = ''mprotect'' then keep opc (do_mprotect opc)
     else if nm = ''change_cpuset'' then keep opc (do_change_cpuset fuel opc)
     else if nm = ''migratepages'' then keep opc (do_migratepages fuel opc)
     else if nm = ''memory_compaction'' then keep opc (do_memory_compaction fuel opc)
     else if nm = ''allocate_more'' then keep opc (do_allocate_more opc)
     else if nm = ''madv_soft'' then do_madv_soft fuel opc
     else if nm = ''iterate_mapping'' then keep opc (do_iterate_mapping fuel opc)
     else if nm = ''iterate_fault_dontneed'' then do_iterate_fault_dontneed fuel opc
     else if nm = ''iterate_mlock'' then do_iterate_mlock fuel opc
     else if nm = ''iterate_write_fsync'' then do_iterate_write_fsync fuel opc
     else if nm = ''mremap'' then keep opc (do_mremap opc)
     else if nm = ''mremap_stress'' then keep opc (do_mremap_stress fuel opc)
     else if nm = ''hotremove'' then keep opc (do_hotremove fuel opc)
     else if nm = ''process_vm_access'' then do_process_vm_access fuel opc
     else if nm = ''fork_stress'' then keep opc (do_fork_stress fuel opc)
     else if nm = ''mbind_pingpong'' then keep opc (do_mbind_pingpong fuel opc)
     else if nm = ''move_pages_pingpong'' then keep opc (do_move_pages_pingpong fuel opc)
     else if nm = ''mbind_fuzz'' then keep opc (do_mbind_fuzz fuel opc)
     else if nm = ''fork'' then bnd (do_fork fuel opc) (\<lambda>(pid, opc). ret opc)
     else if nm = ''split_thp'' then keep opc (do_split_thp opc)
     else if nm = ''fork_pmd_split'' then bnd (do_fork_pmd_split fuel opc) (\<lambda>(pid, opc). ret opc)
     else if nm = ''madvise'' then keep opc (do_madvise fuel opc)
     else if nm = ''vm86'' then keep opc (do_vm86 opc)
     else if nm = ''prctl'' then keep opc (do_prctl opc)
     else if nm = ''set_mempolicy'' then keep opc (do_set_mempolicy opc)
     else exit_failure)"

text \<open>One operation string; the second wait reads the \<open>op_control\<close> the operation left.\<close>

definition run_operation :: "nat \<Rightarrow> string \<Rightarrow> ('z mm_scheme, unit) prog" where
  "run_operation fuel str =
    bnd (parse_operation_args str) (\<lambda>opc.
    sqn (cond (opc_wait_before opc \<noteq> 0) (do_wait_before fuel opc))
    (bnd (do_operation fuel opc) (\<lambda>opc'.
    cond (opc_wait_after opc' \<noteq> 0) (do_wait_after fuel opc'))))"

definition do_operation_loop :: "nat \<Rightarrow> ('z mm_scheme, unit) prog" where
  "do_operation_loop fuel = bnd (get op_strings) (\<lambda>ops. for_each ops (run_operation fuel))"

text \<open>
  The operation strings up to the null pointer that ends them; the array has 256 elements.
\<close>

definition parse_operations :: "string \<Rightarrow> ('z mm_scheme, unit) prog" where
  "parse_operations str = (let ts = tokens '' '' str in
     if 256 < length ts + 1 then stop (Fault OutOfBounds) else put (\<lambda>s. s\<lparr>op_strings := ts\<rparr>))"

text \<open>Not called by any tool: it would store the pieces of a backend option as operations.\<close>

definition parse_backend_option :: "string \<Rightarrow> ('z mm_scheme, unit) prog" where
  "parse_backend_option str = (let ts = tokens '':'' str in
     if 256 < length ts + 1 then stop (Fault OutOfBounds) else put (\<lambda>s. s\<lparr>op_strings := ts\<rparr>))"

definition need_numa :: "('z mm_scheme, unit) prog" where
  "need_numa = bnd (get nr_nodes) (\<lambda>n. if n < 2 then exit_failure else skip)"

text \<open>The handler of \<open>SIGBUS\<close> ends the process: 135 for an action-required memory error.\<close>

definition sigbus_action :: "int \<Rightarrow> ('s, unit) prog" where
  "sigbus_action si_code = stop (if si_code = 4 then Exit 135 else Exit 1)"

section \<open>Setup and main\<close>

text \<open>The three parts of \<open>setup\<close>: the files, the restriction of \<open>devmem\<close>, the chunks.\<close>

definition setup_files :: "('z mm_scheme, unit) prog" where
  "setup_files = bnd (get backend_bitmap) (\<lambda>bm. bnd (get filebase) (\<lambda>fb.
     sqn (cond (fb \<noteq> None \<and> bm AND BE PAGECACHE \<noteq> 0) create_regular_file)
         (cond (bm AND BE HUGETLB_FILE \<noteq> 0) create_hugetlbfs_file)))"

definition setup_devmem :: "('z mm_scheme, unit) prog" where
  "setup_devmem = bnd (get backend_bitmap) (\<lambda>bm.
     if bm AND BE DEVMEM \<noteq> 0 then
       (if bm AND NOT (BE DEVMEM) \<noteq> 0 then exit_failure else put (\<lambda>s. s\<lparr>nr_p := 1\<rparr>))
     else skip)"

definition setup_chunkset :: "('z mm_scheme, unit) prog" where
  "setup_chunkset =
     sqn (put (\<lambda>s. s\<lparr>nr_chunk := cdiv (nr_p s - 1) CHUNKSIZE + 1\<rparr>))
     (sqn (put (\<lambda>s. s\<lparr>nr_mem_types := get_nr_mem_types (backend_bitmap s)\<rparr>))
     (sqn (put (\<lambda>s. s\<lparr>nr_all_chunks := s32 (nr_chunk s * nr_mem_types s)\<rparr>))
     (bnd (get nr_all_chunks) (\<lambda>n.
      bnd (sysv (Malloc (32 * ul n))) (\<lambda>p.
      if p = 0 \<and> n \<noteq> 0 then stop (Fault NullDeref)
      else if n < 0 then stop (Fault OutOfBounds)
      else put (\<lambda>s. s\<lparr>chunkset := replicate (nat n) chunk0\<rparr>))))))"

definition setup_area :: "('z mm_scheme, unit) prog" where
  "setup_area = seqs [setup_files, setup_devmem, setup_chunkset]"

definition backend_names :: "(string \<times> nat) list" where
  "backend_names =
    [(''pagecache'', PAGECACHE), (''anonymous'', ANONYMOUS), (''thp'', THP),
     (''hugetlb_anon'', HUGETLB_ANON), (''hugetlb_shmem'', HUGETLB_SHMEM),
     (''hugetlb_file'', HUGETLB_FILE), (''ksm'', KSM), (''zero'', ZERO),
     (''huge_zero'', HUGE_ZERO), (''normal_shmem'', NORMAL_SHMEM), (''devmem'', DEVMEM)]"

definition backend_bits :: "string \<Rightarrow> u64" where
  "backend_bits optarg = (case map_of backend_names optarg of Some b \<Rightarrow> BE b | None \<Rightarrow> strtoul 0 optarg)"

text \<open>\<open>lstat\<close> returns the file mode here; \<open>S_ISFIFO\<close> tests its type bits.\<close>

definition S_ISFIFO :: "int \<Rightarrow> bool" where
  "S_ISFIFO m \<longleftrightarrow> m AND 0xF000 = 0x1000"

definition main_option :: "char \<times> string \<Rightarrow> ('z mm_scheme, unit) prog" where
  "main_option = (\<lambda>(c, optarg).
     if c = CHR ''v'' then put (\<lambda>s. s\<lparr>verbose := 1\<rparr>)
     else if c = CHR ''p'' then
       sqn (put (\<lambda>s. s\<lparr>testpipe := Some optarg\<rparr>))
         (bnd (sysv (Lstat optarg)) (\<lambda>m. if S_ISFIFO m then skip else exit_failure))
     else if c = CHR ''n'' then put (\<lambda>s. s\<lparr>nr_p := int_of_ul (strtoul 0 optarg)\<rparr>)
     else if c = CHR ''N'' then put (\<lambda>s. s\<lparr>nr_p := int_of_ul (strtoul 0 optarg * 512)\<rparr>)
     else if c = CHR ''B'' then put (\<lambda>s. s\<lparr>backend_bitmap := backend_bitmap s OR backend_bits optarg\<rparr>)
     else if c = CHR ''L'' then parse_operations optarg
     else if c = CHR ''f'' then put (\<lambda>s. s\<lparr>filebase := Some optarg\<rparr>)
     else if c = CHR ''F'' then put (\<lambda>s. s\<lparr>filebase := None\<rparr>)
     else if c = CHR ''w'' then put (\<lambda>s. s\<lparr>workdir := optarg\<rparr>)
     else if c = CHR ''s'' then call (Sigaction 7 3)
     else exit_failure)"

text \<open>
  The array \<open>op_strings\<close> is never a null pointer, so that a missing \<open>-L\<close> is not reported.
\<close>

definition main_alloc_generic :: "nat \<Rightarrow> int \<Rightarrow> (char \<times> string) list \<Rightarrow> ('z mm_scheme, int) prog" where
  "main_alloc_generic fuel max_node opts =
    sqn (put (\<lambda>s. s\<lparr>nr_nodes := ul (max_node + 1), nodemask := push_bit (nat (max_node + 1)) 1 - 1\<rparr>))
    (sqn (call (Sigaction SIGUSR1 2))
    (sqn (for_each opts main_option)
    (sqn setup_area
    (sqn (do_operation_loop fuel)
    (ret 0)))))"

end
