(* ===== verification/OpLaws.thy ===== *)
theory OpLaws
  imports OpLoop
begin

text \<open>
  Laws of the interpreter: unknown operations are rejected, \<open>setup\<close> prepares the chunks for
  \<open>do_mmap\<close>, the options select the backends.
\<close>

section \<open>Unknown operations\<close>

lemma do_operation_unknown:
  "opc_name opc \<notin> set operation_name \<Longrightarrow> do_operation fuel opc k s = (Exit 1, s)"
  unfolding operation_name_def do_operation_def Let_def by (simp add: prog_simps)

lemma print_opc_silent:
  fixes s :: "'z core_scheme"
  assumes v: "verbose s = 0"
  shows "print_opc opc k s = (Val (), s)"
proof -
  have d: "Dprintf t k s = (Val (), s)" for t by (simp add: Dprintf_def prog_simps v)
  have "seqs (map Dprintf ts) k s = (Val (), s)" for ts
    by (induction ts) (simp_all add: prog_simps d)
  moreover have "(print_opc opc :: ('z core_scheme, unit) prog) = seqs (map Dprintf ((''===> op_name:'' @ opc_name opc)
      # map (\<lambda>i. if opc_values opc ! i = [] then '', '' @ opc_keys opc ! i
           else '', '' @ opc_keys opc ! i @ ''='' @ opc_values opc ! i) [0..<opc_nr_args opc] @ [[CHR 0x0A]]))"
    by (simp add: print_opc_def comp_def)
  ultimately show ?thesis by (simp only:)
qed

lemma run_operation_eval:
  assumes "parse_opc str = Val opc" "verbose s = 0" "opc_wait_before opc = 0"
  shows "run_operation fuel str k s = bnd (do_operation fuel opc)
    (\<lambda>opc'. cond (opc_wait_after opc' \<noteq> 0) (do_wait_after fuel opc')) k s"
  by (simp add: run_operation_def parse_operation_args_def lift_def assms prog_simps print_opc_silent)

text \<open>An operation whose name is not in the table ends the process with a failure status: before
  anything happened when it has no arguments.\<close>

theorem unknown_operation_exits:
  assumes "is_token '':'' nm" "nm \<notin> set operation_name" "length nm < 256" "verbose s = 0"
  shows "run_operation fuel nm k s = (Exit 1, s)"
proof -
  have "parse_opc nm = Val (opc_zero\<lparr>opc_name := nm\<rparr>)"
    using assms(1,3) tokens_join [of "'':''" "[nm]" "CHR '':''"] by (simp add: parse_opc_def opc_zero_def)
  moreover have "do_operation fuel (opc_zero\<lparr>opc_name := nm\<rparr>) k s = (Exit 1, s)"
    using assms(2) by (intro do_operation_unknown) simp
  moreover have "opc_wait_before (opc_zero\<lparr>opc_name := nm\<rparr>) = 0" by (simp add: opc_zero_def)
  ultimately show ?thesis using assms(4)
    by (subst run_operation_eval [where opc = "opc_zero\<lparr>opc_name := nm\<rparr>"]) (simp_all add: bnd_eval)
qed

theorem unknown_operation_exits_witness:
  "run_operation 0 ''mmapp'' (\<lambda>h c. ok) mm0 = (Exit 1, mm0)"
  by (rule unknown_operation_exits) (simp_all add: is_token_def operation_name_def mm0_def)

section \<open>Setup\<close>

text \<open>A kernel on which the files can be created and memory is not exhausted, too.\<close>

definition setup_kernel :: "kernel \<Rightarrow> bool" where
  "setup_kernel k \<longleftrightarrow> grants k \<and> (\<forall>h path mode. rv (k h (Mkdir path mode)) = 0)
     \<and> (\<forall>h n. rv (k h (Malloc n)) \<noteq> 0)"

lemma setup_kernelD:
  assumes "setup_kernel k"
  shows "grants k" "rv (k h (Mkdir path mode)) = 0" "rv (k h (Malloc n)) \<noteq> 0" "rv (k h (Open path flags mode)) \<noteq> - 1"
  using assms grants_rules(5) [of k h path flags mode] by (auto simp: setup_kernel_def)

fun foot_le :: "foot \<Rightarrow> foot \<Rightarrow> bool" where
  "foot_le (P, S, I) (P', S', I') \<longleftrightarrow> P \<subseteq> P' \<and> S \<subseteq> S' \<and> I \<subseteq> I'"

lemma foot_le_refl [simp]: "foot_le F F"
  by (cases F) simp

lemma foot_le_trans: "foot_le F G \<Longrightarrow> foot_le G H \<Longrightarrow> foot_le F H"
  by (cases F; cases G; cases H) auto

lemma foot_le_del_add: "foot_le (foot_del (foot_add F G) G) F"
  by (cases F; cases G) auto

text \<open>Calls that leave no more behind than was there before.\<close>

definition shrinks :: "kernel \<Rightarrow> sys list \<Rightarrow> sys list \<Rightarrow> bool" where
  "shrinks k h tr \<longleftrightarrow> (\<forall>F. foot_le (foot_run k h F tr) F)"

lemma shrinks_foot: "shrinks k xs tr \<Longrightarrow> foot_le (footprint k (xs @ tr)) (footprint k xs)"
  unfolding shrinks_def footprint_append by (rule spec)

lemma shrinks_append: "shrinks k h xs \<Longrightarrow> shrinks k (h @ xs) ys \<Longrightarrow> shrinks k h (xs @ ys)"
  unfolding shrinks_def foot_run_append using foot_le_trans by blast

text \<open>Calls that neither map nor unmap.\<close>

definition no_foot :: "sys list \<Rightarrow> bool" where
  "no_foot tr \<longleftrightarrow> (\<forall>k h F. foot_run k h F tr = F)"

lemma no_foot_shrinks: "no_foot tr \<Longrightarrow> shrinks k h tr"
  by (simp add: no_foot_def shrinks_def)

lemma no_foot_append: "no_foot xs \<Longrightarrow> no_foot ys \<Longrightarrow> no_foot (xs @ ys)"
  by (simp add: no_foot_def foot_run_append)

lemma no_foot_concat: "(\<And>x. x \<in> set xs \<Longrightarrow> no_foot (g x)) \<Longrightarrow> no_foot (concat (map g xs))"
  by (induction xs) (simp_all add: no_foot_def foot_run_append)

lemma footprint_no_foot: "no_foot tr \<Longrightarrow> footprint k (xs @ tr) = footprint k xs"
  unfolding footprint_append no_foot_def by blast

lemma for_each_writes: "no_foot (map (\<lambda>i. Write fd buf) xs)"
  by (induction xs) (simp_all add: no_foot_def)

lemma create_regular_file_ok:
  assumes k: "setup_kernel k" and v: "verbose s = 0" and fb: "filebase s = Some fb"
    and len: "length (workdir s @ ''/'' @ fb) < 256"
  obtains tr fd where "create_regular_file k s = (Val (), s\<lparr>trace := trace s @ tr, g_fd := fd\<rparr>)" "no_foot tr"
proof -
  let ?path = "workdir s @ ''/'' @ fb"
  have len': "\<not> 256 \<le> length ?path" using len by simp
  note rules = setup_kernelD [OF k] prog_simps create_workdir_def Dprintf_def v
  show thesis
  proof (cases "rv (k (trace s @ [Mkdir (workdir s) 0x1C0]) (Access ?path 0)) = - 1")
    case True
    let ?t1 = "[Mkdir (workdir s) 0x1C0, Access ?path 0, Open ?path (O_CREAT OR O_RDWR) 0x1ED]"
    let ?fd = "rv (k (trace s @ [Mkdir (workdir s) 0x1C0, Access ?path 0]) (Open ?path (O_CREAT OR O_RDWR) 0x1ED))"
    let ?tr = "?t1 @ map (\<lambda>i. Write ?fd page_of_a) [0..<nat (nr_p s)] @ [Fsync ?fd]"
    have "create_regular_file k s = (Val (), s\<lparr>trace := trace s @ ?tr, g_fd := ?fd\<rparr>)"
      using True len' unfolding create_regular_file_def open_or_create_def
      by (simp add: rules fb Let_def for_each_call)
    moreover have "no_foot ?tr"
      by (intro no_foot_append for_each_writes) (simp_all add: no_foot_def)
    ultimately show thesis by (rule that)
  next
    case False
    let ?fd = "rv (k (trace s @ [Mkdir (workdir s) 0x1C0, Access ?path 0]) (Open ?path O_RDWR 0x1ED))"
    let ?tr = "[Mkdir (workdir s) 0x1C0, Access ?path 0, Open ?path O_RDWR 0x1ED, Fsync ?fd]"
    have "create_regular_file k s = (Val (), s\<lparr>trace := trace s @ ?tr, g_fd := ?fd\<rparr>)"
      using False len' unfolding create_regular_file_def open_or_create_def
      by (simp add: rules fb Let_def)
    moreover have "no_foot ?tr" by (simp add: no_foot_def)
    ultimately show thesis by (rule that)
  qed
qed

lemma create_hugetlbfs_file_ok:
  assumes k: "setup_kernel k" and fb: "filebase s = Some fb"
    and len: "length (workdir s @ ''/hugetlbfs/'' @ fb) < 256"
  obtains tr fd where "create_hugetlbfs_file k s = (Val (), s\<lparr>trace := trace s @ tr, hugetlbfd := fd\<rparr>)"
    "shrinks k (trace s) tr"
proof -
  let ?d = "workdir s @ ''/hugetlbfs''" and ?path = "workdir s @ ''/hugetlbfs/'' @ fb"
  let ?o = "Open ?path (O_CREAT OR O_RDWR) 0x1ED" and ?t1 = "[Mkdir (workdir s @ ''/hugetlbfs'') 0x1C0]"
  let ?fd = "rv (k (trace s @ ?t1) ?o)" and ?n = "ul (nr_p s) * PS"
  let ?m = "Mmap 0 ?n (protflag s) MAP_SHARED ?fd 0"
  let ?p = "ul (rv (k (trace s @ ?t1 @ [?o]) ?m))"
  let ?tr = "?t1 @ [?o, ?m, Memset ?p (CHR ''a'') ?n, Munmap ?p ?n]"
  have "?p \<noteq> - 1" using setup_kernelD(1) [OF k] by (simp add: grants_def)
  then have "create_hugetlbfs_file k s = (Val (), s\<lparr>trace := trace s @ ?tr, hugetlbfd := ?fd\<rparr>)"
    using len unfolding create_hugetlbfs_file_def
    by (simp add: setup_kernelD [OF k] prog_simps create_workdir_def fb Let_def checked_mmap_eval)
  moreover have "foot_le (foot_run k (trace s) (P, S, I) ?tr) (P, S, I)" for P S I
    using \<open>?p \<noteq> - 1\<close> grants_rules(6) [OF setup_kernelD(1) [OF k]] by auto
  then have "shrinks k (trace s) ?tr" by (simp add: shrinks_def del: foot_run.simps foot_le.simps)
  ultimately show thesis by (rule that)
qed

text \<open>The parts of the state that \<open>setup\<close> leaves alone.\<close>

definition same_options :: "'z mm_scheme \<Rightarrow> 'z mm_scheme \<Rightarrow> bool" where
  "same_options s s' \<longleftrightarrow> backend_bitmap s' = backend_bitmap s \<and> op_strings s' = op_strings s
     \<and> verbose s' = verbose s \<and> allocate_base s' = allocate_base s \<and> testpipe s' = testpipe s
     \<and> protflag s' = protflag s \<and> HPS s' = HPS s \<and> g_flag s' = g_flag s"

text \<open>Options that \<open>setup\<close> accepts.\<close>

definition options_ok :: "'z mm_scheme \<Rightarrow> bool" where
  "options_ok s \<longleftrightarrow> verbose s = 0 \<and> 0 < nr_p s \<and> nr_p s \<le> 2 ^ 27 \<and> allocate_base s = ADDR_INPUT
     \<and> (bit (backend_bitmap s) DEVMEM \<longrightarrow> backend_bitmap s = BE DEVMEM)
     \<and> (case filebase s of None \<Rightarrow> \<not> bit (backend_bitmap s) HUGETLB_FILE
        | Some fb \<Rightarrow> length (workdir s @ ''/hugetlbfs/'' @ fb) < 256)"

lemma BE_and: "w AND BE i \<noteq> 0 \<longleftrightarrow> bit w i"
  by (simp add: BE_def and_exp_bit)

lemma setup_files_ok:
  assumes k: "setup_kernel k" and opt: "options_ok s"
  obtains tr fd1 fd2 where "setup_files k s = (Val (), s\<lparr>trace := trace s @ tr, g_fd := fd1, hugetlbfd := fd2\<rparr>)"
    "shrinks k (trace s) tr"
proof -
  let ?p1 = "cond (filebase s \<noteq> None \<and> backend_bitmap s AND BE PAGECACHE \<noteq> 0) create_regular_file"
  let ?p2 = "cond (backend_bitmap s AND BE HUGETLB_FILE \<noteq> 0) create_hugetlbfs_file"
  have v: "verbose s = 0" using opt by (simp add: options_ok_def)
  obtain t1 fd1 where 1: "?p1 k s = (Val (), s\<lparr>trace := trace s @ t1, g_fd := fd1\<rparr>)" "no_foot t1"
  proof (cases "filebase s \<noteq> None \<and> backend_bitmap s AND BE PAGECACHE \<noteq> 0")
    case True
    then obtain fb where fb: "filebase s = Some fb" by auto
    then have "length (workdir s @ ''/'' @ fb) < 256" using opt by (simp add: options_ok_def)
    from create_regular_file_ok [OF k v fb this] show thesis using that True by (auto simp: cond_def)
  next
    case False
    then show thesis using that [of "g_fd s" "[]"] by (auto simp: cond_def prog_simps no_foot_def)
  qed
  let ?s = "s\<lparr>trace := trace s @ t1, g_fd := fd1\<rparr>"
  obtain t2 fd2 where 2: "?p2 k ?s = (Val (), ?s\<lparr>trace := trace ?s @ t2, hugetlbfd := fd2\<rparr>)"
    "shrinks k (trace s @ t1) t2"
  proof (cases "backend_bitmap s AND BE HUGETLB_FILE \<noteq> 0")
    case True
    then have "bit (backend_bitmap s) HUGETLB_FILE" by (simp add: BE_and)
    then obtain fb where fb: "filebase ?s = Some fb" "length (workdir ?s @ ''/hugetlbfs/'' @ fb) < 256"
      using opt by (auto simp: options_ok_def split: option.splits)
    obtain tr fd where c: "create_hugetlbfs_file k ?s = (Val (), ?s\<lparr>trace := trace ?s @ tr, hugetlbfd := fd\<rparr>)"
      "shrinks k (trace ?s) tr" by (rule create_hugetlbfs_file_ok [OF k fb])
    show thesis by (rule that [of fd tr]) (use c True in \<open>simp_all add: cond_def\<close>)
  next
    case False
    then show thesis using that [of "hugetlbfd s" "[]"] by (auto simp: cond_def prog_simps no_foot_shrinks no_foot_def)
  qed
  have "sqn ?p1 ?p2 k s = (Val (), s\<lparr>trace := trace s @ t1 @ t2, g_fd := fd1, hugetlbfd := fd2\<rparr>)"
    using 1 2 by (simp add: sqn_eval)
  then have "setup_files k s = (Val (), s\<lparr>trace := trace s @ t1 @ t2, g_fd := fd1, hugetlbfd := fd2\<rparr>)"
    by (simp add: setup_files_def bnd_eval get_eval)
  moreover have "shrinks k (trace s) (t1 @ t2)" by (intro shrinks_append no_foot_shrinks 1(2) 2(2))
  ultimately show thesis by (rule that)
qed

lemma get_nr_mem_types_le: "0 \<le> get_nr_mem_types bm" "get_nr_mem_types bm \<le> 11"
proof -
  have "length (filter (bit bm) [0..<NR_BACKEND_TYPES]) \<le> length [0..<NR_BACKEND_TYPES]" by (rule length_filter_le)
  then show "get_nr_mem_types bm \<le> 11"
    by (simp add: get_nr_mem_types_def for_each_backend_from_filter NR_BACKEND_TYPES_def)
qed (simp add: get_nr_mem_types_def)

text \<open>The number of chunks and their number in all, within the bounds of \<open>options_ok\<close>.\<close>

lemma chunk_count:
  assumes "0 < nrp" "nrp \<le> 2 ^ 27"
  defines "n \<equiv> cdiv (nrp - 1) CHUNKSIZE + 1"
  shows "0 < n" "n \<le> 2 ^ 15" "s32 (n * get_nr_mem_types bm) = n * get_nr_mem_types bm"
    "0 \<le> n * get_nr_mem_types bm" "n * get_nr_mem_types bm \<le> 360448"
proof -
  have n: "n = (nrp - 1) div 4096 + 1" using assms(1) by (simp add: n_def cdiv_nonneg CHUNKSIZE_def)
  show "0 < n" "n \<le> 2 ^ 15" using assms(1,2) unfolding n by simp_all
  then have "n * get_nr_mem_types bm \<le> 2 ^ 15 * 11"
    using get_nr_mem_types_le by (intro mult_mono) simp_all
  moreover show "0 \<le> n * get_nr_mem_types bm" using \<open>0 < n\<close> get_nr_mem_types_le(1) by simp
  ultimately show "n * get_nr_mem_types bm \<le> 360448" "s32 (n * get_nr_mem_types bm) = n * get_nr_mem_types bm"
    by (simp_all add: s32_small)
qed

definition setup_state :: "'z mm_scheme \<Rightarrow> 'z mm_scheme" where
  "setup_state s = (let n = cdiv (nr_p s - 1) CHUNKSIZE + 1; m = get_nr_mem_types (backend_bitmap s)
     in s\<lparr>nr_chunk := n, nr_mem_types := m, nr_all_chunks := n * m, chunkset := replicate (nat (n * m)) chunk0\<rparr>)"

lemma setup_state_ready:
  assumes "0 < nr_p s" "nr_p s \<le> 2 ^ 27" "allocate_base s = ADDR_INPUT"
  shows "chunks_ready (setup_state s)"
proof -
  define n where "n = cdiv (nr_p s - 1) CHUNKSIZE + 1"
  define m where "m = get_nr_mem_types (backend_bitmap s)"
  note c = chunk_count(1,2) [OF assms(1,2), folded n_def]
    chunk_count(3-5) [OF assms(1,2), of "backend_bitmap s", folded n_def m_def]
  have sel: "nr_p (setup_state s) = nr_p s" "nr_chunk (setup_state s) = n" "nr_mem_types (setup_state s) = m"
    "backend_bitmap (setup_state s) = backend_bitmap s" "chunkset (setup_state s) = replicate (nat (n * m)) chunk0"
    "allocate_base (setup_state s) = ADDR_INPUT"
    by (simp_all add: setup_state_def Let_def n_def m_def assms(3))
  have "nat (n * m) * 4096 < 2 ^ 31" using c(4,5) by simp
  moreover have "uint ADDR_INPUT + q * (CHUNKSIZE * 4096) < 2 ^ 64 - 2 ^ 24" if "q \<le> 360448" for q
    using that unfolding ADDR_INPUT_def CHUNKSIZE_def by simp
  from this [OF c(5)] have "uint ADDR_INPUT + n * m * (CHUNKSIZE * 4096) < 2 ^ 64 - 2 ^ 24" .
  ultimately show ?thesis unfolding chunks_ready_def sel
    using assms(1) c(1,4) by (simp add: m_def ADDR_INPUT_def)
qed

text \<open>As many chunks as hold the pages, and no more.\<close>

lemma chunk_count_tight:
  assumes "0 < nrp"
  defines "n \<equiv> cdiv (nrp - 1) CHUNKSIZE + 1"
  shows "(n - 1) * CHUNKSIZE < nrp" "nrp \<le> n * CHUNKSIZE"
proof -
  have n: "n = (nrp - 1) div 4096 + 1" using assms(1) by (simp add: n_def cdiv_nonneg CHUNKSIZE_def)
  have d: "(nrp - 1) div 4096 * 4096 + (nrp - 1) mod 4096 = nrp - 1" by (rule div_mult_mod_eq)
  have m: "0 \<le> (nrp - 1) mod 4096" "(nrp - 1) mod 4096 < 4096" by simp_all
  from d m show "(n - 1) * CHUNKSIZE < nrp" unfolding n CHUNKSIZE_def by (simp add: algebra_simps)
  from d m show "nrp \<le> n * CHUNKSIZE" unfolding n CHUNKSIZE_def by (simp add: algebra_simps)
qed

lemma setup_devmem_ok:
  assumes "bit (backend_bitmap s) DEVMEM \<Longrightarrow> backend_bitmap s = BE DEVMEM"
  shows "setup_devmem k s = (Val (), s\<lparr>nr_p := (if bit (backend_bitmap s) DEVMEM then 1 else nr_p s)\<rparr>)"
  using assms by (auto simp: setup_devmem_def prog_simps BE_and)

lemma setup_chunkset_ok:
  assumes "setup_kernel k" "0 < nr_p s" "nr_p s \<le> 2 ^ 27"
  shows "setup_chunkset k s = (Val (), (setup_state s)\<lparr>trace := trace s
    @ [Malloc (32 * ul (nr_all_chunks (setup_state s)))]\<rparr>)"
  using chunk_count(3,4) [OF assms(2,3), of "backend_bitmap s"] setup_kernelD(3) [OF assms(1)]
  by (simp add: setup_chunkset_def prog_simps setup_state_def Let_def not_less [symmetric])

lemma setup_area_ok:
  assumes k: "setup_kernel k" and opt: "options_ok s"
  shows "\<exists>s'. setup_area k s = (Val (), s') \<and> chunks_ready s' \<and> same_options s s'
    \<and> nr_p s' = (if bit (backend_bitmap s) DEVMEM then 1 else nr_p s)
    \<and> (nr_chunk s' - 1) * CHUNKSIZE < nr_p s' \<and> nr_p s' \<le> nr_chunk s' * CHUNKSIZE
    \<and> chunkset s' = replicate (nat (nr_chunk s' * nr_mem_types s')) chunk0
    \<and> foot_le (footprint k (trace s')) (footprint k (trace s))"
proof -
  let ?n = "if bit (backend_bitmap s) DEVMEM then 1 else nr_p s"
  obtain tr fd1 fd2 where 1: "setup_files k s = (Val (), s\<lparr>trace := trace s @ tr, g_fd := fd1, hugetlbfd := fd2\<rparr>)"
    "shrinks k (trace s) tr" by (rule setup_files_ok [OF assms])
  let ?s1 = "s\<lparr>trace := trace s @ tr, g_fd := fd1, hugetlbfd := fd2\<rparr>"
  let ?s2 = "?s1\<lparr>nr_p := ?n\<rparr>"
  have 2: "setup_devmem k ?s1 = (Val (), ?s2)"
    using opt setup_devmem_ok [of ?s1 k] by (auto simp: options_ok_def)
  have n: "0 < nr_p ?s2" "nr_p ?s2 \<le> 2 ^ 27" "allocate_base ?s2 = ADDR_INPUT"
    using opt by (auto simp: options_ok_def)
  let ?m = "[Malloc (32 * ul (nr_all_chunks (setup_state ?s2)))]"
  let ?s3 = "(setup_state ?s2)\<lparr>trace := trace ?s2 @ ?m\<rparr>"
  have 3: "setup_chunkset k ?s2 = (Val (), ?s3)" by (rule setup_chunkset_ok [OF k n(1,2)])
  have "setup_area k s = (Val (), ?s3)"
    by (simp only: setup_area_def seqs_Cons_eval seqs_Nil_eval 1(1) 2 3 prod.case outcome.case)
  moreover have "same_area (setup_state ?s2) ?s3"
    unfolding same_area_def by (intro exI [of _ "trace ?s2 @ ?m"] exI [of _ "chunkset (setup_state ?s2)"]) simp
  then have "chunks_ready ?s3" using setup_state_ready [OF n] by (rule same_area_ready)
  moreover have "shrinks k (trace s) (tr @ ?m)" by (rule shrinks_append [OF 1(2)], rule no_foot_shrinks) (simp add: no_foot_def)
  from shrinks_foot [OF this] have "foot_le (footprint k (trace ?s3)) (footprint k (trace s))" by simp
  moreover have "same_options s ?s3" by (simp add: same_options_def setup_state_def Let_def)
  moreover have "nr_p ?s3 = ?n" by (simp add: setup_state_def Let_def)
  moreover have "(nr_chunk ?s3 - 1) * CHUNKSIZE < nr_p ?s3" "nr_p ?s3 \<le> nr_chunk ?s3 * CHUNKSIZE"
    using chunk_count_tight [OF n(1)] by (simp_all add: setup_state_def Let_def)
  moreover have "chunkset ?s3 = replicate (nat (nr_chunk ?s3 * nr_mem_types ?s3)) chunk0"
    by (simp add: setup_state_def Let_def)
  ultimately show ?thesis by blast
qed

text \<open>C11: with accepted options (not verbose, 1 to \<open>2^27\<close> pages at the default address, \<open>devmem\<close> only alone), \<open>setup\<close> succeeds
  on a kernel that grants the requests.  It takes a single page for \<open>devmem\<close>, and as many chunks per backend as hold the
  pages and no more; the chunks are zeroed and satisfy the invariant \<open>chunks_ready\<close> of \<open>do_mmap\<close>.
  Nothing is left mapped that was not mapped before: the mapping through which the
  hugetlbfs file is filled, placed by the kernel, is gone.\<close>

theorem setup_prepares_chunks:
  assumes "setup_kernel k" "options_ok s"
  shows "\<exists>s'. setup_area k s = (Val (), s') \<and> chunks_ready s' \<and> same_options s s'
    \<and> nr_p s' = (if bit (backend_bitmap s) DEVMEM then 1 else nr_p s)
    \<and> (nr_chunk s' - 1) * CHUNKSIZE < nr_p s' \<and> nr_p s' \<le> nr_chunk s' * CHUNKSIZE
    \<and> chunkset s' = replicate (nat (nr_chunk s' * nr_mem_types s')) chunk0
    \<and> foot_le (footprint k (trace s')) (footprint k (trace s))"
  using setup_area_ok [OF assms] by blast

definition setup_grant_kernel :: kernel where
  "setup_grant_kernel h c = (case c of Malloc n \<Rightarrow> ok\<lparr>rv := 1\<rparr> | _ \<Rightarrow> grant_kernel h c)"

lemma setup_grant_kernel_ok: "setup_kernel setup_grant_kernel" "indet_zero setup_grant_kernel"
  by (simp_all add: setup_kernel_def grants_def setup_grant_kernel_def grant_kernel_def ok_def indet_zero_def)

theorem setup_prepares_chunks_witness:
  "\<exists>s'. setup_area setup_grant_kernel (mm0\<lparr>backend_bitmap := 0x21, filebase := Some ''testfile'', nr_p := 5000\<rparr>) = (Val (), s')
     \<and> chunks_ready s' \<and> nr_p s' = 5000 \<and> nr_chunk s' = 2 \<and> footprint setup_grant_kernel (trace s') = ({}, {}, {})"
proof -
  let ?s = "mm0\<lparr>backend_bitmap := 0x21, filebase := Some ''testfile'', nr_p := 5000\<rparr>"
  have "options_ok ?s" by (simp add: options_ok_def mm0_def bit_numeral_rec)
  from setup_prepares_chunks [OF setup_grant_kernel_ok(1) this]
  obtain s' where s': "setup_area setup_grant_kernel ?s = (Val (), s')" "chunks_ready s'" "nr_p s' = 5000"
      "(nr_chunk s' - 1) * CHUNKSIZE < nr_p s'" "nr_p s' \<le> nr_chunk s' * CHUNKSIZE"
      "foot_le (footprint setup_grant_kernel (trace s')) (footprint setup_grant_kernel (trace ?s))"
    by (auto simp: bit_numeral_rec)
  have "nr_chunk s' = 2" using s'(4,5) by (simp add: s'(3) CHUNKSIZE_def)
  moreover have "footprint setup_grant_kernel (trace s') = ({}, {}, {})"
    using s'(6) by (cases "footprint setup_grant_kernel (trace s')") (simp add: footprint_def mm0_def)
  ultimately show ?thesis using s'(1-3) by blast
qed

section \<open>A complete run\<close>

text \<open>Touching a chunk in the default way maps nothing and changes nothing but the trace.\<close>

definition default_access :: "mem_chunk \<Rightarrow> sys list" where
  "default_access mc = (if mc_type mc = ZERO \<or> mc_type mc = HUGE_ZERO
     then map (\<lambda>i. Load (mc_p mc + ul i)) (up_pages 0 (mc_size mc))
     else if mc_type mc = DEVMEM then [Memset (mc_p mc) (CHR ''a'') PS, Memset (mc_p mc + 2 * PS) (CHR ''a'') PS]
     else [Memset (mc_p mc) (CHR ''a'') (ul (mc_size mc))])"

lemma access_default:
  "access_memory fuel mc None False k s = (Val (), s\<lparr>trace := trace s @ default_access mc\<rparr>)"
  by (simp add: access_memory_def default_access_def read_memory_def write_memory_def for_each_call prog_simps)

lemma default_access_no_foot: "no_foot (default_access mc)"
proof -
  have "no_foot (map (\<lambda>i. Load (mc_p mc + ul i)) is)" for "is"
    by (induction "is") (simp_all add: no_foot_def)
  then show ?thesis by (simp add: default_access_def no_foot_def)
qed

lemma op_of_simple:
  assumes "nm \<in> {''mmap'', ''access'', ''munmap''}"
  shows "parse_opc nm = Val (opc_zero\<lparr>opc_name := nm\<rparr>)"
proof -
  have "is_token '':'' nm" "length nm < 256" using assms by (auto simp: is_token_def)
  then show ?thesis using tokens_join [of "'':''" "[nm]" "CHR '':''"] by (simp add: parse_opc_def opc_zero_def)
qed

lemma run_plain:
  assumes "nm \<in> {''mmap'', ''access'', ''munmap''}" "verbose s = 0"
    and "do_operation fuel (opc_zero\<lparr>opc_name := nm\<rparr>) k s = keep (opc_zero\<lparr>opc_name := nm\<rparr>) m k s"
    and "m k s = (Val (), s')"
  shows "run_operation fuel nm k s = (Val (), s')"
  using assms(2-4) by (subst run_operation_eval [OF op_of_simple [OF assms(1)]])
    (simp_all add: opc_zero_sel keep_def prog_simps, simp_all add: opc_zero_def)

lemma mmap_access_munmap_run:
  assumes k: "setup_kernel k" "indet_zero k" and ready: "chunks_ready s" and v: "verbose s = 0"
  obtains s' where "for_each [''mmap'', ''access'', ''munmap''] (run_operation fuel) k s = (Val (), s')"
    "foot_le (footprint k (trace s')) (footprint k (trace s))"
proof -
  note g = setup_kernelD(1) [OF k(1)]
  let ?op = "\<lambda>nm. opc_zero\<lparr>opc_name := nm\<rparr>"
  have undef: "\<not> opc_defined (?op nm) key" "opc_get_value (?op nm) key = None" for nm key
    by (simp_all add: opc_defined_def opc_get_value_def opc_zero_def)
  obtain s1 where s1: "do_mmap (?op ''mmap'') k s = (Val (), s1)" "same_area s s1"
      "footprint k (trace s1) = foot_add (footprint k (trace s)) (all_foot (chunkset s1))"
    by (rule do_mmap_foot [OF g ready])
  have v1: "verbose s1 = 0" using s1(2) v by (auto simp: same_area_def)
  have r1: "chunks_ready s1" using s1(2) ready by (rule same_area_ready)
  let ?t = "concat (map default_access (chunkset s1))"
  let ?s2 = "s1\<lparr>trace := trace s1 @ ?t\<rparr>"
  have a: "do_access fuel (?op ''access'') k s1 = (Val (), ?s2)"
    by (rule do_access_calls [OF chunks_ready_count [OF r1] undef(1)]) (simp add: undef access_default)
  have "same_area s1 ?s2"
    unfolding same_area_def by (intro exI [of _ "trace s1 @ ?t"] exI [of _ "chunkset s1"]) simp
  then have r2: "chunks_ready ?s2" using r1 by (rule same_area_ready)
  obtain tr where m: "do_munmap (?op ''munmap'') k ?s2 = (Val (), ?s2\<lparr>trace := trace ?s2 @ tr\<rparr>)"
      "footprint k (trace ?s2 @ tr) = foot_del (footprint k (trace ?s2)) (all_foot (chunkset ?s2))"
    by (rule do_munmap_foot [OF g k(2) r2 undef(1)])
  have f2: "footprint k (trace ?s2) = footprint k (trace s1)"
  proof -
    have "no_foot ?t" by (rule no_foot_concat) (rule default_access_no_foot)
    then show ?thesis by (simp add: footprint_no_foot)
  qed
  have "run_operation fuel ''mmap'' k s = (Val (), s1)"
    by (rule run_plain [where m = "do_mmap (?op ''mmap'')"]) (use v s1(1) in \<open>simp_all add: do_operation_def Let_def\<close>)
  moreover have "run_operation fuel ''access'' k s1 = (Val (), ?s2)"
    by (rule run_plain [where m = "do_access fuel (?op ''access'')"]) (use v1 a in \<open>simp_all add: do_operation_def Let_def\<close>)
  moreover have "run_operation fuel ''munmap'' k ?s2 = (Val (), ?s2\<lparr>trace := trace ?s2 @ tr\<rparr>)"
    by (rule run_plain [where m = "do_munmap (?op ''munmap'')"]) (use v1 m(1) in \<open>simp_all add: do_operation_def Let_def\<close>)
  ultimately have "for_each [''mmap'', ''access'', ''munmap''] (run_operation fuel) k s = (Val (), ?s2\<lparr>trace := trace ?s2 @ tr\<rparr>)"
    by (simp add: for_each_Cons_eval for_each_Nil_eval)
  moreover have "foot_le (footprint k (trace (?s2\<lparr>trace := trace ?s2 @ tr\<rparr>))) (footprint k (trace s))"
    using m(2) unfolding f2 s1(3) by (simp add: foot_le_del_add)
  ultimately show thesis by (rule that)
qed

text \<open>Every backend name of the \<open>-B\<close> option selects exactly the backend of its position in the
  list of backend types.\<close>

theorem backend_names_select:
  "map (\<lambda>(nm, b). for_each_backend (backend_bits nm)) backend_names = map (\<lambda>i. [i]) [0..<NR_BACKEND_TYPES]"
  by code_simp

end
