(* ===== verification/IoUring.thy ===== *)
theory IoUring
  imports TestCore
begin

text \<open>
  The io_uring test, \<open>lib/test-io_uring.c\<close>: setting up a ring, the submission and the
  completion side, and the test cases.  The rings are memory that the kernel writes too: the
  submission queue's head, the completion queue's tail and entries change at any time.  What
  the kernel has written there is a parameter \<open>shared\<close>, a function of the calls made so
  far; the program looks at it where it reads that memory.
\<close>

type_synonym u32 = "32 word"

abbreviation (input) IORING_OP_TIMEOUT :: int where "IORING_OP_TIMEOUT \<equiv> 11"
abbreviation (input) IORING_OP_ASYNC_CANCEL :: int where "IORING_OP_ASYNC_CANCEL \<equiv> 14"
abbreviation (input) IORING_OP_READ :: int where "IORING_OP_READ \<equiv> 22"
abbreviation (input) IORING_OP_WRITE :: int where "IORING_OP_WRITE \<equiv> 23"
abbreviation (input) IOSQE_IO_DRAIN :: int where "IOSQE_IO_DRAIN \<equiv> 2"
abbreviation (input) IOSQE_IO_LINK :: int where "IOSQE_IO_LINK \<equiv> 4"
abbreviation (input) IOSQE_ASYNC :: int where "IOSQE_ASYNC \<equiv> 16"
abbreviation (input) MAP_POPULATE :: int where "MAP_POPULATE \<equiv> 0x8000"
abbreviation (input) IORING_OFF_SQ_RING :: u64 where "IORING_OFF_SQ_RING \<equiv> 0"
abbreviation (input) IORING_OFF_CQ_RING :: u64 where "IORING_OFF_CQ_RING \<equiv> 0x8000000"
abbreviation (input) IORING_OFF_SQES :: u64 where "IORING_OFF_SQES \<equiv> 0x10000000"

abbreviation (input) ENTRIES :: nat where "ENTRIES \<equiv> 2048"
abbreviation (input) BUFSIZE :: u64 where "BUFSIZE \<equiv> 1024"

section \<open>Rings\<close>

record io_uring_sqe =
  sqe_opcode :: "8 word"
  sqe_flags :: "8 word"
  sqe_fd :: int
  sqe_off :: u64
  sqe_addr :: u64
  sqe_len :: u32
  sqe_user_data :: u64

record io_uring_cqe =
  cqe_user_data :: u64
  cqe_res :: int

text \<open>The pointers into the mapped rings.\<close>

record user_sq_ring =
  sq_head :: addr
  sq_tail :: addr
  sq_ring_mask :: addr
  sq_ring_entries :: addr
  sq_flags :: addr
  sq_array :: addr

record user_cq_ring =
  cq_head :: addr
  cq_tail :: addr
  cq_ring_mask :: addr
  cq_ring_entries :: addr
  cq_cqes :: addr

text \<open>What they point to.\<close>

record ring_mem =
  m_sq_head :: u32
  m_sq_tail :: u32
  m_sq_mask :: u32
  m_sq_array :: "u32 list"
  m_sqes :: "io_uring_sqe list"
  m_cq_head :: u32
  m_cq_tail :: u32
  m_cq_mask :: u32
  m_cqes :: "io_uring_cqe list"

record ring_instance =
  ring_fd :: int
  sq_ring :: user_sq_ring
  cq_ring :: user_cq_ring
  sqes :: addr
  rmem :: ring_mem

type_synonym shared = "sys list \<Rightarrow> ring_instance \<Rightarrow> ring_mem"

definition ring_instance0 :: ring_instance where
  "ring_instance0 = \<lparr>ring_fd = 0,
     sq_ring = \<lparr>sq_head = 0, sq_tail = 0, sq_ring_mask = 0, sq_ring_entries = 0, sq_flags = 0, sq_array = 0\<rparr>,
     cq_ring = \<lparr>cq_head = 0, cq_tail = 0, cq_ring_mask = 0, cq_ring_entries = 0, cq_cqes = 0\<rparr>,
     sqes = 0,
     rmem = \<lparr>m_sq_head = 0, m_sq_tail = 0, m_sq_mask = 0, m_sq_array = [], m_sqes = [],
             m_cq_head = 0, m_cq_tail = 0, m_cq_mask = 0, m_cqes = []\<rparr>\<rparr>"

text \<open>One look at the shared memory.\<close>

definition look :: "shared \<Rightarrow> ring_instance \<Rightarrow> ('z io_scheme, ring_instance) prog" where
  "look shared i = sqn (call Poll) (bnd (get trace) (\<lambda>h. ret (i\<lparr>rmem := shared h i\<rparr>)))"

section \<open>System calls\<close>

definition io_uring_setup :: "u32 \<Rightarrow> ('z io_scheme, int \<times> string) prog" where
  "io_uring_setup n = bnd (sys (Syscall ''io_uring_setup'' [ucast n])) (\<lambda>r. ret (s32 (rv r), bytes r))"

definition io_uring_enter :: "int \<Rightarrow> u32 \<Rightarrow> u32 \<Rightarrow> u32 \<Rightarrow> ('z io_scheme, int) prog" where
  "io_uring_enter fd to_submit min_complete flags =
    bnd (sysv (Syscall ''io_uring_enter'' [ul fd, ucast to_submit, ucast min_complete, ucast flags, 0, 0]))
      (\<lambda>r. ret (s32 r))"

definition io_uring_register :: "u32 \<Rightarrow> u32 \<Rightarrow> u64 \<Rightarrow> u32 \<Rightarrow> ('z io_scheme, int) prog" where
  "io_uring_register fd opcode arg nr_args =
    bnd (sysv (Syscall ''io_uring_register'' [ucast fd, ucast opcode, arg, ucast nr_args])) (\<lambda>r. ret (s32 r))"

section \<open>Setting up\<close>

text \<open>
  A 32-bit field of the \<open>io_uring_params\<close> structure the kernel fills, by its offset there;
  the structure was zero before.
\<close>

definition byte_at :: "string \<Rightarrow> nat \<Rightarrow> int" where
  "byte_at bs n = (if n < length bs then of_char (bs ! n) else 0)"

definition u32_at :: "string \<Rightarrow> nat \<Rightarrow> int" where
  "u32_at bs n = byte_at bs n + 2 ^ 8 * byte_at bs (n + 1) + 2 ^ 16 * byte_at bs (n + 2)
     + 2 ^ 24 * byte_at bs (n + 3)"

abbreviation (input) p_sq_entries :: nat where "p_sq_entries \<equiv> 0"
abbreviation (input) p_cq_entries :: nat where "p_cq_entries \<equiv> 4"
abbreviation (input) p_features :: nat where "p_features \<equiv> 20"
abbreviation (input) p_sq_off :: nat where "p_sq_off \<equiv> 40"
abbreviation (input) p_cq_off :: nat where "p_cq_off \<equiv> 80"

definition sq_bytes :: "string \<Rightarrow> int" where
  "sq_bytes ps = s32 (u32_at ps (p_sq_off + 24) + u32_at ps p_sq_entries * 4)"

definition cq_bytes :: "string \<Rightarrow> int" where
  "cq_bytes ps = s32 (u32_at ps (p_cq_off + 20) + u32_at ps p_cq_entries * 16)"

definition map_ring :: "int \<Rightarrow> int \<Rightarrow> u64 \<Rightarrow> ('z io_scheme, addr) prog" where
  "map_ring fd len off = bnd (sysv (Mmap 0 (ul len) (PROT_READ OR PROT_WRITE) (MAP_SHARED OR MAP_POPULATE) fd off))
     (\<lambda>p. ret (ul p))"

text \<open>The two rings: one mapping when the kernel offers it, two otherwise; \<open>None\<close> on failure.\<close>

definition map_rings :: "int \<Rightarrow> string \<Rightarrow> ('z io_scheme, (addr \<times> addr) option) prog" where
  "map_rings fd ps =
    (if (u32_at ps p_features) AND 1 \<noteq> 0 then
       bnd (map_ring fd (if cq_bytes ps > sq_bytes ps then cq_bytes ps else sq_bytes ps) IORING_OFF_SQ_RING)
         (\<lambda>sq_ptr. ret (if sq_ptr = - 1 then None else Some (sq_ptr, sq_ptr)))
     else
       bnd (map_ring fd (sq_bytes ps) IORING_OFF_SQ_RING) (\<lambda>sq_ptr.
         if sq_ptr = - 1 then ret None
         else bnd (map_ring fd (cq_bytes ps) IORING_OFF_CQ_RING) (\<lambda>cq_ptr.
           ret (if cq_ptr = - 1 then None else Some (sq_ptr, cq_ptr)))))"

definition set_pointers :: "string \<Rightarrow> addr \<Rightarrow> addr \<Rightarrow> ring_instance \<Rightarrow> ring_instance" where
  "set_pointers ps sq_ptr cq_ptr i =
    (let sq = (\<lambda>n. sq_ptr + ul (u32_at ps (p_sq_off + n))); cq = (\<lambda>n. cq_ptr + ul (u32_at ps (p_cq_off + n)))
     in i\<lparr>sq_ring := \<lparr>sq_head = sq 0, sq_tail = sq 4, sq_ring_mask = sq 8, sq_ring_entries = sq 12,
                      sq_flags = sq 16, sq_array = sq 24\<rparr>,
          cq_ring := \<lparr>cq_head = cq 0, cq_tail = cq 4, cq_ring_mask = cq 8, cq_ring_entries = cq 12,
                      cq_cqes = cq 20\<rparr>\<rparr>)"

definition init_ring :: "shared \<Rightarrow> ring_instance \<Rightarrow> u32 \<Rightarrow> ('z io_scheme, int \<times> ring_instance) prog" where
  "init_ring shared i n =
    bnd (io_uring_setup n) (\<lambda>(fd, ps). let i1 = i\<lparr>ring_fd := fd\<rparr> in
      if fd < 0 then ret (1, i1)
      else bnd (map_rings fd ps) (\<lambda>ptrs. case ptrs of
        None \<Rightarrow> ret (1, i1)
      | Some (sq_ptr, cq_ptr) \<Rightarrow>
          let i2 = set_pointers ps sq_ptr cq_ptr i1 in
          bnd (map_ring fd (u32_at ps p_sq_entries * 64) IORING_OFF_SQES) (\<lambda>p.
            let i3 = i2\<lparr>sqes := p\<rparr> in
            if p = - 1 then ret (1, i3) else bnd (look shared i3) (\<lambda>i4. ret (0, i4)))))"

text \<open>On success the function ends without a value.\<close>

definition close_ring :: "ring_instance \<Rightarrow> ('z io_scheme, int) prog" where
  "close_ring i = bnd (sysv (Close (ring_fd i))) (\<lambda>r. if r \<noteq> 0 then ret 1 else sysv Indet)"

section \<open>Submission and completion\<close>

text \<open>
  One entry is written at the tail, unconditionally: the caller must know that the ring has
  room.  An index past the mapped arrays is an access out of bounds.
\<close>

definition ring_index :: "u32 \<Rightarrow> u32 \<Rightarrow> nat" where
  "ring_index pos ring_mask = unat (pos AND ring_mask)"

definition sqe_of :: "int \<Rightarrow> int \<Rightarrow> u64 \<Rightarrow> u32 \<Rightarrow> u32 \<Rightarrow> u64 \<Rightarrow> int \<Rightarrow> io_uring_sqe" where
  "sqe_of op fd addr len off user_data flags =
    \<lparr>sqe_opcode = word_of_int op, sqe_flags = word_of_int flags, sqe_fd = fd, sqe_off = ucast off,
     sqe_addr = addr, sqe_len = len, sqe_user_data = user_data\<rparr>"

definition prep_mem :: "io_uring_sqe \<Rightarrow> ring_mem \<Rightarrow> fault + ring_mem" where
  "prep_mem e m =
    (let tail = m_sq_tail m; next_tail = tail + 1; index = ring_index tail (m_sq_mask m) in
     if length (m_sqes m) \<le> index \<or> length (m_sq_array m) \<le> index then Inl OutOfBounds
     else Inr (m\<lparr>m_sqes := (m_sqes m)[index := e],
                m_sq_array := (m_sq_array m)[index := word_of_nat index],
                m_sq_tail := (if tail \<noteq> next_tail then next_tail else tail)\<rparr>))"

definition prep_sqe ::
  "int \<Rightarrow> ring_instance \<Rightarrow> int \<Rightarrow> u64 \<Rightarrow> u32 \<Rightarrow> u32 \<Rightarrow> u64 \<Rightarrow> int \<Rightarrow> fault + ring_instance" where
  "prep_sqe op i fd addr len off user_data flags =
    (case prep_mem (sqe_of op fd addr len off user_data flags) (rmem i) of
       Inl f \<Rightarrow> Inl f | Inr m \<Rightarrow> Inr (i\<lparr>rmem := m\<rparr>))"

definition prep_read_sqe :: "ring_instance \<Rightarrow> int \<Rightarrow> u64 \<Rightarrow> u32 \<Rightarrow> int \<Rightarrow> fault + ring_instance" where
  "prep_read_sqe i fd buf len flags = prep_sqe IORING_OP_READ i fd buf len 0 buf flags"

definition prep_write_sqe :: "ring_instance \<Rightarrow> int \<Rightarrow> u64 \<Rightarrow> u32 \<Rightarrow> u32 \<Rightarrow> int \<Rightarrow> fault + ring_instance" where
  "prep_write_sqe i fd buf len off flags = prep_sqe IORING_OP_WRITE i fd buf len off buf flags"

text \<open>The flags argument is not passed on.\<close>

definition prep_cancel_sqe :: "ring_instance \<Rightarrow> u64 \<Rightarrow> u64 \<Rightarrow> int \<Rightarrow> fault + ring_instance" where
  "prep_cancel_sqe i cancel_sqe user_data flags =
    prep_sqe IORING_OP_ASYNC_CANCEL i (- 1) cancel_sqe 0 0 user_data 0"

definition prep_timeout_sqe :: "ring_instance \<Rightarrow> u64 \<Rightarrow> u64 \<Rightarrow> int \<Rightarrow> fault + ring_instance" where
  "prep_timeout_sqe i addr counts flags = prep_sqe IORING_OP_TIMEOUT i (- 1) addr 1 (ucast counts) 0 flags"

text \<open>
  The entry at the head is taken, and the head is advanced at once; the caller gets a pointer
  to the entry (its index), which it reads later.
\<close>

definition take_mem :: "ring_mem \<Rightarrow> nat option \<times> ring_mem" where
  "take_mem m = (if m_cq_head m = m_cq_tail m then (None, m)
     else (Some (ring_index (m_cq_head m) (m_cq_mask m)), m\<lparr>m_cq_head := m_cq_head m + 1\<rparr>))"

definition get_cqe :: "shared \<Rightarrow> ring_instance \<Rightarrow> ('z io_scheme, nat option \<times> ring_instance) prog" where
  "get_cqe shared i = bnd (look shared i) (\<lambda>i1. case take_mem (rmem i1) of
     (r, m) \<Rightarrow> ret (r, i1\<lparr>rmem := m\<rparr>))"

text \<open>The entry behind a pointer, when it is read.\<close>

definition read_cqe :: "shared \<Rightarrow> ring_instance \<Rightarrow> nat \<Rightarrow> ('z io_scheme, io_uring_cqe) prog" where
  "read_cqe shared i n = bnd (look shared i) (\<lambda>i1.
     if n < length (m_cqes (rmem i1)) then ret (m_cqes (rmem i1) ! n) else stop (Fault OutOfBounds))"

section \<open>The test cases\<close>

definition nl :: string where "nl = [CHR 0x0A]"

definition report :: "string \<Rightarrow> string \<Rightarrow> ('z io_scheme, unit) prog" where
  "report verdict func = call (Stdout (verdict @ '' '' @ func @ nl))"

text \<open>
  Every case starts by allocating and initialising an instance; \<open>fail\<close> is the code behind
  the label of that name, with the pointer that \<open>instance\<close> holds there.
\<close>

definition with_instance ::
  "shared \<Rightarrow> u32 \<Rightarrow> (addr \<Rightarrow> ('z io_scheme, unit) prog) \<Rightarrow> (addr \<Rightarrow> ring_instance \<Rightarrow> ('z io_scheme, unit) prog)
     \<Rightarrow> ('z io_scheme, unit) prog" where
  "with_instance shared n fail body =
    bnd (sysv (Malloc 104)) (\<lambda>p. if p = 0 then fail 0
      else bnd (init_ring shared ring_instance0 n) (\<lambda>(r, i).
        if r \<noteq> 0 then sqn (call (Stdout (''Failed to setup io_uring.'' @ nl))) (fail (ul p))
        else body (ul p) i))"

definition close_or ::
  "ring_instance \<Rightarrow> ('z io_scheme, unit) prog \<Rightarrow> ('z io_scheme, unit) prog \<Rightarrow> ('z io_scheme, unit) prog" where
  "close_or i fail body = bnd (close_ring i) (\<lambda>r.
     if r \<noteq> 0 then sqn (call (Stdout (''Failed to close io_uring.'' @ nl))) fail else body)"

definition open_or ::
  "string \<Rightarrow> int \<Rightarrow> int \<Rightarrow> ('z io_scheme, unit) prog \<Rightarrow> (int \<Rightarrow> ('z io_scheme, unit) prog) \<Rightarrow> ('z io_scheme, unit) prog" where
  "open_or path flags mode fail body = bnd (sysv (Open path flags mode)) (\<lambda>fd. if fd < 0 then fail else body fd)"

definition test_create_and_remove_instance :: "shared \<Rightarrow> ('z io_scheme, unit) prog" where
  "test_create_and_remove_instance shared =
    (let func = ''test_create_and_remove_instance'';
         fail = (\<lambda>p. sqn (call (Free p)) (report ''Fail'' func))
     in with_instance shared (of_nat ENTRIES) fail (\<lambda>p i.
          close_or i (fail p) (sqn (call (Free p)) (report ''Pass'' func))))"

text \<open>
  Ten instances.  The array of pointers is not initialised, and the code at \<open>fail\<close> frees all
  ten of them: those never set, and those that the closing loop has freed before.
\<close>

datatype instance_slot = Unset | Live addr | Freed

definition free_slot :: "instance_slot \<Rightarrow> ('z io_scheme, unit) prog" where
  "free_slot x = (case x of Unset \<Rightarrow> stop (Fault UnsetValue) | Live p \<Rightarrow> call (Free p) | Freed \<Rightarrow> stop (Fault BadFree))"

definition fail_instance10 :: "instance_slot list \<Rightarrow> ('z io_scheme, unit) prog" where
  "fail_instance10 xs = sqn (for_each xs free_slot) (report ''Fail'' ''test_create_and_remove_instance10'')"

fun create_instances ::
  "shared \<Rightarrow> nat \<Rightarrow> (addr \<times> ring_instance) list \<Rightarrow> ((addr \<times> ring_instance) list \<Rightarrow> ('z io_scheme, unit) prog)
     \<Rightarrow> ('z io_scheme, unit) prog" where
  "create_instances shared 0 acc body = body acc"
| "create_instances shared (Suc n) acc body =
    with_instance shared (of_nat ENTRIES)
      (\<lambda>p. fail_instance10 (map (\<lambda>(q, _). Live q) acc @ Live p # replicate n Unset))
      (\<lambda>p i. create_instances shared n (acc @ [(p, i)]) body)"

fun close_instances :: "nat \<Rightarrow> (addr \<times> ring_instance) list \<Rightarrow> ('z io_scheme, unit) prog \<Rightarrow> ('z io_scheme, unit) prog" where
  "close_instances done [] body = body"
| "close_instances done ((p, i) # rest) body =
    close_or i (fail_instance10 (replicate done Freed @ Live p # map (\<lambda>(q, _). Live q) rest))
      (sqn (call (Free p)) (close_instances (Suc done) rest body))"

definition test_create_and_remove_instance10 :: "shared \<Rightarrow> ('z io_scheme, unit) prog" where
  "test_create_and_remove_instance10 shared =
    create_instances shared 10 [] (\<lambda>is. close_instances 0 is (report ''Pass'' ''test_create_and_remove_instance10''))"

text \<open>Buffers: the pointers obtained before the first failure, and whether all were.\<close>

fun alloc_bufs :: "nat \<Rightarrow> addr list \<Rightarrow> ('z io_scheme, addr list \<times> bool) prog" where
  "alloc_bufs 0 acc = ret (acc, True)"
| "alloc_bufs (Suc n) acc = bnd (sysv (Malloc BUFSIZE)) (\<lambda>p.
     if p = 0 then ret (acc, False)
     else sqn (call (Memset (ul p) CHR 0x00 BUFSIZE)) (alloc_bufs n (acc @ [ul p])))"

definition free_bufs :: "nat \<Rightarrow> addr list \<Rightarrow> ('z io_scheme, unit) prog" where
  "free_bufs n bufs = for_each [0..<n] (\<lambda>j. call (Free (if j < length bufs then bufs ! j else 0)))"

text \<open>A run of submissions, one per buffer.\<close>

fun prep_all :: "('b \<Rightarrow> 'q \<Rightarrow> fault + 'q) \<Rightarrow> 'b list \<Rightarrow> 'q \<Rightarrow> fault + 'q" where
  "prep_all f [] i = Inr i"
| "prep_all f (b # bs) i = (case f b i of Inl e \<Rightarrow> Inl e | Inr i' \<Rightarrow> prep_all f bs i')"

definition submit :: "fault + ring_instance \<Rightarrow> (ring_instance \<Rightarrow> ('z io_scheme, unit) prog) \<Rightarrow> ('z io_scheme, unit) prog" where
  "submit r body = (case r of Inl e \<Rightarrow> stop (Fault e) | Inr i \<Rightarrow> body i)"

definition enter_or ::
  "ring_instance \<Rightarrow> nat \<Rightarrow> ('z io_scheme, unit) prog \<Rightarrow> ('z io_scheme, unit) prog \<Rightarrow> ('z io_scheme, unit) prog" where
  "enter_or i n fail body = bnd (io_uring_enter (ring_fd i) (of_nat n) 0 0) (\<lambda>r. if r < 0 then fail else body)"

record cancel_counts =
  cancelled :: int
  cancell_running :: int
  executed :: int

text \<open>
  One completion against one of the cancelling requests.  \<open>strcmp\<close> with the zeroed buffer
  \<open>cmp\<close> looks at the first byte of the read buffer.  \<open>None\<close> is the jump to \<open>fail\<close>.
\<close>

definition count_cqe ::
  "shared \<Rightarrow> ring_instance \<Rightarrow> addr list \<Rightarrow> nat \<Rightarrow> nat \<Rightarrow> cancel_counts \<Rightarrow> ('z io_scheme, cancel_counts option) prog" where
  "count_cqe shared i bufs c j n =
    bnd (read_cqe shared i c) (\<lambda>e. if cqe_user_data e \<noteq> bufs ! j then ret (Some n)
      else bnd (read_cqe shared i c) (\<lambda>e.
        if cqe_res e = 0 then
          bnd (sysv (Load (bufs ! (j - ENTRIES div 2)))) (\<lambda>b. if b \<noteq> 0
            then sqn (call (Stdout (''The operation should have been canceled'' @ nl))) (ret None)
            else ret (Some (n\<lparr>cancelled := cancelled n + 1\<rparr>)))
        else if cqe_res e = - 114 then ret (Some (n\<lparr>cancell_running := cancell_running n + 1\<rparr>))
        else if cqe_res e = - 2 then
          bnd (sysv (Load (bufs ! (j - ENTRIES div 2)))) (\<lambda>b. if b = 0
            then sqn (call (Stdout (''The operation should have been executed'' @ nl))) (ret None)
            else ret (Some (n\<lparr>executed := executed n + 1\<rparr>)))
        else ret (Some n)))"

fun count_all ::
  "shared \<Rightarrow> ring_instance \<Rightarrow> addr list \<Rightarrow> nat \<Rightarrow> nat list \<Rightarrow> cancel_counts \<Rightarrow> ('z io_scheme, cancel_counts option) prog" where
  "count_all shared i bufs c [] n = ret (Some n)"
| "count_all shared i bufs c (j # js) n = bnd (count_cqe shared i bufs c j n) (\<lambda>r. case r of
     None \<Rightarrow> ret None | Some n' \<Rightarrow> count_all shared i bufs c js n')"

fun drain_cancels ::
  "nat \<Rightarrow> shared \<Rightarrow> ring_instance \<Rightarrow> addr list \<Rightarrow> cancel_counts
     \<Rightarrow> ('z io_scheme, (cancel_counts \<times> ring_instance) option) prog" where
  "drain_cancels 0 shared i bufs n = stop NoFuel"
| "drain_cancels (Suc fuel) shared i bufs n = bnd (get_cqe shared i) (\<lambda>(r, i1). case r of
     None \<Rightarrow> ret (Some (n, i1))
   | Some c \<Rightarrow> bnd (count_all shared i1 bufs c [ENTRIES div 2..<ENTRIES] n) (\<lambda>r. case r of
       None \<Rightarrow> ret None | Some n' \<Rightarrow> drain_cancels fuel shared i1 bufs n'))"

text \<open>
  The pointer \<open>cmp\<close> is not initialised, and the code at \<open>fail\<close> frees it: \<open>None\<close> when
  the failure comes before its allocation.
\<close>

definition fail_cancel :: "addr \<Rightarrow> addr list \<Rightarrow> addr option \<Rightarrow> ('z io_scheme, unit) prog" where
  "fail_cancel p bufs cmp =
    seqs [call (Free p), free_bufs ENTRIES bufs, call (Sleep 1),
          (case cmp of None \<Rightarrow> stop (Fault UnsetValue) | Some c \<Rightarrow> call (Free c)),
          report ''Fail'' ''test_cancel_sqe'']"

definition test_cancel_sqe :: "nat \<Rightarrow> shared \<Rightarrow> ('z io_scheme, unit) prog" where
  "test_cancel_sqe fuel shared =
    with_instance shared (of_nat ENTRIES) (\<lambda>p. fail_cancel p [] None) (\<lambda>p i.
    open_or ''/dev/urandom'' O_RDONLY 0 (fail_cancel p [] None) (\<lambda>fd.
    bnd (alloc_bufs ENTRIES []) (\<lambda>(bufs, all). if \<not> all then fail_cancel p bufs None else
    (let fail = fail_cancel p bufs None in
    submit (prep_all (\<lambda>b i. prep_read_sqe i fd b (ucast BUFSIZE) IOSQE_ASYNC) (take (ENTRIES div 2) bufs) i) (\<lambda>i1.
    enter_or i1 (ENTRIES div 2) fail
    (submit (prep_all (\<lambda>j i. prep_cancel_sqe i (bufs ! j) (bufs ! (j + ENTRIES div 2)) 0) [0..<ENTRIES div 2] i1) (\<lambda>i2.
    enter_or i2 (ENTRIES div 2) fail
    (bnd (sysv (Malloc BUFSIZE)) (\<lambda>c. if c = 0 then fail_cancel p bufs (Some 0) else
    sqn (call (Memset (ul c) CHR 0x00 BUFSIZE))
    (bnd (drain_cancels fuel shared i2 bufs \<lparr>cancelled = 0, cancell_running = 0, executed = 0\<rparr>) (\<lambda>r. case r of
       None \<Rightarrow> fail_cancel p bufs (Some (ul c))
     | Some (n, i3) \<Rightarrow> close_or i3 (fail_cancel p bufs (Some (ul c)))
         (seqs [call (Free p), free_bufs ENTRIES bufs, call (Free (ul c)),
            call (Stdout (''Pass test_cancel_sqe cancelled = '' @ show_int (cancelled n)
              @ '', cancell_running = '' @ show_int (cancell_running n)
              @ '', executed = '' @ show_int (executed n) @ nl))]))))))))))))"

text \<open>
  Links and drains: ten requests whose intended order of execution is that of the digits in
  the buffers.  \<open>ts\<close> is not initialised before its allocation either.
\<close>

definition fail_link :: "addr \<Rightarrow> addr list \<Rightarrow> addr option \<Rightarrow> ('z io_scheme, unit) prog" where
  "fail_link p bufs ts =
    seqs [call (Free p), free_bufs 9 bufs,
          (case ts of None \<Rightarrow> stop (Fault UnsetValue) | Some t \<Rightarrow> call (Free t)),
          report ''Fail'' ''test_io_link'']"

fun alloc_digits :: "nat \<Rightarrow> addr list \<Rightarrow> ('z io_scheme, addr list \<times> bool) prog" where
  "alloc_digits 0 acc = ret (acc, True)"
| "alloc_digits (Suc n) acc = bnd (sysv (Malloc BUFSIZE)) (\<lambda>p.
     if p = 0 then ret (acc, False)
     else sqn (call (Memset (ul p) CHR 0x00 BUFSIZE)) (sqn (call (Store (ul p) (char_of (49 + length acc))))
       (alloc_digits n (acc @ [ul p]))))"

text \<open>The requests in the order of submission: a write of a buffer (one byte), or the timeout.\<close>

definition link_requests :: "(nat option \<times> int) list" where
  "link_requests =
    [(Some 0, IOSQE_IO_LINK), (Some 1, IOSQE_IO_LINK), (Some 2, 0),
     (None, IOSQE_IO_DRAIN OR IOSQE_IO_LINK),
     (Some 6, IOSQE_IO_LINK), (Some 7, IOSQE_IO_LINK), (Some 8, 0),
     (Some 3, IOSQE_IO_LINK), (Some 4, IOSQE_IO_LINK), (Some 5, 0)]"

definition prep_link :: "int \<Rightarrow> addr list \<Rightarrow> addr \<Rightarrow> nat option \<times> int \<Rightarrow> ring_instance \<Rightarrow> fault + ring_instance" where
  "prep_link fd bufs ts rq i = (case rq of
     (Some j, flags) \<Rightarrow> prep_write_sqe i fd (bufs ! j) 1 0 flags
   | (None, flags) \<Rightarrow> prep_timeout_sqe i ts 3 flags)"

fun drain_link :: "nat \<Rightarrow> shared \<Rightarrow> ring_instance \<Rightarrow> ('z io_scheme, ring_instance) prog" where
  "drain_link 0 shared i = stop NoFuel"
| "drain_link (Suc fuel) shared i = bnd (get_cqe shared i) (\<lambda>(r, i1). case r of
     None \<Rightarrow> ret i1
   | Some c \<Rightarrow> bnd (read_cqe shared i1 c) (\<lambda>e. bnd (read_cqe shared i1 c) (\<lambda>e2.
       sqn (cond (cqe_res e2 < 0)
         (bnd (read_cqe shared i1 c) (\<lambda>e3.
            call (Stdout ((if cqe_user_data e \<noteq> 0 then ''write'' else ''timeout'')
              @ '' error. cqe->res = '' @ show_int (cqe_res e3) @ nl)))))
       (drain_link fuel shared i1))))"

text \<open>The bytes read into the zeroed array, as a C string.\<close>

definition text_of :: "string \<Rightarrow> string" where
  "text_of bs = takeWhile (\<lambda>c. c \<noteq> CHR 0x00) (take 10 bs)"

definition check_order :: "('z io_scheme, unit) prog \<Rightarrow> ('z io_scheme, unit) prog \<Rightarrow> ('z io_scheme, unit) prog" where
  "check_order fail pass =
    open_or ''/tmp/test-io_uring'' O_RDWR 0 fail (\<lambda>fd.
    bnd (sys (Read fd 10)) (\<lambda>r. if rv r < 0 then fail
      else if text_of (bytes r) \<noteq> ''123456789''
        then sqn (call (Stdout (''Not in the order given. '' @ text_of (bytes r) @ nl))) fail
      else pass))"

definition test_io_link :: "nat \<Rightarrow> shared \<Rightarrow> ('z io_scheme, unit) prog" where
  "test_io_link fuel shared =
    with_instance shared (of_nat ENTRIES) (\<lambda>p. fail_link p [] None) (\<lambda>p i.
    open_or ''/tmp/test-io_uring'' (O_RDWR OR O_CREAT OR 0x200 OR 0x400) 0x1C0 (fail_link p [] None) (\<lambda>fd.
    bnd (alloc_digits 9 []) (\<lambda>(bufs, all). if \<not> all then fail_link p bufs None else
    bnd (sysv (Malloc 16)) (\<lambda>t. if t = 0 then fail_link p bufs (Some 0) else
    (let ts = ul t; fail = fail_link p bufs (Some ts) in
    sqn (call (StoreN ts 8 0)) (sqn (call (StoreN (ts + 8) 8 1000000))
    (submit (prep_all (prep_link fd bufs ts) link_requests i) (\<lambda>i1.
    enter_or i1 10 fail
    (sqn (call (Sleep 1))
    (bnd (drain_link fuel shared i1) (\<lambda>i2.
    bnd (sysv (Close fd)) (\<lambda>r. if r \<noteq> 0 then fail else
    close_or i2 fail
    (check_order fail
      (seqs [call (Free p), free_bufs 9 bufs, call (Free ts), report ''Pass'' ''test_io_link'']))))))))))))))"

text \<open>A ring of 8 entries, used 32 times.  \<open>sleep(0.1)\<close> is \<open>sleep(0)\<close>.\<close>

fun overflow_rounds ::
  "int \<Rightarrow> addr list \<Rightarrow> ring_instance \<Rightarrow> ('z io_scheme, unit) prog \<Rightarrow> ('z io_scheme, unit) prog \<Rightarrow> ('z io_scheme, unit) prog" where
  "overflow_rounds fd [] i fail pass = pass"
| "overflow_rounds fd (b # bs) i fail pass =
    submit (prep_read_sqe i fd b (ucast BUFSIZE) IOSQE_ASYNC) (\<lambda>i1.
    enter_or i1 1 fail (sqn (call (Sleep 0)) (overflow_rounds fd bs i1 fail pass)))"

definition fail_overflow :: "addr \<Rightarrow> addr list \<Rightarrow> ('z io_scheme, unit) prog" where
  "fail_overflow p bufs = seqs [call (Free p), free_bufs 32 bufs, report ''Fail'' ''test_ring_overflow'']"

definition test_ring_overflow :: "shared \<Rightarrow> ('z io_scheme, unit) prog" where
  "test_ring_overflow shared =
    with_instance shared 8 (\<lambda>p. fail_overflow p []) (\<lambda>p i.
    open_or ''/dev/urandom'' O_RDONLY 0 (fail_overflow p []) (\<lambda>fd.
    bnd (alloc_bufs 32 []) (\<lambda>(bufs, all). if \<not> all then fail_overflow p bufs
      else overflow_rounds fd bufs i (fail_overflow p bufs) (report ''Pass'' ''test_ring_overflow''))))"

text \<open>
  Completions announced through an event file: each read of it gives the number of
  completions since the last one.  The \<open>int\<close> counters overflow past \<open>2 ^ 31\<close>.
\<close>

fun take_cqes :: "nat \<Rightarrow> shared \<Rightarrow> ring_instance \<Rightarrow> ('z io_scheme, ring_instance) prog" where
  "take_cqes 0 shared i = ret i"
| "take_cqes (Suc n) shared i = bnd (get_cqe shared i) (\<lambda>(r, i1). take_cqes n shared i1)"

definition u64_at :: "string \<Rightarrow> nat \<Rightarrow> int" where
  "u64_at bs n = u32_at bs n + 2 ^ 32 * u32_at bs (n + 4)"

fun event_loop :: "nat \<Rightarrow> shared \<Rightarrow> int \<Rightarrow> ring_instance \<Rightarrow> int \<Rightarrow> ('z io_scheme, unit) prog" where
  "event_loop 0 shared efd i count = stop NoFuel"
| "event_loop (Suc fuel) shared efd i count =
    bnd (sys (Read efd 8)) (\<lambda>r. if rv r < 0 then skip
      else let n = u64_at (bytes r) 0 in
        if 2 ^ 31 \<le> count + n then stop (Fault Overflow)
        else bnd (take_cqes (nat n) shared i) (\<lambda>i1.
          if int ENTRIES \<le> count + n then skip else event_loop fuel shared efd i1 (count + n)))"

definition fail_eventfd :: "addr \<Rightarrow> addr list \<Rightarrow> ('z io_scheme, unit) prog" where
  "fail_eventfd p bufs = seqs [call (Free p), free_bufs ENTRIES bufs, report ''Fail'' ''test_eventfd'']"

text \<open>The pointer argument of the registration stands for the file descriptor behind it.\<close>

definition test_eventfd :: "nat \<Rightarrow> shared \<Rightarrow> ('z io_scheme, unit) prog" where
  "test_eventfd fuel shared =
    with_instance shared (of_nat ENTRIES) (\<lambda>p. fail_eventfd p []) (\<lambda>p i.
    open_or ''/dev/urandom'' O_RDONLY 0 (fail_eventfd p []) (\<lambda>fd.
    bnd (alloc_bufs ENTRIES []) (\<lambda>(bufs, all). if \<not> all then fail_eventfd p bufs else
    bnd (sysv (Syscall ''eventfd'' [0, 0x80000])) (\<lambda>efd.
    bnd (io_uring_register (word_of_int (ring_fd i)) 4 (ul efd) 1) (\<lambda>_.
    submit (prep_all (\<lambda>b i. prep_read_sqe i fd b (ucast BUFSIZE) IOSQE_ASYNC) bufs i) (\<lambda>i1.
    enter_or i1 ENTRIES (fail_eventfd p bufs)
    (seqs [event_loop fuel shared efd i1 0, report ''Pass'' ''test_eventfd'',
           call (Free p), free_bufs ENTRIES bufs])))))))"

definition main_io_uring :: "nat \<Rightarrow> shared \<Rightarrow> ('z io_scheme, int) prog" where
  "main_io_uring fuel shared =
    sqn (seqs [test_create_and_remove_instance shared, test_create_and_remove_instance10 shared,
               test_cancel_sqe fuel shared, test_io_link fuel shared, test_ring_overflow shared,
               test_eventfd fuel shared])
    (ret 0)"

end
