(* ===== verification/RingLaws.thy ===== *)
theory RingLaws
  imports IoUring
begin

text \<open>
  The rings of the io_uring test refine bounded queues.  The interfaces are two locales: a
  queue that one side fills (\<open>fifo_in\<close>) and one that it empties (\<open>fifo_out\<close>); the
  submission and the completion ring are interpreted in them.  Head and tail are 32-bit
  counters that run freely and wrap.
\<close>

section \<open>Interfaces\<close>

locale fifo_in =
  fixes push :: "'e \<Rightarrow> 'q \<Rightarrow> fault + 'q"
    and inv :: "'q \<Rightarrow> bool"
    and content :: "'q \<Rightarrow> 'e list"
    and room :: "'q \<Rightarrow> nat"
  assumes push_room: "inv q \<Longrightarrow> length (content q) < room q \<Longrightarrow>
      \<exists>q'. push e q = Inr q' \<and> inv q' \<and> content q' = content q @ [e] \<and> room q' = room q"
begin

text \<open>A batch that fits is appended in its order.\<close>

lemma push_batch:
  assumes "inv q" "length (content q) + length es \<le> room q"
  shows "\<exists>q'. prep_all push es q = Inr q' \<and> inv q' \<and> content q' = content q @ es \<and> room q' = room q"
  using assms
proof (induction es arbitrary: q)
  case (Cons e es)
  then obtain q1 where q1: "push e q = Inr q1" "inv q1" "content q1 = content q @ [e]" "room q1 = room q"
    using push_room [of q e] by auto
  with Cons.IH [of q1] Cons.prems show ?case by auto
qed simp

end

locale fifo_out =
  fixes pop :: "'q \<Rightarrow> 'p option \<times> 'q"
    and deref :: "'q \<Rightarrow> 'p \<Rightarrow> 'e"
    and inv :: "'q \<Rightarrow> bool"
    and content :: "'q \<Rightarrow> 'e list"
  assumes pop_Nil: "inv q \<Longrightarrow> content q = [] \<Longrightarrow> pop q = (None, q)"
    and pop_Cons: "inv q \<Longrightarrow> content q = e # es \<Longrightarrow>
      \<exists>p q'. pop q = (Some p, q') \<and> inv q' \<and> content q' = es \<and> deref q' p = e"
begin

text \<open>Taking entries until the queue reports empty, at most \<open>n\<close> of them.\<close>

fun drain :: "nat \<Rightarrow> 'q \<Rightarrow> 'e list \<times> 'q" where
  "drain 0 q = ([], q)"
| "drain (Suc n) q = (case pop q of (None, q') \<Rightarrow> ([], q')
     | (Some p, q') \<Rightarrow> (case drain n q' of (es, q'') \<Rightarrow> (deref q' p # es, q'')))"

lemma drain_takes:
  assumes "inv q"
  shows "\<exists>q'. drain n q = (take n (content q), q') \<and> inv q' \<and> content q' = drop n (content q)"
  using assms
proof (induction n arbitrary: q)
  case (Suc n)
  show ?case
  proof (cases "content q")
    case Nil
    then show ?thesis using pop_Nil [OF Suc.prems Nil] Suc.prems by simp
  next
    case (Cons e es)
    from pop_Cons [OF Suc.prems Cons] obtain p q1
      where "pop q = (Some p, q1)" "inv q1" "content q1 = es" "deref q1 p = e" by blast
    with Suc.IH [of q1] Cons show ?thesis by auto
  qed
qed simp

end

section \<open>Positions in a ring\<close>

lemma ring_index_mod:
  assumes "b < 32"
  shows "ring_index (h + of_nat j) (mask b) = (unat h + j) mod 2 ^ b"
proof -
  have "ring_index (h + of_nat j) (mask b) = unat (h + of_nat j) mod 2 ^ b"
    unfolding ring_index_def take_bit_eq_mask [symmetric] unsigned_take_bit_eq
    by (simp only: take_bit_eq_mod)
  also have "unat (h + of_nat j) = (unat h + j) mod 2 ^ 32"
    by (simp add: unat_word_ariths unat_of_nat mod_add_right_eq)
  also have "(unat h + j) mod 2 ^ 32 mod 2 ^ b = (unat h + j) mod 2 ^ b"
    using assms by (intro mod_mod_cancel le_imp_power_dvd) simp
  finally show ?thesis .
qed

lemma ring_index_less: "b < 32 \<Longrightarrow> ring_index h (mask b) < 2 ^ b"
  using ring_index_mod [of b h 0] by simp

text \<open>Positions less than a whole round apart are different slots.\<close>

lemma mod_window_inj:
  fixes n :: nat
  assumes "(a + i) mod n = (a + j) mod n" "i < n" "j < n"
  shows "i = j"
proof -
  have "i = j" if "i \<le> j" "(a + i) mod n = (a + j) mod n" "j < n" for i j
  proof -
    have "n dvd (a + j) - (a + i)"
      using that mod_eq_dvd_iff_nat [of "a + i" "a + j" n] by simp
    moreover have "(a + j) - (a + i) < n" using that by simp
    ultimately show ?thesis using that(1) by (auto dest: dvd_imp_le)
  qed
  from this [of i j] this [of j i] assms show ?thesis by (cases "i \<le> j") auto
qed

lemma tail_of: "unat (tail - head) = n \<Longrightarrow> tail = head + of_nat n" for head tail :: u32
  by auto

lemma unat_Suc_diff:
  fixes head tail :: u32
  assumes "unat (tail - head) < 2 ^ 31"
  shows "unat (tail + 1 - head) = Suc (unat (tail - head))"
proof -
  have "tail + 1 - head = (tail - head) + 1" by simp
  also have "unat \<dots> = Suc (unat (tail - head))"
    using assms by (simp add: unat_word_ariths)
  finally show ?thesis .
qed

section \<open>The submission ring\<close>

text \<open>
  The ring has \<open>2 ^ b\<close> slots, at most that many entries are between head and tail, and the
  index array names their own slots, as \<open>prep_sqe\<close> writes it.
\<close>

definition sq_ok :: "ring_mem \<Rightarrow> bool" where
  "sq_ok m \<longleftrightarrow> (\<exists>b<32. m_sq_mask m = mask b \<and> length (m_sqes m) = 2 ^ b \<and> length (m_sq_array m) = 2 ^ b)
     \<and> unat (m_sq_tail m - m_sq_head m) \<le> length (m_sqes m)
     \<and> (\<forall>j < unat (m_sq_tail m - m_sq_head m).
          unat (m_sq_array m ! ring_index (m_sq_head m + of_nat j) (m_sq_mask m))
            = ring_index (m_sq_head m + of_nat j) (m_sq_mask m))"

text \<open>What the kernel finds: for each position from head to tail, the entry the index array names.\<close>

definition sq_content :: "ring_mem \<Rightarrow> io_uring_sqe list" where
  "sq_content m = map (\<lambda>j. m_sqes m ! unat (m_sq_array m ! ring_index (m_sq_head m + of_nat j) (m_sq_mask m)))
     [0..<unat (m_sq_tail m - m_sq_head m)]"

lemma length_sq_content: "length (sq_content m) = unat (m_sq_tail m - m_sq_head m)"
  by (simp add: sq_content_def)

lemma sq_slot_fresh:
  assumes "b < 32" "unat (tail - head) < 2 ^ b" "j < unat (tail - head)"
  shows "ring_index (head + of_nat j) (mask b) \<noteq> ring_index tail (mask b)"
proof
  assume eq: "ring_index (head + of_nat j) (mask b) = ring_index tail (mask b)"
  have t: "tail = head + of_nat (unat (tail - head))" by simp
  have "(unat head + j) mod 2 ^ b = (unat head + unat (tail - head)) mod 2 ^ b"
    using eq ring_index_mod [OF assms(1), of head j] ring_index_mod [OF assms(1), of head "unat (tail - head)"] t
    by metis
  then have "j = unat (tail - head)" using assms by (auto dest: mod_window_inj)
  with assms(3) show False by simp
qed

lemma prep_mem_pushes:
  assumes ok: "sq_ok m" and room: "length (sq_content m) < length (m_sqes m)"
  shows "\<exists>m'. prep_mem e m = Inr m' \<and> sq_ok m' \<and> sq_content m' = sq_content m @ [e]
    \<and> length (m_sqes m') = length (m_sqes m)
    \<and> m_cq_head m' = m_cq_head m \<and> m_cq_tail m' = m_cq_tail m \<and> m_cq_mask m' = m_cq_mask m
    \<and> m_cqes m' = m_cqes m"
proof -
  obtain b where b: "b < 32" "m_sq_mask m = mask b" "length (m_sqes m) = 2 ^ b" "length (m_sq_array m) = 2 ^ b"
    using ok by (auto simp: sq_ok_def)
  define n where "n = unat (m_sq_tail m - m_sq_head m)"
  define idx where "idx = ring_index (m_sq_tail m) (mask b)"
  have n: "n < 2 ^ b" using room b by (simp add: n_def length_sq_content)
  have i: "idx < 2 ^ b" unfolding idx_def by (rule ring_index_less [OF b(1)])
  have "n < 2 ^ 31" using n b(1) power_increasing [of b 31 "2::nat"] by simp
  then have n1: "unat (m_sq_tail m + 1 - m_sq_head m) = Suc n"
    unfolding n_def by (rule unat_Suc_diff)
  have ti: "ring_index (m_sq_head m + of_nat n) (mask b) = idx"
    by (simp add: n_def idx_def)
  have fresh: "idx \<noteq> ring_index (m_sq_head m + of_nat j) (mask b)" if "j < n" for j
    using sq_slot_fresh [OF b(1)] that n by (metis n_def idx_def)
  have ul: "unat (word_of_nat idx :: u32) = idx"
    using i b(1) power_strict_increasing [of b 32 "2::nat"] by (simp add: unat_of_nat)
  define m' where "m' = m\<lparr>m_sqes := (m_sqes m)[idx := e], m_sq_array := (m_sq_array m)[idx := word_of_nat idx],
    m_sq_tail := m_sq_tail m + 1\<rparr>"
  have p: "prep_mem e m = Inr m'"
    using i b by (simp add: prep_mem_def Let_def m'_def idx_def)
  have arr: "unat (m_sq_array m ! ring_index (m_sq_head m + of_nat j) (mask b)) = ring_index (m_sq_head m + of_nat j) (mask b)"
    if "j < n" for j
    using ok that b by (simp add: sq_ok_def n_def)
  have c: "sq_content m' = sq_content m @ [e]"
    using i b ti ul fresh arr
    by (simp add: sq_content_def m'_def n1 flip: n_def)
  have "sq_ok m'"
    unfolding sq_ok_def using b n ti ul fresh arr i
    by (auto simp: m'_def n1 less_Suc_eq simp flip: n_def)
  with p c show ?thesis by (auto simp: m'_def)
qed

interpretation sq: fifo_in prep_mem sq_ok sq_content "\<lambda>m. length (m_sqes m)"
  by unfold_locales (use prep_mem_pushes in blast)

section \<open>The completion ring\<close>

definition cq_ok :: "ring_mem \<Rightarrow> bool" where
  "cq_ok m \<longleftrightarrow> (\<exists>b<32. m_cq_mask m = mask b \<and> length (m_cqes m) = 2 ^ b)
     \<and> unat (m_cq_tail m - m_cq_head m) \<le> length (m_cqes m)"

definition cq_content :: "ring_mem \<Rightarrow> io_uring_cqe list" where
  "cq_content m = map (\<lambda>j. m_cqes m ! ring_index (m_cq_head m + of_nat j) (m_cq_mask m))
     [0..<unat (m_cq_tail m - m_cq_head m)]"

lemma cq_content_Nil: "cq_content m = [] \<longleftrightarrow> m_cq_head m = m_cq_tail m"
  by (auto simp: cq_content_def unat_eq_0)

lemma take_mem_pops:
  assumes ok: "cq_ok m" and c: "cq_content m = e # es"
  shows "\<exists>p m'. take_mem m = (Some p, m') \<and> cq_ok m' \<and> cq_content m' = es \<and> p < length (m_cqes m')
    \<and> m_cqes m' ! p = e"
proof -
  obtain b where b: "b < 32" "m_cq_mask m = mask b" "length (m_cqes m) = 2 ^ b"
    using ok by (auto simp: cq_ok_def)
  have ne: "m_cq_head m \<noteq> m_cq_tail m" using c cq_content_Nil [of m] by auto
  define m' where "m' = m\<lparr>m_cq_head := m_cq_head m + 1\<rparr>"
  define n where "n = unat (m_cq_tail m - (m_cq_head m + 1))"
  have "m_cq_tail m - m_cq_head m \<noteq> 0" using ne by simp
  then have "unat (m_cq_tail m - m_cq_head m - 1) = unat (m_cq_tail m - m_cq_head m) - 1"
    by (rule unat_minus_one)
  moreover have "m_cq_tail m - m_cq_head m - 1 = m_cq_tail m - (m_cq_head m + 1)" by simp
  moreover have "unat (m_cq_tail m - m_cq_head m) \<noteq> 0" using ne by (simp add: unat_eq_0)
  ultimately have n: "unat (m_cq_tail m - m_cq_head m) = Suc n" by (simp add: n_def)
  have "cq_content m = m_cqes m ! ring_index (m_cq_head m) (m_cq_mask m) # cq_content m'"
    unfolding cq_content_def n map_upt_Suc by (simp add: m'_def add.assoc flip: n_def)
  then have "e = m_cqes m ! ring_index (m_cq_head m) (mask b)" "es = cq_content m'"
    using c b by auto
  moreover have "cq_ok m'" using ok b n by (auto simp: cq_ok_def m'_def n_def)
  ultimately show ?thesis
    using ne b ring_index_less [OF b(1)] by (auto simp: take_mem_def m'_def)
qed

interpretation cq: fifo_out take_mem "\<lambda>m p. m_cqes m ! p" cq_ok cq_content
proof
  fix q :: ring_mem
  assume "cq_ok q" "cq_content q = []"
  then show "take_mem q = (None, q)" by (simp add: take_mem_def cq_content_Nil)
next
  fix q :: ring_mem and e es
  assume "cq_ok q" "cq_content q = e # es"
  then show "\<exists>p q'. take_mem q = (Some p, q') \<and> cq_ok q' \<and> cq_content q' = es \<and> m_cqes q' ! p = e"
    using take_mem_pops by blast
qed

section \<open>Batches of submissions, and completions\<close>

lemma prep_sqe_eq: "prep_sqe op i fd addr len off ud flags =
  map_sum id (\<lambda>m. i\<lparr>rmem := m\<rparr>) (prep_mem (sqe_of op fd addr len off ud flags) (rmem i))"
  by (simp add: prep_sqe_def split: sum.split)

lemma prep_all_rmem:
  assumes "\<And>b i. f b i = map_sum id (\<lambda>m. i\<lparr>rmem := m\<rparr>) (prep_mem (g b) (rmem i))"
  shows "prep_all f bs i = map_sum id (\<lambda>m. i\<lparr>rmem := m\<rparr>) (prep_all prep_mem (map g bs) (rmem i))"
proof (induction bs arbitrary: i)
  case (Cons b bs)
  show ?case
  proof (cases "prep_mem (g b) (rmem i)")
    case (Inr m)
    then show ?thesis
      using Cons [of "i\<lparr>rmem := m\<rparr>"] by (cases "prep_all prep_mem (map g bs) m") (simp_all add: assms)
  qed (simp add: assms)
qed simp

text \<open>C4: submitting refines the append of a bounded queue: when the ring has room for a batch of read
  requests, \<open>prep_read_sqe\<close> never leaves its arrays, the kernel finds the requests after those
  that were waiting, in the order of submission and with the arguments given, none of the
  waiting requests is overwritten, also when the 32-bit tail wraps, and the ring is well-formed
  again.\<close>

theorem submission_refines_queue:
  assumes "sq_ok (rmem i)" "length (sq_content (rmem i)) + length bs \<le> length (m_sqes (rmem i))"
  shows "\<exists>i'. prep_all (\<lambda>b i. prep_read_sqe i fd b len flags) bs i = Inr i' \<and> sq_ok (rmem i')
    \<and> sq_content (rmem i') = sq_content (rmem i) @ map (\<lambda>b. sqe_of IORING_OP_READ fd b len 0 b flags) bs
    \<and> ring_fd i' = ring_fd i"
proof -
  let ?g = "\<lambda>b. sqe_of IORING_OP_READ fd b len 0 b flags"
  obtain m where "prep_all prep_mem (map ?g bs) (rmem i) = Inr m" "sq_ok m"
    "sq_content m = sq_content (rmem i) @ map ?g bs"
    using sq.push_batch [OF assms(1), of "map ?g bs"] assms(2) by auto
  moreover have "prep_all (\<lambda>b i. prep_read_sqe i fd b len flags) bs i
    = map_sum id (\<lambda>m. i\<lparr>rmem := m\<rparr>) (prep_all prep_mem (map ?g bs) (rmem i))"
    by (rule prep_all_rmem) (simp add: prep_read_sqe_def prep_sqe_eq)
  ultimately show ?thesis by simp
qed

text \<open>A ring of four entries whose tail is about to wrap, with one request waiting.\<close>

definition demo_sqe :: io_uring_sqe where
  "demo_sqe = sqe_of IORING_OP_WRITE 5 64 1 0 64 0"

definition demo_ring :: ring_instance where
  "demo_ring = ring_instance0\<lparr>rmem := \<lparr>m_sq_head = - 2, m_sq_tail = - 1, m_sq_mask = mask 2, m_sq_array = [0, 1, 2, 3],
     m_sqes = replicate 4 demo_sqe, m_cq_head = - 1, m_cq_tail = 1, m_cq_mask = mask 2,
     m_cqes = [\<lparr>cqe_user_data = 10, cqe_res = 1\<rparr>, \<lparr>cqe_user_data = 11, cqe_res = 2\<rparr>,
               \<lparr>cqe_user_data = 12, cqe_res = 3\<rparr>, \<lparr>cqe_user_data = 13, cqe_res = 4\<rparr>]\<rparr>\<rparr>"

lemma demo_ring_sq: "sq_ok (rmem demo_ring)" "sq_content (rmem demo_ring) = [demo_sqe]"
  "length (m_sqes (rmem demo_ring)) = 4"
proof -
  have "(2::nat) < 32" by simp
  then show "sq_ok (rmem demo_ring)"
    unfolding sq_ok_def by (auto simp: demo_ring_def ring_index_def mask_eq_exp_minus_1 intro!: exI [of _ 2])
qed (simp_all add: demo_ring_def sq_content_def ring_index_def mask_eq_exp_minus_1)

theorem submission_refines_queue_witness:
  "\<exists>i'. prep_all (\<lambda>b i. prep_read_sqe i 3 b 1024 16) [100, 200] demo_ring = Inr i'
    \<and> sq_content (rmem i') = [demo_sqe, sqe_of 22 3 100 1024 0 100 16, sqe_of 22 3 200 1024 0 200 16]"
  using submission_refines_queue [OF demo_ring_sq(1), of "[100, 200]" 3 1024 16] demo_ring_sq by auto

text \<open>C13: taking a completion refines the removal at the front of the queue of completions that the
  kernel has posted: an empty queue gives no entry and leaves the ring as it was; otherwise the
  pointer returned leads to the oldest entry and the entries behind it remain, in their order.\<close>

theorem completion_refines_queue:
  assumes "cq_ok (shared (trace s @ [Poll]) i)"
  defines "m \<equiv> shared (trace s @ [Poll]) i"
  shows "\<exists>r i'. get_cqe shared i k s = (Val (r, i'), s\<lparr>trace := trace s @ [Poll]\<rparr>) \<and> cq_ok (rmem i')
    \<and> (case cq_content m of
         [] \<Rightarrow> r = None \<and> rmem i' = m
       | e # es \<Rightarrow> (\<exists>p. r = Some p \<and> p < length (m_cqes (rmem i')) \<and> m_cqes (rmem i') ! p = e
            \<and> cq_content (rmem i') = es))"
proof (cases "cq_content m")
  case Nil
  then show ?thesis using assms(1) cq.pop_Nil [of m]
    by (simp add: get_cqe_def look_def prog_simps m_def)
next
  case (Cons e es)
  from take_mem_pops [OF assms(1) [folded m_def] Cons] Cons show ?thesis
    by (auto simp: get_cqe_def look_def prog_simps m_def)
qed

theorem completion_refines_queue_witness:
  "\<exists>p i'. get_cqe (\<lambda>h i. rmem i) demo_ring (\<lambda>h c. ok) core0 = (Val (Some p, i'), core0\<lparr>trace := [Poll]\<rparr>)
    \<and> m_cqes (rmem i') ! p = \<lparr>cqe_user_data = 13, cqe_res = 4\<rparr>
    \<and> cq_content (rmem i') = [\<lparr>cqe_user_data = 10, cqe_res = 1\<rparr>]"
proof -
  have ok: "cq_ok (rmem demo_ring)"
    by (auto simp: cq_ok_def demo_ring_def mask_eq_exp_minus_1 intro!: exI [of _ 2])
  have c: "cq_content (rmem demo_ring) = [\<lparr>cqe_user_data = 13, cqe_res = 4\<rparr>, \<lparr>cqe_user_data = 10, cqe_res = 1\<rparr>]"
    by (simp add: cq_content_def demo_ring_def ring_index_def mask_eq_exp_minus_1 upt_rec)
  show ?thesis
    using completion_refines_queue [of "\<lambda>h i. rmem i" core0 demo_ring "\<lambda>h c. ok"] ok c
    by (auto simp: core0_def)
qed

end
