(* ===== verification/Hugetlb1gb.thy ===== *)
theory Hugetlb1gb
  imports OpControl
begin

text \<open>
  The tool for 1GB hugepages, \<open>lib/hugetlb_1gb.c\<close>: its own copy of the operation
  descriptions, the operations on one gigantic mapping, and the interpreter loop.  The
  description refines that of \<open>lib/include.h\<close> (\<open>as_opc\<close>), from which it inherits the laws of
  the key/value interface.
\<close>

section \<open>Operation descriptions\<close>

text \<open>Every buffer has 64 bytes; \<open>tag\<close> points into the array of values.\<close>

record gb_control =
  gb_name :: string
  gb_wait_before :: int
  gb_wait_after :: int
  gb_tag :: "nat option"
  gb_keys :: "string list"
  gb_values :: "string list"
  gb_nr_args :: nat

definition gb_defined :: "gb_control \<Rightarrow> string \<Rightarrow> bool" where
  "gb_defined opc key \<longleftrightarrow> key_index (take (gb_nr_args opc) (gb_keys opc)) key \<noteq> None"

definition gb_get_value :: "gb_control \<Rightarrow> string \<Rightarrow> string option" where
  "gb_get_value opc key =
    (case key_index (take (gb_nr_args opc) (gb_keys opc)) key of
       None \<Rightarrow> None
     | Some i \<Rightarrow> if gb_values opc ! i = [] then None else Some (gb_values opc ! i))"

definition gb_set_value :: "gb_control \<Rightarrow> string \<Rightarrow> string \<Rightarrow> fault + gb_control" where
  "gb_set_value opc key val =
    (case key_index (take (gb_nr_args opc) (gb_keys opc)) key of
       Some i \<Rightarrow> if 64 \<le> length val then Inl OutOfBounds
                 else Inr (opc\<lparr>gb_values := (gb_values opc)[i := val]\<rparr>)
     | None \<Rightarrow> if 10 \<le> gb_nr_args opc \<or> 64 \<le> length key \<or> 64 \<le> length val then Inl OutOfBounds
               else Inr (opc\<lparr>gb_keys := take (gb_nr_args opc) (gb_keys opc) @ [key],
                             gb_values := take (gb_nr_args opc) (gb_values opc) @ [val],
                             gb_nr_args := gb_nr_args opc + 1\<rparr>))"

definition gb_print_opc :: "gb_control \<Rightarrow> ('z core_scheme, unit) prog" where
  "gb_print_opc opc =
    seqs (Dprintf (''===> op_name:'' @ gb_name opc)
      # map (\<lambda>i. Dprintf (if gb_values opc ! i = [] then '', '' @ gb_keys opc ! i
           else '', '' @ gb_keys opc ! i @ ''='' @ gb_values opc ! i)) [0..<gb_nr_args opc]
      @ [Dprintf [CHR 0x0A]])"

text \<open>No argument is refused here, whatever the operation.\<close>

definition gb_parse_one :: "gb_control \<Rightarrow> string \<Rightarrow> gb_control outcome" where
  "gb_parse_one opc arg =
    (case scan_key_value arg of (key, val) \<Rightarrow>
      if 64 \<le> length key \<or> 64 \<le> length val then Fault OutOfBounds
      else let i = length (gb_keys opc);
               opc' = opc\<lparr>gb_keys := gb_keys opc @ [key], gb_values := gb_values opc @ [val]\<rparr>
           in if key = ''wait_before'' then Val (opc'\<lparr>gb_wait_before := 1\<rparr>)
              else if key = ''wait_after'' then Val (opc'\<lparr>gb_wait_after := 1\<rparr>)
              else if key = ''tag'' then Val (opc'\<lparr>gb_tag := Some i\<rparr>)
              else Val opc')"

fun gb_parse_operation_arg :: "gb_control \<Rightarrow> string list \<Rightarrow> gb_control outcome" where
  "gb_parse_operation_arg opc [] = Val opc"
| "gb_parse_operation_arg opc (arg # args) = (case gb_parse_one opc arg of
     Val opc' \<Rightarrow> gb_parse_operation_arg opc' args
   | r \<Rightarrow> r)"

definition gb_zero :: gb_control where
  "gb_zero = \<lparr>gb_name = [], gb_wait_before = 0, gb_wait_after = 0, gb_tag = None,
     gb_keys = [], gb_values = [], gb_nr_args = 0\<rparr>"

definition gb_parse_operation_args :: "string \<Rightarrow> gb_control outcome" where
  "gb_parse_operation_args str =
    (if 256 \<le> length str then Fault OutOfBounds
     else case tokens '':'' str of
       [] \<Rightarrow> Fault NullDeref
     | nm # args \<Rightarrow> if 10 < length args then Fault OutOfBounds
         else gb_parse_operation_arg (gb_zero\<lparr>gb_name := nm, gb_nr_args := length args\<rparr>) args)"

section \<open>State and signals\<close>

record gb = core +
  gb_flag :: int
  gb_size :: int
  ghp :: addr
  ghfd :: int

abbreviation (input) GB_ADDR :: addr where "GB_ADDR \<equiv> 0x700000000000"

definition newline :: string where "newline = [CHR 0x0A]"

definition gb_pprintf :: "string \<Rightarrow> ('z gb_scheme, unit) prog" where
  "gb_pprintf text = bnd (pprintf text) (\<lambda>_. skip)"

definition sig_handle_flag :: "('z gb_scheme, unit) prog" where
  "sig_handle_flag = sqn (gb_pprintf (''Received SIGUSR1'' @ newline)) (put (\<lambda>s. s\<lparr>gb_flag := 0\<rparr>))"

text \<open>
  The handler of \<open>SIGBUS\<close> prints what the kernel reports and ends the process.
\<close>

definition sigbus_handler :: "int \<Rightarrow> ('z gb_scheme, unit) prog" where
  "sigbus_handler si_code =
    sqn (gb_pprintf (''Received SIGBUS'' @ newline))
    (bnd (sysv Indet) (\<lambda>si_status.
     sqn (gb_pprintf (''SIGBUS:7, si_code:0x'' @ show_hex (ul si_code) @ '', si_status:0x'' @ show_hex (ul si_status) @ newline))
     (stop (Exit 1))))"

definition setup_signal_handler :: "('z gb_scheme, unit) prog" where
  "setup_signal_handler = sqn (call (Sigaction SIGUSR1 1)) (bnd (sysv (Sigaction 7 1)) (\<lambda>_. skip))"

text \<open>An access to the memory under test; a nonzero \<open>errno\<close> of the answer is the code of a \<open>SIGBUS\<close>.\<close>

definition gb_touch :: "sys \<Rightarrow> ('z gb_scheme, sysres) prog" where
  "gb_touch c = bnd (sys c) (\<lambda>r. if errno r \<noteq> 0 then sqn (sigbus_handler (errno r)) (ret r) else ret r)"

text \<open>\<open>pause\<close> returns when the handler of \<open>SIGUSR1\<close> has run.\<close>

definition gb_pause :: "('z gb_scheme, unit) prog" where
  "gb_pause = sqn (call (Syscall ''pause'' [])) sig_handle_flag"

definition gb_wait :: "string \<Rightarrow> string option \<Rightarrow> gb_control \<Rightarrow> ('z gb_scheme, unit) prog" where
  "gb_wait pos sleep opc =
    (let key = pos @ ''_'' @ gb_name opc @ (case gb_tag opc of Some i \<Rightarrow> ''_'' @ gb_values opc ! i | None \<Rightarrow> []) in
     if 256 \<le> length key then stop (Fault OutOfBounds)
     else case sleep of
       Some t \<Rightarrow> let sleep_us = take_bit 32 (strtoul 0 t) in
         sqn (Dprintf (''wait '' @ show_int (int_of_ul sleep_us) @ '' usecs '' @ key @ newline))
           (call (Usleep sleep_us))
     | None \<Rightarrow> sqn (gb_pprintf (key @ newline)) gb_pause)"

definition gb_do_wait_before :: "gb_control \<Rightarrow> ('z gb_scheme, unit) prog" where
  "gb_do_wait_before opc =
    (if gb_wait_before opc = 0 then skip else gb_wait ''before'' (gb_get_value opc ''wait_before'') opc)"

definition gb_do_wait_after :: "gb_control \<Rightarrow> ('z gb_scheme, unit) prog" where
  "gb_do_wait_after opc =
    (if gb_wait_after opc = 0 then skip else gb_wait ''after'' (gb_get_value opc ''wait_after'') opc)"

section \<open>Operations\<close>

definition gb_allocate_anon :: "('z gb_scheme, int) prog" where
  "gb_allocate_anon = bnd (get gb_size) (\<lambda>sz.
     bnd (sysv (Mmap GB_ADDR (ul sz) (PROT_READ OR PROT_WRITE)
       (MAP_ANONYMOUS OR MAP_PRIVATE OR MAP_HUGETLB OR push_bit 26 30) (- 1) 0)) (\<lambda>p.
     sqn (put (\<lambda>s. s\<lparr>ghp := ul p\<rparr>))
     (if ul p = - 1 then ret 1
      else bnd (sysv Getpid) (\<lambda>pid.
        sqn (Dprintf (''anonymous hugetlb allocation ok: '' @ show_ptr (ul p) @ '' '' @ show_int pid @ newline))
          (ret 0)))))"

definition gb_free_anon :: "('z gb_scheme, int) prog" where
  "gb_free_anon = bnd (get ghp) (\<lambda>p. bnd (get gb_size) (\<lambda>sz. sqn (call (Munmap p (ul sz))) (sysv Indet)))"

definition gb_open_file :: "('z gb_scheme, bool) prog" where
  "gb_open_file = bnd (get ghfd) (\<lambda>fd. if 0 < fd then ret True
     else bnd (sysv (Open ''tmp/hugetlbfs/testfile'' (O_CREAT OR O_RDWR) 0)) (\<lambda>fd.
       sqn (put (\<lambda>s. s\<lparr>ghfd := fd\<rparr>))
       (if fd = - 1 then sqn (call (Stdout (''opening hugetlbfs file failed'' @ newline))) (ret False)
        else sqn (call (Pwrite fd (replicate 8192 (CHR ''c'')) 0)) (ret True))))"

definition gb_allocate_file :: "('z gb_scheme, int) prog" where
  "gb_allocate_file = bnd gb_open_file (\<lambda>opened. if \<not> opened then ret 1
     else bnd (get ghfd) (\<lambda>fd. bnd (get gb_size) (\<lambda>sz.
       bnd (sysv (Mmap GB_ADDR (ul sz) (PROT_READ OR PROT_WRITE) MAP_SHARED fd 0)) (\<lambda>p.
       sqn (put (\<lambda>s. s\<lparr>ghp := ul p\<rparr>))
       (if ul p = - 1 then ret 1
        else sqn (Dprintf (''file hugetlb allocation ok: '' @ show_ptr (ul p) @ newline)) (ret 0))))))"

definition gb_free_file :: "('z gb_scheme, int) prog" where
  "gb_free_file = bnd (get ghp) (\<lambda>p. bnd (get gb_size) (\<lambda>sz. sqn (call (Munmap p (ul sz))) (sysv Indet)))"

text \<open>The segment has one byte, rounded up to one gigantic page by the kernel.\<close>

definition gb_allocate_shmem :: "('z gb_scheme, int) prog" where
  "gb_allocate_shmem =
    bnd (sysv (Shmget 0 1 (0x200 OR 0x100 OR 0x80 OR 0x800 OR push_bit 26 30))) (\<lambda>shmid.
      if shmid < 0 then ret 1
      else bnd (sysv (Shmat shmid GB_ADDR 0)) (\<lambda>p.
        sqn (put (\<lambda>s. s\<lparr>ghp := ul p\<rparr>))
        (if ul p = - 1 then sqn (call (Shmctl shmid 0)) (ret 1)
         else sqn (Dprintf (''shmem hugetlb allocation ok: '' @ show_ptr (ul p) @ newline)) (ret 0))))"

text \<open>A missing \<open>type\<close> is a null pointer passed to \<open>strcmp\<close>.\<close>

definition gb_do_allocate :: "gb_control \<Rightarrow> ('z gb_scheme, int) prog" where
  "gb_do_allocate opc = (case gb_get_value opc ''type'' of
     None \<Rightarrow> stop (Fault NullDeref)
   | Some type \<Rightarrow>
       if type = ''anon'' then gb_allocate_anon
       else if type = ''file'' then gb_allocate_file
       else if type = ''shmem'' then gb_allocate_shmem
       else sqn (gb_pprintf (''Invalid hugepage type: '' @ type @ newline)) (ret 1))"

definition gb_do_access :: "gb_control \<Rightarrow> ('z gb_scheme, int) prog" where
  "gb_do_access opc =
    (let access = (case gb_get_value opc ''type'' of None \<Rightarrow> ''memwrite'' | Some t \<Rightarrow> t) in
     bnd (get ghp) (\<lambda>p. bnd (get gb_size) (\<lambda>sz. bnd (get ghfd) (\<lambda>fd.
     if access = ''memread'' then sqn (gb_touch (LoadN p 4096)) (ret 0)
     else if access = ''memwrite'' then sqn (gb_touch (Memset p (CHR ''x'') (ul sz))) (ret 0)
     else if access = ''sysread'' then bnd (sysv (Pread fd 4096 0)) (\<lambda>r. ret (if r \<noteq> 4096 then 1 else 0))
     else if access = ''syswrite'' then
       bnd (sysv (Pwrite fd (replicate 4096 (CHR ''y'')) 0)) (\<lambda>r. ret (if r \<noteq> 4096 then 1 else 0))
     else ret 0))))"

text \<open>An unknown advice leaves the result unset.\<close>

definition gb_do_madvise :: "gb_control \<Rightarrow> ('z gb_scheme, int) prog" where
  "gb_do_madvise opc = (case gb_get_value opc ''advice'' of
     None \<Rightarrow> stop (Fault NullDeref)
   | Some advice \<Rightarrow> bnd (get ghp) (\<lambda>p. bnd (get gb_size) (\<lambda>sz.
       if advice = ''hwpoison'' then sysv (Madvise p 4096 MADV_HWPOISON)
       else if advice = ''soft-offline'' then sysv (Madvise p 4096 MADV_SOFT_OFFLINE)
       else if advice = ''dontneed'' then sysv (Madvise p (ul sz) MADV_DONTNEED)
       else sysv Indet)))"

text \<open>One test of \<open>flag\<close>, which the signal handler may have cleared by then.\<close>

definition gb_poll :: "('z gb_scheme, int) prog" where
  "gb_poll = bnd (sysv Poll) (\<lambda>r. sqn (cond (r \<noteq> 0) sig_handle_flag) (get gb_flag))"

fun gb_iterate :: "nat \<Rightarrow> ('z gb_scheme, int) prog \<Rightarrow> ('z gb_scheme, unit) prog" where
  "gb_iterate 0 alloc = stop NoFuel"
| "gb_iterate (Suc fuel) alloc = bnd gb_poll (\<lambda>f. if f = 0 then skip
     else bnd alloc (\<lambda>r. if r \<noteq> 0 then skip
       else bnd (get ghp) (\<lambda>p. bnd (get gb_size) (\<lambda>sz.
         sqn (gb_touch (Memset p (CHR ''y'') (ul sz)))
         (sqn (call (Munmap p (ul sz))) (gb_iterate fuel alloc))))))"

definition gb_do_iterate_mapping :: "nat \<Rightarrow> gb_control \<Rightarrow> ('z gb_scheme, int) prog" where
  "gb_do_iterate_mapping fuel opc =
    sqn (put (\<lambda>s. s\<lparr>gb_flag := 1\<rparr>))
    (case gb_get_value opc ''type'' of
       None \<Rightarrow> stop (Fault NullDeref)
     | Some type \<Rightarrow>
         sqn (if type = ''anon'' then gb_iterate fuel gb_allocate_anon
              else if type = ''file'' then gb_iterate fuel gb_allocate_file
              else if type = ''shmem'' then gb_pprintf (''Not implemented yet for hugepage type: '' @ type @ newline)
              else gb_pprintf (''Invalid hugepage type: '' @ type @ newline))
         (sysv Indet))"

text \<open>
  The parent waits for the child; the child touches the page and pauses, and then goes on with
  the operations as the parent does.
\<close>

definition gb_do_fork :: "('z gb_scheme, int) prog" where
  "gb_do_fork = bnd (sysv Fork) (\<lambda>pid.
     sqn (if pid \<noteq> 0 then
            sqn (gb_pprintf (''forked '' @ show_int pid @ newline))
            (bnd (sys (Wait (- 1))) (\<lambda>r. gb_pprintf (''child exited '' @ show_int (errno r) @ newline)))
          else bnd (get ghp) (\<lambda>p. sqn (gb_touch (Load p)) gb_pause))
     (sysv Indet))"

text \<open>The message names the two addresses in the wrong order; \<open>ghp\<close> keeps the old address.\<close>

definition gb_do_mremap :: "('z gb_scheme, int) prog" where
  "gb_do_mremap = bnd (get ghp) (\<lambda>p. bnd (get gb_size) (\<lambda>sz.
     sqn (gb_pprintf (''mremap p:'' @ show_ptr (p + ul sz) @ '' -> '' @ show_ptr p @ newline))
     (bnd (sysv (Mremap p (ul sz) (ul sz) 3 (p + ul sz))) (\<lambda>new.
      sqn (gb_pprintf (''new '' @ show_ptr (ul new) @ newline))
      (ret (if ul new = - 1 then - 1 else 0))))))"

section \<open>The interpreter\<close>

definition tag_string :: "gb_control \<Rightarrow> string" where
  "tag_string opc = (case gb_tag opc of Some i \<Rightarrow> gb_name opc @ ''_'' @ gb_values opc ! i | None \<Rightarrow> gb_name opc)"

text \<open>\<open>ret\<close> is a variable of \<open>main\<close>: an unknown operation leaves what the last one returned.\<close>

definition gb_operation :: "nat \<Rightarrow> gb_control \<Rightarrow> int option \<Rightarrow> ('z gb_scheme, int option) prog" where
  "gb_operation fuel opc old =
    (let result = (\<lambda>m. bnd m (\<lambda>r. ret (Some r))) in
     if gb_name opc = ''allocate'' then result (gb_do_allocate opc)
     else if gb_name opc = ''access'' then result (gb_do_access opc)
     else if gb_name opc = ''madvise'' then result (gb_do_madvise opc)
     else if gb_name opc = ''iterate_mapping'' then result (gb_do_iterate_mapping fuel opc)
     else if gb_name opc = ''fork'' then result gb_do_fork
     else if gb_name opc = ''mremap'' then result gb_do_mremap
     else if gb_name opc = ''pause'' then
       sqn (gb_pprintf (tag_string opc @ newline)) (sqn gb_pause (ret (Some 0)))
     else ret old)"

fun gb_run :: "nat \<Rightarrow> string list \<Rightarrow> int option \<Rightarrow> ('z gb_scheme, unit) prog" where
  "gb_run fuel [] old = skip"
| "gb_run fuel (arg # args) old =
    bnd (lift (gb_parse_operation_args arg)) (\<lambda>opc.
    if 256 \<le> length (tag_string opc) then stop (Fault OutOfBounds)
    else sqn (gb_do_wait_before opc)
      (bnd (gb_operation fuel opc old) (\<lambda>r. case r of
         None \<Rightarrow> stop (Fault UnsetValue)
       | Some v \<Rightarrow> sqn (gb_pprintf (tag_string opc @ '' returned '' @ show_int v @ newline))
           (sqn (gb_do_wait_after opc) (gb_run fuel args r)))))"

text \<open>
  The options as \<open>getopt\<close> delivers them, with the index of the first operation and the number of
  pages: \<open>-v\<close> does not advance that index.
\<close>

definition gb_option :: "char \<times> string \<Rightarrow> nat \<times> int \<Rightarrow> ('z gb_scheme, nat \<times> int) prog" where
  "gb_option = (\<lambda>(c, optarg) (argindex, nr_gp).
     if c = CHR ''v'' then sqn (put (\<lambda>s. s\<lparr>verbose := 1\<rparr>)) (ret (argindex, nr_gp))
     else if c = CHR ''p'' then
       sqn (put (\<lambda>s. s\<lparr>testpipe := Some optarg\<rparr>))
         (bnd (sysv (Lstat optarg)) (\<lambda>m. if m AND 0xF000 = 0x1000 then ret (argindex + 2, nr_gp) else exit_failure))
     else if c = CHR ''n'' then ret (argindex + 2, s32 (strtol 0 optarg))
     else ret (argindex, nr_gp))"

fun gb_options :: "(char \<times> string) list \<Rightarrow> nat \<times> int \<Rightarrow> ('z gb_scheme, nat \<times> int) prog" where
  "gb_options [] st = ret st"
| "gb_options (o1 # os) st = bnd (gb_option o1 st) (gb_options os)"

text \<open>\<open>argv\<close> after \<open>getopt\<close> has read (and permuted) it, the options it found first.\<close>

definition main_hugetlb_1gb :: "nat \<Rightarrow> string list \<Rightarrow> (char \<times> string) list \<Rightarrow> ('z gb_scheme, int) prog" where
  "main_hugetlb_1gb fuel argv opts =
    sqn setup_signal_handler
    (bnd (gb_options opts (1, 1)) (\<lambda>(argindex, nr_gp).
     sqn (put (\<lambda>s. s\<lparr>gb_size := s64 (nr_gp * 2 ^ 30)\<rparr>))
     (sqn (gb_run fuel (drop argindex argv) None) (ret 0))))"

section \<open>The copy refines the description of the library\<close>

definition as_opc :: "gb_control \<Rightarrow> op_control" where
  "as_opc c = \<lparr>opc_name = gb_name c, opc_wait_before = gb_wait_before c, opc_wait_after = gb_wait_after c,
     opc_tag = gb_tag c, opc_keys = gb_keys c, opc_values = gb_values c,
     opc_value_size = replicate (length (gb_values c)) 64, opc_nr_args = gb_nr_args c\<rparr>"

definition gb_wf :: "gb_control \<Rightarrow> bool" where
  "gb_wf c \<longleftrightarrow> length (gb_keys c) = gb_nr_args c \<and> length (gb_values c) = gb_nr_args c \<and> gb_nr_args c \<le> 10
     \<and> list_all (\<lambda>k. length k < 64) (gb_keys c) \<and> list_all (\<lambda>v. length v < 64) (gb_values c)
     \<and> (case gb_tag c of None \<Rightarrow> True | Some i \<Rightarrow> i < gb_nr_args c)"

lemma as_opc_sel [simp]:
  "opc_name (as_opc c) = gb_name c" "opc_tag (as_opc c) = gb_tag c"
  "opc_keys (as_opc c) = gb_keys c" "opc_values (as_opc c) = gb_values c"
  "opc_value_size (as_opc c) = replicate (length (gb_values c)) 64" "opc_nr_args (as_opc c) = gb_nr_args c"
  by (simp_all add: as_opc_def)

lemma as_opc_wf: "opc_wf (as_opc c) \<longleftrightarrow> gb_wf c"
  by (auto simp: opc_wf_def gb_wf_def list_all2_conv_all_nth list_all_length split: option.splits)

lemma as_opc_read: "opc_defined (as_opc c) = gb_defined c" "opc_get_value (as_opc c) = gb_get_value c"
  by (auto simp: fun_eq_iff opc_defined_def gb_defined_def opc_get_value_def gb_get_value_def
      split: option.split dest: key_index_mem)

lemma as_opc_set:
  assumes "gb_wf c"
  shows "opc_set_value (as_opc c) key val = map_sum id as_opc (gb_set_value c key val)"
proof -
  have n: "length (gb_keys c) = gb_nr_args c" "length (gb_values c) = gb_nr_args c"
    using assms by (simp_all add: gb_wf_def)
  show ?thesis
  proof (cases "key_index (gb_keys c) key")
    case None
    then show ?thesis using n
      by (simp add: opc_set_value_def gb_set_value_def del: key_index_None)
        (simp add: as_opc_def replicate_append_same)
  next
    case (Some i)
    then have "i < gb_nr_args c" using n by (auto dest: key_index_less)
    with Some n show ?thesis
      by (simp add: opc_set_value_def gb_set_value_def) (simp add: as_opc_def)
  qed
qed

lemma gb_set_opc:
  "gb_wf c \<Longrightarrow> gb_set_value c key val = Inr c' \<Longrightarrow> opc_set_value (as_opc c) key val = Inr (as_opc c')"
  by (simp add: as_opc_set)

interpretation gb: kv_store gb_defined gb_get_value gb_set_value gb_wf
proof
  fix c k v c' k'
  assume wf: "gb_wf c" and set: "gb_set_value c k v = Inr c'"
  note o = wf [folded as_opc_wf] gb_set_opc [OF wf set]
  from opc.get_set_same [OF o] show "gb_get_value c' k = (if v = [] then None else Some v)"
    by (simp add: as_opc_read)
  from opc.defd_set [OF o] show "gb_defined c' k' \<longleftrightarrow> k' = k \<or> gb_defined c k'"
    by (simp add: as_opc_read)
  from opc.inv_set [OF o] show "gb_wf c'" by (simp add: as_opc_wf)
  assume "k' \<noteq> k"
  from opc.get_set_other [OF o this] show "gb_get_value c' k' = gb_get_value c k'"
    by (simp add: as_opc_read)
next
  fix c k v
  assume "gb_wf c" "gb_get_value c k = Some v"
  then show "gb_defined c k \<and> v \<noteq> []"
    using opc.get_defd [of "as_opc c" k v] by (simp add: as_opc_wf as_opc_read)
qed

text \<open>The loop invariant of the parser.\<close>

definition gb_partial :: "gb_control \<Rightarrow> bool" where
  "gb_partial c \<longleftrightarrow> length (gb_values c) = length (gb_keys c)
     \<and> list_all (\<lambda>k. length k < 64) (gb_keys c) \<and> list_all (\<lambda>v. length v < 64) (gb_values c)
     \<and> (gb_wait_before c = 0 \<or> ''wait_before'' \<in> set (gb_keys c))
     \<and> (gb_wait_after c = 0 \<or> ''wait_after'' \<in> set (gb_keys c))
     \<and> (case gb_tag c of None \<Rightarrow> True | Some i \<Rightarrow> i < length (gb_keys c) \<and> gb_keys c ! i = ''tag'')"

lemma gb_parse_one_Val:
  "gb_parse_one c arg = Val c' \<longleftrightarrow>
    (case scan_key_value arg of (key, val) \<Rightarrow> length key < 64 \<and> length val < 64 \<and>
       c' = c\<lparr>gb_keys := gb_keys c @ [key], gb_values := gb_values c @ [val],
              gb_wait_before := (if key = ''wait_before'' then 1 else gb_wait_before c),
              gb_wait_after := (if key = ''wait_after'' then 1 else gb_wait_after c),
              gb_tag := (if key = ''tag'' then Some (length (gb_keys c)) else gb_tag c)\<rparr>)"
  by (auto simp: gb_parse_one_def Let_def not_le split: prod.split)

lemma gb_parse_one_partial:
  assumes "gb_partial c" "gb_parse_one c arg = Val c'"
  shows "gb_partial c' \<and> gb_name c' = gb_name c \<and> gb_nr_args c' = gb_nr_args c
    \<and> length (gb_keys c') = length (gb_keys c) + 1"
proof -
  obtain key val where kv: "scan_key_value arg = (key, val)" by fastforce
  show ?thesis
    using assms unfolding gb_parse_one_Val gb_partial_def
    by (simp add: kv) (auto simp: nth_append split: option.splits)
qed

lemma gb_parse_args_partial:
  "gb_partial c \<Longrightarrow> gb_parse_operation_arg c args = Val c' \<Longrightarrow>
   gb_partial c' \<and> gb_name c' = gb_name c \<and> gb_nr_args c' = gb_nr_args c
    \<and> length (gb_keys c') = length (gb_keys c) + length args"
proof (induction c args rule: gb_parse_operation_arg.induct)
  case (2 c arg args)
  from "2.prems"(2) obtain c1 where
    c1: "gb_parse_one c arg = Val c1" "gb_parse_operation_arg c1 args = Val c'"
    by (cases "gb_parse_one c arg") simp_all
  with gb_parse_one_partial [OF "2.prems"(1) c1(1)] "2.IH" [OF c1(1)] show ?case by simp
qed simp

text \<open>Whatever string the 1GB tool parses without leaving its buffers, the result is a well-formed value of the
  structure: keys and values fill exactly the \<open>nr_args\<close> slots of at most ten, every string fits its
  buffer of 64 bytes, the tag points into the values at an argument named tag, the wait flags are
  set only when the argument is present; and it is a well-formed value of the library's
  structure too.\<close>

lemma gb_parse_well_formed:
  assumes "gb_parse_operation_args str = Val c"
  shows "gb_wf c \<and> opc_wf (as_opc c) \<and> gb_name c = hd (tokens '':'' str)
    \<and> gb_nr_args c = length (tokens '':'' str) - 1
    \<and> (gb_wait_before c \<noteq> 0 \<longrightarrow> gb_defined c ''wait_before'') \<and> (gb_wait_after c \<noteq> 0 \<longrightarrow> gb_defined c ''wait_after'')
    \<and> (\<forall>i. gb_tag c = Some i \<longrightarrow> gb_keys c ! i = ''tag'')"
proof -
  from assms obtain nm args where t: "tokens '':'' str = nm # args" "length args \<le> 10"
    and p: "gb_parse_operation_arg (gb_zero\<lparr>gb_name := nm, gb_nr_args := length args\<rparr>) args = Val c"
    by (cases "tokens '':'' str") (auto simp: gb_parse_operation_args_def not_less split: if_splits)
  have "gb_partial (gb_zero\<lparr>gb_name := nm, gb_nr_args := length args\<rparr>)"
    by (simp add: gb_partial_def gb_zero_def)
  from gb_parse_args_partial [OF this p]
  have c: "gb_partial c" "gb_nr_args c = length args" "length (gb_keys c) = length args" "gb_name c = nm"
    by (simp_all add: gb_zero_def)
  then have "gb_wf c" using t(2) by (auto simp: gb_partial_def gb_wf_def split: option.splits)
  with c t show ?thesis
    by (auto simp: as_opc_wf gb_partial_def gb_defined_def split: option.splits)
qed

text \<open>The two parsers, of \<open>lib/hugetlb_1gb.c\<close> and of \<open>lib/include.h\<close>, are two texts.  An operation as the library
  holds it, whose value buffers are twice as large.\<close>

definition in_library :: "gb_control \<Rightarrow> op_control" where
  "in_library c = (as_opc c)\<lparr>opc_value_size := replicate (length (gb_values c)) 128\<rparr>"

lemma in_library_step:
  assumes "gb_parse_one c arg = Val c1" "key_allowed (gb_name c) (fst (scan_key_value arg))"
  shows "parse_one_arg (in_library c) arg = Val (in_library c1)" "length (snd (scan_key_value arg)) < 64"
    "gb_name c1 = gb_name c"
  using assms by (cases "scan_key_value arg",
    simp add: parse_one_arg_Val gb_parse_one_Val in_library_def as_opc_def replicate_append_same)+

lemma in_library_back:
  assumes "parse_one_arg (in_library c) arg = Val o1" "length (snd (scan_key_value arg)) < 64"
  shows "\<exists>c1. gb_parse_one c arg = Val c1"
  using assms by (cases "scan_key_value arg") (simp add: parse_one_arg_Val gb_parse_one_Val)

lemma parse_one_allowed:
  "parse_one_arg (in_library c) arg = Val o1 \<Longrightarrow> key_allowed (gb_name c) (fst (scan_key_value arg))"
  by (simp add: parse_one_arg_Val in_library_def split: prod.splits)

lemma in_library_args:
  "gb_parse_operation_arg c args = Val c' \<and> list_all (key_allowed (gb_name c)) (map (fst \<circ> scan_key_value) args)
   \<longleftrightarrow> parse_operation_arg (in_library c) args = Val (in_library c')
     \<and> list_all (\<lambda>v. length v < 64) (map (snd \<circ> scan_key_value) args)"
proof (induction args arbitrary: c)
  case Nil
  have "in_library c = in_library c' \<longleftrightarrow> c = c'"
    by (cases c; cases c') (auto simp: in_library_def as_opc_def)
  then show ?case by simp
next
  case (Cons arg args)
  show ?case
  proof (cases "(\<exists>c1. gb_parse_one c arg = Val c1) \<and> key_allowed (gb_name c) (fst (scan_key_value arg))")
    case True
    then obtain c1 where c1: "gb_parse_one c arg = Val c1" by blast
    note st = in_library_step [OF c1 conjunct2 [OF True]]
    show ?thesis using Cons.IH [of c1] True by (simp add: c1 st)
  next
    case False
    then have "\<not> (gb_parse_operation_arg c (arg # args) = Val c'
        \<and> list_all (key_allowed (gb_name c)) (map (fst \<circ> scan_key_value) (arg # args)))"
      by (cases "gb_parse_one c arg") simp_all
    moreover have "\<not> (parse_operation_arg (in_library c) (arg # args) = Val (in_library c')
        \<and> list_all (\<lambda>v. length v < 64) (map (snd \<circ> scan_key_value) (arg # args)))"
      using False in_library_back [of c arg] parse_one_allowed [of c arg]
      by (cases "parse_one_arg (in_library c) arg") auto
    ultimately show ?thesis by blast
  qed
qed

lemma gb_parse_keys:
  "gb_parse_operation_arg c args = Val c' \<Longrightarrow>
     gb_keys c' = gb_keys c @ map (fst \<circ> scan_key_value) args \<and> gb_name c' = gb_name c"
proof (induction args arbitrary: c)
  case (Cons arg args)
  then obtain c1 where "gb_parse_one c arg = Val c1" "gb_parse_operation_arg c1 args = Val c'"
    by (cases "gb_parse_one c arg") simp_all
  with Cons.IH [of c1] show ?case by (simp add: gb_parse_one_Val split: prod.splits)
qed simp

lemma parse_values:
  "parse_operation_arg c args = Val c' \<Longrightarrow> opc_values c' = opc_values c @ map (snd \<circ> scan_key_value) args"
proof (induction args arbitrary: c)
  case (Cons arg args)
  then obtain c1 where "parse_one_arg c arg = Val c1" "parse_operation_arg c1 args = Val c'"
    by (cases "parse_one_arg c arg") simp_all
  with Cons.IH [of c1] show ?case by (simp add: parse_one_arg_Val split: prod.splits)
qed simp

text \<open>C20: the parser of the 1GB tool and that of the library agree on every text.  An operation that the 1GB tool
  reads, with arguments that the library allows for its name, is read by the library as the same name, keys, values,
  wait flags and tag; and what the library reads the 1GB tool reads in the same way, when the values fit its shorter
  buffers.\<close>

theorem gb_parser_agrees:
  "gb_parse_operation_args str = Val c \<and> list_all (key_allowed (gb_name c)) (gb_keys c)
   \<longleftrightarrow> parse_opc str = Val (in_library c) \<and> list_all (\<lambda>v. length v < 64) (gb_values c)"
proof (cases "\<exists>nm args. tokens '':'' str = nm # args \<and> length args \<le> 10 \<and> length str < 256")
  case False
  then show ?thesis by (cases "tokens '':'' str") (auto simp: gb_parse_operation_args_def parse_opc_def)
next
  case True
  then obtain nm args where t: "tokens '':'' str = nm # args" "length args \<le> 10" "length str < 256" by blast
  let ?c = "gb_zero\<lparr>gb_name := nm, gb_nr_args := length args\<rparr>"
  have z: "in_library ?c = opc_zero\<lparr>opc_name := nm, opc_nr_args := length args\<rparr>"
    by (simp add: in_library_def as_opc_def gb_zero_def opc_zero_def)
  have g: "gb_parse_operation_args str = gb_parse_operation_arg ?c args"
    using t by (simp add: gb_parse_operation_args_def)
  have l: "parse_opc str = parse_operation_arg (in_library ?c) args"
    using t by (simp add: parse_opc_def z)
  have keys: "gb_keys c = map (fst \<circ> scan_key_value) args \<and> gb_name c = gb_name ?c"
    if "gb_parse_operation_arg ?c args = Val c"
    using gb_parse_keys [OF that] by (simp add: gb_zero_def)
  have vals: "gb_values c = map (snd \<circ> scan_key_value) args"
    if "parse_operation_arg (in_library ?c) args = Val (in_library c)"
    using parse_values [OF that] by (simp add: in_library_def gb_zero_def)
  show ?thesis unfolding g l using in_library_args [of ?c args c] keys vals by metis
qed

theorem gb_parser_agrees_witness:
  "\<exists>c. gb_parse_operation_args ''madvise:advice=hugepage:tag=a:wait_after'' = Val c
     \<and> parse_opc ''madvise:advice=hugepage:tag=a:wait_after'' = Val (in_library c) \<and> gb_wait_after c = 1"
proof -
  let ?s = "''madvise:advice=hugepage:tag=a:wait_after''"
  have "case gb_parse_operation_args ?s of Val c \<Rightarrow> list_all (key_allowed (gb_name c)) (gb_keys c) \<and> gb_wait_after c = 1
      | _ \<Rightarrow> False" by code_simp
  then obtain c where "gb_parse_operation_args ?s = Val c" "list_all (key_allowed (gb_name c)) (gb_keys c)" "gb_wait_after c = 1"
    by (cases "gb_parse_operation_args ?s") auto
  with gb_parser_agrees [of ?s c] show ?thesis by blast
qed

text \<open>The verbose option makes the tool take an option for an operation.\<close>

lemma gb_verbose_shifts:
  fixes s :: "'z gb_scheme"
  shows "gb_options [(CHR ''v'', []), (CHR ''n'', ''2'')] (1, 1) k s
    = (Val (3, s32 (strtol 0 ''2'')), s\<lparr>verbose := 1\<rparr>)"
    "drop 3 [''hugetlb_1gb'', ''-v'', ''-n'', ''2'', ''allocate:type=anon''] = [''2'', ''allocate:type=anon'']"
  by (simp_all add: gb_option_def prog_simps)

end
