(* ===== verification/ProcFiles.thy ===== *)
theory ProcFiles
  imports Pfn
begin

text \<open>
  The readers of \<open>/proc\<close> the RAS tools share: interrupt counters
  (\<open>lib/ras-tools/proc_interrupt.c\<close>), processors (\<open>proc_cpuinfo.c\<close>) and the translation of
  virtual to physical addresses (\<open>proc_pagemap.c\<close>, and the variants in \<open>vtop.c\<close> and
  \<open>victim.c\<close>).  The lines of a file are the pieces that \<open>fgets\<close> delivers.
\<close>

section \<open>Interrupt counters\<close>

lemma digits_length: "length (snd (digits b acc s)) \<le> length s"
  by (induction s arbitrary: acc) (auto simp: le_SucI)

lemma digits_shorter:
  "s = c # cs \<Longrightarrow> digit_val c < b \<Longrightarrow> digits b acc s = (n, r) \<Longrightarrow> length r < length s"
  using digits_length [of b "acc * b + digit_val c" cs] by auto

lemma strto_digits_shorter:
  assumes "strto_digits base s = Some (n, r)"
  shows "length r < length s"
proof -
  define hex where "hex \<longleftrightarrow> (base = 0 \<or> base = 16) \<and> (take 2 s = ''0x'' \<or> take 2 s = ''0X'')
    \<and> length s > 2 \<and> digit_val (s ! 2) < 16"
  define b where "b = (if base \<noteq> 0 then base else if hex then 16 else if take 1 s = ''0'' then 8 else 10)"
  define s' where "s' = (if hex then drop 2 s else s)"
  have d: "strto_digits base s = (case s' of [] \<Rightarrow> None | c # _ \<Rightarrow> if digit_val c < b then Some (digits b 0 s') else None)"
    unfolding strto_digits_def Let_def hex_def [symmetric] b_def [symmetric] s'_def [symmetric] by (rule refl)
  with assms obtain c cs where "s' = c # cs" "digit_val c < b" "digits b 0 s' = (n, r)"
    by (cases s') (auto split: if_splits)
  then have "length r < length s'" by (rule digits_shorter)
  also have "length s' \<le> length s" by (simp add: s'_def)
  finally show ?thesis .
qed

lemma strto_shorter:
  assumes "strto base s = (neg, n, r)" "r \<noteq> s"
  shows "length r < length s"
proof -
  define s2 where "s2 = (let s1 = dropWhile isspace s in if take 1 s1 = ''-'' \<or> take 1 s1 = ''+'' then drop 1 s1 else s1)"
  have l: "length s2 \<le> length s" using length_dropWhile_le [of isspace s] by (auto simp: s2_def Let_def)
  have "strto base s = (case strto_digits base s2 of None \<Rightarrow> (False, 0, s)
      | Some (n, r) \<Rightarrow> (take 1 (dropWhile isspace s) = ''-'', n, r))"
    by (simp add: strto_def s2_def Let_def)
  with assms obtain m where "strto_digits base s2 = Some (m, r)"
    by (auto split: option.splits)
  from strto_digits_shorter [OF this] l show ?thesis by simp
qed

lemma strtol_rest_shorter: "strtol_rest base s = (v, r) \<Longrightarrow> r \<noteq> s \<Longrightarrow> length r < length s"
  by (auto simp: strtol_rest_def split: prod.splits dest: strto_shorter)

text \<open>The numbers at the start of a string are added up, until \<open>strtol\<close> finds none.\<close>

function sumint_from :: "int \<Rightarrow> string \<Rightarrow> int" where
  "sumint_from acc s = (case strtol_rest 10 s of (v, se) \<Rightarrow>
     if se = s then s64 (acc + v) else sumint_from (s64 (acc + v)) se)"
  by pat_completeness auto
termination
  by (relation "measure (\<lambda>(t, s). length s)") (auto dest: strtol_rest_shorter [OF sym])

declare sumint_from.simps [simp del]

definition sumint :: "string \<Rightarrow> int" where
  "sumint s = sumint_from 0 s"

definition irq_line :: "string \<Rightarrow> int \<times> int \<Rightarrow> int \<times> int" where
  "irq_line line = (\<lambda>(nmce, ncmci). let p = dropWhile isspace line in
     if strncmp_eq p ''MCE:'' 4 then (sumint (drop 4 p), ncmci)
     else if strncmp_eq p ''THR:'' 4 then (nmce, sumint (drop 4 p))
     else (nmce, ncmci))"

definition proc_interrupts :: "('z io_scheme, int \<times> int) prog" where
  "proc_interrupts = bnd (sys (Fopen ''/proc/interrupts'' ''r'')) (\<lambda>r.
     if rv r = 0 then ret (- 1, - 1)
     else sqn (call Fclose) (ret (fold irq_line (entries r) (- 1, - 1))))"

section \<open>Processors\<close>

text \<open>
  \<open>apicmap\<close> grows by \<open>realloc\<close>, whose new part is not set (\<open>None\<close>); \<open>lcpu\<close> is not
  initialised; \<open>modelnum\<close> belongs to the caller and may stay unset.
\<close>

record cpuinfo =
  ci_nsockets :: int
  ci_ncpus :: int
  ci_model :: string
  ci_modelnum :: "int option"
  ci_apicmap :: "int option list"
  ci_lcpu :: "int option"
  ci_sockmask :: u64

definition after_colon :: "nat \<Rightarrow> string \<Rightarrow> string option" where
  "after_colon n line = map_option (\<lambda>i. drop (n + i + 1) line) (strchr (drop n line) (CHR '':''))"

definition cpu_model_name :: "string \<Rightarrow> cpuinfo \<Rightarrow> cpuinfo outcome" where
  "cpu_model_name line ci = (case after_colon 10 line of None \<Rightarrow> Fault NullDeref
     | Some p \<Rightarrow> let m = dropWhile isspace p in
         if 512 \<le> length m then Fault OutOfBounds else Val (ci\<lparr>ci_model := m\<rparr>))"

definition cpu_physical_id :: "string \<Rightarrow> cpuinfo \<Rightarrow> cpuinfo outcome" where
  "cpu_physical_id line ci = (case after_colon 10 line of None \<Rightarrow> Fault NullDeref
     | Some p \<Rightarrow> let s = strtol 10 p in
         if s < 0 \<or> 32 \<le> s then Fault Overflow
         else Val (ci\<lparr>ci_ncpus := ci_ncpus ci + 1, ci_sockmask := ci_sockmask ci OR ul (s32 (2 ^ nat s))\<rparr>))"

text \<open>The map is enlarged at most once per line.\<close>

definition cpu_apicid :: "string \<Rightarrow> cpuinfo \<Rightarrow> cpuinfo outcome" where
  "cpu_apicid line ci = (case after_colon 5 line of None \<Rightarrow> Fault NullDeref
     | Some p \<Rightarrow> (case ci_lcpu ci of None \<Rightarrow> Fault UnsetValue
       | Some lcpu \<Rightarrow>
           let m = ci_apicmap ci; m' = (if int (length m) \<le> lcpu then m @ replicate (length m) None else m)
           in if lcpu < 0 \<or> int (length m') \<le> lcpu then Fault OutOfBounds
              else Val (ci\<lparr>ci_apicmap := m'[nat lcpu := Some (s32 (strtol 10 p))]\<rparr>)))"

definition cpu_line :: "string \<Rightarrow> cpuinfo \<Rightarrow> cpuinfo outcome" where
  "cpu_line line ci =
    (if ci_model ci = [] \<and> strncmp_eq line ''model name'' 10 then cpu_model_name line ci
     else if strncmp_eq line (''model'' @ [CHR 0x09]) 6 then
       (case after_colon 6 line of None \<Rightarrow> Fault NullDeref | Some p \<Rightarrow> Val (ci\<lparr>ci_modelnum := Some (atoi p)\<rparr>))
     else if strncmp_eq line ''physical id'' 11 then cpu_physical_id line ci
     else if strncmp_eq line ''processor'' 9 then
       (case after_colon 8 line of None \<Rightarrow> Fault NullDeref | Some p \<Rightarrow> Val (ci\<lparr>ci_lcpu := Some (strtol 10 p)\<rparr>))
     else if strncmp_eq line ''apicid'' 6 then cpu_apicid line ci
     else Val ci)"

fun cpu_lines :: "string list \<Rightarrow> cpuinfo \<Rightarrow> cpuinfo outcome" where
  "cpu_lines [] ci = Val ci"
| "cpu_lines (l # ls) ci = (case cpu_line l ci of Val ci' \<Rightarrow> cpu_lines ls ci' | r \<Rightarrow> r)"

definition count_sockets :: "u64 \<Rightarrow> int" where
  "count_sockets m = int (length (filter (\<lambda>i. m AND push_bit i 1 \<noteq> 0) [0..<64]))"

definition cpuinfo0 :: cpuinfo where
  "cpuinfo0 = \<lparr>ci_nsockets = 0, ci_ncpus = 0, ci_model = [], ci_modelnum = None,
     ci_apicmap = replicate 4 (Some 0), ci_lcpu = None, ci_sockmask = 0\<rparr>"

definition proc_cpuinfo :: "('z io_scheme, cpuinfo) prog" where
  "proc_cpuinfo = bnd (sys (Fopen ''/proc/cpuinfo'' ''r'')) (\<lambda>r.
     if rv r = 0 then ret cpuinfo0
     else bnd (stop (cpu_lines (entries r) cpuinfo0)) (\<lambda>ci.
       sqn (call Fclose) (ret (ci\<lparr>ci_nsockets := count_sockets (ci_sockmask ci)\<rparr>))))"

section \<open>Physical addresses\<close>

text \<open>The page size is kept in a static variable, which is 0 before the first call.\<close>

record vt = io +
  vtop_pagesize :: int

definition vtop_size :: "('z vt_scheme, int) prog" where
  "vtop_size = bnd (get vtop_pagesize) (\<lambda>p. if p = 0
     then bnd (sysv (Syscall ''getpagesize'' [])) (\<lambda>n. sqn (put (\<lambda>s. s\<lparr>vtop_pagesize := n\<rparr>)) (ret n))
     else ret p)"

definition vtop :: "u64 \<Rightarrow> int \<Rightarrow> ('z vt_scheme, u64) prog" where
  "vtop addr pid = bnd vtop_size (\<lambda>pagesize.
    if pagesize = 0 then stop (Fault DivByZero) else
    bnd (sysv (Open (pagemap_name pid) 0 0)) (\<lambda>fd. if fd = - 1 then stop (Exit 1) else
    bnd (sys (Pread fd 8 (addr div ul pagesize * 8))) (\<lambda>r.
    if rv r \<noteq> 8 then sqn (call (Close fd)) (stop (Exit 1)) else
    sqn (call (Close fd))
    (let pinfo = u64_of_bytes (bytes r) in
     if pinfo AND push_bit 63 1 = 0 then sqn (call (Stdout (''page not present'' @ [CHR 0x0A]))) (ret (- 1))
     else ret ((pinfo AND 0x007fffffffffffff) * ul pagesize + (addr AND ul (pagesize - 1)))))))"

text \<open>The stand-alone tool \<open>vtop.c\<close>, which gives up when the page is not present.\<close>

definition vtop_tool :: "int \<Rightarrow> u64 \<Rightarrow> int \<Rightarrow> ('z io_scheme, u64) prog" where
  "vtop_tool pagesize addr pid =
    (if pagesize = 0 then stop (Fault DivByZero) else
     bnd (sysv (Open (pagemap_name pid) 0 0)) (\<lambda>fd. if fd = - 1 then stop (Exit 1) else
     bnd (sys (Pread fd 8 (addr div ul pagesize * 8))) (\<lambda>r.
     if rv r \<noteq> 8 then stop (Exit 1) else
     sqn (call (Close fd))
     (let pinfo = u64_of_bytes (bytes r) in
      if pinfo AND push_bit 63 1 = 0 then sqn (call (Stdout (''page not present'' @ [CHR 0x0A]))) (stop (Exit 1))
      else ret ((pinfo AND 0x007fffffffffffff) * ul pagesize + (addr AND ul (pagesize - 1)))))))"

definition main_vtop :: "string list \<Rightarrow> ('z io_scheme, int) prog" where
  "main_vtop argv = (if length argv \<noteq> 3
     then sqn (call (Stdout (''require virtual address and pid: '' @ [CHR 0x27] @ ''vtop vaddress pid'' @ [CHR 0x27, CHR 0x0A])))
       (ret 1)
     else bnd (sysv (Syscall ''getpagesize'' [])) (\<lambda>pagesize.
       let buf = strtoul 16 (argv ! 1); pid = s32 (strtol 10 (argv ! 2)) in
       bnd (vtop_tool pagesize buf pid) (\<lambda>phys.
         sqn (call (Stdout (''vtop('' @ show_hex buf @ '','' @ show_int pid @ '') = '' @ show_hex phys @ [CHR 0x0A])))
           (ret 0))))"

text \<open>
  The variant of \<open>victim.c\<close>: 0 on failure, and the present bit is not looked at.  The frame
  number is a field of 55 bits; the product of the frame number and the page size is taken in 64 bits, which is also
  what a compiler that computes with the width of the field gives for physical addresses below \<open>2^55\<close>.
\<close>

definition vtop_victim :: "int \<Rightarrow> u64 \<Rightarrow> int \<Rightarrow> ('z io_scheme, u64) prog" where
  "vtop_victim pagesize addr pid =
    (if pagesize = 0 then stop (Fault DivByZero) else
     bnd (sysv (Open (pagemap_name pid) 0 0)) (\<lambda>fd. if fd = - 1 then ret 0 else
     bnd (sys (Pread fd 8 (addr div ul pagesize * 8))) (\<lambda>r.
     if rv r \<noteq> 8 then sqn (call (Close fd)) (ret 0) else
     sqn (call (Close fd))
     (ret ((take_bit 55 (u64_of_bytes (bytes r)) * ul pagesize) OR (addr AND ul (pagesize - 1)))))))"

end
