(* ===== verification/Einj.thy ===== *)
theory Einj
  imports ProcFiles
begin

text \<open>
  The error injection tool \<open>lib/ras-tools/einj_mem_uc.c\<close>, as built for x86-64: the EINJ files,
  allocation of the target, injection, the ways to trigger the error, the table of tests, and
  the main loop that compares the interrupt counters before and after.  A machine check
  arrives as a \<open>SIGBUS\<close> during an access: the handler prints it and jumps back to the
  \<open>sigsetjmp\<close> in \<open>main\<close>.  Such an access is one whose answer has a nonzero \<open>errno\<close>, the
  \<open>si_code\<close> of the signal; routines that can be left that way return a value of type
  \<open>jmp\<close>.
\<close>

section \<open>State\<close>

record einj = vt +
  progname :: string
  nsockets :: int
  ncpus :: int
  lcpus_persocket :: int
  force_flag :: int
  cmci_skip_flag :: int
  all_flag :: int
  Sflag :: int
  pagesize :: int
  apicmap :: "int option list"
  child_process :: int
  trigger_offset :: int
  memcpy_runup :: int
  memcpy_size :: int
  memcpy_align :: int
  copyin_fd :: int
  pcfile :: "int option"

definition einj0 :: einj where
  "einj0 = \<lparr>trace = [], vtop_pagesize = 0, progname = [], nsockets = 0, ncpus = 0, lcpus_persocket = 0, force_flag = 0,
     cmci_skip_flag = 0, all_flag = 0, Sflag = 0, pagesize = 0, apicmap = [], child_process = 0,
     trigger_offset = 0, memcpy_runup = 0, memcpy_size = 512, memcpy_align = 0, copyin_fd = - 1,
     pcfile = None\<rparr>"

abbreviation (input) CACHE_LINE_SIZE :: int where "CACHE_LINE_SIZE \<equiv> 64"

definition EINJ_ETYPE :: string where "EINJ_ETYPE = ''/sys/kernel/debug/apei/einj/error_type''"
definition EINJ_ETYPE_AVAILABLE :: string where
  "EINJ_ETYPE_AVAILABLE = ''/sys/kernel/debug/apei/einj/available_error_type''"
definition EINJ_ADDR :: string where "EINJ_ADDR = ''/sys/kernel/debug/apei/einj/param1''"
definition EINJ_MASK :: string where "EINJ_MASK = ''/sys/kernel/debug/apei/einj/param2''"
definition EINJ_APIC :: string where "EINJ_APIC = ''/sys/kernel/debug/apei/einj/param3''"
definition EINJ_FLAGS :: string where "EINJ_FLAGS = ''/sys/kernel/debug/apei/einj/flags''"
definition EINJ_NOTRIGGER :: string where "EINJ_NOTRIGGER = ''/sys/kernel/debug/apei/einj/notrigger''"
definition EINJ_DOIT :: string where "EINJ_DOIT = ''/sys/kernel/debug/apei/einj/error_inject''"

definition eol :: string where "eol = [CHR 0x0A]"

definition println :: "string \<Rightarrow> ('z io_scheme, unit) prog" where
  "println text = call (Stdout (text @ eol))"

definition PRINT_INJECTING :: "('z io_scheme, unit) prog" where "PRINT_INJECTING = println ''injecting ...''"
definition PRINT_TRIGGERING :: "('z io_scheme, unit) prog" where "PRINT_TRIGGERING = println ''triggering ...''"

section \<open>The EINJ files\<close>

text \<open>
  \<open>fscanf(fp, "%llx%*[^\n]", &t) == 1\<close>: the lines up to the first that does not start with a
  number.
\<close>

fun type_listed :: "u64 \<Rightarrow> string list \<Rightarrow> bool" where
  "type_listed val [] = False"
| "type_listed val (l # ls) = (case scan_lx l of None \<Rightarrow> False
     | Some t \<Rightarrow> if t = val then True else type_listed val ls)"

definition check_errortype_available :: "string \<Rightarrow> u64 \<Rightarrow> ('z io_scheme, int) prog" where
  "check_errortype_available file val = (if file \<noteq> EINJ_ETYPE then ret 0
     else bnd (sys (Fopen EINJ_ETYPE_AVAILABLE ''r'')) (\<lambda>r. if rv r = 0 then stop (Exit 1)
       else sqn (call Fclose) (ret (if type_listed val (entries r) then 0 else - 1))))"

text \<open>\<open>fclose\<close> returns - 1 when the kernel refuses the value written.\<close>

definition write_value :: "string \<Rightarrow> u64 \<Rightarrow> ('z io_scheme, unit) prog" where
  "write_value file val =
    bnd (sysv (Fopen file ''w'')) (\<lambda>fp. if fp = 0 then stop (Exit 1)
      else sqn (call (Fputs (''0x'' @ show_hex val @ eol)))
        (bnd (sysv Fclose) (\<lambda>r. if r = - 1 then stop (Exit 1) else skip)))"

text \<open>
  The skip of \<open>EINJ_FLAGS\<close> is compiled in only for kernels before 3.14 (\<open>LINUX_VERSION_CODE\<close>); this is the
  tool as it is built for later ones.
\<close>

definition wfile :: "string \<Rightarrow> u64 \<Rightarrow> ('z io_scheme, unit) prog" where
  "wfile file val = bnd (check_errortype_available file val) (\<lambda>r.
     if r \<noteq> 0 then stop (Exit 1) else write_value file val)"

section \<open>Injection\<close>

definition poison_page :: "addr \<Rightarrow> ('z einj_scheme, unit) prog" where
  "poison_page vaddr = bnd (get pagesize) (\<lambda>ps.
     call (Madvise (vaddr AND NOT (ul (ps - 1))) (ul ps) 100))"

definition inject_writes :: "(string \<times> u64) list \<Rightarrow> ('z io_scheme, unit) prog" where
  "inject_writes ws = for_each ws (\<lambda>(file, val). wfile file val)"

definition uc_writes :: "u64 \<Rightarrow> int \<Rightarrow> (string \<times> u64) list" where
  "uc_writes addr notrigger =
    [(EINJ_ETYPE, 0x10), (EINJ_ADDR, addr), (EINJ_MASK, - 1), (EINJ_FLAGS, 2),
     (EINJ_NOTRIGGER, ul notrigger), (EINJ_DOIT, 1)]"

definition inject_uc :: "u64 \<Rightarrow> addr \<Rightarrow> int \<Rightarrow> ('z einj_scheme, unit) prog" where
  "inject_uc addr vaddr notrigger =
    sqn PRINT_INJECTING (bnd (get Sflag) (\<lambda>S.
      if S \<noteq> 0 then poison_page vaddr else inject_writes (uc_writes addr notrigger)))"

definition DOUBLE_INJECT_OFFSET :: "int \<Rightarrow> int" where
  "DOUBLE_INJECT_OFFSET ps = cdiv ps 4"

definition inject_double_uc :: "u64 \<Rightarrow> addr \<Rightarrow> int \<Rightarrow> ('z einj_scheme, unit) prog" where
  "inject_double_uc addr vaddr notrigger =
    sqn PRINT_INJECTING (bnd (get Sflag) (\<lambda>S.
      if S \<noteq> 0 then poison_page vaddr
      else sqn (inject_writes (uc_writes addr notrigger))
        (bnd (get pagesize) (\<lambda>ps. bnd (sysv Getpid) (\<lambda>pid.
          bnd (vtop (vaddr + ul (DOUBLE_INJECT_OFFSET ps)) pid) (\<lambda>paddr.
          inject_writes [(EINJ_ADDR, paddr), (EINJ_DOIT, 1)]))))))"

definition core_writes :: "u64 \<Rightarrow> u64 \<Rightarrow> int \<Rightarrow> (string \<times> u64) list" where
  "core_writes etype cpu notrigger =
    [(EINJ_ETYPE, etype), (EINJ_APIC, cpu), (EINJ_FLAGS, 1), (EINJ_NOTRIGGER, ul notrigger), (EINJ_DOIT, 1)]"

definition sched_getcpu :: "('z io_scheme, u64) prog" where
  "sched_getcpu = bnd (sysv (Syscall ''sched_getcpu'' [])) (\<lambda>r. ret (take_bit 32 (ul r)))"

definition inject_core_ce :: "u64 \<Rightarrow> addr \<Rightarrow> int \<Rightarrow> ('z einj_scheme, unit) prog" where
  "inject_core_ce addr vaddr notrigger = sqn PRINT_INJECTING (bnd sched_getcpu (\<lambda>cpu.
     inject_writes (core_writes 0x1 cpu notrigger)))"

definition inject_core_non_fatal :: "u64 \<Rightarrow> addr \<Rightarrow> int \<Rightarrow> ('z einj_scheme, unit) prog" where
  "inject_core_non_fatal addr vaddr notrigger = sqn PRINT_INJECTING (bnd sched_getcpu (\<lambda>cpu.
     inject_writes (core_writes 0x2 cpu notrigger)))"

definition inject_core_fatal :: "u64 \<Rightarrow> addr \<Rightarrow> int \<Rightarrow> ('z einj_scheme, unit) prog" where
  "inject_core_fatal addr vaddr notrigger = sqn PRINT_INJECTING (bnd sched_getcpu (\<lambda>cpu.
     inject_writes (core_writes 0x4 cpu notrigger)))"

text \<open>The map of APIC ids is read after the first three files are written.\<close>

definition apic_of :: "u64 \<Rightarrow> ('z einj_scheme, u64) prog" where
  "apic_of cpu = bnd (get apicmap) (\<lambda>m. if unat cpu < length m
     then (case m ! unat cpu of Some a \<Rightarrow> ret (ul a) | None \<Rightarrow> stop (Fault UnsetValue))
     else stop (Fault OutOfBounds))"

definition inject_llc :: "u64 \<Rightarrow> addr \<Rightarrow> int \<Rightarrow> ('z einj_scheme, unit) prog" where
  "inject_llc addr vaddr notrigger = sqn PRINT_INJECTING (bnd sched_getcpu (\<lambda>cpu.
     sqn (inject_writes [(EINJ_ETYPE, 0x2), (EINJ_ADDR, addr), (EINJ_MASK, - 1)])
     (bnd (apic_of cpu) (\<lambda>a.
      inject_writes [(EINJ_APIC, a), (EINJ_FLAGS, 3), (EINJ_NOTRIGGER, ul notrigger), (EINJ_DOIT, 1)]))))"

section \<open>Configuration\<close>

definition is_privileged :: "('z io_scheme, bool) prog" where
  "is_privileged = bnd (sysv Getuid) (\<lambda>u. ret (u = 0))"

definition is_einj_support :: "('z io_scheme, bool) prog" where
  "is_einj_support = bnd (sysv (Access ''/sys/firmware/acpi/tables/EINJ'' 4)) (\<lambda>r.
     if r = - 1 then ret False
     else bnd (sysv (Access EINJ_NOTRIGGER 6)) (\<lambda>r. ret (r \<noteq> - 1)))"

definition is_advanced_ras :: "string \<Rightarrow> int \<Rightarrow> bool" where
  "is_advanced_ras model modelnum \<longleftrightarrow>
     modelnum = 108 \<or> strstr model ''E7-'' \<or> strstr model ''Platinum'' \<or> strstr model ''Gold''"

text \<open>The model number stays unset when the file has no such line.\<close>

definition check_configuration :: "('z einj_scheme, unit) prog" where
  "check_configuration =
    bnd is_privileged (\<lambda>p. if \<not> p then stop (Exit 1) else
    bnd is_einj_support (\<lambda>e. if \<not> e then stop (Exit 1) else
    bnd proc_cpuinfo (\<lambda>ci.
    sqn (put (\<lambda>s. s\<lparr>nsockets := ci_nsockets ci, ncpus := ci_ncpus ci, apicmap := ci_apicmap ci\<rparr>))
    (if ci_nsockets ci = 0 \<or> ci_ncpus ci = 0 then stop (Exit 1)
     else if crem (ci_ncpus ci) (ci_nsockets ci) \<noteq> 0 then stop (Exit 1)
     else sqn (put (\<lambda>s. s\<lparr>lcpus_persocket := cdiv (ci_ncpus ci) (ci_nsockets ci)\<rparr>))
       (bnd (get force_flag) (\<lambda>f. if f \<noteq> 0 then skip
         else case ci_modelnum ci of None \<Rightarrow> stop (Fault UnsetValue)
         | Some mn \<Rightarrow> if is_advanced_ras (ci_model ci) mn then skip else stop (Exit 1)))))))"

section \<open>Allocation of the target\<close>

text \<open>\<open>REP9(REP9(REP9(vol++)))\<close>: the counter is incremented 9 * 9 * 9 times.\<close>

definition REP9 :: "('s \<Rightarrow> 's) \<Rightarrow> 's \<Rightarrow> 's" where
  "REP9 f = f \<circ> f \<circ> f \<circ> f \<circ> f \<circ> f \<circ> f \<circ> f \<circ> f"

definition dosums :: int where
  "dosums = REP9 (REP9 (REP9 (\<lambda>v. v + 1))) 0"

definition seed_random :: "('z io_scheme, unit) prog" where
  "seed_random = bnd (sysv Getpid) (\<lambda>pid. bnd (sysv (Syscall ''time'' [0])) (\<lambda>t.
     call (Syscall ''srandom'' [take_bit 32 (ul (pid * t))])))"

definition fill_random :: "addr \<Rightarrow> int \<Rightarrow> ('z io_scheme, unit) prog" where
  "fill_random p n = for_each [0..<nat n] (\<lambda>i. bnd (sysv Random) (\<lambda>r.
     call (Store (p + of_nat i) (char_of (nat (r mod 256))))))"

definition thp_data_alloc :: "('z einj_scheme, addr) prog" where
  "thp_data_alloc = bnd (sysv (Malloc 0x8000000)) (\<lambda>p. if p = 0 then stop (Exit 1)
     else sqn seed_random (sqn (fill_random (ul p) 0x8000000) (ret (ul p + 0x4000000))))"

fun scan_hugepagesize :: "string list \<Rightarrow> int" where
  "scan_hugepagesize [] = 0"
| "scan_hugepagesize (l # ls) = (case (if strncmp_eq l ''Hugepagesize:'' 13 then scan_number 10 (drop 13 l) else None) of
     Some n \<Rightarrow> s32 n | None \<Rightarrow> scan_hugepagesize ls)"

definition get_huge_pagesize :: "('z io_scheme, int) prog" where
  "get_huge_pagesize = bnd (sys (Fopen ''/proc/meminfo'' ''r'')) (\<lambda>r. if rv r = 0 then stop (Exit 1)
     else sqn (call Fclose) (ret (s32 (scan_hugepagesize (entries r) * 1024))))"

definition hugetlb_alloc :: "('z einj_scheme, addr) prog" where
  "hugetlb_alloc = bnd get_huge_pagesize (\<lambda>HPS.
     bnd (sysv (Mmap 0 (ul HPS) 3 (0x1 OR 0x20 OR 0x40000) (- 1) 0)) (\<lambda>p. if ul p = - 1 then stop (Exit 1)
     else sqn seed_random (sqn (fill_random (ul p) HPS) (ret (ul p + ul (cdiv HPS 4))))))"

text \<open>
  The result of \<open>mmap\<close> is compared with a null pointer, so that a failure goes unnoticed
  and the first store is to the address \<open>MAP_FAILED\<close>.
\<close>

definition data_alloc_common :: "int \<Rightarrow> ('z einj_scheme, addr) prog" where
  "data_alloc_common flag = bnd (get pagesize) (\<lambda>ps.
     bnd (sysv (Mmap 0 (ul ps) 3 flag (- 1) 0)) (\<lambda>p. if p = 0 then stop (Exit 1)
     else sqn seed_random
       (if ul p = - 1 then stop (Fault OutOfBounds)
        else sqn (fill_random (ul p) ps) (ret (ul p + ul (cdiv ps 4))))))"

definition data_alloc :: "('z einj_scheme, addr) prog" where
  "data_alloc = data_alloc_common (0x1 OR 0x20)"

definition data_alloc_private :: "('z einj_scheme, addr) prog" where
  "data_alloc_private = data_alloc_common (0x2 OR 0x20)"

definition map_file_alloc :: "('z einj_scheme, addr) prog" where
  "map_file_alloc = bnd (sysv (Syscall ''tmpfile'' [])) (\<lambda>f.
     sqn (put (\<lambda>s. s\<lparr>pcfile := (if f = 0 then None else Some f)\<rparr>))
     (if f = 0 then stop (Fault NullDeref)
      else bnd (get pagesize) (\<lambda>ps.
        sqn (for_each [0..<nat ps] (\<lambda>i. bnd (sysv Random) (\<lambda>r. call (Fputs [char_of (nat (r mod 256))]))))
        (sqn (call (Syscall ''fflush'' [ul f]))
        (bnd (sysv (Mmap 0 (ul ps) 3 0x1 f 0)) (\<lambda>p. if p = 0 then stop (Exit 1)
         else bnd (sysv Random) (\<lambda>r.
           if ul p = - 1 then stop (Fault OutOfBounds)
           else sqn (call (Store (ul p) (char_of (nat (r mod 256))))) (ret (ul p + ul (cdiv ps 4))))))))))"

definition mlock_data_alloc :: "('z einj_scheme, addr) prog" where
  "mlock_data_alloc = bnd (get pagesize) (\<lambda>ps.
     bnd (sysv (Mmap 0 (ul ps) 3 (0x1 OR 0x20) (- 1) 0)) (\<lambda>p. if p = 0 then stop (Exit 1)
     else sqn seed_random
       (if ul p = - 1 then stop (Fault OutOfBounds)
        else sqn (fill_random (ul p) ps)
          (bnd (sysv (Mlock (ul p) (ul ps))) (\<lambda>r. if r = - 1 then stop (Exit 1)
           else ret (ul p + ul (cdiv ps 4)))))))"

text \<open>The page two pages behind the start of \<open>dosums\<close>, whose address the linker chose.\<close>

definition instr_alloc :: "('z einj_scheme, addr) prog" where
  "instr_alloc = bnd (sysv (Syscall ''address_of_dosums'' [])) (\<lambda>a. bnd (get pagesize) (\<lambda>ps.
     sqn (call (Syscall ''dosums'' [])) (ret ((ul a + ul (2 * ps)) AND NOT (ul (ps - 1))))))"

section \<open>Triggers\<close>

datatype 'a jmp = Done 'a | Jumped

text \<open>The handler of \<open>SIGBUS\<close>; the address reported is that of the access.\<close>

definition recover :: "int \<Rightarrow> addr \<Rightarrow> ('z io_scheme, 'a jmp) prog" where
  "recover si_code addr =
    sqn (println (''signal 7 code '' @ show_int si_code @ '' addr '' @ show_ptr addr)) (ret Jumped)"

text \<open>An access to the target, and what follows when it is not interrupted.\<close>

definition touch :: "sys \<Rightarrow> addr \<Rightarrow> (int \<Rightarrow> ('z io_scheme, 'a jmp) prog) \<Rightarrow> ('z io_scheme, 'a jmp) prog" where
  "touch c addr f = bnd (sys c) (\<lambda>r. if errno r \<noteq> 0 then recover (errno r) addr else f (rv r))"

definition completed :: "int \<Rightarrow> ('s, int jmp) prog" where
  "completed r = ret (Done r)"

definition trigger_single :: "addr \<Rightarrow> ('z einj_scheme, int jmp) prog" where
  "trigger_single addr = bnd (get trigger_offset) (\<lambda>off. let target = addr + ul off in
     sqn PRINT_TRIGGERING (touch (Load target) target completed))"

definition trigger_double :: "addr \<Rightarrow> ('z einj_scheme, int jmp) prog" where
  "trigger_double addr = sqn PRINT_TRIGGERING
     (touch (Load addr) addr (\<lambda>a. touch (Load (addr + 1)) (addr + 1) (\<lambda>b. completed (a + b))))"

definition trigger_split :: "addr \<Rightarrow> ('z einj_scheme, int jmp) prog" where
  "trigger_split addr = sqn PRINT_TRIGGERING (touch (LoadN (addr - 1) 8) (addr - 1) (\<lambda>v. completed (s32 v)))"

definition trigger_write :: "addr \<Rightarrow> ('z einj_scheme, int jmp) prog" where
  "trigger_write addr = bnd (get trigger_offset) (\<lambda>off. let target = addr + ul off in
     sqn PRINT_TRIGGERING (touch (Store target (CHR ''a'')) target (\<lambda>_. completed 0)))"

text \<open>Two threads read the target; what they do is up to the system.\<close>

definition create_thread :: "addr \<Rightarrow> (int \<Rightarrow> ('z einj_scheme, int jmp) prog) \<Rightarrow> ('z einj_scheme, int jmp) prog" where
  "create_thread addr f = bnd (sys (Syscall ''pthread_create'' [addr])) (\<lambda>r. if rv r \<noteq> 0
     then sqn (println ''create pthread error'') (stop (Exit 1)) else f (errno r))"

definition trigger_thread :: "addr \<Rightarrow> ('z einj_scheme, int jmp) prog" where
  "trigger_thread addr = create_thread addr (\<lambda>id1. create_thread addr (\<lambda>id2.
     sqn (call (Syscall ''pthread_join'' [ul id1])) (sqn (call (Syscall ''pthread_join'' [ul id2])) (completed 0))))"

text \<open>\<open>while (wait(&status) != pid)\<close>.\<close>

fun wait_for :: "nat \<Rightarrow> int \<Rightarrow> ('z io_scheme, unit) prog" where
  "wait_for 0 pid = stop NoFuel"
| "wait_for (Suc n) pid = bnd (sysv (Wait (- 1))) (\<lambda>r. if r \<noteq> pid then wait_for n pid else skip)"

text \<open>The child returns to the main loop and goes on there, beside its parent.\<close>

definition trigger_share :: "nat \<Rightarrow> addr \<Rightarrow> ('z einj_scheme, int jmp) prog" where
  "trigger_share fuel addr = bnd (sysv Fork) (\<lambda>pid.
     if pid = - 1 then completed (- 1)
     else if pid = 0 then
       bnd (get pcfile) (\<lambda>f. case f of None \<Rightarrow> stop (Fault NullDeref)
       | Some fd \<Rightarrow> bnd (get pagesize) (\<lambda>ps. bnd (sysv (Mmap 0 (ul ps) 1 0x1 fd 0)) (\<lambda>p.
           if p = 0 then stop (Exit 1)
           else sqn PRINT_TRIGGERING
             (if ul p = - 1 then stop (Fault OutOfBounds)
              else let q = ul p + ul (cdiv ps 4) in touch (Load q) q completed))))
     else sqn (wait_for fuel pid) (sqn PRINT_TRIGGERING (touch (Load addr) addr completed)))"

definition trigger_overflow :: "addr \<Rightarrow> ('z einj_scheme, int jmp) prog" where
  "trigger_overflow addr = bnd (get trigger_offset) (\<lambda>off. bnd (get pagesize) (\<lambda>ps.
     let target = addr + ul off; second = target + ul (DOUBLE_INJECT_OFFSET ps) in
     sqn PRINT_TRIGGERING
     (touch (Load target) target (\<lambda>a. touch (Load second) second (\<lambda>b. completed (a + b))))))"

definition trigger_memcpy :: "addr \<Rightarrow> ('z einj_scheme, int jmp) prog" where
  "trigger_memcpy addr = bnd (get (\<lambda>s. s)) (\<lambda>s.
     let src = addr - ul (memcpy_runup s); dst = addr + ul (cdiv (pagesize s) 2) - ul (memcpy_align s) in
     sqn PRINT_TRIGGERING (touch (Memcpy dst src (ul (memcpy_size s))) addr (\<lambda>_. completed 0)))"

text \<open>The kernel reads the target while it copies the data of \<open>write\<close>; it reports an error there.\<close>

definition trigger_copyin :: "addr \<Rightarrow> ('z einj_scheme, int jmp) prog" where
  "trigger_copyin addr = bnd (sysv (Syscall ''mkstemp'' [])) (\<lambda>fd.
     sqn (put (\<lambda>s. s\<lparr>copyin_fd := fd\<rparr>))
     (if fd = - 1 then completed (- 1)
      else sqn (call (Syscall ''unlink_temp'' [])) (sqn PRINT_TRIGGERING
        (bnd (get (\<lambda>s. s)) (\<lambda>s.
         sqn (call (Syscall ''write'' [ul fd, addr - ul (memcpy_runup s), ul (memcpy_size s)])) (completed 0))))))"

definition trigger_copyout :: "addr \<Rightarrow> ('z einj_scheme, int jmp) prog" where
  "trigger_copyout addr = bnd (get pagesize) (\<lambda>ps. bnd (sysv (Malloc (ul ps))) (\<lambda>buf.
     if buf = 0 then completed (- 1)
     else bnd (get pcfile) (\<lambda>f. case f of None \<Rightarrow> stop (Fault NullDeref)
       | Some fd \<Rightarrow> sqn (call (Syscall ''rewind'' [ul fd])) (sqn PRINT_TRIGGERING
           (sqn (call (Syscall ''fread'' [ul buf, 1, ul ps, ul fd])) (completed 0))))))"

text \<open>
  The child stores to the shared page and exits; an error there makes it jump to the main
  loop, which it leaves because of \<open>child_process\<close>.
\<close>

definition trigger_copy_on_write :: "nat \<Rightarrow> addr \<Rightarrow> ('z einj_scheme, int jmp) prog" where
  "trigger_copy_on_write fuel addr = bnd (sysv Fork) (\<lambda>pid.
     if pid = - 1 then completed (- 1)
     else if pid = 0 then
       sqn (put (\<lambda>s. s\<lparr>child_process := 1\<rparr>)) (sqn PRINT_TRIGGERING
         (touch (Store addr (CHR ''*'')) addr (\<lambda>_. stop (Exit 0))))
     else sqn (wait_for fuel pid) (sqn PRINT_TRIGGERING (touch (Load addr) addr completed)))"

text \<open>The next three end without a value, which nobody uses.\<close>

definition trigger_patrol :: "addr \<Rightarrow> ('z einj_scheme, int jmp) prog" where
  "trigger_patrol addr = sqn PRINT_TRIGGERING (touch (Sleep 1) addr (\<lambda>_. bnd (sysv Indet) completed))"

definition trigger_llc :: "addr \<Rightarrow> ('z einj_scheme, int jmp) prog" where
  "trigger_llc addr = sqn PRINT_TRIGGERING (touch (Syscall ''clflush'' [addr]) addr (\<lambda>_. bnd (sysv Indet) completed))"

definition trigger_prefetch :: "addr \<Rightarrow> ('z einj_scheme, int jmp) prog" where
  "trigger_prefetch addr = sqn PRINT_TRIGGERING
     (sqn (call (Syscall ''prefetch'' [addr, 0, 3])) (touch (Sleep 5) addr (\<lambda>_. bnd (sysv Indet) completed)))"

text \<open>The instructions of \<open>dosums\<close> are fetched again; \<open>rv\<close> is what the repaired code computes.\<close>

definition trigger_instr :: "addr \<Rightarrow> ('z einj_scheme, int jmp) prog" where
  "trigger_instr addr = sqn PRINT_TRIGGERING (touch (Syscall ''dosums'' []) addr (\<lambda>r.
     sqn (cond (r \<noteq> dosums) (println (''Corruption during instruction fault recovery ('' @ show_int r @ '')'')))
       (completed r)))"

text \<open>The second address is not passed on.\<close>

definition futex :: "addr \<Rightarrow> u64 \<Rightarrow> u64 \<Rightarrow> addr \<Rightarrow> addr \<Rightarrow> u64 \<Rightarrow> sys" where
  "futex uaddr futex_op val timeout uaddr2 val3 = Syscall ''futex'' [uaddr, futex_op, val, timeout, uaddr, val3]"

definition trigger_futex :: "addr \<Rightarrow> ('z einj_scheme, int jmp) prog" where
  "trigger_futex addr = sqn PRINT_TRIGGERING (bnd (sys (futex addr 0 0 0 0 0)) (\<lambda>r.
     sqn (println (if rv r = - 1 then ''futex returned with errno='' @ show_int (errno r)
                   else ''futex return '' @ show_int (rv r)))
       (completed (rv r))))"

section \<open>The tests\<close>

datatype alloc_fn = Data_alloc | Thp_data_alloc | Hugetlb_alloc | Instr_alloc | Map_file_alloc
  | Data_alloc_private | Mlock_data_alloc

datatype inject_fn = Inject_uc | Inject_double_uc | Inject_llc | Inject_core_ce | Inject_core_non_fatal
  | Inject_core_fatal

datatype trigger_fn = Trigger_single | Trigger_double | Trigger_split | Trigger_write | Trigger_prefetch
  | Trigger_memcpy | Trigger_instr | Trigger_patrol | Trigger_thread | Trigger_share | Trigger_overflow
  | Trigger_llc | Trigger_copyin | Trigger_copyout | Trigger_copy_on_write | Trigger_futex

definition F_MCE :: int where "F_MCE = 1"
definition F_CMCI :: int where "F_CMCI = 2"
definition F_SIGBUS :: int where "F_SIGBUS = 4"
definition F_FATAL :: int where "F_FATAL = 8"
definition F_EITHER :: int where "F_EITHER = 16"
definition F_LONGWAIT :: int where "F_LONGWAIT = 32"

lemmas flag_defs = F_MCE_def F_CMCI_def F_SIGBUS_def F_FATAL_def F_EITHER_def F_LONGWAIT_def

record test =
  testname :: string
  testhelp :: string
  test_alloc :: alloc_fn
  test_inject :: inject_fn
  notrigger :: int
  test_trigger :: trigger_fn
  flags :: int

definition has :: "test \<Rightarrow> int \<Rightarrow> bool" where
  "has t f \<longleftrightarrow> flags t AND f \<noteq> 0"

definition mk :: "string \<Rightarrow> string \<Rightarrow> alloc_fn \<Rightarrow> inject_fn \<Rightarrow> int \<Rightarrow> trigger_fn \<Rightarrow> int \<Rightarrow> test" where
  "mk nm help a i n t fs = \<lparr>testname = nm, testhelp = help, test_alloc = a, test_inject = i, notrigger = n,
     test_trigger = t, flags = fs\<rparr>"

text \<open>The table, in the two parts that are common to all architectures.\<close>

definition tests_reads :: "test list" where
  "tests_reads = [
    mk ''single'' ''Single read in pipeline to target address, generates SRAR machine check''
      Data_alloc Inject_uc 1 Trigger_single (F_MCE OR F_CMCI OR F_SIGBUS),
    mk ''double'' ''Double read in pipeline to target address, generates SRAR machine check''
      Data_alloc Inject_uc 1 Trigger_double (F_MCE OR F_CMCI OR F_SIGBUS),
    mk ''split'' ''Unaligned read crosses cacheline from good to bad. Probably fatal''
      Data_alloc Inject_uc 1 Trigger_split (F_MCE OR F_CMCI OR F_SIGBUS OR F_FATAL),
    mk ''THP'' ''Try to inject in transparent huge page, generates SRAR machine check''
      Thp_data_alloc Inject_uc 1 Trigger_single (F_MCE OR F_CMCI OR F_SIGBUS),
    mk ''hugetlb'' ''Try to inject in hugetlb page, generates SRAR machine check''
      Hugetlb_alloc Inject_uc 1 Trigger_single (F_MCE OR F_CMCI OR F_SIGBUS),
    mk ''store'' ''Write to target address. Should generate a UCNA/CMCI''
      Data_alloc Inject_uc 1 Trigger_write F_CMCI]"

definition tests_others :: "test list" where
  "tests_others = [
    mk ''prefetch'' ''Prefetch data into L1 cache. Should generate CMCI''
      Data_alloc Inject_uc 1 Trigger_prefetch (F_CMCI),
    mk ''memcpy'' ''Streaming read from target address. Probably fatal''
      Data_alloc Inject_uc 1 Trigger_memcpy (F_MCE OR F_CMCI OR F_SIGBUS OR F_FATAL),
    mk ''instr'' ''Instruction fetch. Generates SRAR that OS should transparently fix''
      Instr_alloc Inject_uc 1 Trigger_instr (F_MCE OR F_CMCI),
    mk ''patrol'' ''Patrol scrubber, generates SRAO machine check''
      Data_alloc Inject_uc 0 Trigger_patrol (F_EITHER OR F_LONGWAIT),
    mk ''thread'' ''Single read by two threads to target address at the same time, generates SRAR machine check''
      Data_alloc Inject_uc 1 Trigger_thread (F_MCE OR F_CMCI OR F_SIGBUS),
    mk ''share'' ''Share memory is read by two tasks to target address, generates SRAR machine check''
      Map_file_alloc Inject_uc 1 Trigger_share (F_MCE OR F_CMCI OR F_SIGBUS),
    mk ''overflow'' ''Read to two target addresses at the same time, Probably fatal''
      Data_alloc Inject_double_uc 1 Trigger_overflow (F_MCE OR F_CMCI OR F_SIGBUS OR F_FATAL),
    mk ''llc'' ''Cache write-back, generates SRAO machine check''
      Data_alloc Inject_llc 1 Trigger_llc (F_MCE),
    mk ''copyin'' ''Kernel copies data from user. Probably fatal''
      Data_alloc Inject_uc 1 Trigger_copyin (F_MCE OR F_CMCI OR F_FATAL),
    mk ''copyout'' ''Kernel copies data to user. Probably fatal''
      Map_file_alloc Inject_uc 1 Trigger_copyout (F_MCE OR F_CMCI OR F_SIGBUS OR F_FATAL),
    mk ''copy-on-write'' ''Kernel copies user page. Probably fatal''
      Data_alloc_private Inject_uc 1 Trigger_copy_on_write (F_MCE OR F_CMCI OR F_SIGBUS OR F_FATAL),
    mk ''futex'' ''Kernel access to futex(2). Probably fatal''
      Data_alloc Inject_uc 1 Trigger_futex (F_MCE OR F_CMCI OR F_FATAL),
    mk ''mlock'' ''mlock target page then inject/read to generates SRAR machine check''
      Mlock_data_alloc Inject_uc 1 Trigger_single (F_MCE OR F_CMCI OR F_SIGBUS),
    mk ''core_ce'' ''Core corrected error''
      Data_alloc Inject_core_ce 1 Trigger_single (F_CMCI),
    mk ''core_non_fatal'' ''Core deferred error''
      Data_alloc Inject_core_non_fatal 1 Trigger_single (F_CMCI),
    mk ''core_fatal'' ''Core uncorrected error. Should fatal''
      Data_alloc Inject_core_fatal 1 Trigger_single (F_CMCI OR F_FATAL)]"

definition tests :: "test list" where
  "tests = tests_reads @ tests_others"

definition run_alloc :: "alloc_fn \<Rightarrow> ('z einj_scheme, addr) prog" where
  "run_alloc a = (case a of Data_alloc \<Rightarrow> data_alloc | Thp_data_alloc \<Rightarrow> thp_data_alloc
     | Hugetlb_alloc \<Rightarrow> hugetlb_alloc | Instr_alloc \<Rightarrow> instr_alloc | Map_file_alloc \<Rightarrow> map_file_alloc
     | Data_alloc_private \<Rightarrow> data_alloc_private | Mlock_data_alloc \<Rightarrow> mlock_data_alloc)"

definition run_inject :: "inject_fn \<Rightarrow> u64 \<Rightarrow> addr \<Rightarrow> int \<Rightarrow> ('z einj_scheme, unit) prog" where
  "run_inject f = (case f of Inject_uc \<Rightarrow> inject_uc | Inject_double_uc \<Rightarrow> inject_double_uc
     | Inject_llc \<Rightarrow> inject_llc | Inject_core_ce \<Rightarrow> inject_core_ce
     | Inject_core_non_fatal \<Rightarrow> inject_core_non_fatal | Inject_core_fatal \<Rightarrow> inject_core_fatal)"

definition run_trigger :: "nat \<Rightarrow> trigger_fn \<Rightarrow> addr \<Rightarrow> ('z einj_scheme, int jmp) prog" where
  "run_trigger fuel f = (case f of Trigger_single \<Rightarrow> trigger_single | Trigger_double \<Rightarrow> trigger_double
     | Trigger_split \<Rightarrow> trigger_split | Trigger_write \<Rightarrow> trigger_write | Trigger_prefetch \<Rightarrow> trigger_prefetch
     | Trigger_memcpy \<Rightarrow> trigger_memcpy | Trigger_instr \<Rightarrow> trigger_instr | Trigger_patrol \<Rightarrow> trigger_patrol
     | Trigger_thread \<Rightarrow> trigger_thread | Trigger_share \<Rightarrow> trigger_share fuel
     | Trigger_overflow \<Rightarrow> trigger_overflow | Trigger_llc \<Rightarrow> trigger_llc | Trigger_copyin \<Rightarrow> trigger_copyin
     | Trigger_copyout \<Rightarrow> trigger_copyout | Trigger_copy_on_write \<Rightarrow> trigger_copy_on_write fuel
     | Trigger_futex \<Rightarrow> trigger_futex)"

section \<open>Help, selection of tests\<close>

text \<open>\<open>%-8s\<close>.\<close>

definition pad :: "nat \<Rightarrow> string \<Rightarrow> string" where
  "pad n s = s @ replicate (n - length s) (CHR '' '')"

definition show_help :: "('z einj_scheme, 'a) prog" where
  "show_help = bnd (get progname) (\<lambda>pn.
     sqn (println (''Usage: '' @ pn @ '' [-a][-c count][-d delay][-f][-i][j][k] [-m runup:size:align][testname]''))
     (sqn (println (''  '' @ pad 8 ''Testname'' @ '' '' @ pad 5 ''Fatal'' @ '' '' @ ''Description''))
     (sqn (for_each tests (\<lambda>t. println (''  '' @ pad 8 (testname t) @ '' '' @
          pad 5 (if has t F_FATAL then ''YES'' else ''no'') @ '' '' @ testhelp t)))
     (stop (Exit 0)))))"

text \<open>A pointer into the table is an index.\<close>

fun find_test :: "string \<Rightarrow> test list \<Rightarrow> nat option" where
  "find_test s [] = None"
| "find_test s (t # ts) = (if s = testname t then Some 0 else map_option Suc (find_test s ts))"

definition lookup_test :: "string \<Rightarrow> ('s, nat) prog" where
  "lookup_test s = (case find_test s tests of Some i \<Rightarrow> ret i | None \<Rightarrow> stop (Exit 1))"

definition next_test :: "nat \<Rightarrow> nat" where
  "next_test t = (if t + 1 = length tests then 0 else t + 1)"

definition is_fatal :: "nat \<Rightarrow> bool" where
  "is_fatal t \<longleftrightarrow> has (tests ! t) F_FATAL"

text \<open>\<open>while (t->flags & F_FATAL) t = next_test(t)\<close>.\<close>

fun skip_fatal :: "nat \<Rightarrow> nat \<Rightarrow> nat option" where
  "skip_fatal 0 t = None"
| "skip_fatal (Suc n) t = (if is_fatal t then skip_fatal n (next_test t) else Some t)"

text \<open>The argument \<open>runup:size:align\<close> of \<open>-m\<close>.\<close>

definition colon_rest :: "char \<Rightarrow> string \<Rightarrow> (int \<times> string) option" where
  "colon_rest c arg = (case strtol_rest 0 arg of (v, e) \<Rightarrow>
     if e \<noteq> [] \<and> hd e = c then Some (s32 v, tl e) else None)"

definition parse_memcpy :: "string \<Rightarrow> ('z einj_scheme, unit) prog" where
  "parse_memcpy arg = (case colon_rest (CHR '':'') arg of
     None \<Rightarrow> sqn (put (\<lambda>s. s\<lparr>memcpy_runup := s32 (strtol 0 arg)\<rparr>)) show_help
   | Some (runup, r1) \<Rightarrow> sqn (put (\<lambda>s. s\<lparr>memcpy_runup := runup\<rparr>))
     (case colon_rest (CHR '':'') r1 of
        None \<Rightarrow> sqn (put (\<lambda>s. s\<lparr>memcpy_size := s32 (strtol 0 r1)\<rparr>)) show_help
      | Some (sz, r2) \<Rightarrow> sqn (put (\<lambda>s. s\<lparr>memcpy_size := sz\<rparr>))
        (case strtol_rest 0 r2 of (v, e) \<Rightarrow> sqn (put (\<lambda>s. s\<lparr>memcpy_align := s32 v\<rparr>))
          (if e \<noteq> [] then show_help
           else bnd (get pagesize) (\<lambda>ps.
             if runup < 0 \<or> cdiv ps 4 < runup then stop (Exit 1)
             else if sz < 0 \<or> cdiv ps 4 < sz then stop (Exit 1)
             else if sz < runup then stop (Exit 1)
             else if s32 v < 0 \<or> CACHE_LINE_SIZE \<le> s32 v then stop (Exit 1)
             else skip)))))"

section \<open>The main program\<close>

text \<open>
  The trigger can be held back until a file asks for it: at most 192 attempts, one second
  apart.  The buffer keeps what an earlier read left behind the new bytes.
\<close>

definition over :: "string \<Rightarrow> string \<Rightarrow> string" where
  "over bs buf = take (length buf) (bs @ drop (length bs) buf)"

fun kick_loop :: "nat \<Rightarrow> string \<Rightarrow> ('z io_scheme, unit) prog" where
  "kick_loop 0 buf = skip"
| "kick_loop (Suc n) buf = bnd (sysv (Open ''./trigger_start'' 0 0)) (\<lambda>fd.
     if fd < 0 then sqn (call (Sleep 1)) (kick_loop n buf)
     else bnd (sys (Read fd 16)) (\<lambda>r.
       let buf' = over (take (nat (rv r)) (bytes r)) buf; text = takeWhile (\<lambda>c. c \<noteq> CHR 0x00) buf' in
       if 0 < rv r \<and> strstr text ''trigger'' then skip
       else if 0 < rv r \<and> length text = length buf' then stop (Fault OutOfBounds)
       else sqn (call (Sleep 1)) (kick_loop n buf')))"

definition kick_by_file :: "nat \<Rightarrow> nat \<Rightarrow> addr \<Rightarrow> ('z einj_scheme, int jmp) prog" where
  "kick_by_file fuel t addr = bnd (sys (Unlink ''./trigger_start'')) (\<lambda>r.
     if rv r < 0 \<and> errno r \<noteq> 2 then stop (Exit 1)
     else sqn (kick_loop 192 (replicate 16 (CHR 0x00))) (run_trigger fuel (test_trigger (tests ! t)) addr))"

text \<open>
  The local variables of \<open>main\<close> that the options set.  \<open>delay\<close> is kept in microseconds.
\<close>

record einj_args =
  count :: int
  delay_us :: u64
  inject_skip :: int
  kick :: int

definition einj_args0 :: einj_args where
  "einj_args0 = \<lparr>count = 1, delay_us = 1000000, inject_skip = 0, kick = 0\<rparr>"

text \<open>
  Two options are floating point numbers; \<open>usecs\<close> stands for
  \<open>(useconds_t)(strtod(arg) * 1.0e6)\<close> and \<open>trunc\<close> for \<open>(int)strtod(arg)\<close>.
\<close>

definition einj_option ::
  "(string \<Rightarrow> u64) \<Rightarrow> (string \<Rightarrow> int) \<Rightarrow> char \<times> string \<Rightarrow> einj_args \<Rightarrow> ('z einj_scheme, einj_args) prog" where
  "einj_option usecs trunc = (\<lambda>(c, optarg) a.
     if c = CHR ''a'' then sqn (put (\<lambda>s. s\<lparr>all_flag := 1\<rparr>)) (ret a)
     else if c = CHR ''c'' then ret (a\<lparr>count := s32 (strtol 0 optarg)\<rparr>)
     else if c = CHR ''d'' then ret (a\<lparr>delay_us := usecs optarg\<rparr>)
     else if c = CHR ''f'' then sqn (put (\<lambda>s. s\<lparr>force_flag := 1\<rparr>)) (ret a)
     else if c = CHR ''i'' then sqn (put (\<lambda>s. s\<lparr>cmci_skip_flag := 1\<rparr>)) (ret a)
     else if c = CHR ''j'' then ret (a\<lparr>inject_skip := 1\<rparr>)
     else if c = CHR ''k'' then ret (a\<lparr>kick := 1\<rparr>)
     else if c = CHR ''m'' then sqn (parse_memcpy optarg) (ret a)
     else if c = CHR ''z'' then sqn (put (\<lambda>s. s\<lparr>trigger_offset := trunc optarg\<rparr>)) (ret a)
     else if c = CHR ''S'' then sqn (put (\<lambda>s. s\<lparr>Sflag := 1\<rparr>)) (ret a)
     else show_help)"

fun einj_options ::
  "(string \<Rightarrow> u64) \<Rightarrow> (string \<Rightarrow> int) \<Rightarrow> (char \<times> string) list \<Rightarrow> einj_args \<Rightarrow> ('z einj_scheme, einj_args) prog" where
  "einj_options usecs trunc [] a = ret a"
| "einj_options usecs trunc (o1 # os) a = bnd (einj_option usecs trunc o1 a) (einj_options usecs trunc os)"

text \<open>The part guarded by \<open>sigsetjmp\<close>, and where the handler jumps to.\<close>

definition inject_and_trigger :: "nat \<Rightarrow> einj_args \<Rightarrow> nat \<Rightarrow> u64 \<Rightarrow> addr \<Rightarrow> ('z einj_scheme, unit) prog" where
  "inject_and_trigger fuel a t paddr vaddr =
    (let test = tests ! t in
     sqn (cond (inject_skip a = 0) (run_inject (test_inject test) paddr vaddr (notrigger test)))
     (sqn (call (Sleep 3))
     (bnd (if kick a \<noteq> 0 then kick_by_file fuel t vaddr else run_trigger fuel (test_trigger test) vaddr) (\<lambda>r.
      case r of
        Jumped \<Rightarrow> cond (\<not> has test F_SIGBUS) (println ''Unexpected SIGBUS'')
      | Done _ \<Rightarrow> cond (has test F_SIGBUS) (println ''Expected SIGBUS, didn't get one'')))))"

definition close_files :: "('z einj_scheme, unit) prog" where
  "close_files =
    sqn (bnd (get copyin_fd) (\<lambda>fd. cond (fd \<noteq> - 1) (sqn (call (Close fd)) (put (\<lambda>s. s\<lparr>copyin_fd := - 1\<rparr>)))))
    (bnd (get pcfile) (\<lambda>f. case f of None \<Rightarrow> skip
       | Some _ \<Rightarrow> sqn (call Fclose) (put (\<lambda>s. s\<lparr>pcfile := None\<rparr>))))"

definition take_offline :: "u64 \<Rightarrow> addr \<Rightarrow> int \<Rightarrow> ('z einj_scheme, unit) prog" where
  "take_offline paddr vaddr pid = bnd (vtop vaddr pid) (\<lambda>p. cond (paddr = p)
     (sqn (println ''Manually take page offline'')
          (wfile ''/sys/devices/system/memory/hard_offline_page'' paddr)))"

text \<open>Machine checks: the number of events of the expected kinds that were seen.\<close>

definition check_mce :: "nat \<Rightarrow> int \<Rightarrow> int \<Rightarrow> ('z einj_scheme, nat) prog" where
  "check_mce t b_mce a_mce = bnd (get Sflag) (\<lambda>S. bnd (get ncpus) (\<lambda>n.
     if S = 0 \<and> (has (tests ! t) F_MCE \<or> has (tests ! t) F_EITHER) then
       (if a_mce = b_mce then
          (if has (tests ! t) F_EITHER then ret 0 else sqn (println ''Expected MCE, but none seen'') (ret 1))
        else sqn (println (if a_mce = b_mce + 1 then ''Saw local machine check''
               else if a_mce = b_mce + n then ''Saw broadcast machine check''
               else ''Unusual number of MCEs seen: '' @ show_int (a_mce - b_mce)))
             (ret 1))
     else if a_mce \<noteq> b_mce then
       (if n = 0 then stop (Fault DivByZero)
        else sqn (println (''Saw '' @ show_int (b_mce - a_mce) @ '' unexpected MCEs ('' @
               show_int (cdiv (b_mce - a_mce) n) @ '' systemwide)''))
             (ret 0))
     else ret 0))"

text \<open>\<open>n\<close> counts down from the number of polls that are still allowed.\<close>

fun wait_cmci :: "nat \<Rightarrow> int \<Rightarrow> int \<Rightarrow> nat \<Rightarrow> ('z einj_scheme, int \<times> nat) prog" where
  "wait_cmci 0 target a_cmci waited = ret (a_cmci, waited)"
| "wait_cmci (Suc n) target a_cmci waited = (if a_cmci < target then
     sqn (call (Usleep 1000)) (bnd proc_interrupts (\<lambda>(_, a). wait_cmci n target a (waited + 1)))
   else ret (a_cmci, waited))"

text \<open>\<open>%.6f\<close> of a number of microseconds divided by a million.\<close>

definition show_secs :: "int \<Rightarrow> string" where
  "show_secs us = (let f = show_nat 10 (nat (\<bar>us\<bar> mod 1000000)) in
     (if us < 0 then ''-'' else []) @ show_nat 10 (nat (\<bar>us\<bar> div 1000000)) @ ''.'' @
     replicate (6 - length f) (CHR ''0'') @ f)"

definition test_failed :: "string \<Rightarrow> ('z einj_scheme, int + nat) prog" where
  "test_failed msg = sqn (println msg) (sqn (println ''Test failed'') (ret (Inl 1)))"

text \<open>
  Corrected errors; \<open>Inl\<close> is a return from \<open>main\<close>.  \<open>Gettimeofday\<close> answers in
  microseconds.
\<close>

definition check_cmci :: "nat \<Rightarrow> int \<Rightarrow> int \<Rightarrow> int \<Rightarrow> nat \<Rightarrow> ('z einj_scheme, int + nat) prog" where
  "check_cmci t t1 b_cmci a_cmci0 either =
    bnd (get Sflag) (\<lambda>S. bnd (get cmci_skip_flag) (\<lambda>skp. bnd (get lcpus_persocket) (\<lambda>lcpus.
     if S = 0 \<and> (has (tests ! t) F_CMCI \<or> has (tests ! t) F_EITHER) then
       bnd (wait_cmci (Suc (if has (tests ! t) F_LONGWAIT then 20000 else 500)) (b_cmci + lcpus) a_cmci0 0)
         (\<lambda>(a_cmci, waited).
         sqn (cond (a_cmci \<noteq> b_cmci \<and> waited \<noteq> 0) (bnd (sysv Gettimeofday) (\<lambda>t2.
                println (''CMCIs took ~'' @ show_secs (t2 - t1) @ '' secs to be reported.''))))
         (if a_cmci = b_cmci then
            (if has (tests ! t) F_EITHER then ret (Inr either)
             else if skp = 0 then test_failed ''Expected CMCI, but none seen''
             else ret (Inr (either + 1)))
          else if skp = 0 \<and> a_cmci < b_cmci + lcpus then
            test_failed (''Unusual number of CMCIs seen: '' @ show_int (a_cmci - b_cmci))
          else ret (Inr (either + 1))))
     else if skp = 0 \<and> a_cmci0 \<noteq> b_cmci then
       (if lcpus = 0 then stop (Fault DivByZero)
        else test_failed (''Saw '' @ show_int (a_cmci0 - b_cmci) @ '' unexpected CMCIs ('' @
               show_int (cdiv (a_cmci0 - b_cmci) lcpus) @ '' per socket)''))
     else ret (Inr either))))"

definition check_either :: "nat \<Rightarrow> nat \<Rightarrow> ('z einj_scheme, int option) prog" where
  "check_either t either = (if \<not> has (tests ! t) F_EITHER then ret None
     else if either = 0 then sqn (println ''Expected CMCI or MCE, but saw neither'') (sqn (println ''Test failed'') (ret (Some 1)))
     else if either = 2 then sqn (println ''Expected one of CMCI or MCE, but saw both'') (sqn (println ''Test failed'') (ret (Some 1)))
     else ret None)"

definition check_counters :: "nat \<Rightarrow> int \<Rightarrow> int \<times> int \<Rightarrow> int \<times> int \<Rightarrow> ('z einj_scheme, int option) prog" where
  "check_counters t t1 b a =
    bnd (check_mce t (fst b) (fst a)) (\<lambda>either.
    bnd (check_cmci t t1 (snd b) (snd a) either) (\<lambda>r. case r of
      Inl code \<Rightarrow> ret (Some code)
    | Inr either' \<Rightarrow> check_either t either'))"

definition einj_round :: "nat \<Rightarrow> einj_args \<Rightarrow> int \<Rightarrow> nat \<Rightarrow> int \<Rightarrow> ('z einj_scheme, int option) prog" where
  "einj_round fuel a i t pid =
    bnd (run_alloc (test_alloc (tests ! t))) (\<lambda>vaddr.
    bnd (vtop vaddr pid) (\<lambda>paddr.
    sqn (println (show_int i @ '': '' @ pad 8 (testname (tests ! t)) @ '' vaddr = '' @ show_ptr vaddr @
           '' paddr = '' @ show_hex paddr))
    (bnd proc_interrupts (\<lambda>b.
    bnd (sysv Gettimeofday) (\<lambda>t1.
    sqn (inject_and_trigger fuel a t paddr vaddr)
    (sqn close_files
    (sqn (take_offline paddr vaddr pid)
    (sqn (call (Usleep 100))
    (bnd proc_interrupts (\<lambda>a'.
    sqn (cond (has (tests ! t) F_FATAL) (println ''Big surprise ... still running. Thought that would be fatal''))
    (check_counters t t1 b a')))))))))))"

definition advance :: "nat \<Rightarrow> nat \<Rightarrow> ('z einj_scheme, nat) prog" where
  "advance fuel t = bnd (get all_flag) (\<lambda>al. if al = 0 then ret t
     else case skip_fatal fuel (next_test t) of None \<Rightarrow> stop NoFuel | Some t' \<Rightarrow> ret t')"

fun einj_rounds :: "nat \<Rightarrow> einj_args \<Rightarrow> nat \<Rightarrow> int \<Rightarrow> nat \<Rightarrow> int \<Rightarrow> ('z einj_scheme, int) prog" where
  "einj_rounds fuel a 0 i t pid = sqn (println ''Test passed'') (ret 0)"
| "einj_rounds fuel a (Suc n) i t pid = bnd (einj_round fuel a i t pid) (\<lambda>r. case r of
     Some code \<Rightarrow> ret code
   | None \<Rightarrow> sqn (call (Usleep (delay_us a)))
       (bnd (advance fuel t) (\<lambda>t'. bnd (get child_process) (\<lambda>c.
        if c \<noteq> 0 then sqn (println ''Test passed'') (ret 0)
        else einj_rounds fuel a n (i + 1) t' pid))))"

text \<open>\<open>args\<close> are the arguments that remain after the options.\<close>

definition main_einj ::
  "nat \<Rightarrow> (string \<Rightarrow> u64) \<Rightarrow> (string \<Rightarrow> int) \<Rightarrow> string \<Rightarrow> (char \<times> string) list \<Rightarrow> string list \<Rightarrow> ('z einj_scheme, int) prog" where
  "main_einj fuel usecs trunc argv0 opts args =
    sqn (put (\<lambda>s. s\<lparr>progname := argv0\<rparr>))
    (bnd (sysv (Syscall ''getpagesize'' [])) (\<lambda>ps.
    sqn (put (\<lambda>s. s\<lparr>pagesize := ps\<rparr>))
    (bnd (sysv Getpid) (\<lambda>pid.
    bnd (einj_options usecs trunc opts einj_args0) (\<lambda>a.
    bnd (get Sflag) (\<lambda>S.
    sqn (cond (S = 0 \<and> inject_skip a = 0) check_configuration)
    (bnd (case args of [] \<Rightarrow> ret 0 | nm # _ \<Rightarrow> lookup_test nm) (\<lambda>t.
    bnd (get force_flag) (\<lambda>f.
    if is_fatal t \<and> f = 0 then stop (Exit 1)
    else sqn (call (Sigaction 7 1)) (einj_rounds fuel a (nat (count a)) 0 t pid))))))))))"

end
