(* ===== verification/EinjLaws.thy ===== *)
theory EinjLaws
  imports Einj "HOL-Library.Sublist"
begin

text \<open>
  What the error injection tool guarantees, for every kernel: the order in which the EINJ
  files are written, the rotation through the tests, and what the comparison of the counters
  does when the processors were never counted.
\<close>

section \<open>Writing the EINJ files\<close>

text \<open>The values written to files, as they can be read off a sequence of calls.\<close>

definition opened :: "sys \<Rightarrow> string option" where
  "opened c = (case c of Fopen f m \<Rightarrow> Some f | _ \<Rightarrow> None)"

definition put_text :: "sys \<Rightarrow> string option" where
  "put_text c = (case c of Fputs v \<Rightarrow> Some v | _ \<Rightarrow> None)"

fun writes :: "sys list \<Rightarrow> (string \<times> string) list" where
  "writes (c # d # cs) = (case (opened c, put_text d) of
     (Some f, Some v) \<Rightarrow> (f, v) # writes (d # cs) | _ \<Rightarrow> writes (d # cs))"
| "writes [c] = []"
| "writes [] = []"

lemma opened_simps [simp]:
  "opened (Fopen f m) = Some f" "opened (Fputs v) = None" "opened Fclose = None" "opened (Stdout v) = None"
  by (simp_all add: opened_def)

lemma put_text_simps [simp]:
  "put_text (Fputs v) = Some v" "put_text Fclose = None"
  by (simp_all add: put_text_def)

lemma writes_skip: "opened c = None \<Longrightarrow> writes (c # cs) = writes cs"
  by (cases cs) auto

definition as_text :: "string \<times> u64 \<Rightarrow> string \<times> string" where
  "as_text w = (fst w, ''0x'' @ show_hex (snd w) @ eol)"

text \<open>
  A sequence of calls that ends with a closed file; what comes after it does not change what
  it has written.
\<close>

definition settled :: "sys list \<Rightarrow> bool" where
  "settled cs \<longleftrightarrow> (\<forall>ds. writes (cs @ ds) = writes cs @ writes ds)"

lemma settled_append: "settled cs \<Longrightarrow> settled ds \<Longrightarrow> settled (cs @ ds)"
  by (simp add: settled_def)

lemma settled_simple [simp]:
  "settled []" "settled [Stdout t]" "settled [Fopen f m, Fclose]" "settled [Fopen f m, Fputs v, Fclose]"
  by (simp_all add: settled_def writes_skip)

text \<open>
  The calls that fail: a file cannot be opened, or the kernel refuses the value that was written
  when the file is closed.
\<close>

definition failed :: "kernel \<Rightarrow> sys list \<Rightarrow> sys \<Rightarrow> bool" where
  "failed k h c = (case c of Fopen f m \<Rightarrow> rv (k h c) = 0
     | Fclose \<Rightarrow> rv (k h c) = - 1 \<and> h \<noteq> [] \<and> put_text (last h) \<noteq> None | _ \<Rightarrow> False)"

primrec clean :: "kernel \<Rightarrow> sys list \<Rightarrow> sys list \<Rightarrow> bool" where
  "clean k h [] = True"
| "clean k h (c # cs) = (\<not> failed k h c \<and> clean k (h @ [c]) cs)"

lemma clean_append [simp]: "clean k h (cs @ ds) \<longleftrightarrow> clean k h cs \<and> clean k (h @ cs) ds"
  by (induction cs arbitrary: h) auto

lemma failed_simps [simp]:
  "failed k h (Fopen f m) \<longleftrightarrow> rv (k h (Fopen f m)) = 0" "\<not> failed k h (Fputs v)" "\<not> failed k h (Stdout v)"
  "failed k h Fclose \<longleftrightarrow> rv (k h Fclose) = - 1 \<and> h \<noteq> [] \<and> put_text (last h) \<noteq> None"
  by (simp_all add: failed_def)

text \<open>The list of error types that was just read does not have the one that is to be written.\<close>

definition type_refused :: "kernel \<Rightarrow> sys list \<Rightarrow> u64 \<Rightarrow> bool" where
  "type_refused k h ty \<longleftrightarrow> (\<exists>h'. h = h' @ [Fopen EINJ_ETYPE_AVAILABLE ''r'']
     \<and> \<not> type_listed ty (entries (k h' (Fopen EINJ_ETYPE_AVAILABLE ''r''))))"

text \<open>Nothing fails before the last call, and the last one fails or follows a list without the error type.\<close>

definition halted :: "kernel \<Rightarrow> sys list \<Rightarrow> u64 \<Rightarrow> sys list \<Rightarrow> bool" where
  "halted k h ty cs \<longleftrightarrow> (\<exists>ds c. cs = ds @ [c] \<and> clean k h ds \<and> (failed k (h @ ds) c \<or> type_refused k (h @ ds) ty))"

lemma halted_append:
  assumes "clean k h cs" "halted k (h @ cs) ty ds"
  shows "halted k h ty (cs @ ds)"
proof -
  from assms(2) obtain es c where "ds = es @ [c]" "clean k (h @ cs) es"
      "failed k ((h @ cs) @ es) c \<or> type_refused k ((h @ cs) @ es) ty"
    unfolding halted_def by blast
  with assms(1) show ?thesis
    unfolding halted_def by (intro exI [of _ "cs @ es"] exI [of _ c]) simp
qed

text \<open>
  The outcome of writing the values \<open>ws\<close>: on success all of them are written, in their order, and
  nothing failed; otherwise the process ends at the first failure, and at most a part was handed
  to the files.
\<close>

definition outcome_of :: "kernel \<Rightarrow> sys list \<Rightarrow> u64 \<Rightarrow> (string \<times> u64) list \<Rightarrow> unit outcome \<Rightarrow> sys list \<Rightarrow> bool" where
  "outcome_of k h ty ws r cs \<longleftrightarrow> r = Val () \<and> settled cs \<and> writes cs = map as_text ws \<and> clean k h cs
     \<or> r = Exit 1 \<and> prefix (writes cs) (map as_text ws) \<and> halted k h ty cs"

definition wrote :: "u64 \<Rightarrow> (string \<times> u64) list \<Rightarrow> (kernel \<Rightarrow> 'z io_scheme \<Rightarrow> unit outcome \<times> 'z io_scheme) \<Rightarrow> bool" where
  "wrote ty ws m \<longleftrightarrow> (\<forall>k s. \<exists>r cs. m k s = (r, s\<lparr>trace := trace s @ cs\<rparr>) \<and> outcome_of k (trace s) ty ws r cs)"

lemma wroteE:
  assumes "wrote ty ws m"
  obtains r cs where "m k s = (r, s\<lparr>trace := trace s @ cs\<rparr>)" "outcome_of k (trace s) ty ws r cs"
  using assms unfolding wrote_def by blast

lemma wrote_sqn:
  assumes "wrote ty ws m" "wrote ty us n"
  shows "wrote ty (ws @ us) (sqn m n)"
  unfolding wrote_def
proof (intro allI)
  fix k :: kernel and s :: "'a io_scheme"
  obtain r cs where m: "m k s = (r, s\<lparr>trace := trace s @ cs\<rparr>)" and r: "outcome_of k (trace s) ty ws r cs"
    by (rule wroteE [OF assms(1)])
  show "\<exists>r cs. sqn m n k s = (r, s\<lparr>trace := trace s @ cs\<rparr>) \<and> outcome_of k (trace s) ty (ws @ us) r cs"
  proof (cases "r = Val ()")
    case True
    then have v: "settled cs" "writes cs = map as_text ws" "clean k (trace s) cs"
      using r by (auto simp: outcome_of_def)
    obtain q ds where n: "n k (s\<lparr>trace := trace s @ cs\<rparr>) = (q, s\<lparr>trace := trace s @ cs @ ds\<rparr>)"
      and q: "outcome_of k (trace s @ cs) ty us q ds"
      by (rule wroteE [OF assms(2), of k "s\<lparr>trace := trace s @ cs\<rparr>"]) simp
    have "outcome_of k (trace s) ty (ws @ us) q (cs @ ds)"
      using q v by (auto simp: outcome_of_def settled_append settled_def intro: halted_append)
    with True m n show ?thesis
      by (intro exI [of _ q] exI [of _ "cs @ ds"]) (simp add: prog_simps)
  next
    case False
    with r have "r = Exit 1" "outcome_of k (trace s) ty (ws @ us) r cs"
      by (auto simp: outcome_of_def)
    with m show ?thesis by (intro exI [of _ r] exI [of _ cs]) (simp add: prog_simps)
  qed
qed

lemma wrote_quiet:
  assumes "settled cs" "writes cs = []" "\<And>k s. m k s = (Val (), s\<lparr>trace := trace s @ cs\<rparr>)"
    and "\<And>k h. clean k h cs"
  shows "wrote ty [] m"
  unfolding wrote_def outcome_of_def using assms by auto

lemma write_value_wrote: "wrote ty [(f, v)] (write_value f v)"
  unfolding wrote_def
proof (intro allI)
  fix k :: kernel and s :: "'a io_scheme"
  let ?o = "Fopen f ''w''" and ?p = "Fputs (''0x'' @ show_hex v @ eol)"
  consider (op) "rv (k (trace s) ?o) = 0" | (cl) "rv (k (trace s) ?o) \<noteq> 0" "rv (k (trace s @ [?o, ?p]) Fclose) = - 1"
    | (ok) "rv (k (trace s) ?o) \<noteq> 0" "rv (k (trace s @ [?o, ?p]) Fclose) \<noteq> - 1"
    by blast
  then show "\<exists>r cs. write_value f v k s = (r, s\<lparr>trace := trace s @ cs\<rparr>) \<and> outcome_of k (trace s) ty [(f, v)] r cs"
  proof cases
    case op
    then have "halted k (trace s) ty [?o]" by (auto simp: halted_def)
    with op show ?thesis
      by (intro exI [of _ "Exit 1"] exI [of _ "[?o]"]) (simp add: write_value_def prog_simps outcome_of_def)
  next
    case cl
    then have "halted k (trace s) ty ([?o, ?p] @ [Fclose])" unfolding halted_def by fastforce
    with cl show ?thesis
      by (intro exI [of _ "Exit 1"] exI [of _ "[?o, ?p, Fclose]"]) (simp add: write_value_def prog_simps outcome_of_def as_text_def)
  next
    case ok
    then show ?thesis
      by (intro exI [of _ "Val ()"] exI [of _ "[?o, ?p, Fclose]"]) (simp add: write_value_def prog_simps outcome_of_def as_text_def)
  qed
qed

lemma check_type_wrote:
  assumes "f = EINJ_ETYPE \<Longrightarrow> v = ty"
  shows "wrote ty [] (bnd (check_errortype_available f v) (\<lambda>r. if r \<noteq> 0 then stop (Exit 1) else skip))"
  unfolding wrote_def
proof (intro allI)
  fix k :: kernel and s :: "'a io_scheme"
  let ?o = "Fopen EINJ_ETYPE_AVAILABLE ''r''"
  let ?m = "bnd (check_errortype_available f v) (\<lambda>r. if r \<noteq> 0 then stop (Exit 1) else skip)"
  consider (other) "f \<noteq> EINJ_ETYPE" | (op) "f = EINJ_ETYPE" "rv (k (trace s) ?o) = 0"
    | (no) "f = EINJ_ETYPE" "rv (k (trace s) ?o) \<noteq> 0" "\<not> type_listed v (entries (k (trace s) ?o))"
    | (yes) "f = EINJ_ETYPE" "rv (k (trace s) ?o) \<noteq> 0" "type_listed v (entries (k (trace s) ?o))"
    by blast
  then show "\<exists>r cs. ?m k s = (r, s\<lparr>trace := trace s @ cs\<rparr>) \<and> outcome_of k (trace s) ty [] r cs"
  proof cases
    case other
    then show ?thesis
      by (intro exI [of _ "Val ()"] exI [of _ "[]"]) (simp add: check_errortype_available_def prog_simps outcome_of_def)
  next
    case op
    then have "halted k (trace s) ty [?o]" by (auto simp: halted_def)
    with op show ?thesis
      by (intro exI [of _ "Exit 1"] exI [of _ "[?o]"]) (simp add: check_errortype_available_def prog_simps outcome_of_def)
  next
    case no
    then have "type_refused k (trace s @ [?o]) ty" using assms by (auto simp: type_refused_def)
    with no have "halted k (trace s) ty ([?o] @ [Fclose])" unfolding halted_def by fastforce
    with no show ?thesis
      by (intro exI [of _ "Exit 1"] exI [of _ "[?o, Fclose]"]) (simp add: check_errortype_available_def prog_simps outcome_of_def)
  next
    case yes
    then show ?thesis
      by (intro exI [of _ "Val ()"] exI [of _ "[?o, Fclose]"])
        (simp add: check_errortype_available_def prog_simps outcome_of_def put_text_def)
  qed
qed

lemma wfile_eq: "wfile f v = sqn (bnd (check_errortype_available f v) (\<lambda>r. if r \<noteq> 0 then stop (Exit 1) else skip))
  (write_value f v)"
  by (intro ext) (simp add: wfile_def prog_simps split: prod.split outcome.split)

lemma wfile_wrote: "(f = EINJ_ETYPE \<Longrightarrow> v = ty) \<Longrightarrow> wrote ty [(f, v)] (wfile f v)"
  unfolding wfile_eq using wrote_sqn [OF check_type_wrote [of f v ty] write_value_wrote [of ty f v]] by simp

lemma inject_writes_Cons: "inject_writes ((f, v) # ws) = sqn (wfile f v) (inject_writes ws)"
  by (simp add: inject_writes_def for_each_def)

lemma inject_writes_wrote:
  "list_all (\<lambda>(f, v). f = EINJ_ETYPE \<longrightarrow> v = ty) ws \<Longrightarrow> wrote ty ws (inject_writes ws)"
proof (induction ws)
  case Nil
  show ?case by (rule wrote_quiet [where cs = "[]"]) (simp_all add: inject_writes_def prog_simps)
next
  case (Cons w ws)
  obtain f v where w: "w = (f, v)" by (cases w)
  with Cons.prems have "wrote ty [(f, v)] (wfile f v)" by (intro wfile_wrote) auto
  from wrote_sqn [OF this Cons.IH] Cons.prems w show ?case by (simp add: inject_writes_Cons)
qed

lemmas einj_paths = EINJ_ETYPE_def EINJ_ETYPE_AVAILABLE_def EINJ_ADDR_def EINJ_MASK_def EINJ_FLAGS_def
  EINJ_NOTRIGGER_def EINJ_DOIT_def


text \<open>A kernel that has the error type in its list and takes every value.\<close>

definition einj_kernel :: kernel where
  "einj_kernel h c = ok\<lparr>rv := (if c = Fclose then 0 else 1), entries := [''0x00000010'']\<rparr>"


section \<open>Rotation through the tests\<close>

text \<open>The tests that \<open>-a\<close> may select, in the order of the table.\<close>

definition safe_tests :: "nat list" where
  "safe_tests = filter (\<lambda>t. \<not> is_fatal t) [0..<length tests]"

lemma skip_fatal_more: "skip_fatal n t = Some u \<Longrightarrow> n \<le> m \<Longrightarrow> skip_fatal m t = Some u"
proof (induction n t arbitrary: m rule: skip_fatal.induct)
  case (2 n t)
  then obtain m' where "m = Suc m'" by (cases m) auto
  with 2 show ?case by (auto split: if_splits)
qed simp

lemma rotation_table:
  "list_all (\<lambda>j. skip_fatal 22 (next_test (safe_tests ! j)) = Some (safe_tests ! ((j + 1) mod length safe_tests)))
     [0..<length safe_tests]"
  by code_simp

lemma safe_tests_table: "length safe_tests = 14" "distinct (map testname tests)" "length tests = 22"
  by code_simp+

text \<open>C22: with \<open>-a\<close> the tool goes through the tests that are not marked fatal, one after the other in the
  order of the table and again from the start after the last: the search for the next one
  always ends, never stops at a fatal test, and leaves none of the others out.\<close>

theorem rotation_visits_safe_tests:
  assumes "all_flag s \<noteq> 0" "j < length safe_tests" "22 \<le> fuel"
  shows "advance fuel (safe_tests ! j) k s = (Val (safe_tests ! ((j + 1) mod length safe_tests)), s)
    \<and> \<not> is_fatal (safe_tests ! ((j + 1) mod length safe_tests))
    \<and> (\<forall>t < length tests. is_fatal t \<or> t \<in> set safe_tests)"
proof -
  have "skip_fatal fuel (next_test (safe_tests ! j)) = Some (safe_tests ! ((j + 1) mod length safe_tests))"
    using rotation_table assms(2,3) by (auto simp: list_all_iff intro: skip_fatal_more)
  moreover have "(j + 1) mod length safe_tests < length safe_tests" by (rule mod_less_divisor) (use assms(2) in auto)
  then have "safe_tests ! ((j + 1) mod length safe_tests) \<in> set safe_tests" by (rule nth_mem)
  moreover have "\<forall>t \<in> set safe_tests. \<not> is_fatal t" by (simp add: safe_tests_def)
  moreover have "\<forall>t < length tests. is_fatal t \<or> t \<in> set safe_tests" by (auto simp: safe_tests_def)
  ultimately show ?thesis using assms(1) by (auto simp: advance_def prog_simps)
qed

theorem rotation_visits_safe_tests_witness:
  "advance 22 (safe_tests ! 13) (\<lambda>h c. ok) (einj0\<lparr>all_flag := 1\<rparr>) = (Val (safe_tests ! 0), einj0\<lparr>all_flag := 1\<rparr>)"
  using rotation_visits_safe_tests [of "einj0\<lparr>all_flag := 1\<rparr>" 13 22 "\<lambda>h c. ok"]
  by (simp add: safe_tests_table)

section \<open>Counters without a configuration\<close>

text \<open>the numbers of processors and of processors per socket are set only by \<open>check_configuration\<close>,
  which \<open>-S\<close> (and \<open>-j\<close>) skip; with both still 0, an unexpected machine check, or an unexpected corrected
  error, ends the tool in a division by zero instead of the report.\<close>

theorem unconfigured_division_by_zero:
  assumes "Sflag s \<noteq> 0" "ncpus s = 0" "lcpus_persocket s = 0"
  shows "fst (check_counters t t1 b a k s) =
    (if fst a \<noteq> fst b \<or> cmci_skip_flag s = 0 \<and> snd a \<noteq> snd b then Fault DivByZero
     else Val (if has (tests ! t) F_EITHER then Some 1 else None))"
  using assms
  by (simp add: check_counters_def check_mce_def check_cmci_def check_either_def println_def prog_simps)

text \<open>The state that the options \<open>-S\<close> leave behind.\<close>

theorem unconfigured_division_by_zero_witness:
  "fst (check_counters 0 0 (5, 7) (6, 7) (\<lambda>h c. ok)
     (snd (einj_options (\<lambda>_. 0) (\<lambda>_. 0) [(CHR ''S'', [])] einj_args0 (\<lambda>h c. ok) einj0))) = Fault DivByZero"
proof -
  let ?s = "snd (einj_options (\<lambda>_. 0) (\<lambda>_. 0) [(CHR ''S'', [])] einj_args0 (\<lambda>h c. ok) einj0)"
  have "Sflag ?s \<noteq> 0" "ncpus ?s = 0" "lcpus_persocket ?s = 0"
    by (simp_all add: einj_option_def einj0_def prog_simps)
  from unconfigured_division_by_zero [OF this, of 0 0 "(5, 7)" "(6, 7)" "\<lambda>h c. ok"] show ?thesis by simp
qed

end
