(* ===== verification/EinjArm.thy ===== *)
theory EinjArm
  imports EinjLaws
begin

text \<open>
  The parts of \<open>lib/ras-tools/einj_mem_uc.c\<close> that are compiled for aarch64 only: the injections into the mesh, the
  interrupt controller and the IOMMU, the stores of several widths that trigger an error, the
  configuration check and the entries of the table of tests for them.
\<close>

section \<open>Injections\<close>

text \<open>The type says how severe the error is, the mask which unit it hits; no address is written.\<close>

definition arm_writes :: "u64 \<Rightarrow> u64 \<Rightarrow> int \<Rightarrow> (string \<times> u64) list" where
  "arm_writes etype unt notrig = [(EINJ_ETYPE, etype), (EINJ_MASK, unt), (EINJ_FLAGS, 1), (EINJ_NOTRIGGER, ul notrig), (EINJ_DOIT, 1)]"

definition arm_inject :: "u64 \<Rightarrow> u64 \<Rightarrow> int \<Rightarrow> ('z einj_scheme, unit) prog" where
  "arm_inject etype unt notrig = sqn PRINT_INJECTING (inject_writes (arm_writes etype unt notrig))"

definition arm_inject_llc :: "u64 \<Rightarrow> addr \<Rightarrow> int \<Rightarrow> ('z einj_scheme, unit) prog" where
  "arm_inject_llc a v notrig = arm_inject 0x400 0x01 notrig"
definition inject_cmn_fatal :: "u64 \<Rightarrow> addr \<Rightarrow> int \<Rightarrow> ('z einj_scheme, unit) prog" where
  "inject_cmn_fatal a v notrig = arm_inject 0x800 0x01 notrig"
definition inject_gic_ce :: "u64 \<Rightarrow> addr \<Rightarrow> int \<Rightarrow> ('z einj_scheme, unit) prog" where
  "inject_gic_ce a v notrig = arm_inject 0x200 0x02 notrig"
definition inject_gic_non_fatal :: "u64 \<Rightarrow> addr \<Rightarrow> int \<Rightarrow> ('z einj_scheme, unit) prog" where
  "inject_gic_non_fatal a v notrig = arm_inject 0x400 0x02 notrig"
definition inject_smmu_tcu_ce :: "u64 \<Rightarrow> addr \<Rightarrow> int \<Rightarrow> ('z einj_scheme, unit) prog" where
  "inject_smmu_tcu_ce a v notrig = arm_inject 0x200 0x03 notrig"
definition inject_smmu_tcu_non_fatal :: "u64 \<Rightarrow> addr \<Rightarrow> int \<Rightarrow> ('z einj_scheme, unit) prog" where
  "inject_smmu_tcu_non_fatal a v notrig = arm_inject 0x400 0x03 notrig"
definition inject_smmu_tcu_fatal :: "u64 \<Rightarrow> addr \<Rightarrow> int \<Rightarrow> ('z einj_scheme, unit) prog" where
  "inject_smmu_tcu_fatal a v notrig = arm_inject 0x800 0x03 notrig"
definition inject_smmu_tbu_ce :: "u64 \<Rightarrow> addr \<Rightarrow> int \<Rightarrow> ('z einj_scheme, unit) prog" where
  "inject_smmu_tbu_ce a v notrig = arm_inject 0x200 0x04 notrig"
definition inject_smmu_tbu_non_fatal :: "u64 \<Rightarrow> addr \<Rightarrow> int \<Rightarrow> ('z einj_scheme, unit) prog" where
  "inject_smmu_tbu_non_fatal a v notrig = arm_inject 0x400 0x04 notrig"
definition inject_smmu_tbu_fatal :: "u64 \<Rightarrow> addr \<Rightarrow> int \<Rightarrow> ('z einj_scheme, unit) prog" where
  "inject_smmu_tbu_fatal a v notrig = arm_inject 0x800 0x04 notrig"

section \<open>Configuration\<close>

text \<open>
  The conversions store an \<open>unsigned int\<close> each into variables of 8 and 16 bits, past their end from
  the first one on; without a conversion the program exits.
\<close>

definition arm_is_advanced_ras :: "('z io_scheme, bool) prog" where
  "arm_is_advanced_ras = bnd (sys (Fopen ''/sys/kernel/debug/apei/einj/vendor'' ''r'')) (\<lambda>r. if rv r = 0 then stop (Fault NullDeref)
     else (case entries r of [] \<Rightarrow> stop (Exit 1)
       | l # _ \<Rightarrow> (case scan_lx l of None \<Rightarrow> stop (Exit 1) | Some v \<Rightarrow> stop (Fault OutOfBounds))))"

definition arm_check_configuration :: "('z io_scheme, unit) prog" where
  "arm_check_configuration = bnd is_privileged (\<lambda>p. if \<not> p then stop (Exit 1) else
     bnd is_einj_support (\<lambda>e. if \<not> e then stop (Exit 1) else
     bnd arm_is_advanced_ras (\<lambda>a. if \<not> a then stop (Exit 1) else skip)))"

section \<open>Triggers\<close>

definition arm_store :: "nat \<Rightarrow> u64 \<Rightarrow> addr \<Rightarrow> ('z einj_scheme, int jmp) prog" where
  "arm_store n v a = bnd (get trigger_offset) (\<lambda>off. let target = a + ul off in
     sqn PRINT_TRIGGERING (touch (StoreN target n v) target (\<lambda>_. completed 0)))"

definition trigger_write_byte :: "addr \<Rightarrow> ('z einj_scheme, int jmp) prog" where
  "trigger_write_byte a = arm_store 1 0x1E a"
definition trigger_write_word :: "addr \<Rightarrow> ('z einj_scheme, int jmp) prog" where
  "trigger_write_word a = arm_store 2 0x1EFF a"
definition trigger_write_dword :: "addr \<Rightarrow> ('z einj_scheme, int jmp) prog" where
  "trigger_write_dword a = arm_store 4 0x1FFFEEEE a"
definition trigger_write_qword :: "addr \<Rightarrow> ('z einj_scheme, int jmp) prog" where
  "trigger_write_qword a = arm_store 8 0x1EEEFFFFFEEEE a"

text \<open>Neither has a return statement.\<close>

definition arm_trigger_llc :: "addr \<Rightarrow> ('z einj_scheme, int jmp) prog" where
  "arm_trigger_llc a = touch (Syscall ''dc civac'' [a]) a (\<lambda>_. bnd (sysv Indet) completed)"

definition arm_trigger_prefetch :: "addr \<Rightarrow> ('z einj_scheme, int jmp) prog" where
  "arm_trigger_prefetch a = sqn PRINT_TRIGGERING
     (sqn (call (Syscall ''prfm pldl1keep'' [a])) (touch (Sleep 5) a (\<lambda>_. bnd (sysv Indet) completed)))"

section \<open>The tests\<close>

record 'z arm_test =
  arm_name :: string
  arm_help :: string
  arm_inject_fn :: "u64 \<Rightarrow> addr \<Rightarrow> int \<Rightarrow> ('z einj_scheme, unit) prog"
  arm_trigger_fn :: "addr \<Rightarrow> ('z einj_scheme, int jmp) prog"
  arm_flags :: int

text \<open>All of them allocate with \<open>data_alloc\<close> and inject with \<open>notrigger\<close> set.\<close>

definition arm_units :: "'z arm_test list" where
  "arm_units = [
    \<lparr>arm_name = ''cmn_non_fatal'', arm_help = ''CMN SLC Data RAM DE. Should generate a UCNA/CMCI'',
     arm_inject_fn = arm_inject_llc, arm_trigger_fn = trigger_single, arm_flags = F_CMCI\<rparr>,
    \<lparr>arm_name = ''cmn_fatal'', arm_help = ''CMN SLC Data RAM UE. Should fatal'',
     arm_inject_fn = inject_cmn_fatal, arm_trigger_fn = trigger_single, arm_flags = F_FATAL\<rparr>,
    \<lparr>arm_name = ''gic_ce'', arm_help = ''GIC corrected error. Should generate a CMCI'',
     arm_inject_fn = inject_gic_ce, arm_trigger_fn = trigger_single, arm_flags = F_CMCI\<rparr>,
    \<lparr>arm_name = ''gic_non_fatal'', arm_help = ''GIC deferred error'',
     arm_inject_fn = inject_gic_non_fatal, arm_trigger_fn = trigger_single, arm_flags = F_CMCI\<rparr>,
    \<lparr>arm_name = ''smmu_tcu_ce'', arm_help = ''SMMU TCU corrected error. Should generate a UCNA/CMCI'',
     arm_inject_fn = inject_smmu_tcu_ce, arm_trigger_fn = trigger_single, arm_flags = F_CMCI\<rparr>,
    \<lparr>arm_name = ''smmu_tcu_non_fatal'', arm_help = ''SMMU TCU deferred error. Should generate a UCNA/CMCI'',
     arm_inject_fn = inject_smmu_tcu_non_fatal, arm_trigger_fn = trigger_single, arm_flags = F_CMCI\<rparr>,
    \<lparr>arm_name = ''smmu_tcu_fatal'', arm_help = ''SMMU TCU uncorrected error. Should fatal'',
     arm_inject_fn = inject_smmu_tcu_fatal, arm_trigger_fn = trigger_single, arm_flags = F_FATAL\<rparr>,
    \<lparr>arm_name = ''smmu_tbu_ce'', arm_help = ''SMMU TBU corrected error. Should generate a UCNA/CMCI'',
     arm_inject_fn = inject_smmu_tbu_ce, arm_trigger_fn = trigger_single, arm_flags = F_CMCI\<rparr>,
    \<lparr>arm_name = ''smmu_tbu_non_fatal'', arm_help = ''SMMU TBU deferred error. Should generate a UCNA/CMCI'',
     arm_inject_fn = inject_smmu_tbu_non_fatal, arm_trigger_fn = trigger_single, arm_flags = F_CMCI\<rparr>,
    \<lparr>arm_name = ''smmu_tbu_fatal'', arm_help = ''SMMU TBU uncorrected error. Should fatal'',
     arm_inject_fn = inject_smmu_tbu_fatal, arm_trigger_fn = trigger_single, arm_flags = F_FATAL\<rparr>]"

definition arm_stores :: "'z arm_test list" where
  "arm_stores = map (\<lambda>(n, t). \<lparr>arm_name = n, arm_help = ''Write to target address. Should generate a UCNA/CMCI'',
     arm_inject_fn = inject_uc, arm_trigger_fn = t, arm_flags = F_CMCI\<rparr>)
     [(''strbyte'', trigger_write_byte), (''strword'', trigger_write_word), (''strdword'', trigger_write_dword), (''strqword'', trigger_write_qword)]"

definition arm_tests :: "'z arm_test list" where
  "arm_tests = arm_units @ arm_stores"

section \<open>Order of the files\<close>

text \<open>
  Every test of a unit writes its files in order, the trigger last, or a part of them from the
  start, and it is marked as fatal exactly when the type it injects is the fatal one.
\<close>

lemma arm_writes_wrote: "wrote etype (arm_writes etype unt n) (inject_writes (arm_writes etype unt n))"
  by (rule inject_writes_wrote) (simp add: arm_writes_def einj_paths)

lemma arm_units_types:
  "list_all (\<lambda>t. \<exists>etype unt. arm_inject_fn t = (\<lambda>a v n. arm_inject etype unt n)
     \<and> (\<forall>n. wrote etype (arm_writes etype unt n) (inject_writes (arm_writes etype unt n)))
     \<and> (arm_flags t = F_FATAL \<longleftrightarrow> etype = 0x800)) arm_units"
proof -
  have *: "(\<exists>etype unt. f = (\<lambda>a v n. arm_inject etype unt n)
     \<and> (\<forall>n. wrote etype (arm_writes etype unt n) (inject_writes (arm_writes etype unt n)))
     \<and> (fatal \<longleftrightarrow> etype = 0x800))" if "f = (\<lambda>a v n. arm_inject e u n)" "fatal \<longleftrightarrow> e = 0x800" for e u f fatal
    using that arm_writes_wrote by blast
  note defs = arm_inject_llc_def inject_cmn_fatal_def inject_gic_ce_def
    inject_gic_non_fatal_def inject_smmu_tcu_ce_def inject_smmu_tcu_non_fatal_def inject_smmu_tcu_fatal_def
    inject_smmu_tbu_ce_def inject_smmu_tbu_non_fatal_def inject_smmu_tbu_fatal_def
  show ?thesis
    unfolding arm_units_def list.pred_inject arm_test.simps defs [abs_def]
    by (intro conjI TrueI * [OF refl]) (simp_all add: F_CMCI_def F_FATAL_def)
qed

end
