(* ===== verification/ProcLaws.thy ===== *)
theory ProcLaws
  imports ProcFiles
begin

text \<open>
  What the readers of \<open>/proc\<close> compute: the counters of a line of \<open>/proc/interrupts\<close> are
  added up whatever their layout, and the variants of \<open>vtop\<close> agree on pages that are present.
\<close>

section \<open>Printed numbers read back\<close>

lemma digit_val_char: "d < 16 \<Longrightarrow> digit_val (digit_char d) = d"
  by (simp add: digit_val_def digit_char_def Let_def of_char_of)

lemma last_digit:
  assumes "2 \<le> b" "b \<le> 16"
  shows "digit_val (digit_char (n mod b)) = n mod b" "n mod b < b"
proof -
  show "n mod b < b" using assms(1) by simp
  with assms(2) show "digit_val (digit_char (n mod b)) = n mod b" by (simp add: digit_val_char)
qed

lemma digits_show_nat:
  assumes "2 \<le> b" "b \<le> 16"
  shows "digits b acc (show_nat b n @ rest) = digits b (acc * b ^ length (show_nat b n) + n) rest"
proof (induction n arbitrary: acc rest rule: less_induct)
  case (less n)
  show ?case
  proof (cases "n < b")
    case True
    with assms show ?thesis by (simp add: show_nat.simps [of b n] digit_val_char)
  next
    case False
    then have s: "show_nat b n = show_nat b (n div b) @ [digit_char (n mod b)]"
      using assms by (simp add: show_nat.simps [of b n])
    have "n div b < n" using False assms by (intro div_less_dividend) auto
    from less.IH [OF this, of acc "digit_char (n mod b) # rest"]
    have "digits b acc (show_nat b n @ rest)
      = digits b ((acc * b ^ length (show_nat b (n div b)) + n div b) * b + n mod b) rest"
      by (simp add: s last_digit [OF assms])
    also have "(acc * b ^ length (show_nat b (n div b)) + n div b) * b + n mod b
      = acc * b ^ length (show_nat b n) + n"
      by (simp add: s algebra_simps)
    finally show ?thesis .
  qed
qed

lemma show_nat_digits:
  assumes "2 \<le> b" "b \<le> 16"
  shows "list_all (\<lambda>c. digit_val c < b) (show_nat b n) \<and> show_nat b n \<noteq> []"
proof (induction n rule: less_induct)
  case (less n)
  show ?case
  proof (cases "n < b")
    case True
    with assms show ?thesis by (simp add: show_nat.simps [of b n] digit_val_char)
  next
    case False
    then have "n div b < n" using assms by (intro div_less_dividend) auto
    with less.IH [of "n div b"] assms False show ?thesis
      by (simp add: show_nat.simps [of b n] last_digit)
  qed
qed

text \<open>A digit is neither blank nor a sign.\<close>

lemma blank_no_digit: "isspace c \<Longrightarrow> digit_val c = 99"
  by (auto simp: isspace_def digit_val_def)

lemma digit_not_blank: "digit_val c < 10 \<Longrightarrow> \<not> isspace c \<and> c \<noteq> CHR ''-'' \<and> c \<noteq> CHR ''+''"
  using blank_no_digit [of c] by (auto simp: digit_val_def)

text \<open>What may follow a printed number: the end, or a character that is no digit.\<close>

definition number_ends :: "string \<Rightarrow> bool" where
  "number_ends rest \<longleftrightarrow> (case rest of [] \<Rightarrow> True | c # _ \<Rightarrow> 10 \<le> digit_val c)"

lemma digits_ends: "number_ends rest \<Longrightarrow> digits 10 n rest = (n, rest)"
  by (cases rest) (auto simp: number_ends_def)

lemma strtol_printed:
  assumes "list_all isspace bl" "number_ends rest" "n < 2 ^ 63"
  shows "strtol_rest 10 (bl @ show_nat 10 n @ rest) = (int n, rest)"
proof -
  obtain c cs where c: "show_nat 10 n = c # cs" "digit_val c < 10"
    using show_nat_digits [of 10 n] by (cases "show_nat 10 n") auto
  have d: "dropWhile isspace (bl @ show_nat 10 n @ rest) = show_nat 10 n @ rest"
    using assms(1) digit_not_blank [OF c(2)] by (induction bl) (auto simp: c)
  have "digits 10 0 (show_nat 10 n @ rest) = (n, rest)"
    using digits_show_nat [of 10 0 n rest] digits_ends [OF assms(2)] by simp
  then have "strto_digits 10 (show_nat 10 n @ rest) = Some (n, rest)"
    using c by (simp add: strto_digits_def)
  then have "strto 10 (bl @ show_nat 10 n @ rest) = (False, n, rest)"
    unfolding strto_def Let_def d using c digit_not_blank [OF c(2)] by simp
  then show ?thesis using assms(3) by (simp add: strtol_rest_def)
qed

text \<open>A text without a number at its start stops the summation.\<close>

definition no_number :: "string \<Rightarrow> bool" where
  "no_number t \<longleftrightarrow> (case dropWhile isspace t of [] \<Rightarrow> True
     | c # _ \<Rightarrow> 10 \<le> digit_val c \<and> c \<noteq> CHR ''-'' \<and> c \<noteq> CHR ''+'')"

lemma strtol_no_number:
  assumes "no_number t"
  shows "strtol_rest 10 t = (0, t)"
proof (cases "dropWhile isspace t")
  case Nil
  then show ?thesis unfolding strtol_rest_def strto_def Let_def Nil by (simp add: strto_digits_def)
next
  case (Cons c cs)
  with assms have "10 \<le> digit_val c" "c \<noteq> CHR ''-''" "c \<noteq> CHR ''+''" by (simp_all add: no_number_def)
  then show ?thesis unfolding strtol_rest_def strto_def Let_def Cons by (simp add: strto_digits_def)
qed

text \<open>The columns of a line: blanks and a number each.\<close>

definition columns :: "(string \<times> nat) list \<Rightarrow> string" where
  "columns cs = concat (map (\<lambda>(bl, n). bl @ show_nat 10 n) cs)"

definition column_ok :: "string \<times> nat \<Rightarrow> bool" where
  "column_ok c \<longleftrightarrow> fst c \<noteq> [] \<and> list_all isspace (fst c)"

lemma blank_ends: "column_ok c \<Longrightarrow> number_ends (fst c @ xs)"
  by (cases "fst c") (auto simp: column_ok_def number_ends_def blank_no_digit)

lemma columns_ends:
  "list_all column_ok cs \<Longrightarrow> number_ends t \<Longrightarrow> number_ends (columns cs @ t)"
proof (cases cs)
  case (Cons c cs')
  assume "list_all column_ok cs"
  then show ?thesis using blank_ends [of c] by (cases c) (simp add: Cons columns_def)
qed (simp add: columns_def)

lemma sumint_columns:
  assumes "list_all column_ok cs" "number_ends t" "no_number t"
    "0 \<le> acc" "acc + int (sum_list (map snd cs)) < 2 ^ 63"
  shows "sumint_from acc (columns cs @ t) = acc + int (sum_list (map snd cs))"
  using assms(1,4,5)
proof (induction cs arbitrary: acc)
  case Nil
  then show ?case
    by (subst sumint_from.simps)
      (simp add: columns_def strtol_no_number [OF assms(3)] s64_def)
next
  case (Cons c cs)
  obtain bl n where c: "c = (bl, n)" by (cases c)
  let ?s = "columns (c # cs) @ t"
  have s: "?s = bl @ show_nat 10 n @ columns cs @ t" by (simp add: columns_def c)
  have n: "n < 2 ^ 63" "acc + int n < 2 ^ 63" using Cons.prems by (simp_all add: c)
  have r: "strtol_rest 10 ?s = (int n, columns cs @ t)"
    unfolding s
  proof (rule strtol_printed)
    show "list_all isspace bl" using Cons.prems(1) by (simp add: c column_ok_def)
    show "number_ends (columns cs @ t)" using Cons.prems(1) assms(2) by (simp add: columns_ends)
  qed (rule n)
  have "columns cs @ t \<noteq> ?s" using show_nat_digits [of 10 n] by (simp add: s)
  then have "sumint_from acc ?s = sumint_from (s64 (acc + int n)) (columns cs @ t)"
    by (subst sumint_from.simps) (simp add: r)
  also have "s64 (acc + int n) = acc + int n" using n Cons.prems(2) by (simp add: s64_def)
  finally show ?case using Cons.IH [of "acc + int n"] Cons.prems by (simp add: c algebra_simps)
qed

section \<open>Interrupt counters\<close>

text \<open>A line of another interrupt.\<close>

definition other_irq :: "string \<Rightarrow> bool" where
  "other_irq line \<longleftrightarrow> \<not> strncmp_eq (dropWhile isspace line) ''MCE:'' 4 \<and> \<not> strncmp_eq (dropWhile isspace line) ''THR:'' 4"

lemma fold_other: "list_all other_irq ls \<Longrightarrow> fold irq_line ls acc = acc"
  by (induction ls arbitrary: acc) (auto simp: irq_line_def other_irq_def split: prod.split)

definition irq_text :: "string \<Rightarrow> string \<Rightarrow> (string \<times> nat) list \<Rightarrow> string \<Rightarrow> string" where
  "irq_text bl name cs t = bl @ name @ columns cs @ t"

definition irq_ok :: "string \<Rightarrow> (string \<times> nat) list \<Rightarrow> string \<Rightarrow> bool" where
  "irq_ok bl cs t \<longleftrightarrow> list_all isspace bl \<and> list_all column_ok cs \<and> number_ends t \<and> no_number t
     \<and> int (sum_list (map snd cs)) < 2 ^ 63"

lemma dropWhile_blanks:
  "list_all isspace bl \<Longrightarrow> \<not> isspace c \<Longrightarrow> dropWhile isspace (bl @ c # cs) = c # cs"
  by (induction bl) auto

lemma irq_line_text:
  assumes "irq_ok bl cs t"
  shows "irq_line (irq_text bl ''MCE:'' cs t) (a, b) = (int (sum_list (map snd cs)), b)"
    "irq_line (irq_text bl ''THR:'' cs t) (a, b) = (a, int (sum_list (map snd cs)))"
  using assms sumint_columns [of cs t 0]
  by (simp_all add: irq_line_def irq_text_def irq_ok_def dropWhile_blanks strncmp_eq_def sumint_def isspace_def)

text \<open>C23: \<open>proc_interrupts\<close> returns the number of machine checks and of threshold interrupts over all
  processors: for a file with one line of each, in either order (the kernel prints the threshold interrupts first),
  in any layout of the columns and among any other lines, each result is the sum of the counters
  printed on that line; a file that cannot be opened gives - 1 twice.\<close>

theorem proc_interrupts_sums:
  assumes "list_all other_irq (pre @ mid @ post)" "irq_ok bl1 ms t1" "irq_ok bl2 ts t2"
    and "(x, y) = (irq_text bl1 ''MCE:'' ms t1, irq_text bl2 ''THR:'' ts t2)
       \<or> (y, x) = (irq_text bl1 ''MCE:'' ms t1, irq_text bl2 ''THR:'' ts t2)"
    and "entries (k (trace s) (Fopen ''/proc/interrupts'' ''r'')) = pre @ x # mid @ y # post"
  shows "fst (proc_interrupts k s) =
    (if rv (k (trace s) (Fopen ''/proc/interrupts'' ''r'')) = 0 then Val (- 1, - 1)
     else Val (int (sum_list (map snd ms)), int (sum_list (map snd ts))))"
proof -
  note line = irq_line_text(1) [OF assms(2)] irq_line_text(2) [OF assms(3)]
  have "fold irq_line (pre @ x # mid @ y # post) (- 1, - 1) = (int (sum_list (map snd ms)), int (sum_list (map snd ts)))"
    using assms(4)
  proof
    assume "(x, y) = (irq_text bl1 ''MCE:'' ms t1, irq_text bl2 ''THR:'' ts t2)"
    with assms(1) show ?thesis by (simp add: fold_other line)
  next
    assume "(y, x) = (irq_text bl1 ''MCE:'' ms t1, irq_text bl2 ''THR:'' ts t2)"
    with assms(1) show ?thesis by (simp add: fold_other line)
  qed
  then show ?thesis by (simp add: proc_interrupts_def prog_simps assms(5) del: fold_append fold_simps)
qed

definition irq_demo :: sysres where
  "irq_demo = ok\<lparr>rv := 1, entries := [''  CPU0 CPU1'', '' THR: 0 7'', ''MCE:    2   10   Machine check exceptions'']\<rparr>"

theorem proc_interrupts_sums_witness:
  "fst (proc_interrupts (\<lambda>h c. irq_demo) \<lparr>trace = []\<rparr>) = Val (12, 7)"
proof -
  let ?ms = "[(''    '', 2), (''   '', 10)] :: (string \<times> nat) list"
  let ?ts = "[('' '', 0), ('' '', 7)] :: (string \<times> nat) list"
  let ?m = "irq_text [] ''MCE:'' ?ms ''   Machine check exceptions''" and ?t = "irq_text '' '' ''THR:'' ?ts []"
  have e: "entries irq_demo = [''  CPU0 CPU1''] @ ?t # [] @ ?m # []" by code_simp
  have o: "list_all other_irq ([''  CPU0 CPU1''] @ [] @ [])" "irq_ok [] ?ms ''   Machine check exceptions''"
    "irq_ok '' '' ?ts []"
    by (simp_all add: other_irq_def strncmp_eq_def isspace_def irq_ok_def column_ok_def number_ends_def
        no_number_def digit_val_def)
  have "rv irq_demo \<noteq> 0" by (simp add: irq_demo_def ok_def)
  with proc_interrupts_sums [OF o, of ?t ?m "\<lambda>h c. irq_demo" "\<lparr>trace = []\<rparr>", unfolded e] show ?thesis by simp
qed

section \<open>Physical addresses\<close>

text \<open>A kernel that opens the pagemap of the process and gives \<open>e\<close> as the entry of the page.\<close>

definition pagemap_answers :: "kernel \<Rightarrow> sys list \<Rightarrow> int \<Rightarrow> u64 \<Rightarrow> u64 \<Rightarrow> bool" where
  "pagemap_answers k h pid index e \<longleftrightarrow>
    (let op = Open (pagemap_name pid) 0 0; fd = rv (k h op); r = k (h @ [op]) (Pread fd 8 (index * 8))
     in fd \<noteq> - 1 \<and> rv r = 8 \<and> u64_of_bytes (bytes r) = e)"

lemma page_offset: "a AND (2 ^ n - 1) = take_bit n a" for a :: u64
  by (simp add: take_bit_eq_mask mask_eq_exp_minus_1)

lemma frame_bits: "e AND 0x007fffffffffffff = take_bit 55 e" for e :: u64
proof -
  have "mask 55 = (0x007fffffffffffff :: u64)" by (simp add: mask_eq_exp_minus_1)
  then show ?thesis by (simp add: take_bit_eq_mask)
qed

lemma present_bit: "e AND 0x8000000000000000 = 0 \<longleftrightarrow> \<not> bit e 63" for e :: u64
  using and_exp_eq_0_iff_not_bit [of e 63] by simp

lemma frame_or_offset: "a * 2 ^ n OR take_bit n b = a * 2 ^ n + take_bit n b" for a b :: u64
proof -
  have "push_bit n a AND take_bit n b = 0"
    by (rule bit_eqI) (auto simp: bit_simps)
  then show ?thesis by (simp add: disjunctive_add_eq_or push_bit_eq_mult)
qed

lemmas vtop_simps = vtop_def vtop_size_def vtop_tool_def vtop_victim_def prog_simps Let_def frame_bits
  present_bit page_offset

text \<open>C24: the three translations of a virtual address (\<open>proc_pagemap.c\<close>, \<open>vtop.c\<close>, \<open>victim.c\<close>) read the same
  entry of the pagemap, number addr / pagesize, and agree when the page is present: frame
  number times page size plus the offset in the page.  When it is not present the first returns
  all ones, the second ends the process, and the third returns an address all the same.\<close>

theorem vtop_variants_agree:
  fixes s :: "'z vt_scheme"
  assumes "n < 31" "vtop_pagesize s = 2 ^ n" "pagemap_answers k (trace s) pid (addr div 2 ^ n) e"
  defines "phys \<equiv> take_bit 55 e * 2 ^ n + take_bit n addr"
  shows "fst (vtop addr pid k s) = Val (if bit e 63 then phys else - 1)
    \<and> fst (vtop_tool (2 ^ n) addr pid k s) = (if bit e 63 then Val phys else Exit 1)
    \<and> fst (vtop_victim (2 ^ n) addr pid k s) = Val phys"
  using assms(1-3) by (auto simp: vtop_simps frame_or_offset phys_def pagemap_answers_def)

theorem vtop_variants_agree_witness:
  "fst (vtop 0x3abc 7 (\<lambda>h c. case c of Open _ _ _ \<Rightarrow> ok\<lparr>rv := 3\<rparr>
      | _ \<Rightarrow> ok\<lparr>rv := 8, bytes := [CHR 0x05, CHR 0x00, CHR 0x00, CHR 0x00, CHR 0x00, CHR 0x00, CHR 0x00, CHR 0x80]\<rparr>)
      \<lparr>trace = [], vtop_pagesize = 4096\<rparr>) = Val 0x5abc"
proof -
  let ?k = "\<lambda>h c. case c of Open _ _ _ \<Rightarrow> ok\<lparr>rv := 3\<rparr>
    | _ \<Rightarrow> ok\<lparr>rv := 8, bytes := [CHR 0x05, CHR 0x00, CHR 0x00, CHR 0x00, CHR 0x00, CHR 0x00, CHR 0x00, CHR 0x80]\<rparr>"
  let ?e = "0x8000000000000005 :: u64"
  have "u64_of_bytes [CHR 0x05, CHR 0x00, CHR 0x00, CHR 0x00, CHR 0x00, CHR 0x00, CHR 0x00, CHR 0x80] = ?e"
    by (simp add: push_bit_eq_mult)
  then have a: "pagemap_answers ?k (trace \<lparr>trace = [], vtop_pagesize = 4096\<rparr>) 7 (0x3abc div 2 ^ 12) ?e"
    by (simp add: pagemap_answers_def Let_def ok_def)
  have b: "bit ?e 63" by (simp add: bit_iff_odd_drop_bit drop_bit_eq_div)
  show ?thesis
    using vtop_variants_agree [OF _ _ a] b by (simp add: take_bit_eq_mod)
qed

end
