(* ===== verification/Hornet.thy ===== *)
theory Hornet
  imports Einj
begin

text \<open>
  \<open>lib/ras-tools/hornet.c\<close>: choose an address of another process and inject an uncorrectable
  error there.  The address space is read from \<open>/proc/PID/maps\<close>, the frame from its pagemap.
\<close>

section \<open>State\<close>

record hornet = io +
  h_progname :: string
  h_addr :: int
  h_pid :: int
  h_delay_us :: "u64 option"
  tflag :: int
  dflag :: int
  bflag :: int
  sflag :: int
  mflag :: int
  pflag :: int
  vflag :: int
  h_trace :: int

definition hornet0 :: hornet where
  "hornet0 = \<lparr>trace = [], h_progname = [], h_addr = 0, h_pid = 0, h_delay_us = None, tflag = 0, dflag = 0, bflag = 0,
     sflag = 0, mflag = 0, pflag = 0, vflag = 0, h_trace = 0\<rparr>"

definition hornet_wfile :: "string \<Rightarrow> u64 \<Rightarrow> ('z io_scheme, unit) prog" where
  "hornet_wfile file val = bnd (sysv (Fopen file ''w'')) (\<lambda>fp. if fp = 0 then stop (Exit 1)
     else sqn (call (Fputs (''0x'' @ show_hex val @ eol)))
       (bnd (sysv Fclose) (\<lambda>r. if r = - 1 then stop (Exit 1) else skip)))"

text \<open>The child becomes the command, or ends with status 1.\<close>

definition startproc :: "string list \<Rightarrow> ('z io_scheme, int) prog" where
  "startproc args = bnd (sysv Fork) (\<lambda>pid. if pid = - 1 then stop (Exit 1)
     else if pid = 0 then sqn (call (Exec args)) (stop (Exit 1)) else ret pid)"

section \<open>Address ranges\<close>

text \<open>
  The conversions of \<open>sscanf\<close>: a number in some base, a character of the format, a word.
\<close>

definition scan_num :: "nat \<Rightarrow> string \<Rightarrow> (int \<times> string) option" where
  "scan_num base s = (case strto base s of (neg, n, r) \<Rightarrow>
     if r = s then None else Some (if neg then - int n else int n, r))"

definition scan_lit :: "char \<Rightarrow> string \<Rightarrow> string option" where
  "scan_lit c s = (if s \<noteq> [] \<and> hd s = c then Some (tl s) else None)"

definition scan_token :: "string \<Rightarrow> (string \<times> string) option" where
  "scan_token s = (let w = takeWhile (\<lambda>c. \<not> isspace c) (dropWhile isspace s) in
     if w = [] then None else Some (w, dropWhile (\<lambda>c. \<not> isspace c) (dropWhile isspace s)))"

record vma =
  vstart :: int
  vend :: int
  perm :: string
  vfile :: string

text \<open>
  At least the first seven conversions of \<open>"%lx-%lx %s %x %d:%d %d %s"\<close>.  The device is
  printed in hexadecimal but scanned in decimal, so that a line whose device number has a
  letter is passed over.
\<close>

definition parse_vma :: "string \<Rightarrow> vma option" where
  "parse_vma line =
    Option.bind (scan_num 16 line) (\<lambda>(vs, r1).
    Option.bind (scan_lit (CHR ''-'') r1) (\<lambda>r2.
    Option.bind (scan_num 16 r2) (\<lambda>(ve, r3).
    Option.bind (scan_token r3) (\<lambda>(pm, r4).
    Option.bind (scan_num 16 r4) (\<lambda>(pgoff, r5).
    Option.bind (scan_num 10 r5) (\<lambda>(maj, r6).
    Option.bind (scan_lit (CHR '':'') r6) (\<lambda>r7.
    Option.bind (scan_num 10 r7) (\<lambda>(min, r8).
    Option.bind (scan_num 10 r8) (\<lambda>(ino, r9).
    Some \<lparr>vstart = s64 vs, vend = s64 ve, perm = pm,
          vfile = (case scan_token r9 of None \<Rightarrow> [] | Some (f, _) \<Rightarrow> f)\<rparr>)))))))))"

text \<open>The tests that end the search at a line.\<close>

definition vma_wanted :: "'z hornet_scheme \<Rightarrow> vma \<Rightarrow> bool" where
  "vma_wanted s v \<longleftrightarrow>
     tflag s \<noteq> 0 \<and> perm v = ''r-xp'' \<and> take 1 (vfile v) = ''/''
   \<or> dflag s \<noteq> 0 \<and> perm v = ''rw-p'' \<and> take 1 (vfile v) = ''/''
   \<or> bflag s \<noteq> 0 \<and> perm v = ''rw-p'' \<and> vfile v = [] \<and> vstart v < 0x400000000000
   \<or> sflag s \<noteq> 0 \<and> perm v = ''rw-p'' \<and> vfile v = ''[stack]''
   \<or> mflag s \<noteq> 0 \<and> perm v = ''rw-p'' \<and> vfile v = [] \<and> vstart v > 0x400000000000
   \<or> h_addr s \<noteq> 0 \<and> vstart v \<le> h_addr s \<and> h_addr s < vend v"

definition larger :: "vma \<Rightarrow> vma option \<Rightarrow> vma option" where
  "larger v best = (if perm v = ''rw-p'' \<and> vfile v = []
      \<and> (case best of None \<Rightarrow> - 1 | Some b \<Rightarrow> vend b - vstart b) < vend v - vstart v
     then Some v else best)"

text \<open>\<open>Inl\<close> is the line that ended the search, \<open>Inr\<close> the largest anonymous range of all lines.\<close>

fun scan_maps :: "(vma \<Rightarrow> bool) \<Rightarrow> string list \<Rightarrow> vma option \<Rightarrow> vma + vma option" where
  "scan_maps wanted [] best = Inr best"
| "scan_maps wanted (l # ls) best = (case parse_vma l of
     None \<Rightarrow> scan_maps wanted ls best
   | Some v \<Rightarrow> if wanted v then Inl v else scan_maps wanted ls (larger v best))"

definition no_choice :: "'z hornet_scheme \<Rightarrow> bool" where
  "no_choice s \<longleftrightarrow> tflag s = 0 \<and> dflag s = 0 \<and> bflag s = 0 \<and> sflag s = 0 \<and> mflag s = 0 \<and> h_addr s = 0"

definition parsemaps :: "int \<Rightarrow> ('z hornet_scheme, int \<times> int) prog" where
  "parsemaps pid = bnd (sys (Fopen (''/proc/'' @ show_int pid @ ''/maps'') ''r'')) (\<lambda>r.
     if rv r = 0 then stop (Exit 1)
     else bnd (get (\<lambda>s. s)) (\<lambda>s. sqn (call Fclose)
       (case scan_maps (vma_wanted s) (entries r) None of
          Inl v \<Rightarrow> ret (vstart v, vend v)
        | Inr best \<Rightarrow> if \<not> no_choice s then stop (Exit 1)
            else (case best of None \<Rightarrow> stop (Fault UnsetValue) | Some v \<Rightarrow> ret (vstart v, vend v)))))"

section \<open>The address\<close>

text \<open>
  \<open>frac\<close> stands for the floating point expression \<open>(long)(sz * 0.8 * random() / RAND_MAX)\<close>.
\<close>

definition randaddr :: "(int \<Rightarrow> int \<Rightarrow> int) \<Rightarrow> int \<Rightarrow> int \<Rightarrow> ('z io_scheme, int) prog" where
  "randaddr frac lo hi = bnd (sysv Getpid) (\<lambda>pid. bnd (sysv (Syscall ''time'' [0])) (\<lambda>t.
     sqn (call (Syscall ''srandom'' [take_bit 32 (ul (pid XOR t))]))
     (bnd (sysv Random) (\<lambda>r. ret ((lo + cdiv (hi - lo) 10 + frac (hi - lo) r) AND NOT 0x3f)))))"

definition next_skip :: "int \<Rightarrow> int" where
  "next_skip skp = (if skp \<le> 0 then - skp + 1 else - (skp + 1))"

definition hprint :: "string \<Rightarrow> ('z hornet_scheme, unit) prog" where
  "hprint text = bnd (get vflag) (\<lambda>v. cond (v \<noteq> 0) (println text))"

definition checking_text :: "int \<Rightarrow> int \<Rightarrow> int \<Rightarrow> string" where
  "checking_text a lo hi = ''checking virtual address 0x'' @ show_hex (ul a) @ '' in [0x'' @ show_hex (ul lo)
     @ '',0x'' @ show_hex (ul hi) @ '']''"

definition skip_text :: "int \<Rightarrow> int \<Rightarrow> string" where
  "skip_text skp a = ''skip='' @ show_int skp @ '' new addr=0x'' @ show_hex (ul a)"

definition page_present :: "u64 \<Rightarrow> bool" where
  "page_present pinfo \<longleftrightarrow> pinfo AND push_bit 63 1 \<noteq> 0"

definition phys_of :: "u64 \<Rightarrow> int \<Rightarrow> int \<Rightarrow> u64" where
  "phys_of pinfo ps a = (pinfo AND 0x007fffffffffffff) * ul ps + (ul a AND ul (ps - 1))"

text \<open>
  The loop behind the label \<open>again\<close>: on both sides of the first address alternately, until a
  page is present or an address is out of the range.  The product of page size and \<open>skip\<close> is an \<open>int\<close>.
\<close>

fun probe :: "nat \<Rightarrow> int \<Rightarrow> int \<Rightarrow> int \<Rightarrow> int \<Rightarrow> int \<Rightarrow> int \<Rightarrow> ('z hornet_scheme, (int \<times> u64) option) prog" where
  "probe 0 ps fd lo hi skp a = stop NoFuel"
| "probe (Suc n) ps fd lo hi skp a =
    sqn (hprint (checking_text a lo hi))
    (bnd (sys (Pread fd 8 (ul (cdiv a ps) * 8))) (\<lambda>r.
     if rv r \<noteq> 8 then sqn (call (Close fd)) (ret None)
     else if page_present (u64_of_bytes (bytes r)) then ret (Some (a, phys_of (u64_of_bytes (bytes r)) ps a))
     else bnd (get h_addr) (\<lambda>ad. if ad \<noteq> 0 then sqn (call (Close fd)) (ret None)
       else let skp' = next_skip skp; a' = a + ps * skp' in
         if \<not> in_s32 (ps * skp') then stop (Fault Overflow)
         else sqn (hprint (skip_text skp' a'))
         (if a' < lo \<or> hi \<le> a' then sqn (call (Close fd)) (ret None)
          else probe n ps fd lo hi skp' a'))))"

definition pickaddr ::
  "nat \<Rightarrow> (int \<Rightarrow> int \<Rightarrow> int) \<Rightarrow> int \<Rightarrow> int \<Rightarrow> int \<Rightarrow> ('z hornet_scheme, (int \<times> u64) option) prog" where
  "pickaddr fuel frac pid lo hi =
    bnd (sysv (Syscall ''getpagesize'' [])) (\<lambda>ps.
    bnd (sysv (Open (pagemap_name pid) 0 0)) (\<lambda>fd. if fd = - 1 then ret None
    else bnd (get h_addr) (\<lambda>ad. bnd (if ad \<noteq> 0 then ret ad else randaddr frac lo hi) (\<lambda>a.
      if ps = 0 then stop (Fault DivByZero) else probe fuel ps fd lo hi 0 a))))"

section \<open>The main program\<close>

definition hornet_usage :: "('s, 'a) prog" where
  "hornet_usage = stop (Exit 1)"

text \<open>\<open>usecs\<close> stands for \<open>(useconds_t)(atof(arg) * 1.0e6)\<close> of a number that is not 0.\<close>

definition hornet_option :: "(string \<Rightarrow> u64 option) \<Rightarrow> char \<times> string \<Rightarrow> ('z hornet_scheme, unit) prog" where
  "hornet_option usecs = (\<lambda>(c, optarg).
     if c = CHR ''D'' then put (\<lambda>s. s\<lparr>h_delay_us := usecs optarg\<rparr>)
     else if c = CHR ''a'' then put (\<lambda>s. s\<lparr>h_addr := strtol 0 optarg\<rparr>)
     else if c = CHR ''t'' then put (\<lambda>s. s\<lparr>tflag := 1\<rparr>)
     else if c = CHR ''d'' then put (\<lambda>s. s\<lparr>dflag := 1\<rparr>)
     else if c = CHR ''b'' then put (\<lambda>s. s\<lparr>bflag := 1\<rparr>)
     else if c = CHR ''s'' then put (\<lambda>s. s\<lparr>sflag := 1\<rparr>)
     else if c = CHR ''m'' then put (\<lambda>s. s\<lparr>mflag := 1\<rparr>)
     else if c = CHR ''p'' then put (\<lambda>s. s\<lparr>pflag := 1, h_pid := atoi optarg\<rparr>)
     else if c = CHR ''P'' then put (\<lambda>s. s\<lparr>h_trace := 1, h_pid := atoi optarg\<rparr>)
     else if c = CHR ''v'' then put (\<lambda>s. s\<lparr>vflag := vflag s + 1\<rparr>)
     else hornet_usage)"

text \<open>\<open>check_ptrace\<close>: a failure makes \<open>main\<close> return \<open>errno\<close>.\<close>

definition check_ptrace ::
  "string \<Rightarrow> u64 list \<Rightarrow> (sysres \<Rightarrow> ('z io_scheme, int) prog) \<Rightarrow> ('z io_scheme, int) prog" where
  "check_ptrace req args f = bnd (sys (Syscall req args)) (\<lambda>r. if rv r = - 1 then ret (errno r) else f r)"

definition SIGSTOP :: int where "SIGSTOP = 19"
definition SIGCONT :: int where "SIGCONT = 18"
definition SIGKILL :: int where "SIGKILL = 9"

definition kill :: "int \<Rightarrow> int \<Rightarrow> sys" where
  "kill pid sig = Syscall ''kill'' [ul pid, ul sig]"

text \<open>The process is stopped, and the range to pick from found; an address in trace mode is the program counter.\<close>

definition stop_target :: "(int \<times> int \<Rightarrow> ('z hornet_scheme, int) prog) \<Rightarrow> ('z hornet_scheme, int) prog" where
  "stop_target f = bnd (get h_pid) (\<lambda>pid. bnd (get h_trace) (\<lambda>tr. if tr \<noteq> 0 then
     check_ptrace ''PTRACE_ATTACH'' [ul pid, 0, 0] (\<lambda>_.
     sqn (call (Wait pid))
     (check_ptrace ''PTRACE_GETREGS'' [ul pid, 0] (\<lambda>r. let virt = s64 (uint (u64_of_bytes (bytes r))) in
      check_ptrace ''PTRACE_PEEKTEXT'' [ul pid, ul virt, 0] (\<lambda>_.
      sqn (put (\<lambda>s. s\<lparr>h_addr := virt\<rparr>)) (f (virt, virt))))))
   else bnd (sysv (kill pid SIGSTOP)) (\<lambda>r. if r = - 1 then ret 1 else bnd (parsemaps pid) f)))"

fun wait_gone :: "nat \<Rightarrow> int \<Rightarrow> ('z io_scheme, unit) prog" where
  "wait_gone 0 pid = stop NoFuel"
| "wait_gone (Suc n) pid = bnd (sysv (kill pid 0)) (\<lambda>r.
     if r = - 1 then skip else sqn (call (Usleep 1000000)) (wait_gone n pid))"

text \<open>\<open>wait\<close> hands back the status in \<open>errno\<close>; \<open>None\<close> is never returned for another child.\<close>

fun wait_status :: "nat \<Rightarrow> int \<Rightarrow> ('z io_scheme, int) prog" where
  "wait_status 0 pid = stop NoFuel"
| "wait_status (Suc n) pid = bnd (sys (Wait (- 1))) (\<lambda>r. if rv r \<noteq> pid then wait_status n pid else ret (errno r))"

definition killed_by_sigbus :: "int \<Rightarrow> bool" where
  "killed_by_sigbus status \<longleftrightarrow> status AND 0x7f = 7"

definition hornet_end :: "u64 \<Rightarrow> int \<Rightarrow> ('z io_scheme, int) prog" where
  "hornet_end phys r = sqn (hornet_wfile ''/sys/devices/system/memory/hard_offline_page'' phys) (ret r)"

definition resume_target :: "nat \<Rightarrow> u64 \<Rightarrow> ('z hornet_scheme, int) prog" where
  "resume_target fuel phys = bnd (get (\<lambda>s. s)) (\<lambda>s. let pid = h_pid s in
     if h_trace s \<noteq> 0 then
       sqn (call (Sleep 1)) (check_ptrace ''PTRACE_DETACH'' [ul pid, 0, 0] (\<lambda>_. hornet_end phys 0))
     else bnd (sysv (kill pid SIGCONT)) (\<lambda>r. if r = - 1 then hornet_end phys 1
       else sqn (if pflag s \<noteq> 0 then wait_gone fuel pid
                 else bnd (wait_status fuel pid) (\<lambda>st. cond (killed_by_sigbus st)
                   (println (h_progname s @ '': process terminated by SIGBUS''))))
            (hornet_end phys 0)))"

definition main_hornet ::
  "nat \<Rightarrow> (string \<Rightarrow> u64 option) \<Rightarrow> (int \<Rightarrow> int \<Rightarrow> int) \<Rightarrow> string \<Rightarrow> (char \<times> string) list \<Rightarrow> string list
     \<Rightarrow> ('z hornet_scheme, int) prog" where
  "main_hornet fuel usecs frac argv0 opts args =
    sqn (put (\<lambda>s. s\<lparr>h_progname := argv0\<rparr>))
    (sqn (for_each opts (hornet_option usecs))
    (sqn (hornet_wfile EINJ_ETYPE 0x10)
    (sqn (hornet_wfile EINJ_MASK (- 1))
    (sqn (hornet_wfile EINJ_NOTRIGGER 1)
    (bnd (get (\<lambda>s. s)) (\<lambda>s.
     sqn (if pflag s = 0 \<and> h_trace s = 0
          then bnd (startproc args) (\<lambda>pid. put (\<lambda>s. s\<lparr>h_pid := pid\<rparr>)) else skip)
     (sqn (case h_delay_us s of None \<Rightarrow> skip | Some us \<Rightarrow> call (Usleep us))
     (stop_target (\<lambda>(lo, hi). bnd (get h_pid) (\<lambda>pid.
       bnd (pickaddr fuel frac pid lo hi) (\<lambda>r. case r of
         None \<Rightarrow> sqn (call (kill pid SIGKILL)) (ret 1)
       | Some (virt, phys) \<Rightarrow>
           sqn (hornet_wfile EINJ_ADDR phys)
           (sqn (hornet_wfile EINJ_DOIT 1)
           (sqn (cond (vflag s \<noteq> 0) (println (argv0 @ '': injected UC error at virt='' @ show_hex (ul virt) @
                  '' phys='' @ show_hex phys @ '' to pid='' @ show_int pid @ (if h_trace s = 1 then ''(ptrace)'' else []))))
           (resume_target fuel phys))))))))))))))"

section \<open>The search for a present page ends\<close>

text \<open>The offset, in pages, and the step after \<open>n\<close> moves: 0, 1, -1, 2, -2, ...\<close>

definition zigzag :: "nat \<Rightarrow> int" where
  "zigzag n = (if even n then - int (n div 2) else int (n div 2) + 1)"

definition zig_step :: "nat \<Rightarrow> int" where
  "zig_step n = (if even n then - int n else int n)"

lemma next_skip_step: "next_skip (zig_step n) = zig_step (Suc n)"
  by (auto simp: next_skip_def zig_step_def)

lemma zigzag_Suc: "zigzag (Suc n) = zigzag n + zig_step (Suc n)"
proof (cases "even n")
  case True
  then have "int n = 2 * int (n div 2)" by (metis dvd_mult_div_cancel of_nat_mult of_nat_numeral)
  with True show ?thesis by (simp add: zigzag_def zig_step_def)
next
  case False
  then have "n = 2 * (n div 2) + 1" by presburger
  then have "int n = 2 * int (n div 2) + 1" by presburger
  with False show ?thesis by (simp add: zigzag_def zig_step_def)
qed

lemma zigzag_far: "int (n div 2) \<le> \<bar>zigzag n\<bar>"
  by (simp add: zigzag_def)

text \<open>Far enough away the address is out of the range.\<close>

lemma zigzag_leaves:
  assumes "0 < ps" "lo \<le> a" "a < hi" "lo \<le> a + ps * zigzag n" "a + ps * zigzag n < hi"
  shows "int n \<le> 2 * ((hi - lo) div ps) + 1"
proof -
  have "ps * \<bar>zigzag n\<bar> = \<bar>ps * zigzag n\<bar>" using assms(1) by (simp add: abs_mult)
  also have "\<dots> < hi - lo" using assms by linarith
  finally have "ps * \<bar>zigzag n\<bar> \<le> hi - lo" by simp
  then have "\<bar>zigzag n\<bar> \<le> (hi - lo) div ps"
    using assms(1) zdiv_mono1 [of "ps * \<bar>zigzag n\<bar>" "hi - lo" ps] by simp
  with zigzag_far [of n] have "int (n div 2) \<le> (hi - lo) div ps" by simp
  moreover have "int n \<le> 2 * int (n div 2) + 1" by linarith
  ultimately show ?thesis by linarith
qed

text \<open>A page found: present in the pagemap when it was looked at, with its physical address.\<close>

definition found_page :: "kernel \<Rightarrow> int \<Rightarrow> int \<Rightarrow> int \<Rightarrow> u64 \<Rightarrow> bool" where
  "found_page k fd ps v phys \<longleftrightarrow> (\<exists>h. let r = k h (Pread fd 8 (ul (cdiv v ps) * 8)); e = u64_of_bytes (bytes r) in
     rv r = 8 \<and> page_present e \<and> phys = phys_of e ps v)"

lemma hprint_eval: "\<exists>h. hprint t k s = (Val (), s\<lparr>trace := h\<rparr>)"
  by (cases "vflag s = 0") (auto simp: hprint_def println_def prog_simps intro: exI [of _ "trace s"])

definition good_pick :: "kernel \<Rightarrow> int \<Rightarrow> int \<Rightarrow> int \<Rightarrow> int \<Rightarrow> int \<Rightarrow> (int \<times> u64) option \<Rightarrow> bool" where
  "good_pick k fd ps lo hi a r \<longleftrightarrow> (\<forall>v phys. r = Some (v, phys) \<longrightarrow>
     lo \<le> v \<and> v < hi \<and> (\<exists>m. v = a + ps * zigzag m) \<and> found_page k fd ps v phys)"

text \<open>The step that would overflow is reached only in ranges of about a gigabyte or more.\<close>

lemma zig_step_small:
  assumes "0 < ps" "int n \<le> 2 * ((hi - lo) div ps) + 1" "\<not> in_s32 (ps * zig_step (Suc n))"
  shows "2 ^ 31 \<le> 2 * (hi - lo) + 2 * ps"
proof -
  have "\<bar>ps * zig_step (Suc n)\<bar> = ps * (int n + 1)"
    using assms(1) by (simp add: abs_mult zig_step_def)
  also have "\<dots> \<le> ps * (2 * ((hi - lo) div ps) + 2)" using assms(1,2) by (intro mult_left_mono) simp_all
  also have "\<dots> = 2 * (ps * ((hi - lo) div ps)) + 2 * ps" by (simp add: distrib_left)
  also have "\<dots> \<le> 2 * (hi - lo) + 2 * ps"
    using pos_mod_sign [OF assms(1), of "hi - lo"] by (simp add: minus_mod_eq_mult_div [symmetric])
  finally show ?thesis using assms(3) by (auto simp: in_s32_def)
qed

lemma probe_from:
  fixes s :: "'z hornet_scheme"
  assumes "0 < ps" "lo \<le> a" "a < hi" "h_addr s = 0"
    "lo \<le> a + ps * zigzag n" "a + ps * zigzag n < hi" "2 * ((hi - lo) div ps) + 2 \<le> int (n + fuel)"
  shows "let p = fst (probe fuel ps fd lo hi (zig_step n) (a + ps * zigzag n) k s) in
    p = Fault Overflow \<and> 2 ^ 31 \<le> 2 * (hi - lo) + 2 * ps \<or> (\<exists>r. p = Val r \<and> good_pick k fd ps lo hi a r)"
  using assms(4-)
proof (induction fuel arbitrary: n s)
  case 0
  with zigzag_leaves [OF assms(1-3) 0(2,3)] show ?case by simp
next
  case (Suc fuel)
  define v where "v = a + ps * zigzag n"
  define v' where "v' = a + ps * zigzag (Suc n)"
  have step: "v + ps * zig_step (Suc n) = v'"
    by (simp add: v_def v'_def zigzag_Suc distrib_left)
  obtain h where m: "hprint (checking_text v lo hi) k s = (Val (), s\<lparr>trace := h\<rparr>)"
    using hprint_eval by blast
  let ?c = "Pread fd 8 (ul (cdiv v ps) * 8)"
  define r where "r = k h ?c"
  obtain h' where m': "hprint (skip_text (zig_step (Suc n)) v') k (s\<lparr>trace := h @ [?c]\<rparr>) = (Val (), s\<lparr>trace := h'\<rparr>)"
    using hprint_eval [where k = k and s = "s\<lparr>trace := h @ [?c]\<rparr>"] by auto
  have p: "probe (Suc fuel) ps fd lo hi (zig_step n) v k s =
    (if rv r \<noteq> 8 then (Val None, s\<lparr>trace := h @ [?c, Close fd]\<rparr>)
     else if page_present (u64_of_bytes (bytes r))
       then (Val (Some (v, phys_of (u64_of_bytes (bytes r)) ps v)), s\<lparr>trace := h @ [?c]\<rparr>)
     else if \<not> in_s32 (ps * zig_step (Suc n)) then (Fault Overflow, s\<lparr>trace := h @ [?c]\<rparr>)
     else if v' < lo \<or> hi \<le> v' then (Val None, s\<lparr>trace := h' @ [Close fd]\<rparr>)
     else probe fuel ps fd lo hi (zig_step (Suc n)) v' k (s\<lparr>trace := h'\<rparr>))"
    using Suc.prems(1) m' by (simp add: prog_simps m Let_def step r_def [symmetric] next_skip_step)
  have f: "found_page k fd ps v (phys_of (u64_of_bytes (bytes r)) ps v)" if "rv r = 8" "page_present (u64_of_bytes (bytes r))"
    using that unfolding found_page_def Let_def r_def by blast
  let ?p = "fst (probe fuel ps fd lo hi (zig_step (Suc n)) v' k (s\<lparr>trace := h'\<rparr>))"
  have IH: "?p = Fault Overflow \<and> 2 ^ 31 \<le> 2 * (hi - lo) + 2 * ps \<or> (\<exists>r. ?p = Val r \<and> good_pick k fd ps lo hi a r)"
    if "lo \<le> v'" "v' < hi"
    using Suc.IH [of "s\<lparr>trace := h'\<rparr>" "Suc n"] that Suc.prems by (simp add: v'_def Let_def)
  have "2 ^ 31 \<le> 2 * (hi - lo) + 2 * ps" if "\<not> in_s32 (ps * zig_step (Suc n))"
    using zig_step_small [OF assms(1) zigzag_leaves [OF assms(1-3) Suc.prems(2,3)] that] .
  then show ?case
    using Suc.prems(2,3) f IH unfolding v_def [symmetric] p by (auto simp: v_def good_pick_def Let_def)
qed

text \<open>C19: the search of \<open>pickaddr\<close> for a page that is present always ends: from an address inside the range
  it looks at the pages 0, 1, -1, 2, -2, ... away, at most about twice as many as the range has pages;
  an address it returns lies in the range, was present when it was looked at, and comes with the
  physical address that the pagemap gave.  Only in a range of about a gigabyte or more can the search be
  cut short by the overflow of the product of page size and distance, an \<open>int\<close>.\<close>

theorem pickaddr_search_ends:
  fixes s :: "'z hornet_scheme"
  assumes "0 < ps" "lo \<le> a" "a < hi" "h_addr s = 0" "2 * nat ((hi - lo) div ps) + 2 \<le> fuel"
  shows "(2 * (hi - lo) + 2 * ps < 2 ^ 31 \<longrightarrow> fst (probe fuel ps fd lo hi 0 a k s) \<noteq> Fault Overflow)
    \<and> (fst (probe fuel ps fd lo hi 0 a k s) = Fault Overflow
      \<or> (\<exists>r. fst (probe fuel ps fd lo hi 0 a k s) = Val r
          \<and> (\<forall>v phys. r = Some (v, phys) \<longrightarrow> lo \<le> v \<and> v < hi \<and> (\<exists>m. v = a + ps * zigzag m) \<and> found_page k fd ps v phys)))"
proof -
  have "0 \<le> (hi - lo) div ps" using assms(1-3) by (simp add: pos_imp_zdiv_nonneg_iff)
  then have "2 * ((hi - lo) div ps) + 2 \<le> int (0 + fuel)" using assms(5) by linarith
  moreover have "zigzag 0 = 0" "zig_step 0 = 0" by (simp_all add: zigzag_def zig_step_def)
  ultimately show ?thesis
    using probe_from [OF assms(1-4), of 0 fuel fd k] assms(2,3) unfolding good_pick_def Let_def by auto
qed

definition two_pages :: kernel where
  "two_pages h c = ok\<lparr>rv := 8, bytes := [CHR 0x05, CHR 0x00, CHR 0x00, CHR 0x00, CHR 0x00, CHR 0x00, CHR 0x00,
     (if c = Pread 3 8 16 then CHR 0x80 else CHR 0x00)]\<rparr>"

theorem pickaddr_search_ends_witness:
  "\<exists>r. fst (probe 6 4096 3 4096 12288 0 4096 two_pages hornet0) = Val r
    \<and> (\<forall>v phys. r = Some (v, phys) \<longrightarrow> 4096 \<le> v \<and> v < 12288 \<and> found_page two_pages 3 4096 v phys)"
proof -
  have "(0::int) < 4096" "(4096::int) \<le> 4096" "(4096::int) < 12288" "h_addr hornet0 = 0"
    "2 * nat ((12288 - 4096) div 4096) + 2 \<le> (6 :: nat)"
    by (simp_all add: hornet0_def)
  from pickaddr_search_ends [OF this, of 3 two_pages] show ?thesis by (auto simp del: probe.simps)
qed

end
