(* ===== verification/Lmce.thy ===== *)
theory Lmce
  imports Hornet
begin

text \<open>
  \<open>lib/ras-tools/lmce.c\<close>: two threads on chosen processors consume injected errors.  The masks
  of sibling processors are read from sysfs; the processors are picked on one core, on one
  socket, or on different sockets.
\<close>

record lmce = vt +
  l_pagesize :: int
  l_vaddr :: "addr list"
  l_ncpus :: int
  l_nmasks :: int
  l_ready :: bool

definition EINJ_TABLE :: string where "EINJ_TABLE = ''/sys/firmware/acpi/tables/EINJ''"

text \<open>A file that cannot be opened is reported but not noticed by the callers.\<close>

definition write_file :: "string \<Rightarrow> u64 \<Rightarrow> ('z io_scheme, int) prog" where
  "write_file path val = bnd (sysv (Fopen path ''w'')) (\<lambda>fp. if fp = 0 then ret (- 1)
     else sqn (call (Fputs (''0x'' @ show_hex val @ eol))) (sqn (call Fclose) (ret 0)))"

definition check_einj_available :: "('z io_scheme, unit) prog" where
  "check_einj_available = bnd (sysv (Access EINJ_TABLE 4)) (\<lambda>r. if r = - 1 then stop (Exit 1)
     else bnd (sysv (Access EINJ_ETYPE_AVAILABLE 4)) (\<lambda>r. if r = - 1 then stop (Exit 1) else skip))"

definition do_inject :: "u64 \<Rightarrow> ('z io_scheme, unit) prog" where
  "do_inject addr = for_each [(EINJ_ETYPE, 0x10), (EINJ_ADDR, addr), (EINJ_MASK, 0xfffffffffffff000),
     (EINJ_NOTRIGGER, 1), (EINJ_DOIT, 1)] (\<lambda>(path, val). bnd (write_file path val) (\<lambda>_. skip))"

section \<open>Masks of processors\<close>

text \<open>The position after the \<open>n\<close>-th comma.\<close>

fun skip_commas :: "nat \<Rightarrow> string \<Rightarrow> string" where
  "skip_commas 0 s = s"
| "skip_commas (Suc n) s = skip_commas n (drop 1 (dropWhile (\<lambda>c. c \<noteq> CHR '','') s))"

lemma scan_num_shorter: "scan_num b s = Some (v, r) \<Longrightarrow> length r < length s"
  by (auto simp: scan_num_def split: prod.splits if_splits dest: strto_shorter)

text \<open>\<open>while (fscanf(fp, "%x,", &bits) == 1)\<close>.\<close>

function scan_masks :: "string \<Rightarrow> 32 word list" where
  "scan_masks s = (case scan_num 16 s of None \<Rightarrow> []
     | Some (v, r) \<Rightarrow> word_of_int v # scan_masks (if take 1 r = '','' then drop 1 r else r))"
  by pat_completeness auto
termination
  by (relation "measure length") (auto dest: scan_num_shorter)

declare scan_masks.simps [simp del]

text \<open>The last number of the file is element 0.  Only as many numbers as the array has are read.\<close>

definition cpu_mask_of :: "nat \<Rightarrow> string \<Rightarrow> 32 word list outcome option" where
  "cpu_mask_of n text =
    (let commas = length (filter (\<lambda>c. c = CHR '','') text); vs = scan_masks (skip_commas (commas + 1 - n) text) in
     if n < length vs then Some (Fault OutOfBounds)
     else if length vs < n then None
     else Some (Val (rev vs)))"

text \<open>The mask is returned with its address, which the caller frees.\<close>

definition get_cpu_mask :: "int \<Rightarrow> string \<Rightarrow> ('z lmce_scheme, (addr \<times> 32 word list) option) prog" where
  "get_cpu_mask cpu type = bnd (get l_nmasks) (\<lambda>n.
     bnd (sysv (Malloc (ul (4 * n)))) (\<lambda>p. if p = 0 then ret None
     else bnd (sys (Fopen (''/sys/devices/system/cpu/cpu'' @ show_int cpu @ ''/topology/'' @ type) ''r'')) (\<lambda>r.
       if rv r = 0 then ret None
       else case cpu_mask_of (nat n) (bytes r) of
         None \<Rightarrow> sqn (call Fclose) (sqn (call (Free (ul p))) (ret None))
       | Some m \<Rightarrow> bnd (stop m) (\<lambda>ws. sqn (call Fclose) (ret (Some (ul p, ws)))))))"

definition cpu_bit :: "32 word list \<Rightarrow> nat \<Rightarrow> bool" where
  "cpu_bit ws i \<longleftrightarrow> bit (ws ! (i div 32)) (i mod 32)"

section \<open>Picking processors\<close>

definition same_core :: "32 word list \<Rightarrow> nat \<Rightarrow> int \<Rightarrow> nat option" where
  "same_core ws n first_cpu = List.find (\<lambda>i. cpu_bit ws i \<and> int i \<noteq> first_cpu) [0..<n]"

text \<open>A search that fails ends the program, after the masks are freed.\<close>

definition picked :: "int \<Rightarrow> nat option \<Rightarrow> addr list \<Rightarrow> ('z io_scheme, int \<times> int) prog" where
  "picked first_cpu found masks = sqn (for_each masks (\<lambda>m. call (Free m)))
     (case found of None \<Rightarrow> stop (Exit 1) | Some i \<Rightarrow> ret (first_cpu, int i))"

definition pick_same_core_cpu :: "int \<Rightarrow> ('z lmce_scheme, int \<times> int) prog" where
  "pick_same_core_cpu first_cpu = bnd (get_cpu_mask first_cpu ''thread_siblings'') (\<lambda>m. case m of
     None \<Rightarrow> stop (Exit 1)
   | Some (p, ws) \<Rightarrow> bnd (get l_ncpus) (\<lambda>n. picked first_cpu (same_core ws (nat n) first_cpu) [p]))"

definition same_socket :: "32 word list \<Rightarrow> 32 word list \<Rightarrow> nat \<Rightarrow> nat option" where
  "same_socket cs ts n = List.find (\<lambda>i. bit ((cs ! (i div 32)) XOR (ts ! (i div 32))) (i mod 32)) [0..<n]"

definition pick_same_socket_cpu :: "int \<Rightarrow> ('z lmce_scheme, int \<times> int) prog" where
  "pick_same_socket_cpu first_cpu = bnd (get_cpu_mask first_cpu ''core_siblings'') (\<lambda>m. case m of
     None \<Rightarrow> stop (Exit 1)
   | Some (p, cs) \<Rightarrow> bnd (get_cpu_mask first_cpu ''thread_siblings'') (\<lambda>m. case m of
       None \<Rightarrow> sqn (call (Free p)) (stop (Exit 1))
     | Some (q, ts) \<Rightarrow> bnd (get l_ncpus) (\<lambda>n. picked first_cpu (same_socket cs ts (nat n)) [p, q])))"

definition other_sockets :: "32 word list \<Rightarrow> nat \<Rightarrow> nat list" where
  "other_sockets ws n = filter (\<lambda>i. bit (NOT (ws ! (i div 32))) (i mod 32)) [0..<n]"

definition pick_other :: "int \<Rightarrow> nat \<Rightarrow> addr \<Rightarrow> (addr \<times> 32 word list) option \<Rightarrow> ('z io_scheme, int \<times> int) prog" where
  "pick_other first_cpu n b m = (case m of
     None \<Rightarrow> stop (Exit 1)
   | Some (p, ws) \<Rightarrow> let buf = other_sockets ws n in
       if buf = [] then picked first_cpu None [b, p]
       else bnd (sysv Random) (\<lambda>r. picked first_cpu (Some (buf ! nat (crem r (int (length buf))))) [b, p]))"

definition pick_diff_socket_cpu :: "int \<Rightarrow> ('z lmce_scheme, int \<times> int) prog" where
  "pick_diff_socket_cpu first_cpu = bnd (get l_ncpus) (\<lambda>n.
     bnd (sysv (Malloc (ul (4 * n)))) (\<lambda>b. if b = 0 then stop (Exit 1)
     else sqn (call (Memset (ul b) (CHR 0x00) (ul (4 * n))))
       (bnd (get_cpu_mask first_cpu ''core_siblings'') (pick_other first_cpu (nat n) (ul b)))))"

definition pick_cpu :: "int \<Rightarrow> ('z lmce_scheme, int \<times> int) prog" where
  "pick_cpu core_choice = bnd (get l_ncpus) (\<lambda>n. bnd (sysv Random) (\<lambda>r. let first_cpu = crem r n in
     bnd (if core_choice = 1 then bnd (pick_same_core_cpu first_cpu) (\<lambda>c. sqn (call (Stdout ''Run on same core CPUs:'')) (ret c))
          else if core_choice = 2 then bnd (pick_same_socket_cpu first_cpu) (\<lambda>c. sqn (call (Stdout ''Run on same socket CPUs:'')) (ret c))
          else bnd (pick_diff_socket_cpu first_cpu) (\<lambda>c. sqn (call (Stdout ''Run on different socket CPUs:'')) (ret c))) (\<lambda>c.
     sqn (println ('' cpu0 = '' @ show_int (fst c) @ '', cpu1 = '' @ show_int (snd c))) (ret c))))"

section \<open>The threads\<close>

text \<open>
  The handler returns, and the access is tried again, unless the address is one that was
  injected.
\<close>

definition sig_handler :: "addr list \<Rightarrow> addr \<Rightarrow> ('z io_scheme, bool) prog" where
  "sig_handler vaddr si_addr = (if si_addr \<noteq> 0 \<and> si_addr \<in> set vaddr
     then sqn (println (''received signal 7, addr '' @ show_ptr si_addr)) (ret True)
     else sqn (println (''The address('' @ show_ptr si_addr @ '') in signal is not we wanted'')) (ret False))"

text \<open>\<open>Done\<close> is the value read or computed, \<open>Jumped\<close> the way out through the handler.\<close>

fun consume :: "nat \<Rightarrow> addr list \<Rightarrow> int \<Rightarrow> addr \<Rightarrow> ('z io_scheme, int jmp) prog" where
  "consume 0 vaddr ac_type addr = stop NoFuel"
| "consume (Suc n) vaddr ac_type addr =
    bnd (sys (if ac_type = 0 then Load addr else Syscall ''call'' [addr])) (\<lambda>r.
    if errno r = 0 then ret (Done (rv r))
    else bnd (sig_handler vaddr addr) (\<lambda>ours. if ours then ret Jumped else consume n vaddr ac_type addr))"

fun spin_ready :: "nat \<Rightarrow> ('z io_scheme, unit) prog" where
  "spin_ready 0 = stop NoFuel"
| "spin_ready (Suc n) = bnd (sysv Poll) (\<lambda>r. if r = 0 then spin_ready n else skip)"

text \<open>A thread that gets its value says so and that it failed: no error was consumed.\<close>

definition thread_func :: "nat \<Rightarrow> addr list \<Rightarrow> int \<times> int \<times> addr \<times> string \<Rightarrow> ('z io_scheme, unit) prog" where
  "thread_func fuel vaddr = (\<lambda>(ac_type, cpu, addr, name).
     bnd (sysv (SetAffinity cpu)) (\<lambda>r. if r = - 1 then skip
     else sqn (spin_ready fuel) (bnd (consume fuel vaddr ac_type addr) (\<lambda>r. case r of
       Done v \<Rightarrow> sqn (println (show_hex (take_bit 32 (ul v)))) (println (name @ '': failed''))
     | Jumped \<Rightarrow> println (name @ '': recovered'')))))"

definition test_func :: int where
  "test_func = foldl (\<lambda>r i. r + int i) 0 [0..<1000]"

section \<open>The main program\<close>

definition lmce_usage :: "('s, 'a) prog" where
  "lmce_usage = stop (Exit 1)"

definition access_type :: "((int \<times> int) \<times> string \<times> string) list" where
  "access_type =
    [((1, 1), ''INSTR/INSTR'', ''Instruction Fetch/Instruction Fetch''),
     ((1, 0), ''INSTR/DATA'', ''Instruction Fetch/Data Access''),
     ((0, 0), ''DATA/DATA'', ''Data Access/Data Access'')]"

fun find_access :: "string \<Rightarrow> ((int \<times> int) \<times> string \<times> string) list \<Rightarrow> nat option" where
  "find_access s [] = None"
| "find_access s ((v, k, t) # as) = (if strstr s k then Some 0 else map_option Suc (find_access s as))"

definition lmce_option :: "char \<times> string \<Rightarrow> bool \<times> int \<times> nat \<Rightarrow> (bool \<times> int \<times> nat) outcome" where
  "lmce_option = (\<lambda>(c, optarg) (same_addr, core_choice, idx).
     if c = CHR ''a'' then Val (True, core_choice, idx)
     else if c = CHR ''c'' then (let n = atoi optarg in if n < 1 \<or> 3 < n then Exit 1 else Val (same_addr, n, idx))
     else if c = CHR ''t'' then (case find_access optarg access_type of
       None \<Rightarrow> Exit 1 | Some i \<Rightarrow> Val (same_addr, core_choice, i))
     else Exit 1)"

fun lmce_options :: "(char \<times> string) list \<Rightarrow> bool \<times> int \<times> nat \<Rightarrow> (bool \<times> int \<times> nat) outcome" where
  "lmce_options [] st = Val st"
| "lmce_options (o1 # os) st = (case lmce_option o1 st of Val st' \<Rightarrow> lmce_options os st' | r \<Rightarrow> r)"

text \<open>
  One target: a page with a copy of \<open>test_func\<close>, whose address the linker chose.
  \<open>None\<close> is the return of 1, which the address 0 causes; the all-ones of a page that
  is not present is not noticed.
\<close>

definition prepare_target :: "int \<Rightarrow> ('z lmce_scheme, addr option) prog" where
  "prepare_target pid = bnd (get l_pagesize) (\<lambda>ps.
     bnd (sysv (Mmap 0 (ul ps) 7 (0x2 OR 0x20 OR 0x8000) (- 1) 0)) (\<lambda>p. if ul p = - 1 then stop (Exit 1)
     else bnd (sysv (Syscall ''address_of_test_func'' [])) (\<lambda>f.
       sqn (call (Memcpy (ul p) (ul f) (ul ps)))
       (sqn (put (\<lambda>s. s\<lparr>l_vaddr := l_vaddr s @ [ul p]\<rparr>))
       (bnd (vtop (ul p) pid) (\<lambda>paddr. if paddr = 0 then ret None
        else sqn (println (''Inject memory error at physical address 0x'' @ show_hex paddr @ ''(virt 0x'' @ show_hex (ul p) @ '')''))
          (sqn (do_inject paddr) (sqn (call (Sleep 1)) (ret (Some (ul p)))))))))))"

definition prepare_targets :: "int \<Rightarrow> bool \<Rightarrow> ('z lmce_scheme, addr list option) prog" where
  "prepare_targets pid same_addr = bnd (prepare_target pid) (\<lambda>a. case a of
     None \<Rightarrow> ret None
   | Some v0 \<Rightarrow> if same_addr then ret (Some [v0, v0])
       else bnd (prepare_target pid) (\<lambda>b. case b of None \<Rightarrow> ret None | Some v1 \<Rightarrow> ret (Some [v0, v1])))"

text \<open>
  Two threads are created with their arguments and joined, thread \<open>i\<close> named by its index;
  what they do is \<open>thread_func\<close>.  They wait until \<open>ready\<close> is set.
\<close>

definition start_thread :: "nat \<Rightarrow> addr list \<Rightarrow> int \<times> int \<Rightarrow> int \<times> int \<Rightarrow> ('z io_scheme, int) prog" where
  "start_thread i targets cpus types = sysv (Syscall ''pthread_create'' [of_nat i, targets ! i,
     ul (if i = 0 then fst types else snd types), ul (if i = 0 then fst cpus else snd cpus)])"

definition run_threads :: "addr list \<Rightarrow> int \<times> int \<Rightarrow> int \<times> int \<Rightarrow> ('z lmce_scheme, int) prog" where
  "run_threads targets cpus types =
    bnd (start_thread 0 targets cpus types) (\<lambda>r. if r \<noteq> 0 then ret 1
    else bnd (start_thread 1 targets cpus types) (\<lambda>r. if r \<noteq> 0 then ret 1
    else sqn (call (Sleep 1)) (sqn (put (\<lambda>s. s\<lparr>l_ready := True\<rparr>))
     (sqn (for_each [0, 1] (\<lambda>i. call (Syscall ''pthread_join'' [i])))
     (bnd (get l_vaddr) (\<lambda>vs. bnd (get l_pagesize) (\<lambda>ps.
      sqn (for_each vs (\<lambda>v. call (Munmap v (ul ps)))) (ret 0))))))))"

definition main_lmce :: "(char \<times> string) list \<Rightarrow> ('z lmce_scheme, int) prog" where
  "main_lmce opts =
    bnd (sysv Getpid) (\<lambda>pid0. bnd (sysv (Syscall ''time'' [0])) (\<lambda>t.
    sqn (call (Syscall ''srandom'' [take_bit 32 (ul (pid0 * t))]))
    (bnd (sysv Getuid) (\<lambda>uid. if uid \<noteq> 0 then sqn (println ''Must be run as root'') (ret 0)
     else bnd (stop (lmce_options opts (False, 3, 1))) (\<lambda>(same_addr, core_choice, idx).
     sqn check_einj_available
     (bnd (sysv (Sysconf 83)) (\<lambda>n.
      sqn (put (\<lambda>s. s\<lparr>l_ncpus := s32 n, l_nmasks := cdiv (s32 n + 31) 32\<rparr>))
      (if s32 n \<le> 1 then ret 1
       else bnd (sysv (Sysconf 30)) (\<lambda>ps.
         sqn (put (\<lambda>s. s\<lparr>l_pagesize := ps\<rparr>))
         (bnd (pick_cpu core_choice) (\<lambda>cpus.
         sqn (call (Sigaction 7 1))
         (bnd (sysv Getpid) (\<lambda>pid.
         bnd (prepare_targets pid same_addr) (\<lambda>targets. case targets of
           None \<Rightarrow> ret 1
         | Some vs \<Rightarrow>
             sqn (println (''Access type: '' @ snd (snd (access_type ! idx))))
             (run_threads vs cpus (fst (access_type ! idx)))))))))))))))))"

end
