(* ===== verification/LmceLaws.thy ===== *)
theory LmceLaws
  imports Lmce ProcLaws
begin

text \<open>
  What \<open>lmce.c\<close> reads and chooses: the masks of processors as the kernel prints them are read
  back word by word, and the processors picked exist and are related as asked for.
\<close>

section \<open>Masks are read back\<close>

text \<open>A word as \<open>%08x\<close> prints it, and a mask as sysfs shows it, the highest word first.  Every
  word has eight digits, as it has when the number of processors is a multiple of 32.\<close>

definition hex_places :: "nat \<Rightarrow> nat \<Rightarrow> string" where
  "hex_places m n = map (\<lambda>i. digit_char (n div 16 ^ i mod 16)) (rev [0..<m])"

definition hex8 :: "32 word \<Rightarrow> string" where
  "hex8 w = hex_places 8 (unat w)"

fun mask_line :: "32 word list \<Rightarrow> string" where
  "mask_line [] = eol"
| "mask_line [w] = hex8 w @ eol"
| "mask_line (w # ws) = hex8 w @ '','' @ mask_line ws"

definition mask_text :: "32 word list \<Rightarrow> string" where
  "mask_text ws = mask_line (rev ws)"

lemma hex_not_special:
  assumes "digit_val c < 16"
  shows "\<not> isspace c" "c \<noteq> CHR ''-''" "c \<noteq> CHR ''+''" "c \<noteq> CHR ''x''" "c \<noteq> CHR ''X''" "c \<noteq> CHR '',''"
  using assms by (auto simp: digit_val_def isspace_def)

lemma hex_places_Suc: "hex_places (Suc m) n = digit_char (n div 16 ^ m mod 16) # hex_places m n"
  by (simp add: hex_places_def)

lemma hex8_digits: "c \<in> set (hex8 w) \<Longrightarrow> digit_val c < 16"
  by (auto simp: hex8_def hex_places_def digit_val_char)

lemma hex8_ConsCons: "\<exists>c d cs. hex8 w = c # d # cs \<and> digit_val c < 16 \<and> digit_val d < 16"
proof -
  have "hex8 w = hex_places (Suc (Suc 6)) (unat w)" by (simp add: hex8_def)
  then show ?thesis by (simp only: hex_places_Suc) (simp add: digit_val_char)
qed

lemma digits_hex_places:
  "digits 16 acc (hex_places m n @ rest) = digits 16 (acc * 16 ^ m + n mod 16 ^ m) rest"
proof (induction m arbitrary: acc)
  case 0
  then show ?case by (simp add: hex_places_def)
next
  case (Suc m)
  have "n mod 16 ^ Suc m = 16 ^ m * (n div 16 ^ m mod 16) + n mod 16 ^ m"
    using mod_mult2_eq [of n "16 ^ m" 16] by (simp add: mult.commute)
  then show ?case
    by (simp add: hex_places_Suc digit_val_char Suc.IH algebra_simps)
qed

definition mask_ends :: "string \<Rightarrow> bool" where
  "mask_ends rest \<longleftrightarrow> rest = [] \<or> digit_val (hd rest) = 99"

lemma mask_ends_simps [simp]: "mask_ends (CHR '','' # xs)" "mask_ends eol"
  by (simp_all add: mask_ends_def eol_def digit_val_def)

lemma scan_hex8:
  assumes "mask_ends rest"
  shows "scan_num 16 (hex8 w @ rest) = Some (uint w, rest)"
proof -
  obtain c d cs where h: "hex8 w = c # d # cs" "digit_val c < 16" "digit_val d < 16"
    using hex8_ConsCons by blast
  note n = hex_not_special [OF h(2)] hex_not_special [OF h(3)]
  have stop: "digits 16 a rest = (a, rest)" for a
    using assms by (cases rest) (simp_all add: mask_ends_def)
  have "unat w < 2 ^ LENGTH(32)" by (rule unsigned_less)
  then have "unat w < 16 ^ 8" by simp
  then have d: "digits 16 0 (hex8 w @ rest) = (unat w, rest)"
    using digits_hex_places [of 0 8 "unat w" rest] by (simp add: hex8_def stop)
  have "strto_digits 16 (hex8 w @ rest) = Some (unat w, rest)"
    using d h n by (simp add: strto_digits_def Let_def)
  then have "strto 16 (hex8 w @ rest) = (False, unat w, rest)"
    using h n by (simp add: strto_def Let_def)
  moreover have "rest \<noteq> hex8 w @ rest" using h(1) by simp
  ultimately show ?thesis by (simp add: scan_num_def)
qed

lemma scan_num_eol: "scan_num 16 eol = None"
  by (simp add: scan_num_def strto_def strto_digits_def eol_def isspace_def)

lemma scan_mask_line: "scan_masks (mask_line ws) = ws"
proof (induction ws rule: mask_line.induct)
  case 1
  then show ?case by (subst scan_masks.simps) (simp add: scan_num_eol)
next
  case (2 w)
  have "scan_masks eol = []" by (subst scan_masks.simps) (simp add: scan_num_eol)
  moreover have "take 1 eol \<noteq> '',''" by (simp add: eol_def)
  ultimately show ?case by (subst scan_masks.simps) (simp add: scan_hex8)
next
  case (3 w v vs)
  then show ?case by (subst scan_masks.simps) (simp add: scan_hex8)
qed

lemma hex8_no_comma: "CHR '','' \<notin> set (hex8 w)"
  using hex8_digits hex_not_special(6) by blast

lemma commas_mask_line: "length (filter (\<lambda>c. c = CHR '','') (mask_line ws)) = length ws - 1"
proof (induction ws rule: mask_line.induct)
  case (2 w)
  then show ?case using hex8_no_comma by (auto simp: eol_def filter_empty_conv)
next
  case (3 w v vs)
  moreover have "filter (\<lambda>c. c = CHR '','') (hex8 w) = []"
    using hex8_no_comma by (auto simp: filter_empty_conv)
  ultimately show ?case by simp
qed (simp add: eol_def)

lemma skip_mask_line: "n < length ws \<Longrightarrow> skip_commas n (mask_line ws) = mask_line (drop n ws)"
proof (induction n arbitrary: ws)
  case (Suc n)
  then obtain w v vs where ws: "ws = w # v # vs"
    by (cases ws; cases "tl ws") auto
  have "dropWhile (\<lambda>c. c \<noteq> CHR '','') (hex8 w @ CHR '','' # r) = CHR '','' # r" for r
    using hex8_no_comma by (subst dropWhile_append2) auto
  then show ?case using Suc by (simp add: ws)
qed simp

lemma cpu_mask_of_text:
  assumes "ws \<noteq> []" "0 < n"
  shows "cpu_mask_of n (mask_text ws) = (if n \<le> length ws then Some (Val (take n ws)) else None)"
proof -
  define vs where "vs = scan_masks (skip_commas (length ws - n) (mask_text ws))"
  have "length ws - n < length (rev ws)" using assms by (cases ws) auto
  then have "vs = drop (length ws - n) (rev ws)"
    unfolding vs_def mask_text_def by (simp only: skip_mask_line scan_mask_line)
  then have v: "vs = rev (take n ws)"
    by (simp add: rev_take)
  have "length (filter (\<lambda>c. c = CHR '','') (mask_text ws)) + 1 - n = length ws - n"
    using assms by (simp add: mask_text_def commas_mask_line Suc_leI)
  then have "cpu_mask_of n (mask_text ws) = (if n < length vs then Some (Fault OutOfBounds)
     else if length vs < n then None else Some (Val (rev vs)))"
    unfolding cpu_mask_of_def Let_def vs_def by (simp only:)
  then show ?thesis by (auto simp: v)
qed

text \<open>C18: the mask of siblings that \<open>get_cpu_mask\<close> takes from the text of sysfs is the one printed there.
  With at least as many words as the array has, the array gets the low words, lowest first, and
  the high words are passed over; a mask with fewer words is refused.\<close>

theorem cpu_mask_read_back:
  assumes "ws \<noteq> []" "0 < n"
  shows "cpu_mask_of n (mask_text ws) = (if n \<le> length ws then Some (Val (take n ws)) else None)"
  using assms by (rule cpu_mask_of_text)

theorem cpu_mask_read_back_witness:
  "cpu_mask_of 1 (mask_text [0xff00ff, 3]) = Some (Val [0xff00ff])"
  using cpu_mask_read_back [of "[0xff00ff, 3]" 1] by simp

section \<open>The processors picked\<close>

definition mask_given :: "kernel \<Rightarrow> int \<Rightarrow> int \<Rightarrow> string \<Rightarrow> 32 word list \<Rightarrow> bool" where
  "mask_given k n cpu type ws \<longleftrightarrow> (\<exists>h. cpu_mask_of (nat n) (bytes (k h
     (Fopen (''/sys/devices/system/cpu/cpu'' @ show_int cpu @ ''/topology/'' @ type) ''r''))) = Some (Val ws))"

text \<open>How the second processor is related to the first, by the choice of the user.\<close>

definition related :: "kernel \<Rightarrow> int \<Rightarrow> int \<Rightarrow> int \<Rightarrow> int \<Rightarrow> bool" where
  "related k n core_choice c0 c1 \<longleftrightarrow>
    (if core_choice = 1 then c1 \<noteq> c0 \<and> (\<exists>ts. mask_given k n c0 ''thread_siblings'' ts \<and> cpu_bit ts (nat c1))
     else if core_choice = 2 then \<exists>cs ts. mask_given k n c0 ''core_siblings'' cs
       \<and> mask_given k n c0 ''thread_siblings'' ts \<and> cpu_bit cs (nat c1) \<noteq> cpu_bit ts (nat c1)
     else \<exists>cs. mask_given k n c0 ''core_siblings'' cs \<and> \<not> cpu_bit cs (nat c1))"

text \<open>A mask that is read changes nothing but the trace.\<close>

lemma get_cpu_mask_result:
  fixes s :: "'z lmce_scheme"
  assumes "get_cpu_mask cpu type k s = (Val m, s')"
  shows "\<exists>h. s' = s\<lparr>trace := h\<rparr>" "m = Some (p, ws) \<Longrightarrow> mask_given k (l_nmasks s) cpu type ws"
  using assms unfolding get_cpu_mask_def mask_given_def
  by (auto simp: prog_simps split: if_splits option.splits outcome.splits)

lemma frees_eval: "\<exists>h. for_each ms (\<lambda>m. call (Free m)) k s = (Val (), s\<lparr>trace := h\<rparr>)"
proof (induction ms arbitrary: s)
  case Nil
  then show ?case by (auto simp: prog_simps intro: exI [of _ "trace s"])
next
  case (Cons m ms)
  from Cons [of "s\<lparr>trace := trace s @ [Free m]\<rparr>"] show ?case by (auto simp: prog_simps)
qed

lemma picked_result:
  assumes "picked c found ms k s = (Val (c0, c1), s')"
  shows "\<exists>i. found = Some i \<and> c0 = c \<and> c1 = int i"
  using assms frees_eval [of ms k s] by (auto simp: picked_def prog_simps split: option.splits)

lemma find_below:
  assumes "List.find P [0..<n] = Some i"
  shows "i < n" "P i"
  using assms by (auto simp: find_Some_iff)

lemma bit_xor_cpu: "bit (a XOR b) i \<longleftrightarrow> bit a i \<noteq> bit b i" for a b :: "32 word"
  by (auto simp: bit_xor_iff)

lemma same_core_result:
  fixes s :: "'z lmce_scheme"
  assumes "pick_same_core_cpu c k s = (Val (c0, c1), s')"
  shows "c0 = c \<and> 0 \<le> c1 \<and> c1 < l_ncpus s \<and> related k (l_nmasks s) 1 c0 c1"
proof -
  obtain p ws s1 where g: "get_cpu_mask c ''thread_siblings'' k s = (Val (Some (p, ws)), s1)"
    and f: "picked c (same_core ws (nat (l_ncpus s1)) c) [p] k s1 = (Val (c0, c1), s')"
    using assms unfolding pick_same_core_cpu_def
    by (auto simp: prog_simps split: prod.splits outcome.splits option.splits)
  obtain i where "same_core ws (nat (l_ncpus s1)) c = Some i" "c0 = c" "c1 = int i"
    using picked_result [OF f] by blast
  then show ?thesis
    using get_cpu_mask_result [OF g] find_below [of _ "nat (l_ncpus s)" i]
    unfolding same_core_def related_def by fastforce
qed

lemma same_socket_result:
  fixes s :: "'z lmce_scheme"
  assumes "pick_same_socket_cpu c k s = (Val (c0, c1), s')"
  shows "c0 = c \<and> 0 \<le> c1 \<and> c1 < l_ncpus s \<and> related k (l_nmasks s) 2 c0 c1"
proof -
  obtain p cs s1 q ts s2 where g: "get_cpu_mask c ''core_siblings'' k s = (Val (Some (p, cs)), s1)"
    "get_cpu_mask c ''thread_siblings'' k s1 = (Val (Some (q, ts)), s2)"
    and f: "picked c (same_socket cs ts (nat (l_ncpus s2))) [p, q] k s2 = (Val (c0, c1), s')"
    using assms unfolding pick_same_socket_cpu_def
    by (auto simp: prog_simps split: prod.splits outcome.splits option.splits)
  obtain i where i: "same_socket cs ts (nat (l_ncpus s2)) = Some i" "c0 = c" "c1 = int i"
    using picked_result [OF f] by blast
  moreover have "l_ncpus s2 = l_ncpus s"
    "mask_given k (l_nmasks s) c ''core_siblings'' cs" "mask_given k (l_nmasks s) c ''thread_siblings'' ts"
    using get_cpu_mask_result [OF g(1)] get_cpu_mask_result [OF g(2)] by fastforce+
  moreover have "i < nat (l_ncpus s2)" "cpu_bit cs i \<noteq> cpu_bit ts i"
    using find_below [OF i(1) [unfolded same_socket_def]] by (simp_all add: cpu_bit_def bit_xor_cpu)
  ultimately show ?thesis unfolding related_def by fastforce
qed

lemma crem_range: "0 \<le> a \<Longrightarrow> 0 < b \<Longrightarrow> 0 \<le> crem a b \<and> crem a b < b"
  by (simp add: crem_nonneg)

lemma pick_other_result:
  assumes "pick_other c n b m k s = (Val (c0, c1), s')" "\<And>h. 0 \<le> rv (k h Random)"
  shows "\<exists>p ws. m = Some (p, ws) \<and> c0 = c \<and> 0 \<le> c1 \<and> c1 < int n \<and> \<not> cpu_bit ws (nat c1)"
proof -
  obtain p ws where m: "m = Some (p, ws)"
    using assms(1) by (cases m) (auto simp: pick_other_def stop_eval)
  define buf where "buf = other_sockets ws n"
  define i where "i = nat (crem (rv (k (trace s) Random)) (int (length buf)))"
  have ne: "buf \<noteq> []"
    using assms(1) picked_result [of c None "[b, p]" k s] by (auto simp: pick_other_def m buf_def)
  then have "picked c (Some (buf ! i)) [b, p] k (s\<lparr>trace := trace s @ [Random]\<rparr>) = (Val (c0, c1), s')"
    using assms(1) by (simp add: pick_other_def m buf_def i_def Let_def bnd_eval sysv_eval)
  then have c: "c0 = c" "c1 = int (buf ! i)" using picked_result by blast+
  have "i < length buf" using crem_range [OF assms(2), of "int (length buf)" "trace s"] ne
    by (simp add: i_def nat_less_iff)
  then have "buf ! i \<in> set buf" by simp
  then have "buf ! i < n" "\<not> cpu_bit ws (buf ! i)"
    by (auto simp: buf_def other_sockets_def cpu_bit_def bit_not_iff)
  with m c show ?thesis by simp
qed

lemma diff_socket_result:
  fixes s :: "'z lmce_scheme"
  assumes "pick_diff_socket_cpu c k s = (Val (c0, c1), s')" "\<And>h. 0 \<le> rv (k h Random)"
  shows "c0 = c \<and> 0 \<le> c1 \<and> c1 < l_ncpus s \<and> related k (l_nmasks s) 3 c0 c1"
proof -
  obtain h m s1 where g: "get_cpu_mask c ''core_siblings'' k (s\<lparr>trace := h\<rparr>) = (Val m, s1)"
    and f: "pick_other c (nat (l_ncpus s)) (ul (rv (k (trace s) (Malloc (ul (4 * l_ncpus s)))))) m k s1 = (Val (c0, c1), s')"
    using assms(1) unfolding pick_diff_socket_cpu_def
    by (auto simp: prog_simps split: prod.splits outcome.splits if_splits)
  from pick_other_result [OF f assms(2)] obtain p ws where "m = Some (p, ws)" "c0 = c"
      "0 \<le> c1" "c1 < l_ncpus s" "\<not> cpu_bit ws (nat c1)" by (auto split: if_splits)
  with get_cpu_mask_result(2) [OF g, of p ws] show ?thesis unfolding related_def by fastforce
qed

text \<open>C21: the processors that \<open>pick_cpu\<close> picks exist, and the second is related to the first as the user chose:
  another thread of the same core, a processor that only one of the masks of the socket and of the
  core has, or one that the mask of the socket does not have.\<close>

theorem pick_cpu_related:
  fixes s :: "'z lmce_scheme"
  assumes "0 < l_ncpus s" "\<And>h. 0 \<le> rv (k h Random)"
    and "fst (pick_cpu core_choice k s) = Val (c0, c1)"
  shows "0 \<le> c0 \<and> c0 < l_ncpus s \<and> 0 \<le> c1 \<and> c1 < l_ncpus s
    \<and> related k (l_nmasks s) core_choice c0 c1"
proof -
  define s0 where "s0 = s\<lparr>trace := trace s @ [Random]\<rparr>"
  define c where "c = crem (rv (k (trace s) Random)) (l_ncpus s)"
  have c: "0 \<le> c" "c < l_ncpus s"
    using crem_range [OF assms(2) assms(1)] by (simp_all add: c_def)
  define pick where "pick = (if core_choice = 1 then pick_same_core_cpu
     else if core_choice = 2 then pick_same_socket_cpu else pick_diff_socket_cpu :: int \<Rightarrow> ('z lmce_scheme, int \<times> int) prog)"
  obtain s1 where "pick c k s0 = (Val (c0, c1), s1)"
    using assms(3) unfolding pick_cpu_def pick_def s0_def c_def
    by (auto simp: prog_simps println_def Let_def split: prod.splits outcome.splits if_splits)
  then have "c0 = c \<and> 0 \<le> c1 \<and> c1 < l_ncpus s0 \<and> related k (l_nmasks s0) core_choice c0 c1"
    using same_core_result [of c k s0 c0 c1 s1] same_socket_result [of c k s0 c0 c1 s1]
      diff_socket_result [of c k s0 c0 c1 s1] assms(2)
    by (auto simp: pick_def related_def split: if_splits)
  with c show ?thesis by (auto simp: s0_def)
qed

definition two_cpus :: lmce where
  "two_cpus = \<lparr>trace = [], vtop_pagesize = 0, l_pagesize = 4096, l_vaddr = [], l_ncpus = 2, l_nmasks = 1, l_ready = False\<rparr>"

text \<open>A machine with two threads on one core.\<close>

definition one_core :: kernel where
  "one_core h c = ok\<lparr>rv := 1, bytes := mask_text [3]\<rparr>"

theorem pick_cpu_related_witness:
  "fst (pick_cpu 1 one_core two_cpus) = Val (1, 0) \<and> related one_core 1 1 1 0"
proof -
  have m: "cpu_mask_of (Suc 0) (mask_text [3]) = Some (Val [3])"
    using cpu_mask_of_text [of "[3]" 1] by simp
  have "[0..<2] = [0::nat, 1]" by (simp add: upt_rec)
  then have "same_core [3] 2 1 = Some 0"
    by (simp add: same_core_def cpu_bit_def)
  moreover have "crem 1 2 = 1" by (simp add: crem_def cdiv_nonneg)
  moreover obtain s1 where "get_cpu_mask 1 ''thread_siblings'' one_core (two_cpus\<lparr>trace := [Random]\<rparr>) = (Val (Some (1, [3])), s1)"
    "l_ncpus s1 = 2"
    by (simp add: get_cpu_mask_def prog_simps one_core_def two_cpus_def m)
  ultimately have p: "fst (pick_cpu 1 one_core two_cpus) = Val (1, 0)"
    by (simp add: pick_cpu_def pick_same_core_cpu_def picked_def println_def prog_simps one_core_def two_cpus_def)
  have "0 < l_ncpus two_cpus" "\<And>h. 0 \<le> rv (one_core h Random)"
    by (simp_all add: two_cpus_def one_core_def)
  from pick_cpu_related [OF this p] p show ?thesis by (simp add: two_cpus_def)
qed

end
