(* ===== verification/RasTools.thy ===== *)
theory RasTools
  imports Hornet
begin

text \<open>
  The smaller tools under \<open>lib/ras-tools/\<close>: \<open>cmcistorm.c\<close> (a burst of corrected errors),
  \<open>rep_ce_page.c\<close> (corrected errors on one page until it is taken offline), \<open>mca-recover.c\<close>
  (replace a lost page in the signal handler) and \<open>victim.c\<close> (a page to be hit by an error that
  is injected elsewhere).
\<close>

section \<open>A storm of corrected errors\<close>

record storm = vt +
  total_errors :: int
  st_trigger :: int

text \<open>
  A write that fails is tried again after three seconds; the failures of all calls are counted
  together and the tenth ends the program.
\<close>

fun storm_wfile :: "nat \<Rightarrow> string \<Rightarrow> u64 \<Rightarrow> ('z storm_scheme, unit) prog" where
  "storm_wfile 0 file val = stop NoFuel"
| "storm_wfile (Suc n) file val = bnd (sysv (Fopen file ''w'')) (\<lambda>fp. if fp = 0 then stop (Exit 1)
     else sqn (call (Fputs (''0x'' @ show_hex val @ eol)))
       (bnd (sysv Fclose) (\<lambda>r. if r = - 1 then
          sqn (put (\<lambda>s. s\<lparr>total_errors := s32 (total_errors s + 1)\<rparr>))
          (bnd (get total_errors) (\<lambda>t. if t = 10 then stop (Exit 1)
             else sqn (call (Sleep 3)) (storm_wfile n file val)))
        else skip)))"

definition storm_error :: "nat \<Rightarrow> u64 \<Rightarrow> int \<Rightarrow> int \<Rightarrow> addr \<Rightarrow> ('z storm_scheme, unit) prog" where
  "storm_error fuel us pid i b = bnd (vtop b pid) (\<lambda>paddr.
     sqn (println (show_int i @ '': vaddr = '' @ show_ptr b @ '' paddr = '' @ show_hex paddr))
     (sqn (storm_wfile fuel EINJ_ADDR paddr)
     (sqn (storm_wfile fuel EINJ_DOIT 1) (call (Usleep us)))))"

text \<open>\<open>us\<close> is \<open>(int)(interval * 1.0e6)\<close>, the floating point product of the second argument.\<close>

definition storm_inject :: "nat \<Rightarrow> int \<Rightarrow> u64 \<Rightarrow> ('z storm_scheme, unit) prog" where
  "storm_inject fuel nerrors us = (let bufsz = s32 (nerrors * 4096) in
     bnd (sysv Getpid) (\<lambda>pid. bnd (sysv (Malloc (ul bufsz))) (\<lambda>buf.
     if buf = 0 then stop (Exit 1)
     else sqn (call (Memset (ul buf) (CHR ''*'') (ul bufsz)))
       (sqn (for_each [0..<nat nerrors] (\<lambda>i. storm_error fuel us pid (int i) (ul buf + ul (s32 (int i * 4096)))))
       (sqn (for_each [0..<nat bufsz] (\<lambda>i. bnd (sysv (Load (ul buf + of_nat i))) (\<lambda>v.
              put (\<lambda>s. s\<lparr>st_trigger := s32 (st_trigger s + v)\<rparr>))))
       (call (Usleep us)))))))"

definition main_cmcistorm :: "nat \<Rightarrow> (string \<Rightarrow> u64) \<Rightarrow> string list \<Rightarrow> ('z storm_scheme, int) prog" where
  "main_cmcistorm fuel usecs argv =
    (let nerrors = (if 1 < length argv then atoi (argv ! 1) else 20);
         us = (if 2 < length argv then usecs (argv ! 2) else 1000000) in
     sqn (storm_wfile fuel EINJ_ETYPE 0x8)
     (sqn (storm_wfile fuel EINJ_MASK (- 1))
     (sqn (storm_wfile fuel EINJ_NOTRIGGER 1)
     (sqn (storm_inject fuel nerrors us) (ret 0)))))"

section \<open>Corrected errors until a page is taken offline\<close>

text \<open>
  The writes are those of \<open>hornet.c\<close>.  The page is offline when its physical address changes;
  the value is the number of the error after which it did.
\<close>

record rep = vt +
  rep_trigger :: int

primrec rep_tries :: "nat \<Rightarrow> int \<Rightarrow> addr \<Rightarrow> int \<Rightarrow> u64 \<Rightarrow> ('z rep_scheme, int) prog" where
  "rep_tries 0 i addr pid paddr = ret i"
| "rep_tries (Suc n) i addr pid paddr =
    sqn (println (show_int i @ '': Inject to vaddr='' @ show_ptr addr @ '' paddr=0x'' @ show_hex paddr))
    (sqn (hornet_wfile EINJ_ADDR paddr)
    (sqn (hornet_wfile EINJ_DOIT 1)
    (sqn (call (Usleep 250))
    (bnd (sysv (Load addr)) (\<lambda>v.
     sqn (put (\<lambda>s. s\<lparr>rep_trigger := s32 (rep_trigger s + v)\<rparr>))
     (sqn (call (Usleep 10000))
     (bnd (vtop addr pid) (\<lambda>p. if paddr \<noteq> p then ret i else rep_tries n (i + 1) addr pid paddr))))))))"

definition main_rep_ce_page :: "string list \<Rightarrow> ('z rep_scheme, int) prog" where
  "main_rep_ce_page argv =
    bnd (sysv (Mmap 0 4096 3 0x21 (- 1) 0)) (\<lambda>p.
     let tries = (if length argv = 2 then atoi (argv ! 1) else 30); addr = ul p in
     if addr = - 1 then ret 1
     else bnd (sysv Getpid) (\<lambda>pid.
       sqn (hornet_wfile EINJ_ETYPE 0x8)
       (sqn (hornet_wfile EINJ_MASK (- 1))
       (sqn (hornet_wfile EINJ_NOTRIGGER 1)
       (sqn (call (Store addr (CHR ''*'')))
       (bnd (vtop addr pid) (\<lambda>paddr.
        bnd (rep_tries (nat tries) 0 addr pid paddr) (\<lambda>i.
        if i = tries then ret 1
        else sqn (println (''PASS: page taken offline after '' @ show_int (i + 1) @ '' corrected errors'')) (ret 0))))))))) "

section \<open>Recovery in the signal handler\<close>

record recovery = vt +
  r_pagesize :: int
  r_buf :: addr
  r_phys :: u64
  tried_recovery :: int
  r_pid :: int

text \<open>
  The handler.  The fault address is that of the access, its \<open>lsb\<close> the answer of the kernel.  The
  line with the addresses of the handler's own arguments is left out.
\<close>

definition mca_recover :: "sysres \<Rightarrow> ('z recovery_scheme, unit) prog" where
  "mca_recover si =
    sqn (put (\<lambda>s. s\<lparr>tried_recovery := 1\<rparr>))
    (bnd (get r_buf) (\<lambda>buf. bnd (get r_pagesize) (\<lambda>ps.
     sqn (println (''Platform memory error at '' @ show_ptr buf))
     (sqn (println (''addr = '' @ show_ptr buf @ '' lsb='' @ show_int (rv si)))
     (bnd (sysv (Mmap buf (ul ps) 7 0x32 (- 1) 0)) (\<lambda>newbuf.
      if ul newbuf = - 1 then stop (Exit 1)
      else if ul newbuf \<noteq> buf then stop (Exit 1)
      else sqn (put (\<lambda>s. s\<lparr>r_buf := ul newbuf\<rparr>))
        (sqn (call (Memset (ul newbuf) (CHR ''*'') (ul ps)))
        (bnd (get r_pid) (\<lambda>pid. bnd (vtop (ul newbuf) pid) (\<lambda>phys.
         sqn (put (\<lambda>s. s\<lparr>r_phys := phys\<rparr>))
           (println (''Recovery allocated new page at physical 0x'' @ show_hex phys))))))))))))"

text \<open>An access that is hit by an error is tried again after the handler.\<close>

fun consume_poison :: "nat \<Rightarrow> ('z recovery_scheme, int) prog" where
  "consume_poison 0 = stop NoFuel"
| "consume_poison (Suc n) = bnd (get r_buf) (\<lambda>buf. bnd (sys (Load buf)) (\<lambda>r.
     if errno r = 0 then ret (rv r) else sqn (mca_recover r) (consume_poison n)))"

definition main_mca_recover :: "nat \<Rightarrow> ('z recovery_scheme, int) prog" where
  "main_mca_recover fuel =
    bnd (sysv (Syscall ''getpagesize'' [])) (\<lambda>ps.
    sqn (put (\<lambda>s. s\<lparr>r_pagesize := ps\<rparr>))
    (bnd (sysv (Mmap 0 (ul ps) 7 0x22 (- 1) 0)) (\<lambda>buf.
     sqn (put (\<lambda>s. s\<lparr>r_buf := ul buf\<rparr>))
     (if ul buf = - 1 then ret 1
      else bnd (sysv Getpid) (\<lambda>pid.
        sqn (put (\<lambda>s. s\<lparr>r_pid := pid\<rparr>))
        (sqn (call (Memset (ul buf) (CHR ''*'') (ul ps)))
        (bnd (vtop (ul buf) pid) (\<lambda>phys.
         sqn (put (\<lambda>s. s\<lparr>r_phys := phys\<rparr>))
         (sqn (println (''vtop('' @ show_hex (ul buf) @ '') = '' @ show_hex phys))
         (sqn (println ''Use /sys/kernel/debug/apei/einj/... to inject'')
         (sqn (call (Stdout ''Then press <ENTER> to access:''))
         (sqn (call (Sigaction 7 1))
         (bnd (sysv (Read 0 99)) (\<lambda>n.
          sqn (cond (n \<le> 0) (println (eol @ ''I said '' @ [CHR 0x27] @ ''Press <ENTER>'' @ [CHR 0x27] @ ''. Continuing anyway'')))
          (bnd (consume_poison fuel) (\<lambda>i. bnd (get tried_recovery) (\<lambda>tr.
           if tr = 0 then ret 1
           else if i \<noteq> int (of_char (CHR ''*'')) then ret 1
           else sqn (println ''Successful recovery'') (ret 0))))))))))))))))))"

section \<open>The victim\<close>

text \<open>
  \<open>getsubopt\<close> for the tokens \<open>vaddr\<close> and \<open>pid\<close>: the name and the value of the option up to the next
  comma, and what follows the comma.
\<close>

definition getsubopt :: "string \<Rightarrow> string \<times> string option \<times> string" where
  "getsubopt p = (let opt = takeWhile (\<lambda>c. c \<noteq> CHR '','') p;
      val = dropWhile (\<lambda>c. c \<noteq> CHR ''='') opt in
    (takeWhile (\<lambda>c. c \<noteq> CHR ''='') opt, if val = [] then None else Some (tl val),
     drop 1 (dropWhile (\<lambda>c. c \<noteq> CHR '','') p)))"

lemma getsubopt_shorter: "(a, b, r) = getsubopt p \<Longrightarrow> p \<noteq> [] \<Longrightarrow> length r < length p"
  using length_dropWhile_le [of "\<lambda>c. c \<noteq> CHR '',''" p]
  by (cases "dropWhile (\<lambda>c. c \<noteq> CHR '','') p") (auto simp: getsubopt_def Let_def)

text \<open>The two values, or \<open>None\<close> when an option is unknown or has no value.\<close>

function addr_subopts :: "string \<Rightarrow> string option \<times> string option \<Rightarrow> (string option \<times> string option) option" where
  "addr_subopts p vs = (if p = [] then Some vs else (case getsubopt p of (name, val, rest) \<Rightarrow>
     if name = ''vaddr'' then (case val of None \<Rightarrow> None | Some v \<Rightarrow> addr_subopts rest (Some v, snd vs))
     else if name = ''pid'' then (case val of None \<Rightarrow> None | Some v \<Rightarrow> addr_subopts rest (fst vs, Some v))
     else None))"
  by pat_completeness auto
termination
  by (relation "measure (length \<circ> fst)") (auto dest: getsubopt_shorter)

declare addr_subopts.simps [simp del]

text \<open>\<open>errno\<close> is set when the number does not fit; a zero has to be written with the digit 0.\<close>

definition subopt_number :: "string \<Rightarrow> u64 option" where
  "subopt_number str = (let v = strtoul 0 str in
     if 2 ^ 64 \<le> fst (snd (strto 0 str)) then None else Some v)"

text \<open>
  The address and the process; \<open>Val None\<close> is the return of 1.  An option that was not given leaves
  its pointer unset.
\<close>

definition parse_addr_subopts :: "string \<Rightarrow> (u64 \<times> int) option outcome" where
  "parse_addr_subopts subopts = (case addr_subopts subopts (None, None) of
     None \<Rightarrow> Val None
   | Some (None, _) \<Rightarrow> Fault UnsetValue
   | Some (Some svaddr, spid) \<Rightarrow> (case subopt_number svaddr of
       None \<Rightarrow> Val None
     | Some virt \<Rightarrow> if virt = 0 \<and> take 1 svaddr \<noteq> ''0'' then Val None
         else (case spid of
           None \<Rightarrow> Fault UnsetValue
         | Some sp \<Rightarrow> (case subopt_number sp of
             None \<Rightarrow> Val None
           | Some w \<Rightarrow> let pid = s32 (uint w) in
               if pid = 0 \<and> take 1 sp \<noteq> ''0'' then Val None else Val (Some (virt, pid))))))"

text \<open>The words of a page.\<close>

definition page_words :: "int \<Rightarrow> nat list" where
  "page_words ps = map (\<lambda>j. 4 * j) [0..<nat ((ps + 3) div 4)]"

text \<open>
  \<open>pfa_helper\<close>: the page is read and written in turn, and its physical address compared, for ever.
  The sum starts from a variable that was never set.
\<close>

primrec sweep :: "(int \<Rightarrow> nat \<Rightarrow> int) \<Rightarrow> addr \<Rightarrow> nat list \<Rightarrow> int \<Rightarrow> ('z io_scheme, int) prog" where
  "sweep val p [] acc = ret acc"
| "sweep val p (i # is) acc = bnd (sysv (LoadN (p + of_nat i) 4)) (\<lambda>v. let t = s32 (acc + v) in
     sqn (call (StoreN (p + of_nat i) 4 (take_bit 32 (ul (val t i))))) (sweep val p is t))"

definition replaced :: "u64 \<Rightarrow> ('z io_scheme, unit) prog" where
  "replaced phys = println (''Page was replaced. New physical address = 0x'' @ show_hex phys)"

definition pfa_step :: "int \<Rightarrow> addr \<Rightarrow> int \<Rightarrow> u64 \<times> int \<Rightarrow> ('z io_scheme, u64 \<times> int) prog" where
  "pfa_step ps p pid = (\<lambda>(old_phys, acc).
     bnd (sweep (\<lambda>t i. t) p (page_words ps) acc) (\<lambda>acc.
     bnd (vtop_victim ps p pid) (\<lambda>new_phys.
     if old_phys = new_phys then
       bnd (sweep (\<lambda>t i. int i) p (page_words ps) acc) (\<lambda>acc.
       sqn (call (Sleep 2))
       (bnd (vtop_victim ps p pid) (\<lambda>new_phys.
        if old_phys \<noteq> new_phys then sqn (replaced new_phys) (ret (new_phys, acc)) else ret (old_phys, acc))))
     else sqn (replaced new_phys) (ret (new_phys, acc)))))"

primrec pfa_loop :: "nat \<Rightarrow> int \<Rightarrow> addr \<Rightarrow> int \<Rightarrow> u64 \<times> int \<Rightarrow> ('z io_scheme, 'a) prog" where
  "pfa_loop 0 ps p pid st = stop NoFuel"
| "pfa_loop (Suc n) ps p pid st = bnd (pfa_step ps p pid st) (pfa_loop n ps p pid)"

definition pfa_helper :: "nat \<Rightarrow> int \<Rightarrow> addr \<Rightarrow> int \<Rightarrow> u64 \<Rightarrow> ('z io_scheme, 'a) prog" where
  "pfa_helper fuel ps p pid old_phys = bnd (sysv Indet) (\<lambda>acc. pfa_loop fuel ps p pid (old_phys, s32 acc))"

section \<open>The main program of the victim\<close>

definition victim_usage :: "('z io_scheme, unit) prog" where
  "victim_usage = println ''victim [options]''"

text \<open>\<open>dflag\<close>, \<open>iflag\<close>, \<open>kick\<close> and \<open>pfa\<close>; \<open>Inl\<close> is the value that \<open>main\<close> returns at once.\<close>

definition victim_option ::
  "int \<Rightarrow> char \<times> string \<Rightarrow> bool \<times> bool \<times> int \<times> bool \<Rightarrow> ('z io_scheme, int + bool \<times> bool \<times> int \<times> bool) prog" where
  "victim_option ps = (\<lambda>(c, optarg) (dat, ins, kck, pfa).
     if c = CHR ''a'' then bnd (stop (parse_addr_subopts optarg)) (\<lambda>r. case r of
         None \<Rightarrow> ret (Inl 1)
       | Some (virt, pid) \<Rightarrow> bnd (vtop_victim ps virt pid) (\<lambda>phys.
           sqn (println (''physical address of ('' @ show_int pid @ '',0x'' @ show_hex virt @ '') = 0x'' @ show_hex phys))
             (ret (Inl 0))))
     else if c = CHR ''d'' then ret (Inr (True, ins, kck, pfa))
     else if c = CHR ''i'' then ret (Inr (dat, True, kck, pfa))
     else if c = CHR ''k'' then
       (let n = s32 (strtol 0 optarg) in
        if n = 0 \<and> take 1 optarg \<noteq> ''0'' \<or> 2 ^ 63 \<le> fst (snd (strto 0 optarg)) then ret (Inl 1)
        else if n \<noteq> 0 \<and> n \<noteq> 1 then ret (Inl 1)
        else ret (Inr (dat, ins, n, pfa)))
     else if c = CHR ''p'' then ret (Inr (dat, ins, kck, True))
     else sqn victim_usage (ret (Inl 0)))"

primrec victim_options ::
  "int \<Rightarrow> (char \<times> string) list \<Rightarrow> bool \<times> bool \<times> int \<times> bool
     \<Rightarrow> ('z io_scheme, int + bool \<times> bool \<times> int \<times> bool) prog" where
  "victim_options ps [] st = ret (Inr st)"
| "victim_options ps (o1 # os) st = bnd (victim_option ps o1 st) (\<lambda>r. case r of
     Inl v \<Rightarrow> ret (Inl v) | Inr st' \<Rightarrow> victim_options ps os st')"

text \<open>
  \<open>while (--count)\<close>: whether the trigger file said \<open>trigger\<close> before the count ran out.  The buffer of 16
  bytes keeps what an earlier, longer read left in it.
\<close>

definition in_buffer :: "string \<Rightarrow> string \<Rightarrow> string" where
  "in_buffer buf new = new @ drop (length new) buf"

primrec trigger_seen :: "nat \<Rightarrow> string \<Rightarrow> ('z io_scheme, bool) prog" where
  "trigger_seen 0 buf = ret False"
| "trigger_seen (Suc n) buf = (if n = 0 then ret False
   else bnd (sysv (Open ''./trigger_start'' 0 0)) (\<lambda>fd.
     if fd < 0 then sqn (call (Sleep 1)) (trigger_seen n buf)
     else bnd (sys (Read fd 16)) (\<lambda>r. let buf' = in_buffer buf (take 16 (bytes r)) in
       if 0 < rv r \<and> strstr (takeWhile (\<lambda>c. c \<noteq> CHR 0x00) buf') ''trigger'' then ret True
       else sqn (call (Sleep 1)) (trigger_seen n buf'))))"

primrec run_for_ever :: "nat \<Rightarrow> ('s, unit) prog \<Rightarrow> ('s, 'a) prog" where
  "run_for_ever 0 m = stop NoFuel"
| "run_for_ever (Suc n) m = sqn m (run_for_ever n m)"

definition wait_kick :: "int \<Rightarrow> ('z io_scheme, bool) prog" where
  "wait_kick kck = (if kck = 0 then
     bnd (sys (Unlink ''./trigger_start'')) (\<lambda>r. if rv r < 0 \<and> errno r \<noteq> 2 then ret False
       else trigger_seen 100 (replicate 16 (CHR 0x00)))
   else sqn (call (Stdout ''Hit any key to trigger error: '')) (sqn (call (Read 0 16))
     (bnd (sys (Syscall ''ctime'' [])) (\<lambda>r. sqn (println (''Access time at '' @ bytes r)) (ret True)))))"

definition main_victim :: "nat \<Rightarrow> (char \<times> string) list \<Rightarrow> nat \<Rightarrow> ('z io_scheme, int) prog" where
  "main_victim fuel opts argc =
    (if argc \<le> 1 then sqn victim_usage (ret 0)
     else bnd (sysv (Syscall ''getpagesize'' [])) (\<lambda>ps.
     bnd (victim_options ps opts (False, False, 1, False)) (\<lambda>o1. case o1 of
       Inl v \<Rightarrow> ret v
     | Inr (dat, ins, kck, pfa) \<Rightarrow>
       bnd (sysv (Mmap 0 (ul ps) 7 0x22 (- 1) 0)) (\<lambda>buf.
       if ul buf = - 1 then ret 1
       else sqn (call (Memset (ul buf) (CHR ''*'') (ul ps)))
       (bnd (sysv Getpid) (\<lambda>pid. bnd (vtop_victim ps (ul buf) pid) (\<lambda>phys.
        if phys = 0 then ret 1
        else sqn (if ins then bnd (sysv (Syscall ''address_of_dummyfunc'' [])) (\<lambda>f. call (Memcpy (ul buf) (ul f) (ul ps))) else skip)
        (sqn (println (''physical address of (0x'' @ show_hex (ul buf) @ '') = 0x'' @ show_hex phys))
        (sqn (if pfa then pfa_helper fuel ps (ul buf) pid phys else skip)
        (bnd (wait_kick kck) (\<lambda>go. if \<not> go then ret 1
         else if ins then run_for_ever fuel (call (Syscall ''call'' [ul buf]))
         else if dat then run_for_ever fuel (for_each (page_words ps) (\<lambda>i. call (LoadN (ul buf + of_nat i) 4)))
         else ret 0)))))))))))"

end
