(* ===== verification/RasLaws.thy ===== *)
theory RasLaws
  imports RasTools ProcLaws
begin

text \<open>
  The storm of corrected errors ends whatever the kernel answers; \<open>rep_ce_page\<close> passes exactly when
  the page is taken offline within the tries; the address option of the victim reads back what
  the tools print.
\<close>

section \<open>Failures of a run\<close>

text \<open>The values refused when their file is closed, and a run that ends with such a refusal.\<close>

primrec failures :: "kernel \<Rightarrow> sys list \<Rightarrow> sys list \<Rightarrow> nat" where
  "failures k h [] = 0"
| "failures k h (c # cs) = (if c = Fclose \<and> rv (k h c) = - 1 then 1 else 0) + failures k (h @ [c]) cs"

definition ends_refused :: "kernel \<Rightarrow> sys list \<Rightarrow> sys list \<Rightarrow> bool" where
  "ends_refused k h cs \<longleftrightarrow> cs \<noteq> [] \<and> last cs = Fclose \<and> rv (k (h @ butlast cs) Fclose) = - 1"

lemma failures_append [simp]: "failures k h (cs @ ds) = failures k h cs + failures k (h @ cs) ds"
  by (induction cs arbitrary: h) auto

lemma ends_refused_append:
  "ends_refused k h (cs @ ds) \<longleftrightarrow> (if ds = [] then ends_refused k h cs else ends_refused k (h @ cs) ds)"
  by (simp add: ends_refused_def butlast_append)

definition errors_left :: "'z storm_scheme \<Rightarrow> bool" where
  "errors_left s \<longleftrightarrow> 0 \<le> total_errors s \<and> total_errors s < 10"

text \<open>
  A program that counts: \<open>total_errors\<close> grows by the refusals of the run, which does not use up its fuel, and a
  run ends with a refusal only when it is the tenth, and then with status 1.
\<close>

named_theorems counts_intros \<open>programs that count their failures\<close>

definition counted :: "kernel \<Rightarrow> 'z storm_scheme \<Rightarrow> 'a outcome \<Rightarrow> 'z storm_scheme \<Rightarrow> bool" where
  "counted k s r s' \<longleftrightarrow> r \<noteq> NoFuel \<and> (\<exists>cs. trace s' = trace s @ cs
     \<and> total_errors s' = total_errors s + int (failures k (trace s) cs)
     \<and> (if ends_refused k (trace s) cs then r = Exit 1 \<and> total_errors s' = 10 else errors_left s'))"

definition counts :: "('z storm_scheme, 'a) prog \<Rightarrow> bool" where
  "counts m \<longleftrightarrow> (\<forall>k s r s'. errors_left s \<longrightarrow> m k s = (r, s') \<longrightarrow> counted k s r s')"

lemma countsI: "(\<And>k s r s'. errors_left s \<Longrightarrow> m k s = (r, s') \<Longrightarrow> counted k s r s') \<Longrightarrow> counts m"
  unfolding counts_def by blast

lemma countsD: "counts m \<Longrightarrow> errors_left s \<Longrightarrow> m k s = (r, s') \<Longrightarrow> counted k s r s'"
  unfolding counts_def by blast

lemma counted_quiet:
  assumes "errors_left s" "trace s' = trace s @ cs" "total_errors s' = total_errors s" "Fclose \<notin> set cs" "r \<noteq> NoFuel"
  shows "counted k s r s'"
proof -
  have "failures k h cs = 0" for h using assms(4) by (induction cs arbitrary: h) auto
  moreover have "\<not> ends_refused k (trace s) cs" using assms(4) last_in_set by (fastforce simp: ends_refused_def)
  ultimately show ?thesis using assms unfolding counted_def errors_left_def by (intro conjI exI [of _ cs]) simp_all
qed

lemma counted_trans:
  fixes s t s' :: "'z storm_scheme"
  assumes "counted k s (Val a) t" "counted k t r s'"
  shows "counted k s r s'"
proof -
  obtain cs where cs: "trace t = trace s @ cs" "total_errors t = total_errors s + int (failures k (trace s) cs)"
      "\<not> ends_refused k (trace s) cs"
    using assms(1) by (auto simp: counted_def split: if_splits)
  obtain ds where ds: "trace s' = trace t @ ds" "total_errors s' = total_errors t + int (failures k (trace t) ds)"
      "if ends_refused k (trace t) ds then r = Exit 1 \<and> total_errors s' = 10 else errors_left s'"
    using assms(2) by (auto simp: counted_def)
  have "ends_refused k (trace s) (cs @ ds) \<longleftrightarrow> ends_refused k (trace t) ds"
    using cs(1,3) by (auto simp: ends_refused_append) (simp add: ends_refused_def)
  with assms(2) cs ds show ?thesis unfolding counted_def by (intro conjI exI [of _ "cs @ ds"]) simp_all
qed

lemma counts_simple [counts_intros]:
  "counts (ret a)" "counts skip" "counts (get f)" "counts (stop (Exit c))" "counts (stop (Fault e))"
  by (rule countsI, rule counted_quiet [where cs = "[]"], auto simp: prog_simps)+

lemma counts_put [counts_intros]:
  "(\<And>s. trace (f s) = trace s \<and> total_errors (f s) = total_errors s) \<Longrightarrow> counts (put f)"
  by (rule countsI, rule counted_quiet [where cs = "[]"]) (auto simp: prog_simps)

lemma counts_calls [counts_intros]:
  assumes "c \<noteq> Fclose"
  shows "counts (call c)" "counts (sys c)" "counts (sysv c)"
  by (rule countsI, rule counted_quiet [where cs = "[c]"], use assms in \<open>auto simp: prog_simps\<close>)+

lemma counts_bnd [counts_intros]:
  assumes "counts m" "\<And>a. counts (f a)"
  shows "counts (bnd m f)"
proof (rule countsI)
  fix k s r s'
  assume s: "errors_left s" and b: "bnd m f k s = (r, s')"
  obtain q t where m: "m k s = (q, t)" by (metis surj_pair)
  note q = countsD [OF assms(1) s m]
  show "counted k s r s'"
  proof (cases q)
    case (Val a)
    then have "errors_left t" using q by (auto simp: counted_def split: if_splits)
    moreover have "f a k t = (r, s')" using b by (simp add: bnd_eval m Val)
    ultimately have "counted k t r s'" by (rule countsD [OF assms(2)])
    with q Val show ?thesis by (blast intro: counted_trans)
  qed (use q b m in \<open>auto simp: bnd_eval counted_def\<close>)
qed

lemma counts_sqn [counts_intros]: "counts m \<Longrightarrow> counts n \<Longrightarrow> counts (sqn m n)"
  unfolding sqn_def by (rule counts_bnd)

lemma counts_if [counts_intros]: "(b \<Longrightarrow> counts m) \<Longrightarrow> (\<not> b \<Longrightarrow> counts n) \<Longrightarrow> counts (if b then m else n)"
  by simp

lemma counts_Let [counts_intros]: "(\<And>a. counts (f a)) \<Longrightarrow> counts (let a = x in f a)"
  by (simp add: Let_def)

lemma counts_for_each [counts_intros]: "(\<And>x. counts (f x)) \<Longrightarrow> counts (for_each xs f)"
  by (induction xs) (simp_all add: for_each_def counts_intros)

section \<open>The storm ends\<close>

lemma storm_wfile_counted:
  fixes s :: "'z storm_scheme"
  assumes "errors_left s" "10 \<le> int fuel + total_errors s" "storm_wfile fuel file val k s = (r, s')"
  shows "counted k s r s'"
  using assms
proof (induction fuel arbitrary: s)
  case 0
  then show ?case by (simp add: errors_left_def)
next
  case (Suc n)
  let ?o = "Fopen file ''w''" and ?p = "Fputs (''0x'' @ show_hex val @ eol)"
  let ?t = "s\<lparr>trace := trace s @ [?o, ?p, Fclose], total_errors := total_errors s + 1\<rparr>"
  let ?u = "?t\<lparr>trace := trace ?t @ [Sleep 3]\<rparr>"
  have s32: "s32 (total_errors s + 1) = total_errors s + 1"
    using Suc.prems(1) by (intro s32_small) (simp_all add: errors_left_def)
  consider (op) "rv (k (trace s) ?o) = 0"
    | (ok) "rv (k (trace s) ?o) \<noteq> 0" "rv (k (trace s @ [?o, ?p]) Fclose) \<noteq> - 1"
    | (ten) "rv (k (trace s) ?o) \<noteq> 0" "rv (k (trace s @ [?o, ?p]) Fclose) = - 1" "total_errors s + 1 = 10"
    | (more) "rv (k (trace s) ?o) \<noteq> 0" "rv (k (trace s @ [?o, ?p]) Fclose) = - 1" "total_errors s + 1 \<noteq> 10"
    by blast
  then show ?case
  proof cases
    case op
    then have "s' = s\<lparr>trace := trace s @ [?o]\<rparr>" "r = Exit 1" using Suc.prems(3) by (simp_all add: prog_simps)
    then show ?thesis by (intro counted_quiet [OF Suc.prems(1), where cs = "[?o]"]) simp_all
  next
    case ok
    then have "s' = s\<lparr>trace := trace s @ [?o, ?p, Fclose]\<rparr>" "r = Val ()" using Suc.prems(3) by (simp_all add: prog_simps)
    with ok Suc.prems(1) show ?thesis
      unfolding counted_def errors_left_def by (intro conjI exI [of _ "[?o, ?p, Fclose]"]) (simp_all add: ends_refused_def)
  next
    case ten
    then have "s' = ?t" "r = Exit 1" using Suc.prems(3) s32_small [of 10] by (simp_all add: prog_simps)
    with ten show ?thesis
      unfolding counted_def by (intro conjI exI [of _ "[?o, ?p, Fclose]"]) (simp_all add: ends_refused_def)
  next
    case more
    then have "storm_wfile n file val k ?u = (r, s')" using Suc.prems(3) by (simp add: prog_simps s32)
    moreover have u: "errors_left ?u" using more(3) Suc.prems(1) by (simp add: errors_left_def)
    moreover have "10 \<le> int n + total_errors ?u" using Suc.prems(2) by simp
    ultimately have "counted k ?u r s'" by (intro Suc.IH)
    moreover have "counted k s (Val ()) ?u"
      using more u unfolding counted_def by (intro conjI exI [of _ "[?o, ?p, Fclose, Sleep 3]"]) (simp_all add: ends_refused_def)
    ultimately show ?thesis by (rule counted_trans [rotated])
  qed
qed

lemma storm_wfile_counts [counts_intros]:
  assumes "10 \<le> fuel"
  shows "counts (storm_wfile fuel file val)"
proof (rule countsI)
  fix k s r s'
  assume "errors_left s" "storm_wfile fuel file val k s = (r, s')"
  moreover from this(1) assms have "10 \<le> int fuel + total_errors s" by (simp add: errors_left_def)
  ultimately show "counted k s r s'" by (intro storm_wfile_counted)
qed

lemma vtop_counts [counts_intros]: "counts (vtop a pid)"
  unfolding vtop_def vtop_size_def by (intro counts_intros) simp_all

lemma println_counts [counts_intros]: "counts (println t)"
  unfolding println_def by (intro counts_intros) simp

text \<open>C25: the storm ends whatever the kernel answers.  A write that is refused is tried again, but the refusals of
  the whole run, over all files, are counted, and the tenth ends the program with status 1: there are never
  more than ten, and the run ends right after a refusal exactly when it was the tenth.  Fuel for ten tries per write
  is enough.\<close>

theorem storm_ends:
  fixes s :: "'z storm_scheme"
  assumes "total_errors s = 0" "10 \<le> fuel"
  shows "\<exists>r s' cs. main_cmcistorm fuel usecs argv k s = (r, s') \<and> trace s' = trace s @ cs \<and> r \<noteq> NoFuel
    \<and> failures k (trace s) cs \<le> 10 \<and> (failures k (trace s) cs = 10 \<longleftrightarrow> ends_refused k (trace s) cs)
    \<and> (ends_refused k (trace s) cs \<longrightarrow> r = Exit 1)"
proof -
  obtain r s' where run: "main_cmcistorm fuel usecs argv k s = (r, s')" by (metis surj_pair)
  have "counts (main_cmcistorm fuel usecs argv)"
    unfolding main_cmcistorm_def storm_inject_def storm_error_def
    by (intro counts_intros assms(2)) simp_all
  moreover have "errors_left s" using assms(1) by (simp add: errors_left_def)
  ultimately have "counted k s r s'" using run by (rule countsD)
  then obtain cs where "r \<noteq> NoFuel" "trace s' = trace s @ cs" "total_errors s' = int (failures k (trace s) cs)"
      "if ends_refused k (trace s) cs then r = Exit 1 \<and> total_errors s' = 10 else errors_left s'"
    using assms(1) by (auto simp: counted_def)
  with run show ?thesis
    by (intro exI [of _ r] exI [of _ s'] exI [of _ cs]) (auto simp: errors_left_def split: if_splits)
qed

definition storm0 :: storm where
  "storm0 = \<lparr>trace = [], vtop_pagesize = 0, total_errors = 0, st_trigger = 0\<rparr>"

theorem storm_ends_witness:
  "\<exists>r s' cs. main_cmcistorm 10 (\<lambda>_. 0) [''cmcistorm'', ''2''] (\<lambda>h c. ok\<lparr>rv := - 1\<rparr>) storm0 = (r, s')
     \<and> trace s' = trace storm0 @ cs \<and> r \<noteq> NoFuel \<and> failures (\<lambda>h c. ok\<lparr>rv := - 1\<rparr>) [] cs \<le> 10"
proof -
  have "total_errors storm0 = 0" "trace storm0 = []" by (simp_all add: storm0_def)
  with storm_ends [of storm0 10 "\<lambda>_. 0" "[''cmcistorm'', ''2'']" "\<lambda>h c. ok\<lparr>rv := - 1\<rparr>"] show ?thesis by auto
qed

section \<open>A page is taken offline\<close>

text \<open>The errors injected so far, and the physical address that an entry of the pagemap gives.\<close>

definition injections :: "sys list \<Rightarrow> nat" where
  "injections h = length (filter (\<lambda>c. c = Fopen EINJ_DOIT ''w'') h)"

definition phys_at :: "u64 \<Rightarrow> addr \<Rightarrow> u64" where
  "phys_at e a = take_bit 55 e * 4096 + take_bit 12 a"

text \<open>
  A kernel that takes the writes and moves the page, from the frame of \<open>e0\<close> to that of \<open>e1\<close>, after
  \<open>n\<close> injected errors.
\<close>

definition offline_after :: "nat \<Rightarrow> u64 \<Rightarrow> u64 \<Rightarrow> kernel \<Rightarrow> bool" where
  "offline_after n e0 e1 k \<longleftrightarrow> bit e0 63 \<and> bit e1 63 \<and> (\<forall>a. phys_at e0 a \<noteq> phys_at e1 a)
    \<and> (\<forall>h f. rv (k h (Fopen f ''w'')) \<noteq> 0) \<and> (\<forall>h. rv (k h Fclose) \<noteq> - 1)
    \<and> (\<forall>h. rv (k h (Syscall ''getpagesize'' [])) = 4096) \<and> (\<forall>h f. rv (k h (Open f 0 0)) = 3)
    \<and> (\<forall>h off. rv (k h (Pread 3 8 off)) = 8
         \<and> u64_of_bytes (bytes (k h (Pread 3 8 off))) = (if injections h < n then e0 else e1))
    \<and> (\<forall>h. ul (rv (k h (Mmap 0 4096 3 0x21 (- 1) 0))) \<noteq> - 1)"

lemma offline_afterD:
  assumes "offline_after n e0 e1 k"
  shows "rv (k h (Fopen f ''w'')) \<noteq> 0" "rv (k h Fclose) \<noteq> - 1" "rv (k h (Syscall ''getpagesize'' [])) = 4096"
    "rv (k h (Open f 0 0)) = 3" "rv (k h (Pread 3 8 off)) = 8"
    "u64_of_bytes (bytes (k h (Pread 3 8 off))) = (if injections h < n then e0 else e1)"
    "ul (rv (k h (Mmap 0 4096 3 0x21 (- 1) 0))) \<noteq> - 1" "bit e0 63" "bit e1 63" "phys_at e0 a \<noteq> phys_at e1 a"
  using assms unfolding offline_after_def by blast+

definition page_known :: "'z vt_scheme \<Rightarrow> bool" where
  "page_known s \<longleftrightarrow> vtop_pagesize s = 0 \<or> vtop_pagesize s = 4096"

lemma injections_append [simp]: "injections (h @ h') = injections h + injections h'"
  by (simp add: injections_def)

lemma injections_other [simp]:
  "injections [] = 0" "injections (Fopen f m # h) = (if f = EINJ_DOIT \<and> m = ''w'' then 1 else 0) + injections h"
  "injections (Fputs t # h) = injections h" "injections (Fclose # h) = injections h"
  "injections (Open g a b # h) = injections h" "injections (Pread c d e # h) = injections h"
  "injections (Close c # h) = injections h" "injections (Usleep u # h) = injections h"
  "injections (Load p # h) = injections h" "injections (Stdout t # h) = injections h"
  "injections (Syscall f us # h) = injections h" "injections (Getpid # h) = injections h"
  "injections (Store p ch # h) = injections h" "injections (Mmap p u a b c d # h) = injections h"
  by (simp_all add: injections_def)

lemma einj_names: "EINJ_ADDR \<noteq> EINJ_DOIT" "EINJ_ETYPE \<noteq> EINJ_DOIT" "EINJ_MASK \<noteq> EINJ_DOIT" "EINJ_NOTRIGGER \<noteq> EINJ_DOIT"
  by (simp_all add: EINJ_ADDR_def EINJ_DOIT_def EINJ_ETYPE_def EINJ_MASK_def EINJ_NOTRIGGER_def)

lemma hornet_wfile_eval:
  assumes "offline_after n e0 e1 k"
  shows "hornet_wfile f v k s = (Val (), s\<lparr>trace := trace s @ [Fopen f ''w'', Fputs (''0x'' @ show_hex v @ eol), Fclose]\<rparr>)"
  using offline_afterD(1,2) [OF assms] by (simp add: hornet_wfile_def prog_simps)

lemma vtop_offline:
  fixes s :: "'z vt_scheme"
  assumes "offline_after n e0 e1 k" "page_known s"
  obtains h where "vtop a pid k s = (Val (phys_at (if injections (trace s) < n then e0 else e1) a),
      s\<lparr>vtop_pagesize := 4096, trace := trace s @ h\<rparr>)" "injections h = 0"
proof -
  note D = offline_afterD [OF assms(1)]
  have m: "a AND 4095 = take_bit 12 a"
    using page_offset [of a 12] by simp
  show thesis
  proof (cases "vtop_pagesize s = 0")
    case True
    then show thesis
      by (intro that [of "[Syscall ''getpagesize'' [], Open (pagemap_name pid) 0 0, Pread 3 8 (a div 4096 * 8), Close 3]"])
        (simp_all add: vtop_simps D phys_at_def m)
  next
    case False
    with assms(2) have "vtop_pagesize s = 4096" by (simp add: page_known_def)
    then show thesis
      by (intro that [of "[Open (pagemap_name pid) 0 0, Pread 3 8 (a div 4096 * 8), Close 3]"])
        (simp_all add: vtop_simps D phys_at_def m)
  qed
qed

lemma rep_tries_result:
  fixes s :: "'z rep_scheme"
  assumes "offline_after n e0 e1 k" "page_known s" "injections (trace s) = i" "i < n"
  shows "fst (rep_tries m (int i) a pid (phys_at e0 a) k s) = Val (int (if n \<le> i + m then n - 1 else i + m))"
  using assms(2-)
proof (induction m arbitrary: i s)
  case 0
  then show ?case by (simp add: ret_eval)
next
  case (Suc m)
  define c where "c = Stdout ((show_int (int i) @ '': Inject to vaddr='' @ show_ptr a @ '' paddr=0x'' @ show_hex (phys_at e0 a)) @ eol)"
  define h where "h = trace s @ [c, Fopen EINJ_ADDR ''w'', Fputs (''0x'' @ show_hex (phys_at e0 a) @ eol), Fclose,
     Fopen EINJ_DOIT ''w'', Fputs (''0x'' @ show_hex 1 @ eol), Fclose, Usleep 250]"
  define t where "t = s\<lparr>rep_trigger := s32 (rep_trigger s + rv (k h (Load a))), trace := h @ [Load a, Usleep 10000]\<rparr>"
  have e: "rep_tries (Suc m) (int i) a pid (phys_at e0 a) k s =
    bnd (vtop a pid) (\<lambda>p. if phys_at e0 a \<noteq> p then ret (int i) else rep_tries m (int i + 1) a pid (phys_at e0 a)) k t"
    by (simp add: println_def sqn_eval bnd_eval call_eval sysv_eval put_eval hornet_wfile_eval [OF assms(1)]
        t_def h_def c_def)
  have t: "page_known t" "injections (trace t) = Suc i"
    using Suc.prems by (simp_all add: t_def h_def c_def page_known_def einj_names)
  obtain g where v: "vtop a pid k t = (Val (phys_at (if Suc i < n then e0 else e1) a), t\<lparr>vtop_pagesize := 4096, trace := trace t @ g\<rparr>)"
      "injections g = 0"
    using vtop_offline [OF assms(1) t(1), of a pid] t(2) by auto
  show ?case
  proof (cases "Suc i < n")
    case True
    have "fst (rep_tries m (int (Suc i)) a pid (phys_at e0 a) k (t\<lparr>vtop_pagesize := 4096, trace := trace t @ g\<rparr>))
      = Val (int (if n \<le> Suc i + m then n - 1 else Suc i + m))"
      by (rule Suc.IH) (use t v(2) True in \<open>simp_all add: page_known_def\<close>)
    then show ?thesis unfolding e by (simp add: bnd_eval v(1) True add.commute)
  next
    case False
    then have "n = Suc i" using Suc.prems(3) by simp
    then show ?thesis unfolding e
      using offline_afterD(10) [OF assms(1)] by (simp add: bnd_eval v(1) ret_eval)
  qed
qed

text \<open>C26: \<open>rep_ce_page\<close> passes exactly when the page is taken offline within the tries: on a kernel that moves
  the page after \<open>n\<close> corrected errors, \<open>main\<close> returns 0 if the number of tries, 30 or the argument,
  is at least \<open>n\<close>, and 1 otherwise.\<close>

theorem rep_ce_page_verdict:
  fixes s :: "'z rep_scheme"
  assumes "offline_after n e0 e1 k" "0 < n" "page_known s" "injections (trace s) = 0"
    and "tries = (if length argv = 2 then atoi (argv ! 1) else 30)" "0 \<le> tries"
  shows "fst (main_rep_ce_page argv k s) = Val (if int n \<le> tries then 0 else 1)"
proof -
  note D = offline_afterD [OF assms(1)]
  define m where "m = Mmap 0 4096 3 0x21 (- 1) 0"
  define a where "a = ul (rv (k (trace s) m))"
  have m: "a \<noteq> - 1" using D(7) by (simp add: a_def m_def)
  define pid where "pid = rv (k (trace s @ [m]) Getpid)"
  define t where "t = s\<lparr>trace := trace s @ [m, Getpid,
     Fopen EINJ_ETYPE ''w'', Fputs (''0x'' @ show_hex 8 @ eol), Fclose,
     Fopen EINJ_MASK ''w'', Fputs (''0x'' @ show_hex (- 1) @ eol), Fclose,
     Fopen EINJ_NOTRIGGER ''w'', Fputs (''0x'' @ show_hex 1 @ eol), Fclose, Store a (CHR ''*'')]\<rparr>"
  have t: "main_rep_ce_page argv k s = bnd (vtop a pid) (\<lambda>paddr.
        bnd (rep_tries (nat tries) 0 a pid paddr) (\<lambda>i. if i = tries then ret 1
        else sqn (println (''PASS: page taken offline after '' @ show_int (i + 1) @ '' corrected errors'')) (ret 0))) k t"
    using m unfolding main_rep_ce_page_def Let_def assms(5) [symmetric] m_def [symmetric] bnd_eval sysv_eval
    by (simp add: sqn_eval call_eval bnd_eval hornet_wfile_eval [OF assms(1)] t_def a_def pid_def
        split: prod.split outcome.split)
  have t': "page_known t" "injections (trace t) = 0"
    using assms(3,4) by (simp_all add: t_def m_def page_known_def einj_names)
  obtain g where v: "vtop a pid k t = (Val (phys_at e0 a), t\<lparr>vtop_pagesize := 4096, trace := trace t @ g\<rparr>)"
      "injections g = 0"
    using vtop_offline [OF assms(1) t'(1), of a pid] t'(2) assms(2) by auto
  let ?t = "t\<lparr>vtop_pagesize := 4096, trace := trace t @ g\<rparr>"
  have r: "fst (rep_tries (nat tries) 0 a pid (phys_at e0 a) k ?t) = Val (int (if n \<le> nat tries then n - 1 else nat tries))"
    using rep_tries_result [OF assms(1), of ?t 0 "nat tries" a pid] assms(2) t'(2) v(2) by (simp add: page_known_def)
  obtain u where "rep_tries (nat tries) 0 a pid (phys_at e0 a) k ?t
      = (Val (int (if n \<le> nat tries then n - 1 else nat tries)), u)"
    using r by (metis prod.collapse)
  then show ?thesis
    using assms(2,6) by (auto simp: t bnd_eval v(1) println_def sqn_eval call_eval ret_eval)
qed

definition move_after :: "nat \<Rightarrow> kernel" where
  "move_after n h c = (case c of
     Pread _ _ _ \<Rightarrow> ok\<lparr>rv := 8, bytes := [if injections h < n then CHR 0x05 else CHR 0x06,
       CHR 0x00, CHR 0x00, CHR 0x00, CHR 0x00, CHR 0x00, CHR 0x00, CHR 0x80]\<rparr>
   | Open _ _ _ \<Rightarrow> ok\<lparr>rv := 3\<rparr> | Syscall _ _ \<Rightarrow> ok\<lparr>rv := 4096\<rparr> | _ \<Rightarrow> ok\<lparr>rv := 1\<rparr>)"

lemma move_after_offline: "offline_after n 0x8000000000000005 0x8000000000000006 (move_after n)"
proof -
  have b: "bit (0x8000000000000005 :: u64) 63" "bit (0x8000000000000006 :: u64) 63"
    by (simp_all add: bit_iff_odd_drop_bit drop_bit_eq_div)
  have "take_bit 55 (0x8000000000000005 :: u64) = 5" "take_bit 55 (0x8000000000000006 :: u64) = 6"
    by (simp_all add: take_bit_eq_mod)
  then have "phys_at 0x8000000000000005 a \<noteq> phys_at 0x8000000000000006 a" for a
    by (simp add: phys_at_def)
  with b show ?thesis
    by (simp add: offline_after_def move_after_def ok_def push_bit_eq_mult)
qed

definition rep0 :: rep where
  "rep0 = \<lparr>trace = [], vtop_pagesize = 0, rep_trigger = 0\<rparr>"

theorem rep_ce_page_verdict_witness:
  "fst (main_rep_ce_page [''rep_ce_page''] (move_after 4) rep0) = Val 0
   \<and> fst (main_rep_ce_page [''rep_ce_page''] (move_after 31) rep0) = Val 1"
  using rep_ce_page_verdict [OF move_after_offline [of 4], of rep0 30 "[''rep_ce_page'']"]
    rep_ce_page_verdict [OF move_after_offline [of 31], of rep0 30 "[''rep_ce_page'']"]
  by (simp add: rep0_def page_known_def)

section \<open>The address option of the victim\<close>

lemma getsubopt_last:
  assumes "CHR ''='' \<notin> set name" "CHR '','' \<notin> set name" "CHR '','' \<notin> set w"
  shows "getsubopt (name @ CHR ''='' # w) = (name, Some w, [])"
    "getsubopt (name @ CHR ''='' # w @ CHR '','' # r) = (name, Some w, r)"
proof -
  have t: "takeWhile (\<lambda>c. c \<noteq> CHR '','') (name @ CHR ''='' # w) = name @ CHR ''='' # w"
    "takeWhile (\<lambda>c. c \<noteq> CHR '','') (name @ CHR ''='' # w @ CHR '','' # r) = name @ CHR ''='' # w"
    "dropWhile (\<lambda>c. c \<noteq> CHR '','') (name @ CHR ''='' # w) = []"
    "dropWhile (\<lambda>c. c \<noteq> CHR '','') (name @ CHR ''='' # w @ CHR '','' # r) = CHR '','' # r"
    using assms(2,3) by (induction name; induction w; auto)+
  have e: "takeWhile (\<lambda>c. c \<noteq> CHR ''='') (name @ CHR ''='' # w) = name"
    "dropWhile (\<lambda>c. c \<noteq> CHR ''='') (name @ CHR ''='' # w) = CHR ''='' # w"
    using assms(1) by (induction name) auto
  show "getsubopt (name @ CHR ''='' # w) = (name, Some w, [])"
    "getsubopt (name @ CHR ''='' # w @ CHR '','' # r) = (name, Some w, r)"
    unfolding getsubopt_def Let_def t e by simp_all
qed

lemma printed_not_special:
  assumes "c \<in> set (show_nat b n)" "2 \<le> b" "b \<le> 16"
  shows "digit_val c < b" "c \<noteq> CHR '',''" "c \<noteq> CHR ''-''" "c \<noteq> CHR ''+''" "\<not> isspace c"
proof -
  show d: "digit_val c < b" using assms show_nat_digits [of b n] by (auto simp: list_all_iff)
  with assms(3) show "c \<noteq> CHR '',''" "c \<noteq> CHR ''-''" "c \<noteq> CHR ''+''" "\<not> isspace c"
    using blank_no_digit [of c] by (auto simp: digit_val_def)
qed

lemma digits_printed: "2 \<le> b \<Longrightarrow> b \<le> 16 \<Longrightarrow> digits b 0 (show_nat b n) = (n, [])"
  using digits_show_nat [of b 0 n "[]"] by simp

lemma subopt_hex: "subopt_number (''0x'' @ show_hex v) = Some v"
proof -
  obtain c cs where c: "show_nat 16 (unat v) = c # cs" "digit_val c < 16"
    using show_nat_digits [of 16 "unat v"] by (cases "show_nat 16 (unat v)") auto
  have "strto_digits 0 (''0x'' @ show_hex v) = Some (unat v, [])"
    using c digits_printed [of 16 "unat v"] by (simp add: strto_digits_def show_hex_def)
  then have "strto 0 (''0x'' @ show_hex v) = (False, unat v, [])"
    by (simp add: strto_def Let_def isspace_def)
  moreover have "unat v < 2 ^ 64" using unsigned_less [of v, where 'a = nat] by simp
  ultimately show ?thesis by (simp add: subopt_number_def strtoul_def)
qed

lemma show_nat_hd: "0 < n \<Longrightarrow> hd (show_nat 10 n) \<noteq> CHR ''0''"
proof (induction n rule: less_induct)
  case (less n)
  show ?case
  proof (cases "n < 10")
    case True
    have "digit_val (digit_char n) = n" using True by (simp add: digit_val_char)
    with less.prems have "digit_char n \<noteq> CHR ''0''" by (auto simp: digit_val_def)
    with True show ?thesis by (simp add: show_nat.simps [of 10 n])
  next
    case False
    then have "show_nat 10 n = show_nat 10 (n div 10) @ [digit_char (n mod 10)]"
      by (simp add: show_nat.simps [of 10 n])
    with False less.IH [of "n div 10"] show_nat_digits [of 10 "n div 10"] show ?thesis by simp
  qed
qed

lemma subopt_dec:
  assumes "0 < n" "n < 2 ^ 64"
  shows "subopt_number (show_nat 10 n) = Some (of_nat n)"
proof -
  obtain c cs where c: "show_nat 10 n = c # cs" using show_nat_digits [of 10 n] by (cases "show_nat 10 n") auto
  then have d: "digit_val c < 10" "c \<noteq> CHR ''0''" "c \<noteq> CHR ''-''" "c \<noteq> CHR ''+''" "\<not> isspace c"
    using printed_not_special [of c 10 n] show_nat_hd [OF assms(1)] by simp_all
  have "strto_digits 0 (show_nat 10 n) = Some (n, [])"
    using c d digits_printed [of 10 n] by (simp add: strto_digits_def)
  then have "strto 0 (show_nat 10 n) = (False, n, [])"
    using c d by (simp add: strto_def Let_def)
  then show ?thesis using assms(2) by (simp add: subopt_number_def strtoul_def)
qed

text \<open>C28: the address option of the victim reads back what the tools print: a virtual address as \<open>%p\<close> and
  \<open>0x%lx\<close> show it and a process number, in either order, are accepted and give the two numbers.\<close>

theorem victim_address_roundtrip:
  assumes "0 < pid" "pid < 2 ^ 31"
  shows "parse_addr_subopts (''vaddr=0x'' @ show_hex v @ '',pid='' @ show_int pid) = Val (Some (v, pid))
    \<and> parse_addr_subopts (''pid='' @ show_int pid @ '',vaddr=0x'' @ show_hex v) = Val (Some (v, pid))"
proof -
  define n where "n = nat pid"
  have n: "0 < n" "n < 2 ^ 31" "show_int pid = show_nat 10 n" "pid = int n"
    using assms by (simp_all add: n_def show_int_def)
  have w: "CHR '','' \<notin> set (''0x'' @ show_hex v)" "CHR '','' \<notin> set (show_nat 10 n)"
    using printed_not_special(2) [of _ 16 "unat v"] printed_not_special(2) [of _ 10 n] by (auto simp: show_hex_def)
  note g = getsubopt_last [where name = "''vaddr''" and w = "''0x'' @ show_hex v", simplified, OF w(1) [simplified]]
    getsubopt_last [where name = "''pid''" and w = "show_nat 10 n", simplified, OF w(2)]
  have o: "addr_subopts (''vaddr=0x'' @ show_hex v @ '',pid='' @ show_int pid) (None, None)
      = Some (Some (''0x'' @ show_hex v), Some (show_nat 10 n))"
    "addr_subopts (''pid='' @ show_int pid @ '',vaddr=0x'' @ show_hex v) (None, None)
      = Some (Some (''0x'' @ show_hex v), Some (show_nat 10 n))"
    by (simp_all add: addr_subopts.simps g n(3))
  have d: "subopt_number (show_nat 10 n) = Some (of_nat n)" "s32 (uint (of_nat n :: u64)) = int n"
    using n(1,2) by (simp_all add: subopt_dec unsigned_of_nat take_bit_nat_eq_self s32_small)
  show ?thesis
    using n(1) unfolding parse_addr_subopts_def o by (simp add: subopt_hex [simplified] d n(4))
qed

theorem victim_address_roundtrip_witness:
  "parse_addr_subopts (''vaddr=0x'' @ show_hex 0x7f001000 @ '',pid='' @ show_int 4711) = Val (Some (0x7f001000, 4711))"
  using victim_address_roundtrip [of 4711] by simp

end
