(* ===== verification/Bytes.thy ===== *)
theory Bytes
  imports Prelude
begin

text \<open>
  Structures as the little-endian bytes that are handed to a device, and what a reader finds at the
  offsets of their fields.
\<close>

primrec le_bytes :: "nat \<Rightarrow> nat \<Rightarrow> string" where
  "le_bytes 0 v = []"
| "le_bytes (Suc n) v = char_of (v mod 256) # le_bytes n (v div 256)"

primrec le_value :: "string \<Rightarrow> nat" where
  "le_value [] = 0"
| "le_value (c # cs) = of_char c + 256 * le_value cs"

definition field :: "nat \<Rightarrow> nat \<Rightarrow> string \<Rightarrow> 'a::len word" where
  "field off n s = of_nat (le_value (take n (drop off s)))"

lemma length_le_bytes [simp]: "length (le_bytes n v) = n"
  by (induction n arbitrary: v) simp_all

lemma le_value_bytes: "le_value (le_bytes n v) = v mod 256 ^ n"
proof (induction n arbitrary: v)
  case (Suc n)
  have "v mod (256 * 256 ^ n) = 256 * (v div 256 mod 256 ^ n) + v mod 256" by (rule mod_mult2_eq)
  then show ?case by (simp add: Suc of_char_of)
qed simp

lemma field_here:
  assumes "LENGTH('a) = 8 * n"
  shows "field 0 n (le_bytes n (unat w) @ b) = (w :: 'a::len word)" "field 0 n (le_bytes n (unat w)) = w"
proof -
  have "unat w < 2 ^ LENGTH('a)" by (rule unsigned_less)
  then have "unat w < 256 ^ n" by (simp add: assms power_mult)
  then show "field 0 n (le_bytes n (unat w) @ b) = w" "field 0 n (le_bytes n (unat w)) = w"
    by (simp_all add: field_def le_value_bytes)
qed

lemma field_behind: "j \<le> off \<Longrightarrow> field off n (le_bytes j v @ b) = field (off - j) n b"
  by (simp add: field_def)

lemma sizes: "LENGTH(64) = 8 * 8" "LENGTH(32) = 8 * 4" "LENGTH(16) = 8 * 2" "LENGTH(8) = 8 * 1"
  by simp_all

lemma field_at: "field off n (b @ c) = field (off - length b) n c" if "length b \<le> off"
  using that by (simp add: field_def)

end
