(* ===== verification/Mce.thy ===== *)
theory Mce
  imports Hornet Bytes
begin

text \<open>
  \<open>lib/mce.h\<close>, \<open>lib/test_mce-srar.c\<close> and \<open>lib/test_multiple_mappings_srar.c\<close>: machine checks are
  injected through \<open>/dev/mcelog\<close>, one record per processor.  The injection code is the same in both
  tests.  The threads it starts wait for the variable \<open>blocked\<close> and write one record each; the order
  in which they do is the parameter \<open>sched\<close>.
\<close>

section \<open>Records\<close>

definition MCG_STATUS_RIPV :: u64 where "MCG_STATUS_RIPV = push_bit 0 1"
definition MCG_STATUS_MCIP :: u64 where "MCG_STATUS_MCIP = push_bit 2 1"
definition MCI_STATUS_UC :: u64 where "MCI_STATUS_UC = push_bit 61 1"

definition MCJ_CTX_MASK :: "8 word" where "MCJ_CTX_MASK = 3"
definition MCJ_CTX_RANDOM :: "8 word" where "MCJ_CTX_RANDOM = 0"
definition MCJ_CTX_PROCESS :: "8 word" where "MCJ_CTX_PROCESS = 1"
definition MCJ_NMI_BROADCAST :: "8 word" where "MCJ_NMI_BROADCAST = 4"
definition MCJ_EXCEPTION :: "8 word" where "MCJ_EXCEPTION = 8"
definition MCJ_IRQ_BROADCAST :: "8 word" where "MCJ_IRQ_BROADCAST = 0x10"

definition MCJ_CTX :: "8 word \<Rightarrow> 8 word" where
  "MCJ_CTX fl = fl AND MCJ_CTX_MASK"

definition MCJ_CTX_SET :: "8 word \<Rightarrow> 8 word \<Rightarrow> 8 word" where
  "MCJ_CTX_SET fl ctx = (fl AND NOT MCJ_CTX_MASK) OR (ctx AND MCJ_CTX_MASK)"

record mce =
  mce_status :: u64
  mce_misc :: u64
  mce_addr :: u64
  mcgstatus :: u64
  mce_ip :: u64
  mce_tsc :: u64
  mce_time :: u64
  cpuvendor :: "8 word"
  inject_flags :: "8 word"
  pad2 :: "16 word"
  cpuid :: "32 word"
  mce_cs :: "8 word"
  mce_bank :: "8 word"
  mce_cpu :: "8 word"
  finished :: "8 word"
  extcpu :: "32 word"
  socketid :: "32 word"
  apicid :: "32 word"
  mcgcap :: u64

definition init_mce :: mce where
  "init_mce = \<lparr>mce_status = 0, mce_misc = 0, mce_addr = 0, mcgstatus = 0, mce_ip = 0, mce_tsc = 0, mce_time = 0,
     cpuvendor = 0, inject_flags = 0, pad2 = 0, cpuid = 0, mce_cs = 0, mce_bank = 0, mce_cpu = 0, finished = 0,
     extcpu = 0, socketid = 0, apicid = 0, mcgcap = 0\<rparr>"

text \<open>The bytes of the structure, little-endian; its fields have no gaps, its size is 88.\<close>

definition encode_mce :: "mce \<Rightarrow> string" where
  "encode_mce m = le_bytes 8 (unat (mce_status m)) @ le_bytes 8 (unat (mce_misc m)) @ le_bytes 8 (unat (mce_addr m))
     @ le_bytes 8 (unat (mcgstatus m)) @ le_bytes 8 (unat (mce_ip m)) @ le_bytes 8 (unat (mce_tsc m))
     @ le_bytes 8 (unat (mce_time m)) @ le_bytes 1 (unat (cpuvendor m)) @ le_bytes 1 (unat (inject_flags m))
     @ le_bytes 2 (unat (pad2 m)) @ le_bytes 4 (unat (cpuid m)) @ le_bytes 1 (unat (mce_cs m))
     @ le_bytes 1 (unat (mce_bank m)) @ le_bytes 1 (unat (mce_cpu m)) @ le_bytes 1 (unat (finished m))
     @ le_bytes 4 (unat (extcpu m)) @ le_bytes 4 (unat (socketid m)) @ le_bytes 4 (unat (apicid m))
     @ le_bytes 8 (unat (mcgcap m))"

section \<open>State\<close>

text \<open>
  \<open>cpu_map\<close> holds the processor numbers, \<open>cpu_num\<close> is its length; \<open>cpu_mce\<close> the records that are held
  back, with their addresses.  The last two fields are the addresses of these arrays.
\<close>

record mcst = io +
  mce_flags :: "32 word"
  cpu_map :: "int list"
  cpu_mce :: "(addr \<times> mce) option list"
  do_dump :: int
  no_random :: int
  max_bank_seen :: int
  cpu_map_at :: addr
  cpu_mce_at :: addr

definition mcst0 :: mcst where
  "mcst0 = \<lparr>trace = [], mce_flags = 0, cpu_map = [], cpu_mce = [], do_dump = 0, no_random = 0, max_bank_seen = 0,
     cpu_map_at = 0, cpu_mce_at = 0\<rparr>"

definition MCE_NOBROADCAST :: "32 word" where "MCE_NOBROADCAST = push_bit 0 1"
definition MCE_HOLD :: "32 word" where "MCE_HOLD = push_bit 1 1"
definition MCE_RAISE_MODE :: "32 word" where "MCE_RAISE_MODE = push_bit 2 1"
definition MCE_IRQBROADCAST :: "32 word" where "MCE_IRQBROADCAST = push_bit 3 1"
definition MCE_NMIBROADCAST :: "32 word" where "MCE_NMIBROADCAST = push_bit 4 1"

definition BANKS :: string where "BANKS = ''/sys/devices/system/machinecheck/machinecheck0''"

definition yyerror :: "('s, 'a) prog" where "yyerror = stop (Exit 1)"
definition oom :: "('s, 'a) prog" where "oom = stop (Exit 1)"
definition mce_err :: "('s, 'a) prog" where "mce_err = stop (Exit 1)"

definition xalloc :: "u64 \<Rightarrow> ('z io_scheme, addr) prog" where
  "xalloc sz = bnd (sysv (Malloc sz)) (\<lambda>p. if p = 0 then oom else ret (ul p))"

definition xcalloc :: "u64 \<Rightarrow> u64 \<Rightarrow> ('z io_scheme, addr) prog" where
  "xcalloc a b = bnd (sysv (Malloc (a * b))) (\<lambda>p. if p = 0 then oom else ret (ul p))"

section \<open>Banks and processors\<close>

definition bank_of :: "string \<Rightarrow> int option" where
  "bank_of name = (if take 4 name = ''bank'' then map_option (s32 \<circ> fst) (scan_num 10 (drop 4 name)) else None)"

definition max_bank :: "('z mcst_scheme, int) prog" where
  "max_bank = bnd (get max_bank_seen) (\<lambda>m. if m \<noteq> 0 then ret m
     else bnd (sys (Opendir BANKS)) (\<lambda>r. if rv r = 0 then ret 255
       else let b = fold (\<lambda>name b. case bank_of name of None \<Rightarrow> b | Some x \<Rightarrow> max b x) (entries r) 0 in
         sqn (put (\<lambda>s. s\<lparr>max_bank_seen := b\<rparr>)) (sqn (call Closedir) (ret b))))"

text \<open>\<open>sscanf(line, "processor : %u\n", &cpu)\<close>.\<close>

definition processor_of :: "string \<Rightarrow> int option" where
  "processor_of line = (if take 9 line = ''processor''
     then Option.bind (scan_lit (CHR '':'') (dropWhile isspace (drop 9 line))) (\<lambda>r. map_option (s32 \<circ> fst) (scan_num 10 r))
     else None)"

primrec read_cpus :: "int \<Rightarrow> string list \<Rightarrow> int list \<Rightarrow> int list" where
  "read_cpus max_cpu [] cpus = cpus"
| "read_cpus max_cpu (l # ls) cpus = read_cpus max_cpu ls (case processor_of l of
     None \<Rightarrow> cpus | Some c \<Rightarrow> if int (length cpus) < max_cpu then cpus @ [c] else cpus)"

definition init_cpu_info :: "('z mcst_scheme, unit) prog" where
  "init_cpu_info = bnd (sys (Fopen ''/proc/cpuinfo'' ''r'')) (\<lambda>r. bnd (sysv (Sysconf 83)) (\<lambda>n.
     if rv r = 0 then mce_err
     else bnd (xcalloc 4 (ul (s32 n))) (\<lambda>p.
       sqn (put (\<lambda>s. s\<lparr>cpu_map_at := p, cpu_map := read_cpus (s32 n) (entries r) (cpu_map s)\<rparr>)) (call Fclose))))"

definition init_inject :: "('z mcst_scheme, unit) prog" where
  "init_inject = bnd (get cpu_map) (\<lambda>cpus. bnd (xcalloc (of_nat (length cpus)) 8) (\<lambda>p.
     put (\<lambda>s. s\<lparr>cpu_mce_at := p, cpu_mce := replicate (length cpus) None\<rparr>)))"

definition clean_inject :: "('z mcst_scheme, unit) prog" where
  "clean_inject = bnd (get cpu_mce_at) (\<lambda>p. bnd (get cpu_map_at) (\<lambda>q. sqn (call (Free p)) (call (Free q))))"

fun index_of :: "int \<Rightarrow> int list \<Rightarrow> nat option" where
  "index_of x [] = None"
| "index_of x (c # cs) = (if c = x then Some 0 else map_option Suc (index_of x cs))"

definition cpu_id_to_index :: "int \<Rightarrow> ('z mcst_scheme, nat) prog" where
  "cpu_id_to_index i = bnd (get cpu_map) (\<lambda>cpus. case index_of i cpus of None \<Rightarrow> yyerror | Some j \<Rightarrow> ret j)"

definition validate_mce :: "mce \<Rightarrow> ('z mcst_scheme, unit) prog" where
  "validate_mce m = bnd (cpu_id_to_index (sint (extcpu m))) (\<lambda>_. bnd max_bank (\<lambda>b.
     if b < uint (mce_bank m) then yyerror else skip))"

section \<open>Injection\<close>

definition write_mce :: "int \<Rightarrow> mce \<Rightarrow> ('z io_scheme, unit) prog" where
  "write_mce fd m = bnd (sysv (Write fd (encode_mce m))) (\<lambda>n. if n \<le> 0 then mce_err else skip)"

text \<open>
  A thread has its processor and points to its record: that of the caller, one that was held back,
  or its own.
\<close>

datatype pointee = Caller | Held nat | Own mce

record thread =
  t_addr :: addr
  t_m :: pointee
  t_cpu :: int

definition held_record :: "(addr \<times> mce) option list \<Rightarrow> nat \<Rightarrow> mce" where
  "held_record held i = (case held ! i of Some (_, v) \<Rightarrow> v | None \<Rightarrow> init_mce)"

definition pointed :: "mce \<Rightarrow> (addr \<times> mce) option list \<Rightarrow> pointee \<Rightarrow> mce" where
  "pointed m held p = (case p of Caller \<Rightarrow> m | Held i \<Rightarrow> held_record held i | Own v \<Rightarrow> v)"

definition injector :: "int \<Rightarrow> mce \<Rightarrow> thread \<Rightarrow> ('z mcst_scheme, unit) prog" where
  "injector fd m t = sqn (call (SetAffinity (t_cpu t)))
     (bnd (get cpu_mce) (\<lambda>held. write_mce fd (pointed m held (t_m t))))"

text \<open>The record for the other processors.\<close>

definition other_mce :: "mce \<Rightarrow> mce" where
  "other_mce m = init_mce\<lparr>
     mcgstatus := (mcgstatus m AND MCG_STATUS_MCIP) OR (if mce_status m AND MCI_STATUS_UC \<noteq> 0 then MCG_STATUS_RIPV else 0),
     mce_status := mce_status m AND MCI_STATUS_UC, inject_flags := 0 OR MCJ_EXCEPTION\<rparr>"

definition set_process :: "mce \<Rightarrow> mce" where
  "set_process m = m\<lparr>inject_flags := MCJ_CTX_SET (inject_flags m) MCJ_CTX_PROCESS\<rparr>"

definition is_random :: "mce \<Rightarrow> bool" where
  "is_random m \<longleftrightarrow> MCJ_CTX (inject_flags m) = MCJ_CTX_RANDOM"

text \<open>A record is changed where it is.\<close>

definition make_process :: "mce \<Rightarrow> pointee \<Rightarrow> ('z mcst_scheme, mce \<times> pointee) prog" where
  "make_process m p = (case p of
     Caller \<Rightarrow> ret (set_process m, p)
   | Held i \<Rightarrow> sqn (put (\<lambda>s. s\<lparr>cpu_mce := (cpu_mce s)[i := map_option (\<lambda>(a, v). (a, set_process v)) (cpu_mce s ! i)]\<rparr>)) (ret (m, p))
   | Own v \<Rightarrow> ret (m, Own (set_process v)))"

definition spawn :: "addr \<Rightarrow> int \<Rightarrow> mce \<times> pointee \<Rightarrow> bool \<times> thread list
    \<Rightarrow> ('z io_scheme, mce \<times> bool \<times> thread list) prog" where
  "spawn t c = (\<lambda>(m, p) (rnd, tlist). bnd (sysv (Syscall ''pthread_create'' [t])) (\<lambda>r.
     if r \<noteq> 0 then mce_err else ret (m, rnd, \<lparr>t_addr = t, t_m = p, t_cpu = c\<rparr> # tlist)))"

text \<open>The second half of the loop body: a record with a random context is written at once.\<close>

definition launch :: "int \<Rightarrow> addr \<Rightarrow> int \<Rightarrow> mce \<times> pointee \<Rightarrow> bool \<times> thread list
    \<Rightarrow> ('z mcst_scheme, mce \<times> bool \<times> thread list) prog" where
  "launch fd t c = (\<lambda>(m, p) (rnd, tlist). bnd (get no_random) (\<lambda>nr. bnd (get cpu_mce) (\<lambda>held.
     let v = pointed m held p in
     if nr \<noteq> 0 \<and> is_random v then bnd (make_process m p) (\<lambda>mp. spawn t c mp (rnd, tlist))
     else if is_random v then sqn (write_mce fd v) (sqn (call (Free t)) (ret (m, True, tlist)))
     else spawn t c (m, p) (rnd, tlist))))"

definition inject_cpu :: "int \<Rightarrow> mce \<Rightarrow> nat \<times> int \<Rightarrow> mce \<times> bool \<times> thread list
    \<Rightarrow> ('z mcst_scheme, mce \<times> bool \<times> thread list) prog" where
  "inject_cpu fd otherm = (\<lambda>(i, c) (m, acc). let cpu = word_of_int c :: 32 word in
     bnd (xalloc 120) (\<lambda>t. bnd (get mce_flags) (\<lambda>fl. bnd (get cpu_mce) (\<lambda>held.
     if cpu = extcpu m then launch fd t c (if is_random m then set_process m else m, Caller) acc
     else if held ! i \<noteq> None then launch fd t c (m, Held i) acc
     else if fl AND MCE_NOBROADCAST \<noteq> 0 then sqn (call (Free t)) (ret (m, acc))
     else launch fd t c (m, Own (otherm\<lparr>mce_cpu := ucast cpu, extcpu := cpu\<rparr>)) acc))))"

primrec inject_cpus :: "int \<Rightarrow> mce \<Rightarrow> (nat \<times> int) list \<Rightarrow> mce \<times> bool \<times> thread list
    \<Rightarrow> ('z mcst_scheme, mce \<times> bool \<times> thread list) prog" where
  "inject_cpus fd otherm [] st = ret st"
| "inject_cpus fd otherm (x # xs) st = bnd (inject_cpu fd otherm x st) (inject_cpus fd otherm xs)"

definition broadcast_flag :: "32 word \<Rightarrow> mce \<Rightarrow> mce" where
  "broadcast_flag fl m = m\<lparr>inject_flags := inject_flags m OR
     (if fl AND MCE_IRQBROADCAST \<noteq> 0 then MCJ_IRQ_BROADCAST else MCJ_NMI_BROADCAST)\<rparr>"

definition do_inject_mce :: "(thread list \<Rightarrow> thread list) \<Rightarrow> int \<Rightarrow> mce \<Rightarrow> ('z mcst_scheme, mce) prog" where
  "do_inject_mce sched fd m = bnd (get cpu_map) (\<lambda>cpus.
     bnd (inject_cpus fd (other_mce m) (enumerate 0 cpus) (m, False, [])) (\<lambda>(m, rnd, tlist).
     bnd (get mce_flags) (\<lambda>fl. let m' = (if rnd then broadcast_flag fl m else m) in
     sqn (for_each (sched tlist) (injector fd m'))
     (sqn (for_each tlist (\<lambda>t. sqn (call (Syscall ''pthread_join'' [t_addr t])) (call (Free (t_addr t)))))
      (ret m')))))"

definition free_record :: "(addr \<times> mce) option \<Rightarrow> ('z io_scheme, unit) prog" where
  "free_record h = (case h of None \<Rightarrow> skip | Some (a, _) \<Rightarrow> call (Free a))"

definition hold_mce :: "mce \<Rightarrow> ('z mcst_scheme, mce) prog" where
  "hold_mce m = bnd (cpu_id_to_index (sint (extcpu m))) (\<lambda>j. bnd (xalloc 88) (\<lambda>nm.
     bnd (get cpu_mce) (\<lambda>held. sqn (free_record (held ! j))
       (sqn (put (\<lambda>s. s\<lparr>cpu_mce := (cpu_mce s)[j := Some (nm, m)]\<rparr>)) (ret m)))))"

definition exception_flag :: "32 word \<Rightarrow> mce \<Rightarrow> mce" where
  "exception_flag fl m = (if fl AND MCE_RAISE_MODE = 0
     then if mce_status m AND MCI_STATUS_UC \<noteq> 0 then m\<lparr>inject_flags := inject_flags m OR MCJ_EXCEPTION\<rparr>
       else m\<lparr>inject_flags := inject_flags m AND NOT MCJ_EXCEPTION\<rparr>
     else m)"

definition free_held :: "('z mcst_scheme, unit) prog" where
  "free_held = bnd (get cpu_mce) (\<lambda>held. sqn (for_each held free_record)
     (put (\<lambda>s. s\<lparr>cpu_mce := replicate (length held) None\<rparr>)))"

definition inject_mce :: "(thread list \<Rightarrow> thread list) \<Rightarrow> mce \<Rightarrow> ('z mcst_scheme, mce) prog" where
  "inject_mce sched m = sqn (validate_mce m) (bnd (get mce_flags) (\<lambda>fl. let m1 = exception_flag fl m in
     if fl AND MCE_HOLD \<noteq> 0 then hold_mce m1
     else bnd (sysv (Open ''/dev/mcelog'' 2 0)) (\<lambda>fd. if fd < 0 then mce_err
       else sqn (if inject_flags m1 AND MCJ_EXCEPTION = 0
           then put (\<lambda>s. s\<lparr>mce_flags := (((mce_flags s OR MCE_NOBROADCAST) AND NOT MCE_IRQBROADCAST) AND NOT MCE_NMIBROADCAST)\<rparr>)
           else skip)
         (bnd (do_inject_mce sched fd m1) (\<lambda>m2. sqn free_held (sqn (call (Close fd)) (ret m2)))))))"

definition show_unsigned :: "'a::len word \<Rightarrow> string" where
  "show_unsigned w = show_nat 10 (unat w)"

definition show_hex2 :: "8 word \<Rightarrow> string" where
  "show_hex2 w = (let s = show_nat 16 (unat w) in if length s = 1 then CHR ''0'' # s else s)"

definition dump_mce :: "mce \<Rightarrow> ('z io_scheme, unit) prog" where
  "dump_mce m = for_each
    [''CPU '' @ show_int (sint (extcpu m)), ''BANK '' @ show_unsigned (mce_bank m), ''TSC 0x'' @ show_hex (mce_tsc m),
     ''TIME '' @ show_unsigned (mce_time m), ''RIP 0x'' @ show_hex2 (mce_cs m) @ '':0x'' @ show_hex (mce_ip m),
     ''MISC 0x'' @ show_hex (mce_misc m), ''ADDR 0x'' @ show_hex (mce_addr m), ''STATUS 0x'' @ show_hex (mce_status m),
     ''MCGSTATUS 0x'' @ show_hex (mcgstatus m),
     ''PROCESSOR '' @ show_unsigned (cpuvendor m) @ '':0x'' @ show_nat 16 (unat (cpuid m)) @ eol] println"

definition submit_mce :: "(thread list \<Rightarrow> thread list) \<Rightarrow> mce \<Rightarrow> ('z mcst_scheme, unit) prog" where
  "submit_mce sched m = bnd (get do_dump) (\<lambda>d. if d \<noteq> 0 then dump_mce m else bnd (inject_mce sched m) (\<lambda>_. skip))"

section \<open>The SRAR test\<close>

definition set_srar_no_en :: "mce \<Rightarrow> mce" where
  "set_srar_no_en m = m\<lparr>mce_status := 0xa580000000000000, mcgstatus := 0x6, mce_misc := 0\<rparr>"

definition set_srao_ewb_noripv :: "mce \<Rightarrow> mce" where
  "set_srao_ewb_noripv m = m\<lparr>mce_status := 0xbd0000000000017a, mcgstatus := 0x4, mce_misc := 0x8c, mce_cs := 0, mce_ip := 0\<rparr>"

text \<open>An entry that could not be read is a value that was never set.\<close>

definition read_entry :: "int \<Rightarrow> u64 \<Rightarrow> ('z io_scheme, u64) prog" where
  "read_entry fd off = bnd (sys (Pread fd 8 off)) (\<lambda>r.
     if rv r = 8 then ret (u64_of_bytes (bytes r)) else bnd (sysv Indet) (\<lambda>v. ret (ul v)))"

definition srar_record :: "u64 \<Rightarrow> mce" where
  "srar_record a = init_mce\<lparr>extcpu := 0, mce_bank := 2, mce_cs := 0x73, mce_ip := 0x1eadbabe, mce_misc := 0x8c,
     mce_addr := a, mce_status := 0xbd80000000000134, mcgstatus := 0x7\<rparr>"

definition srar_child :: "(thread list \<Rightarrow> thread list) \<Rightarrow> u64 \<Rightarrow> ('z mcst_scheme, int) prog" where
  "srar_child sched frame = bnd (sysv Getpid) (\<lambda>pid. sqn (println (show_int pid)) (let a = push_bit 12 frame in
     sqn (println (''addr:'' @ show_hex a))
     (bnd (inject_mce sched (set_srao_ewb_noripv (srar_record a))) (\<lambda>_.
      sqn (println ''child inject done'') (ret 0)))))"

text \<open>The handler of the test ends the process, with 135 when the error asks for an action.\<close>

definition sigbus_text :: "int \<Rightarrow> int \<Rightarrow> addr \<Rightarrow> int \<Rightarrow> string" where
  "sigbus_text pid si_code si_addr lsb = ''Signal received: pid:'' @ show_int pid @ '', signo:7, si_code:'' @ show_int si_code
     @ '', si_addr:'' @ show_ptr si_addr @ '', si_addr_lsb:'' @ show_int lsb"

definition srar_sigbus_action :: "int \<Rightarrow> addr \<Rightarrow> int \<Rightarrow> ('z io_scheme, unit) prog" where
  "srar_sigbus_action si_code si_addr lsb = bnd (sysv Getpid) (\<lambda>pid.
     sqn (println (sigbus_text pid si_code si_addr lsb)) (stop (Exit (if si_code = 4 then 135 else 1))))"

definition main_srar :: "(thread list \<Rightarrow> thread list) \<Rightarrow> ('z mcst_scheme, int) prog" where
  "main_srar sched =
    bnd (sysv (Malloc 4096)) (\<lambda>array.
    sqn (call (Sigaction 7 1))
    (sqn init_cpu_info
    (sqn init_inject
    (bnd (sysv (Open ''testfile'' 0x42 438)) (\<lambda>fd.
     if array = 0 then stop (Fault NullDeref)
     else sqn (call (Pwrite fd (replicate 4096 (CHR ''a'')) 0))
     (bnd (sysv (Mmap 0x700000000000 4096 3 1 fd 0)) (\<lambda>p.
     sqn (call (Store (ul p) (CHR ''x'')))
     (bnd (sysv Getpid) (\<lambda>pid.
     bnd (sysv (Open (pagemap_name pid) 0 0)) (\<lambda>pmfd.
     bnd (read_entry pmfd (0x700000000 * 8)) (\<lambda>entry. let frame = entry AND 0xfffffffffff in
     sqn (println (show_ptr (ul p)))
     (sqn (println (show_hex (take_bit 32 (ul pmfd))))
     (sqn (println (show_hex entry))
     (sqn (println (show_hex frame))
     (bnd (sysv Fork) (\<lambda>child. if child \<noteq> 0
       then bnd (sysv Getpid) (\<lambda>pid. sqn (println (show_int pid))
         (sqn (call (Sleep 3)) (sqn (println ''parent exit'') (ret 0))))
       else srar_child sched frame))))))))))))))))"

section \<open>The test with several mappings\<close>

text \<open>Its handler notes the address of an error that asks for an action and returns.\<close>

record multi = mcst +
  sigbusvaddr :: addr

definition multi_sigbus_action :: "int \<Rightarrow> addr \<Rightarrow> int \<Rightarrow> ('z multi_scheme, unit) prog" where
  "multi_sigbus_action si_code si_addr lsb = bnd (sysv Getpid) (\<lambda>pid.
     sqn (println (sigbus_text pid si_code si_addr lsb))
       (if si_code = 4 then put (\<lambda>s. s\<lparr>sigbusvaddr := si_addr\<rparr>) else skip))"

definition set_srar_data_load :: "mce \<Rightarrow> mce" where
  "set_srar_data_load m = m\<lparr>mce_bank := 2, mce_cs := 0x3, mce_ip := 0x1eadbabe, mce_misc := 0x8c,
     mce_status := 0xbd80000000000134, mcgstatus := 0x7\<rparr>"

definition send_hard_offline :: "u64 \<Rightarrow> ('z io_scheme, unit) prog" where
  "send_hard_offline frame = call (System (''echo 0x'' @ show_hex frame @ ''000 > /sys/devices/system/memory/hard_offline_page''))"

definition map_or :: "sys \<Rightarrow> (addr \<Rightarrow> ('z io_scheme, 'a) prog) \<Rightarrow> ('z io_scheme, 'a) prog" where
  "map_or c f = bnd (sysv c) (\<lambda>p. if ul p = - 1 then mce_err else f (ul p))"

definition multi_base :: addr where "multi_base = 0x700000000000"

text \<open>Two anonymous pages of the same contents for KSM to merge.\<close>

definition map_ksm :: "('z io_scheme, addr \<times> int) prog" where
  "map_ksm = sqn (call (System ''echo 1 > /sys/kernel/mm/ksm/run''))
    (map_or (Mmap multi_base 4096 3 0x22 (- 1) 0) (\<lambda>p.
     map_or (Mmap (multi_base + 4096) 4096 3 0x22 (- 1) 0) (\<lambda>q.
     bnd (sysv (Madvise p 4096 12)) (\<lambda>r. if r = - 1 then mce_err else
     bnd (sysv (Madvise q 4096 12)) (\<lambda>r. if r = - 1 then mce_err else
     sqn (call (Memset p (CHR ''a'') 4096)) (sqn (call (Memset q (CHR ''a'') 4096))
     (sqn (println ''waiting for ksmd to merge the pages'') (sqn (call (Usleep 2000000)) (ret (p, 4096))))))))))"

text \<open>A file is mapped twice, one mapping behind the other.  In one mode the buffer it is filled from
  was allocated, and the allocation not checked.\<close>

definition map_twice :: "bool \<Rightarrow> string \<Rightarrow> int \<Rightarrow> (addr \<Rightarrow> addr \<Rightarrow> ('z io_scheme, unit) prog) \<Rightarrow> ('z io_scheme, addr \<times> int) prog" where
  "map_twice no_buf path sz fill = bnd (sysv (Open path 0x42 438)) (\<lambda>fd. if fd = - 1 then mce_err
     else if no_buf then stop (Fault NullDeref)
     else sqn (call (Pwrite fd (replicate (nat sz) (CHR ''a'')) 0))
     (map_or (Mmap multi_base (ul sz) 3 1 fd 0) (\<lambda>p.
      map_or (Mmap (multi_base + ul sz) (ul sz) 3 1 fd 0) (\<lambda>q. sqn (fill p q) (ret (p, sz))))))"

definition map_1gb :: "('z io_scheme, addr \<times> int) prog" where
  "map_1gb = bnd (sysv (Shmget 10 0x40000000 (0x800 OR push_bit 26 30 OR 0x200 OR 438))) (\<lambda>shm_id.
     if shm_id < 0 then mce_err
     else map_or (Shmat shm_id multi_base 0x2000) (\<lambda>p.
       sqn (call (Memset p (CHR ''a'') 0x40000000)) (ret (p, 0x40000000))))"

text \<open>The first mapping and the size; \<open>None\<close> is an invalid mode.\<close>

definition map_mode :: "bool \<Rightarrow> int \<Rightarrow> ('z io_scheme, (addr \<times> int) option) prog" where
  "map_mode no_array mode =
    (let fill = (\<lambda>p q. sqn (call (Memset p (CHR ''a'') 0x200000)) (call (Memset q (CHR ''a'') 0x200000)));
         some = (\<lambda>m. bnd m (\<lambda>r. ret (Some r))) in
     if mode = 0 then some map_ksm
     else if mode = 1 then some (map_twice no_array ''tmp/testfile'' 4096 (\<lambda>p q. sqn (call (Store p (CHR ''x''))) (call (Store q (CHR ''y'')))))
     else if mode = 2 then some (map_twice False ''tmp/hugetlbfs/testfile'' 0x200000 fill)
     else if mode = 3 then some (map_twice False ''tmp/shmem/testfile'' 0x200000 fill)
     else if mode = 4 then some map_1gb
     else sqn (println ''invalid mode'') (ret None))"

definition multi_record :: "u64 \<Rightarrow> mce" where
  "multi_record a = init_mce\<lparr>extcpu := 0, mce_bank := 2, mce_cs := 0x3, mce_ip := 0x1eadbabe, mce_misc := 0x8c,
     mce_addr := a, mce_status := 0xbd80000000000134, mcgstatus := 0x7\<rparr>"

text \<open>
  A signal that arrives while the record is injected: its code, or 0 for none, and its address.
\<close>

definition deliver_sigbus :: "('z multi_scheme, unit) prog" where
  "deliver_sigbus = bnd (sys Poll) (\<lambda>r. if rv r = 0 then skip
     else multi_sigbus_action (rv r) (u64_of_bytes (bytes r)) (errno r))"

text \<open>0 when the handler saw the second mapping, 1 for another address, 2 when it was not called.\<close>

definition multi_verdict :: "int \<Rightarrow> addr \<Rightarrow> int" where
  "multi_verdict sz v = (if v = multi_base + ul sz then 0 else if v \<noteq> 0 then 1 else 2)"

definition multi_inject :: "(thread list \<Rightarrow> thread list) \<Rightarrow> addr \<times> int \<Rightarrow> ('z multi_scheme, int) prog" where
  "multi_inject sched = (\<lambda>(p, sz). bnd (sysv Getpid) (\<lambda>pid. bnd (sysv (Open (pagemap_name pid) 0 0)) (\<lambda>pmfd.
     bnd (read_entry pmfd ((0x700000000 + ul (cdiv sz 4096)) * 8)) (\<lambda>entry. let frame = entry AND 0xfffffffffff in
     sqn (println (''vaddr: '' @ show_ptr p @ '', pfn; 0x'' @ show_hex frame))
     (sqn (send_hard_offline frame)
     (sqn (println ''inject SRAR MCE'')
     (bnd (inject_mce sched (set_srar_data_load (multi_record (push_bit 12 frame)))) (\<lambda>_.
      sqn deliver_sigbus
      (sqn (println ''inject done'')
      (bnd (get sigbusvaddr) (\<lambda>v. sqn (println (''sigbusvaddr: '' @ show_ptr v)) (ret (multi_verdict sz v)))))))))))))"

definition main_multi :: "(thread list \<Rightarrow> thread list) \<Rightarrow> string list \<Rightarrow> ('z multi_scheme, int) prog" where
  "main_multi sched argv =
    bnd (sysv (Malloc 4096)) (\<lambda>array.
    sqn (call (Sigaction 7 1))
    (sqn init_cpu_info
    (sqn init_inject
    (let mode = (if 1 < length argv then s32 (uint (strtoul 0 (argv ! 1))) else 0) in
     sqn (println (''mode '' @ show_int mode))
     (bnd (map_mode (array = 0) mode) (\<lambda>r. case r of None \<Rightarrow> ret 1 | Some ps \<Rightarrow> multi_inject sched ps))))))"

end
