(* ===== verification/MceLaws.thy ===== *)
theory MceLaws
  imports Mce "HOL-Library.Multiset"
begin

text \<open>
  Records survive the transfer through the device, and an injection of an uncorrected error
  reaches every processor once, the one it is meant for last.
\<close>

section \<open>Records as bytes\<close>

text \<open>What a reader of the structure finds at the offsets of its fields.\<close>

definition decode_mce :: "string \<Rightarrow> mce" where
  "decode_mce s = \<lparr>mce_status = field 0 8 s, mce_misc = field 8 8 s, mce_addr = field 16 8 s, mcgstatus = field 24 8 s,
     mce_ip = field 32 8 s, mce_tsc = field 40 8 s, mce_time = field 48 8 s, cpuvendor = field 56 1 s,
     inject_flags = field 57 1 s, pad2 = field 58 2 s, cpuid = field 60 4 s, mce_cs = field 64 1 s,
     mce_bank = field 65 1 s, mce_cpu = field 66 1 s, finished = field 67 1 s, extcpu = field 68 4 s,
     socketid = field 72 4 s, apicid = field 76 4 s, mcgcap = field 80 8 s\<rparr>"

text \<open>The structure takes 88 bytes, and a reader that finds the fields at their offsets gets back every one of them.\<close>

lemma mce_record_roundtrip: "length (encode_mce m) = 88 \<and> decode_mce (encode_mce m) = m"
proof
  show "length (encode_mce m) = 88" by (simp add: encode_mce_def del: le_bytes.simps)
  show "decode_mce (encode_mce m) = m"
    unfolding decode_mce_def encode_mce_def
    by (simp add: field_behind sizes [THEN field_here(1)] sizes [THEN field_here(2)] del: le_bytes.simps One_nat_def)
qed

section \<open>Who gets which record\<close>

text \<open>The records written, in order.\<close>

definition written :: "sys \<Rightarrow> string option" where
  "written c = (case c of Write _ b \<Rightarrow> Some b | _ \<Rightarrow> None)"

definition mce_writes :: "sys list \<Rightarrow> string list" where
  "mce_writes h = List.map_filter written h"

lemma mce_writes_simps [simp]:
  "mce_writes [] = []" "mce_writes (h @ h') = mce_writes h @ mce_writes h'" "mce_writes (Write fd b # h) = b # mce_writes h"
  "mce_writes (Malloc n # h) = mce_writes h" "mce_writes (Free p # h) = mce_writes h"
  "mce_writes (Syscall f us # h) = mce_writes h" "mce_writes (SetAffinity i # h) = mce_writes h"
  "mce_writes (Open f a b' # h) = mce_writes h" "mce_writes (Close d # h) = mce_writes h"
  "mce_writes (Opendir f # h) = mce_writes h" "mce_writes (Closedir # h) = mce_writes h"
  by (simp_all add: mce_writes_def written_def List.map_filter_def)

definition accepts_mce :: "kernel \<Rightarrow> bool" where
  "accepts_mce k \<longleftrightarrow> (\<forall>h n. rv (k h (Malloc n)) \<noteq> 0) \<and> (\<forall>h fd b. 0 < rv (k h (Write fd b)))
    \<and> (\<forall>h t. rv (k h (Syscall ''pthread_create'' [t])) = 0) \<and> (\<forall>h. 0 \<le> rv (k h (Open ''/dev/mcelog'' 2 0)))"

lemma accepts_mceD:
  assumes "accepts_mce k"
  shows "rv (k h (Malloc n)) \<noteq> 0" "\<not> rv (k h (Write fd b)) \<le> 0" "rv (k h (Syscall ''pthread_create'' [t])) = 0"
    "\<not> rv (k h (Open ''/dev/mcelog'' 2 0)) < 0"
  using assms unfolding accepts_mce_def by (auto simp: not_le not_less)

abbreviation (input) as_cpu :: "int \<Rightarrow> 32 word" where "as_cpu c \<equiv> word_of_int c"

definition record_for :: "mce \<Rightarrow> int \<Rightarrow> mce" where
  "record_for otherm c = otherm\<lparr>mce_cpu := ucast (as_cpu c), extcpu := as_cpu c\<rparr>"

definition in_process :: "mce \<Rightarrow> mce" where
  "in_process m = (if is_random m then set_process m else m)"

lemma in_process_props: "extcpu (in_process m) = extcpu m" "\<not> is_random (in_process m)"
proof -
  have "MCJ_CTX (MCJ_CTX_SET f MCJ_CTX_PROCESS) = 1" for f
    unfolding MCJ_CTX_def MCJ_CTX_SET_def MCJ_CTX_PROCESS_def MCJ_CTX_MASK_def
    by (rule bit_eqI) (auto simp: bit_simps)
  then show "extcpu (in_process m) = extcpu m" "\<not> is_random (in_process m)"
    by (simp_all add: in_process_def set_process_def is_random_def MCJ_CTX_RANDOM_def)
qed

text \<open>The two ways through the loop: a thread for the processor of the caller's record, a write for any other.\<close>

lemma inject_target:
  fixes s :: "'z mcst_scheme"
  assumes "accepts_mce k" "as_cpu c = extcpu m"
  obtains t h where "inject_cpu fd otherm (i, c) (m, rnd, thrs) k s
      = (Val (in_process m, rnd, \<lparr>t_addr = t, t_m = Caller, t_cpu = c\<rparr> # thrs), s\<lparr>trace := trace s @ h\<rparr>)" "mce_writes h = []"
proof -
  have "\<not> is_random (pointed (in_process m) (cpu_mce s) Caller)"
    using in_process_props(2) by (simp add: pointed_def)
  then show thesis
    using assms(2) accepts_mceD [OF assms(1)]
    by (intro that [of "ul (rv (k (trace s) (Malloc 120)))" "[Malloc 120, Syscall ''pthread_create'' [ul (rv (k (trace s) (Malloc 120)))]]"])
      (simp_all add: inject_cpu_def xalloc_def launch_def spawn_def prog_simps Let_def in_process_def [symmetric])
qed

lemma inject_other:
  fixes s :: "'z mcst_scheme"
  assumes "accepts_mce k" "as_cpu c \<noteq> extcpu m" "cpu_mce s ! i = None" "mce_flags s = 0" "no_random s = 0" "is_random otherm"
  obtains h where "inject_cpu fd otherm (i, c) (m, rnd, thrs) k s = (Val (m, True, thrs), s\<lparr>trace := trace s @ h\<rparr>)"
    "mce_writes h = [encode_mce (record_for otherm c)]"
proof -
  have "is_random (record_for otherm c)" using assms(6) by (simp add: is_random_def record_for_def)
  then show thesis
    using assms(2-5) accepts_mceD [OF assms(1)]
    by (intro that [of "[Malloc 120, Write fd (encode_mce (record_for otherm c)), Free (ul (rv (k (trace s) (Malloc 120))))]"])
      (simp_all add: inject_cpu_def xalloc_def launch_def write_mce_def pointed_def prog_simps Let_def record_for_def [symmetric])
qed

lemma inject_cpus_writes:
  fixes s :: "'z mcst_scheme"
  assumes "accepts_mce k" "mce_flags s = 0" "no_random s = 0" "is_random otherm"
    and "\<forall>x \<in> set xs. cpu_mce s ! fst x = None" "distinct (map (\<lambda>x. as_cpu (snd x)) xs)"
  defines "others m \<equiv> filter (\<lambda>c. as_cpu c \<noteq> extcpu m) (map snd xs)"
  shows "\<exists>h ts. inject_cpus fd otherm xs (m, rnd, thrs) k s =
      (Val (if ts = [] then m else in_process m, rnd \<or> others m \<noteq> [], ts @ thrs), s\<lparr>trace := trace s @ h\<rparr>)
    \<and> mce_writes h = map (\<lambda>c. encode_mce (record_for otherm c)) (others m)
    \<and> length ts = (if extcpu m \<in> set (map (\<lambda>x. as_cpu (snd x)) xs) then 1 else 0) \<and> (\<forall>t \<in> set ts. t_m t = Caller \<and> as_cpu (t_cpu t) = extcpu m)"
  using assms(2,3,5,6) unfolding others_def
proof (induction xs arbitrary: m rnd thrs s)
  case Nil
  then show ?case by (intro exI [of _ "[]"] exI [of _ "[]"]) (simp add: prog_simps)
next
  case (Cons x xs)
  obtain i c where x: "x = (i, c)" by (cases x)
  have d: "distinct (map (\<lambda>x. as_cpu (snd x)) xs)" "as_cpu c \<notin> set (map (\<lambda>x. as_cpu (snd x)) xs)"
    using Cons.prems(4) by (auto simp: x)
  show ?case
  proof (cases "as_cpu c = extcpu m")
    case True
    obtain t h1 where s1: "inject_cpu fd otherm (i, c) (m, rnd, thrs) k s
        = (Val (in_process m, rnd, \<lparr>t_addr = t, t_m = Caller, t_cpu = c\<rparr> # thrs), s\<lparr>trace := trace s @ h1\<rparr>)" "mce_writes h1 = []"
      by (rule inject_target [OF assms(1) True])
    let ?t = "\<lparr>t_addr = t, t_m = Caller, t_cpu = c\<rparr>"
    have "extcpu (in_process m) \<notin> set (map (\<lambda>x. as_cpu (snd x)) xs)"
      using d(2) True by (simp add: in_process_props)
    with Cons.IH [of "s\<lparr>trace := trace s @ h1\<rparr>" "in_process m" rnd "?t # thrs"] Cons.prems(1,2,3) d(1)
    obtain h2 where s2: "inject_cpus fd otherm xs (in_process m, rnd, ?t # thrs) k (s\<lparr>trace := trace s @ h1\<rparr>) =
        (Val (in_process m, rnd \<or> filter (\<lambda>c. as_cpu c \<noteq> extcpu m) (map snd xs) \<noteq> [], ?t # thrs), s\<lparr>trace := trace s @ h1 @ h2\<rparr>)"
      "mce_writes h2 = map (\<lambda>c. encode_mce (record_for otherm c)) (filter (\<lambda>c. as_cpu c \<noteq> extcpu m) (map snd xs))"
      by (auto simp: in_process_props)
    show ?thesis
      using s1 s2 True by (intro exI [of _ "h1 @ h2"] exI [of _ "[?t]"]) (simp add: x bnd_eval)
  next
    case False
    obtain h1 where s1: "inject_cpu fd otherm (i, c) (m, rnd, thrs) k s = (Val (m, True, thrs), s\<lparr>trace := trace s @ h1\<rparr>)"
      "mce_writes h1 = [encode_mce (record_for otherm c)]"
      by (rule inject_other [OF assms(1) False _ Cons.prems(1,2) assms(4), of i]) (use Cons.prems(3) x in auto)
    from Cons.IH [of "s\<lparr>trace := trace s @ h1\<rparr>" m True thrs] Cons.prems(1,2,3) d(1)
    obtain h2 ts where s2: "inject_cpus fd otherm xs (m, True, thrs) k (s\<lparr>trace := trace s @ h1\<rparr>) =
        (Val (if ts = [] then m else in_process m, True, ts @ thrs), s\<lparr>trace := trace s @ h1 @ h2\<rparr>)"
      "mce_writes h2 = map (\<lambda>c. encode_mce (record_for otherm c)) (filter (\<lambda>c. as_cpu c \<noteq> extcpu m) (map snd xs))"
      "length ts = (if extcpu m \<in> set (map (\<lambda>x. as_cpu (snd x)) xs) then 1 else 0)" "\<forall>t \<in> set ts. t_m t = Caller \<and> as_cpu (t_cpu t) = extcpu m"
      by auto
    show ?thesis
      using s1 s2 False by (intro exI [of _ "h1 @ h2"] exI [of _ ts]) (auto simp: x bnd_eval)
  qed
qed

lemma fair_single:
  assumes "\<And>xs. mset (sched xs) = mset xs"
  shows "sched [t] = [t]"
  using assms [of "[t]"] by simp

lemma joins_quiet:
  "\<exists>h. for_each ts (\<lambda>t. sqn (call (Syscall ''pthread_join'' [t_addr t])) (call (Free (t_addr t)))) k s
     = (Val (), s\<lparr>trace := trace s @ h\<rparr>) \<and> mce_writes h = []"
proof -
  let ?g = "\<lambda>t. [Syscall ''pthread_join'' [t_addr t], Free (t_addr t)]"
  have "mce_writes (concat (map ?g ts)) = []" by (induction ts) simp_all
  then show ?thesis
    by (intro exI [of _ "concat (map ?g ts)"] conjI for_each_calls) (simp_all add: sqn_eval call_eval)
qed

lemma other_mce_random: "is_random (other_mce m)"
  by (simp add: is_random_def other_mce_def MCJ_CTX_def MCJ_CTX_MASK_def MCJ_EXCEPTION_def MCJ_CTX_RANDOM_def)

text \<open>What the processor of the caller's record gets.\<close>

definition final_record :: "bool \<Rightarrow> mce \<Rightarrow> mce" where
  "final_record rnd m = (if rnd then broadcast_flag 0 (in_process m) else in_process m)"

lemma ctx_bits: "x AND 3 = (0 :: 8 word) \<longleftrightarrow> \<not> bit x 0 \<and> \<not> bit x 1"
proof -
  have m: "(3 :: 8 word) = mask 2" by (simp add: mask_eq_exp_minus_1)
  have b: "bit (x AND mask 2) n \<longleftrightarrow> n < 2 \<and> bit x n" for n
    by (auto simp: bit_simps)
  have "x AND mask 2 = 0 \<longleftrightarrow> (\<forall>n. \<not> bit (x AND mask 2) n)"
    by (metis bit_0_eq bit_eqI bot_apply bot_bool_def)
  also have "\<dots> \<longleftrightarrow> \<not> bit x 0 \<and> \<not> bit x 1"
    unfolding b by (auto dest: less_2_cases)
  finally show ?thesis unfolding m .
qed

text \<open>
  The flags of a record that is raised: as an exception (8), in process context (1) unless another context
  was chosen, with a broadcast (4) when there are other processors.
\<close>

definition raised_flags :: "bool \<Rightarrow> 8 word \<Rightarrow> 8 word" where
  "raised_flags others f = ((if f AND 3 = 0 then f OR 1 else f) OR 8) OR (if others then 4 else 0)"

lemma final_record_flags:
  assumes "inject_flags m = f OR 8"
  shows "inject_flags (final_record b m) = raised_flags b f"
proof -
  have "(f OR 8) AND 3 = 0 \<longleftrightarrow> f AND 3 = 0" unfolding ctx_bits by (simp add: bit_simps bit_numeral_rec)
  moreover have "((f OR 8) AND NOT 3) OR (1 AND 3) = (f OR 1) OR 8" if "f AND 3 = 0"
  proof (rule bit_word_eqI)
    fix n assume "n < LENGTH(8)"
    then have "n = 0 \<or> n = 1 \<or> n = 2 \<or> n = 3 \<or> n = 4 \<or> n = 5 \<or> n = 6 \<or> n = 7" by auto
    then show "bit (((f OR 8) AND NOT 3) OR (1 AND 3)) n = bit ((f OR 1) OR 8) n"
      using that unfolding ctx_bits by (auto simp: bit_simps bit_numeral_rec)
  qed
  ultimately have "inject_flags (in_process m) = (if f AND 3 = 0 then f OR 1 else f) OR 8"
    using assms by (simp add: in_process_def set_process_def is_random_def MCJ_CTX_def MCJ_CTX_SET_def MCJ_CTX_MASK_def
        MCJ_CTX_RANDOM_def MCJ_CTX_PROCESS_def)
  then show ?thesis by (simp add: final_record_def broadcast_flag_def MCJ_NMI_BROADCAST_def raised_flags_def)
qed

text \<open>What the other processors are told: an uncorrected error, and that the interrupted program can go on.\<close>

definition notice :: "mce \<Rightarrow> 32 word \<Rightarrow> mce" where
  "notice m cpu = init_mce\<lparr>mce_status := 2 ^ 61, mcgstatus := (mcgstatus m AND 4) OR 1, inject_flags := 8,
     mce_cpu := ucast cpu, extcpu := cpu\<rparr>"

lemma other_mce_notice:
  assumes "mce_status m AND MCI_STATUS_UC \<noteq> 0"
  shows "record_for (other_mce m) c = notice m (as_cpu c)"
proof -
  have u: "MCI_STATUS_UC = 2 ^ 61" by (simp add: MCI_STATUS_UC_def)
  then have "bit (mce_status m) 61" using assms and_exp_eq_0_iff_not_bit [of "mce_status m" 61] by simp
  moreover have "bit w n \<Longrightarrow> w AND 2 ^ n = 2 ^ n" for w :: u64 and n by (rule bit_eqI) (auto simp: bit_simps)
  ultimately have "mce_status m AND 2 ^ 61 = 2 ^ 61" by blast
  with assms show ?thesis
    unfolding u by (simp add: record_for_def other_mce_def notice_def u MCG_STATUS_MCIP_def MCG_STATUS_RIPV_def MCJ_EXCEPTION_def)
qed

lemma do_inject_mce_writes:
  fixes s :: "'z mcst_scheme"
  assumes "accepts_mce k" "mce_flags s = 0" "no_random s = 0" "cpu_mce s = replicate (length (cpu_map s)) None"
    and "distinct (map as_cpu (cpu_map s))" "extcpu m \<in> set (map as_cpu (cpu_map s))"
    and "\<And>xs. mset (sched xs) = mset xs"
  defines "others \<equiv> filter (\<lambda>c. as_cpu c \<noteq> extcpu m) (cpu_map s)"
  defines "m' \<equiv> final_record (others \<noteq> []) m"
  shows "\<exists>h1 h2 c. do_inject_mce sched fd m k s
      = (Val m', s\<lparr>trace := trace s @ h1 @ [SetAffinity c, Write fd (encode_mce m')] @ h2\<rparr>)
    \<and> as_cpu c = extcpu m \<and> mce_writes h1 = map (\<lambda>c. encode_mce (record_for (other_mce m) c)) others \<and> mce_writes h2 = []"
proof -
  let ?xs = "enumerate 0 (cpu_map s)"
  have xs1: "map snd ?xs = cpu_map s" by (simp add: map_snd_enumerate)
  have xs: "map snd ?xs = cpu_map s" "map (\<lambda>x. as_cpu (snd x)) ?xs = map as_cpu (cpu_map s)"
  proof -
    have "map as_cpu (map snd ?xs) = map as_cpu (cpu_map s)" by (simp only: xs1)
    then show "map (\<lambda>x. as_cpu (snd x)) ?xs = map as_cpu (cpu_map s)" unfolding map_map comp_def .
  qed (rule xs1)
  have free: "\<forall>x \<in> set ?xs. cpu_mce s ! fst x = None"
    by (auto simp: assms(4) in_set_enumerate_eq)
  obtain h1 ts where l: "inject_cpus fd (other_mce m) ?xs (m, False, []) k s =
      (Val (if ts = [] then m else in_process m, others \<noteq> [], ts), s\<lparr>trace := trace s @ h1\<rparr>)"
    "mce_writes h1 = map (\<lambda>c. encode_mce (record_for (other_mce m) c)) others" "length ts = 1" "\<forall>t \<in> set ts. t_m t = Caller \<and> as_cpu (t_cpu t) = extcpu m"
    using inject_cpus_writes [OF assms(1-3) other_mce_random [of m] free, where fd = fd and m = m and rnd = False and thrs = "[]"] assms(5,6)
    unfolding xs others_def by auto
  then obtain t where t: "ts = [t]" "t_m t = Caller" "as_cpu (t_cpu t) = extcpu m" by (auto simp: length_Suc_conv)
  let ?w = "[SetAffinity (t_cpu t), Write fd (encode_mce m')]"
  obtain h2 where j: "for_each [t] (\<lambda>t. sqn (call (Syscall ''pthread_join'' [t_addr t])) (call (Free (t_addr t)))) k
       (s\<lparr>trace := trace s @ h1 @ ?w\<rparr>) = (Val (), s\<lparr>trace := trace s @ h1 @ ?w @ h2\<rparr>)" "mce_writes h2 = []"
    using joins_quiet [of "[t]" k "s\<lparr>trace := trace s @ h1 @ ?w\<rparr>"] by auto
  have w: "for_each (sched [t]) (injector fd m') k (s\<lparr>trace := trace s @ h1\<rparr>) = (Val (), s\<lparr>trace := trace s @ h1 @ ?w\<rparr>)"
    using accepts_mceD(2) [OF assms(1)]
    by (simp add: fair_single [OF assms(7)] injector_def write_mce_def pointed_def t(2) prog_simps)
  have "do_inject_mce sched fd m k s = (Val m', s\<lparr>trace := trace s @ h1 @ ?w @ h2\<rparr>)"
    unfolding do_inject_mce_def using l(1) w j(1) assms(2)
    by (cases "others = []") (simp_all add: t(1) bnd_eval sqn_eval get_eval ret_eval Let_def m'_def final_record_def)
  then show ?thesis using l(2) j(2) t(3) by (intro exI [of _ h1] exI [of _ h2] exI [of _ "t_cpu t"]) simp
qed

lemma validate_mce_ok:
  fixes s :: "'z mcst_scheme"
  assumes "validate_mce m k s = (Val (), s1)"
  shows "sint (extcpu m) \<in> set (cpu_map s)"
    "mce_flags s1 = mce_flags s" "no_random s1 = no_random s" "cpu_map s1 = cpu_map s" "cpu_mce s1 = cpu_mce s"
    "\<exists>h. trace s1 = trace s @ h \<and> mce_writes h = []"
proof -
  have i: "index_of x cs \<noteq> None \<Longrightarrow> x \<in> set cs" for x cs by (induction cs) (auto split: if_splits)
  obtain j where j: "index_of (sint (extcpu m)) (cpu_map s) = Some j"
    using assms by (auto simp: validate_mce_def cpu_id_to_index_def yyerror_def prog_simps split: option.splits)
  with i show "sint (extcpu m) \<in> set (cpu_map s)" by blast
  obtain b s' where b: "max_bank k s = (Val b, s')" "s1 = s'"
    using assms j
    by (auto simp: validate_mce_def cpu_id_to_index_def yyerror_def prog_simps split: prod.splits outcome.splits if_splits)
  show "mce_flags s1 = mce_flags s" "no_random s1 = no_random s" "cpu_map s1 = cpu_map s" "cpu_mce s1 = cpu_mce s"
    using b unfolding max_bank_def by (auto simp: prog_simps Let_def split: if_splits)
  show "\<exists>h. trace s1 = trace s @ h \<and> mce_writes h = []"
    using b unfolding max_bank_def by (auto simp: prog_simps Let_def split: if_splits)
qed

lemma free_held_none:
  fixes s :: "'z mcst_scheme"
  assumes "cpu_mce s = replicate n None"
  shows "free_held k s = (Val (), s)"
proof -
  have "for_each (replicate n None) free_record k s = (Val (), s)"
    by (induction n) (simp_all add: prog_simps free_record_def)
  then show ?thesis using assms by (cases s) (simp add: free_held_def prog_simps)
qed

text \<open>C7: an injection of an uncorrected error, with the default flags of the tool (no hold, no limit on the broadcast, random contexts
  allowed), reaches every processor exactly once.  The others get, in order, a record of 88 bytes that
  says only that an uncorrected error is in progress, raised as an exception; after them the processor
  the record is meant for gets it, from a thread bound to that processor and with only its flags changed: raised as an exception, in
  process context unless the caller chose another, and with the request for a broadcast when there are other processors.\<close>

theorem inject_mce_broadcast:
  fixes s :: "'z mcst_scheme"
  assumes "fst (validate_mce m k s) = Val ()" "accepts_mce k" "mce_flags s = 0" "no_random s = 0"
    and "cpu_mce s = replicate (length (cpu_map s)) None" "distinct (map as_cpu (cpu_map s))"
    and "bit (mce_status m) 61" "\<And>xs. mset (sched xs) = mset xs"
  defines "others \<equiv> filter (\<lambda>c. as_cpu c \<noteq> extcpu m) (cpu_map s)"
  defines "m' \<equiv> m\<lparr>inject_flags := raised_flags (others \<noteq> []) (inject_flags m)\<rparr>"
  shows "\<exists>s' fd c b h1 h2. inject_mce sched m k s = (Val m', s')
    \<and> trace s' = trace s @ h1 @ [SetAffinity c, Write fd b] @ h2 \<and> mce_writes h2 = []
    \<and> list_all (\<lambda>b. length b = 88) (b # mce_writes h1)
    \<and> map decode_mce (mce_writes h1) = map (\<lambda>c. notice m (as_cpu c)) others
    \<and> as_cpu c = extcpu m \<and> decode_mce b = m'"
proof -
  obtain s1 where v: "validate_mce m k s = (Val (), s1)" using assms(1) by (metis prod.collapse)
  note V = validate_mce_ok [OF v]
  obtain h0 where h0: "trace s1 = trace s @ h0" "mce_writes h0 = []" using V(6) by blast
  have uc: "mce_status m AND MCI_STATUS_UC \<noteq> 0"
    using assms(7) and_exp_eq_0_iff_not_bit [of "mce_status m" 61] by (simp add: MCI_STATUS_UC_def)
  define m1 where "m1 = m\<lparr>inject_flags := inject_flags m OR 8\<rparr>"
  have m1: "exception_flag 0 m = m1" using uc by (simp add: exception_flag_def m1_def MCJ_EXCEPTION_def)
  have e: "other_mce m1 = other_mce m" "extcpu m1 = extcpu m" by (simp_all add: other_mce_def m1_def)
  define fd where "fd = rv (k (trace s1) (Open ''/dev/mcelog'' 2 0))"
  define s2 where "s2 = s1\<lparr>trace := trace s1 @ [Open ''/dev/mcelog'' 2 0]\<rparr>"
  have "inject_flags (final_record (others \<noteq> []) m1) = raised_flags (others \<noteq> []) (inject_flags m)"
    by (rule final_record_flags) (simp add: m1_def)
  then have m': "final_record (others \<noteq> []) m1 = m'"
    by (cases m) (simp add: m'_def final_record_def broadcast_flag_def in_process_def set_process_def m1_def)
  have "extcpu m \<in> set (map as_cpu (cpu_map s))"
    using V(1) by (force intro: image_eqI [of _ _ "sint (extcpu m)"])
  then obtain h1 h2 c where d: "do_inject_mce sched fd m1 k s2
       = (Val m', s2\<lparr>trace := trace s2 @ h1 @ [SetAffinity c, Write fd (encode_mce m')] @ h2\<rparr>)"
      "as_cpu c = extcpu m" "mce_writes h1 = map (\<lambda>c. encode_mce (notice m (as_cpu c))) others" "mce_writes h2 = []"
    using do_inject_mce_writes [OF assms(2), of s2 m1 sched fd] assms(3-6,8) V(2-5)
    by (auto simp: s2_def e others_def m' [unfolded others_def] other_mce_notice [OF uc])
  have x: "inject_flags m1 AND MCJ_EXCEPTION \<noteq> 0"
    by (simp add: m1_def MCJ_EXCEPTION_def word_ao_dist)
  have fh: "free_held k (s2\<lparr>trace := t\<rparr>) = (Val (), s2\<lparr>trace := t\<rparr>)" for t
    by (rule free_held_none [where n = "length (cpu_map s)"]) (simp add: s2_def V(5) assms(5))
  have "\<not> fd < 0" using accepts_mceD(4) [OF assms(2)] by (simp add: fd_def)
  then have run: "inject_mce sched m k s = (Val m', s2\<lparr>trace := trace s2 @ h1 @ [SetAffinity c, Write fd (encode_mce m')] @ h2 @ [Close fd]\<rparr>)"
    using V(2) assms(3) x d(1)
    by (simp add: inject_mce_def sqn_eval bnd_eval v get_eval sysv_eval Let_def m1 skip_eval call_eval ret_eval
        fd_def [symmetric] s2_def [symmetric] fh)
  let ?h1 = "h0 @ Open ''/dev/mcelog'' 2 0 # h1"
  have w: "mce_writes ?h1 = map (\<lambda>c. encode_mce (notice m (as_cpu c))) others" using h0(2) d(3) by simp
  have "map decode_mce (mce_writes ?h1) = map (\<lambda>c. notice m (as_cpu c)) others"
    unfolding w by (simp add: mce_record_roundtrip)
  moreover have "list_all (\<lambda>b. length b = 88) (encode_mce m' # mce_writes ?h1)"
    unfolding w by (simp add: mce_record_roundtrip list_all_iff)
  ultimately show ?thesis
    using run h0 d(2,4)
    by (intro exI [of _ "s2\<lparr>trace := trace s2 @ h1 @ [SetAffinity c, Write fd (encode_mce m')] @ h2 @ [Close fd]\<rparr>"]
        exI [of _ fd] exI [of _ c] exI [of _ "encode_mce m'"] exI [of _ ?h1] exI [of _ "h2 @ [Close fd]"])
      (simp add: s2_def mce_record_roundtrip)
qed

text \<open>Two processors, and the record of the SRAR test.\<close>

definition two_processors :: mcst where
  "two_processors = mcst0\<lparr>cpu_map := [0, 1], cpu_mce := [None, None], max_bank_seen := 9\<rparr>"

theorem inject_mce_broadcast_witness:
  "\<exists>s' fd c b h1 h2. inject_mce rev (srar_record 0x5000) (\<lambda>h c. ok\<lparr>rv := (case c of Syscall _ _ \<Rightarrow> 0 | _ \<Rightarrow> 7)\<rparr>) two_processors
      = (Val (srar_record 0x5000\<lparr>inject_flags := 13\<rparr>), s')
    \<and> trace s' = h1 @ [SetAffinity c, Write fd b] @ h2 \<and> mce_writes h2 = []
    \<and> map decode_mce (mce_writes h1) = [notice (srar_record 0x5000) 1] \<and> decode_mce b = srar_record 0x5000\<lparr>inject_flags := 13\<rparr>"
proof -
  let ?m = "srar_record 0x5000" and ?k = "\<lambda>h c. ok\<lparr>rv := (case c of Syscall _ _ \<Rightarrow> 0 | _ \<Rightarrow> 7)\<rparr>"
  have "fst (validate_mce ?m ?k two_processors) = Val ()"
    by (simp add: validate_mce_def cpu_id_to_index_def max_bank_def prog_simps two_processors_def srar_record_def init_mce_def)
  moreover have "accepts_mce ?k" by (simp add: accepts_mce_def)
  moreover have "mce_flags two_processors = 0" "no_random two_processors = 0"
      "cpu_mce two_processors = replicate (length (cpu_map two_processors)) None"
      "distinct (map as_cpu (cpu_map two_processors))" "trace two_processors = []"
    by (simp_all add: two_processors_def mcst0_def)
  moreover have "bit (mce_status ?m) 61" by (simp add: srar_record_def bit_numeral_rec)
  moreover have "mset (rev xs) = mset xs" for xs :: "thread list" by simp
  moreover have "filter (\<lambda>c. as_cpu c \<noteq> extcpu ?m) (cpu_map two_processors) = [1]" "raised_flags True (inject_flags ?m) = 13"
    by (simp_all add: two_processors_def srar_record_def init_mce_def raised_flags_def)
  ultimately show ?thesis
    using inject_mce_broadcast [of ?m ?k two_processors rev] by (simp, elim exE conjE, intro exI conjI) assumption+
qed

end
