(* ===== verification/SmallTests.thy ===== *)
theory SmallTests
  imports Hugepage
begin

text \<open>
  Small memory tests: \<open>lib/test_mincore.c\<close> (residency maps of several kinds of mappings),
  \<open>lib/test_numa_move_pages.c\<close> and \<open>lib/test_iterate_numa_move_pages.c\<close> (pages of another process moved
  between nodes), \<open>lib/hugetlb_fork_rw.c\<close> (a hugepage poisoned by the parent and used by the child)
  and \<open>lib/test_mark_idle_all.c\<close>.
\<close>

abbreviation (input) PROT_RW :: int where "PROT_RW \<equiv> PROT_READ OR PROT_WRITE"
abbreviation (input) SIGBUS :: int where "SIGBUS \<equiv> 7"

definition newl :: string where "newl = [CHR 0x0A]"

definition put_line :: "string \<Rightarrow> ('z io_scheme, unit) prog" where
  "put_line t = call (Stdout (t @ newl))"

definition test_base :: addr where "test_base = 0x700000000000"

section \<open>Residency maps\<close>

record minc = hpst +
  mincore_flag :: int

definition mincore_handler :: "'z minc_scheme \<Rightarrow> 'z minc_scheme" where
  "mincore_handler s = s\<lparr>mincore_flag := 0\<rparr>"

definition checked_mincore :: "addr \<Rightarrow> u64 \<Rightarrow> ('z io_scheme, string) prog" where
  "checked_mincore a len = bnd (sys (Syscall ''mincore'' [a, len])) (\<lambda>r. if rv r \<noteq> 0 then exit_failure else ret (bytes r))"

text \<open>
  The line that is printed.  The position of the digits is computed from the size of the pointer to
  the tag, 8, and not from the length of the tag: the tag, a colon and the end of string are
  written first, the digits from position 9 on.
\<close>

definition mincore_line :: "string \<Rightarrow> nat \<Rightarrow> string \<Rightarrow> string" where
  "mincore_line tag n vec = takeWhile (\<lambda>c. c \<noteq> CHR 0x00) (take 9 (tag @ '':'' @ [CHR 0x00])
     @ map (\<lambda>i. if vec ! i \<noteq> CHR 0x00 then CHR ''1'' else CHR ''0'') [0..<n] @ newl)"

definition show_mincore_map :: "string \<Rightarrow> u64 \<Rightarrow> string \<Rightarrow> ('z core_scheme, unit) prog" where
  "show_mincore_map tag len vec = (let n = unat (len div PS) in
     bnd (sysv (Malloc (256 + len div PS))) (\<lambda>p. if p = 0 then stop (Fault NullDeref)
     else if length vec < n then stop (Fault UnsetValue)
     else bnd (pprintf (mincore_line tag n vec)) (\<lambda>_. skip)))"

text \<open>The mappings and the address of the next one.\<close>

record areas =
  a_next :: addr
  a_mem :: addr
  a_hugetlb :: addr
  a_thp :: addr
  a_unaligned :: addr
  a_file :: addr
  a_small1 :: addr
  a_small2 :: addr

definition fill :: "addr \<Rightarrow> u64 \<Rightarrow> ('z io_scheme, unit) prog" where
  "fill p n = call (Memset p (CHR ''a'') n)"

definition map_mem :: "u64 \<Rightarrow> areas \<Rightarrow> ('z io_scheme, areas) prog" where
  "map_mem memsize ar = bnd (checked_mmap (a_next ar) memsize MMAP_PROT (MAP_PRIVATE OR MAP_ANONYMOUS) (- 1) 0) (\<lambda>p.
     sqn (call (Madvise p memsize MADV_NOHUGEPAGE)) (sqn (fill p (memsize div 2))
       (ret (ar\<lparr>a_mem := p, a_next := a_next ar + memsize\<rparr>))))"

definition map_hugetlb :: "u64 \<Rightarrow> areas \<Rightarrow> ('z io_scheme, areas) prog" where
  "map_hugetlb memsize ar = bnd (checked_mmap (a_next ar) memsize MMAP_PROT (MAP_PRIVATE OR MAP_ANONYMOUS OR MAP_HUGETLB) (- 1) 0) (\<lambda>p.
     sqn (fill p 1) (ret (ar\<lparr>a_hugetlb := p, a_next := a_next ar + memsize\<rparr>)))"

text \<open>Every hugepage has to be a transparent one; with a hugepage size of 0 the check would not end.\<close>

definition thp_offsets :: "u64 \<Rightarrow> u64 \<Rightarrow> u64 list" where
  "thp_offsets memsize hps = map (\<lambda>i. of_nat i * hps) [0..<(unat memsize + unat hps - 1) div unat hps]"

definition check_thp :: "u64 \<Rightarrow> addr \<Rightarrow> ('z hpst_scheme, unit) prog" where
  "check_thp memsize p = bnd (get HPS) (\<lambda>hps. if hps = 0 \<and> memsize \<noteq> 0 then stop NoFuel
     else for_each (thp_offsets memsize hps) (\<lambda>off. bnd (check_kpflags (p + off) KPF_THP) (\<lambda>b.
       if b = 0 then exit_failure else skip)))"

definition map_thp :: "u64 \<Rightarrow> areas \<Rightarrow> ('z hpst_scheme, areas) prog" where
  "map_thp memsize ar = bnd (checked_mmap (a_next ar) memsize MMAP_PROT (MAP_PRIVATE OR MAP_ANONYMOUS) (- 1) 0) (\<lambda>p.
     sqn (fill p 1) (sqn (check_thp memsize p) (ret (ar\<lparr>a_thp := p, a_next := a_next ar + memsize\<rparr>))))"

definition map_unaligned :: "u64 \<Rightarrow> areas \<Rightarrow> ('z io_scheme, areas) prog" where
  "map_unaligned memsize ar = bnd (checked_mmap (a_next ar) memsize MMAP_PROT (MAP_PRIVATE OR MAP_ANONYMOUS) (- 1) 0) (\<lambda>p.
     sqn (call (Madvise p memsize MADV_NOHUGEPAGE))
     (sqn (call (Munmap p (memsize div 4)))
     (sqn (call (Munmap (p + memsize * 3 div 4) (memsize div 2)))
     (let q = p + memsize div 4 in
      sqn (fill q (memsize div 2 div 2)) (ret (ar\<lparr>a_unaligned := q, a_next := a_next ar + memsize\<rparr>))))))"

definition map_hole :: "string \<Rightarrow> u64 \<Rightarrow> areas \<Rightarrow> ('z io_scheme, areas) prog" where
  "map_hole fname memsize ar = bnd (checked_open fname O_RDWR) (\<lambda>fd.
     bnd (checked_mmap (a_next ar) (4 * memsize) MMAP_PROT MAP_SHARED fd 0) (\<lambda>p.
     sqn (put_line (''pfile(for mincore5) '' @ show_hex p))
     (sqn (fill p PS) (sqn (fill (p + 4 * memsize - 2 * PS) PS)
       (ret (ar\<lparr>a_file := p, a_next := a_next ar + memsize * 4\<rparr>))))))"

definition map_small :: "u64 \<Rightarrow> areas \<Rightarrow> ('z io_scheme, areas) prog" where
  "map_small memsize ar =
     bnd (checked_mmap (a_next ar) (2 * PS) MMAP_PROT (MAP_PRIVATE OR MAP_ANONYMOUS) (- 1) 0) (\<lambda>p.
     bnd (checked_mmap (a_next ar + 4 * PS) (2 * PS) MMAP_PROT (MAP_PRIVATE OR MAP_ANONYMOUS) (- 1) 0) (\<lambda>q.
     sqn (fill p PS) (sqn (fill q PS) (ret (ar\<lparr>a_small1 := p, a_small2 := q, a_next := a_next ar + memsize\<rparr>)))))"

definition map_if :: "bool \<Rightarrow> (areas \<Rightarrow> ('s, areas) prog) \<Rightarrow> areas \<Rightarrow> ('s, areas) prog" where
  "map_if b f ar = (if b then f ar else ret ar)"

text \<open>The areas whose maps are shown, with their tags and sizes.\<close>

definition shown :: "u64 \<Rightarrow> bool \<Rightarrow> u64 \<Rightarrow> areas \<Rightarrow> (string \<times> addr \<times> u64) list" where
  "shown ty has_file memsize ar =
    (if bit ty 0 then [(''mincore1'', a_mem ar, memsize)] else [])
    @ (if bit ty 1 then [(''mincore2'', a_hugetlb ar, memsize)] else [])
    @ (if bit ty 2 then [(''mincore3'', a_thp ar, memsize)] else [])
    @ (if bit ty 3 then [(''mincore4'', a_unaligned ar, memsize div 2)] else [])
    @ (if bit ty 4 \<and> has_file then [(''mincore5'', a_file ar, 4 * memsize)] else [])
    @ (if bit ty 5 then [(''mincore6'', a_small1 ar, 2 * PS), (''mincore7'', a_small2 ar, 2 * PS)] else [])"

definition busy_fills :: "u64 \<Rightarrow> bool \<Rightarrow> u64 \<Rightarrow> areas \<Rightarrow> (addr \<times> u64) list" where
  "busy_fills ty has_file memsize ar =
    (if bit ty 0 then [(a_mem ar, memsize)] else []) @ (if bit ty 1 then [(a_hugetlb ar, memsize)] else [])
    @ (if bit ty 2 then [(a_thp ar, memsize)] else []) @ (if bit ty 3 then [(a_unaligned ar, memsize div 2)] else [])
    @ (if bit ty 4 \<and> has_file then [(a_file ar, 2 * PS), (a_file ar + 4 * memsize - 2 * PS, 2 * PS)] else [])
    @ (if bit ty 5 then [(a_small1 ar, PS), (a_small2 ar, PS)] else [])"

fun busy_loop :: "nat \<Rightarrow> (addr \<times> u64) list \<Rightarrow> ('z minc_scheme, unit) prog" where
  "busy_loop 0 fills = stop NoFuel"
| "busy_loop (Suc n) fills = bnd (sysv Poll) (\<lambda>r. sqn (cond (r \<noteq> 0) (put mincore_handler))
     (bnd (get mincore_flag) (\<lambda>f. if f = 0 then skip
       else sqn (call (Usleep 1000)) (sqn (for_each fills (\<lambda>(p, n). fill p n)) (busy_loop n fills)))))"

text \<open>The options: memory size, file and types.\<close>

definition mincore_option ::
  "char \<times> string \<Rightarrow> u64 \<times> string option \<times> u64 \<Rightarrow> ('z core_scheme, u64 \<times> string option \<times> u64) prog" where
  "mincore_option = (\<lambda>(c, optarg) (memsize, fname, ty).
     if c = CHR ''p'' then sqn (put (\<lambda>s. s\<lparr>testpipe := Some optarg\<rparr>))
       (bnd (sysv (Lstat optarg)) (\<lambda>m. if m AND 0xF000 = 0x1000 then ret (memsize, fname, ty) else exit_failure))
     else if c = CHR ''n'' then ret (ul (s32 (uint (strtoul 10 optarg))) * PS, fname, ty)
     else if c = CHR ''v'' then sqn (put (\<lambda>s. s\<lparr>verbose := 1\<rparr>)) (ret (memsize, fname, ty))
     else if c = CHR ''f'' then ret (memsize, Some optarg, ty)
     else if c = CHR ''t'' then ret (memsize, fname, strtoul 0 optarg)
     else exit_failure)"

primrec mincore_options ::
  "(char \<times> string) list \<Rightarrow> u64 \<times> string option \<times> u64 \<Rightarrow> ('z core_scheme, u64 \<times> string option \<times> u64) prog" where
  "mincore_options [] st = ret st"
| "mincore_options (x # xs) st = bnd (mincore_option x st) (mincore_options xs)"

definition map_areas :: "nat \<Rightarrow> u64 \<Rightarrow> string option \<Rightarrow> u64 \<Rightarrow> areas \<Rightarrow> ('z hpst_scheme, areas) prog" where
  "map_areas fuel memsize fname ty ar =
    bnd (map_if (bit ty 0) (map_mem memsize) ar) (\<lambda>ar.
    bnd (map_if (bit ty 1) (map_hugetlb memsize) ar) (\<lambda>ar.
    sqn (pprintf_wait fuel SIGUSR1 (''start check'' @ newl))
    (bnd (map_if (bit ty 2) (map_thp memsize) ar) (\<lambda>ar.
    bnd (map_if (bit ty 3) (map_unaligned memsize) ar) (\<lambda>ar.
    bnd (map_if (bit ty 4 \<and> fname \<noteq> None) (map_hole (case fname of Some f \<Rightarrow> f | None \<Rightarrow> []) memsize) ar) (\<lambda>ar.
    map_if (bit ty 5) (map_small memsize) ar))))))"

definition main_mincore :: "nat \<Rightarrow> (char \<times> string) list \<Rightarrow> ('z minc_scheme, int) prog" where
  "main_mincore fuel opts = bnd (mincore_options opts (0x200000, None, 0xffff)) (\<lambda>(memsize, fname, ty).
     bnd (map_areas fuel memsize fname ty \<lparr>a_next = test_base, a_mem = 0, a_hugetlb = 0, a_thp = 0, a_unaligned = 0,
       a_file = 0, a_small1 = 0, a_small2 = 0\<rparr>) (\<lambda>ar.
     sqn (call (Sigaction SIGUSR1 1))
     (sqn (bnd (checked_malloc (4 * memsize div PS)) (\<lambda>_. skip))
     (sqn (for_each (shown ty (fname \<noteq> None) memsize ar) (\<lambda>(tag, p, n).
        bnd (checked_mincore p n) (show_mincore_map tag n)))
     (sqn (bnd (pprintf (''entering busy loop'' @ newl)) (\<lambda>_. skip))
     (sqn (busy_loop fuel (busy_fills ty (fname \<noteq> None) memsize ar))
     (sqn (pprintf_wait fuel SIGUSR1 (''mincore exit'' @ newl)) (ret 0))))))))"

section \<open>Moving pages between nodes\<close>

text \<open>\<open>int nr_p = nr_hp * HPS / PS\<close>: the product is an \<open>int\<close>.\<close>

definition nr_pages :: "int \<Rightarrow> int outcome" where
  "nr_pages nr_hp = (if in_s32 (nr_hp * 0x200000) then Val (cdiv (nr_hp * 0x200000) 4096) else Fault Overflow)"

definition page_addr :: "nat \<Rightarrow> addr" where
  "page_addr i = test_base + of_nat i * 4096"

definition move_pages :: "int \<Rightarrow> int \<Rightarrow> addr list \<Rightarrow> int list \<Rightarrow> sys" where
  "move_pages pid nr_p addrs nodes = Syscall ''move_pages'' ([ul pid, ul nr_p] @ addrs @ map ul nodes @ [4])"

definition move_all :: "int \<Rightarrow> int \<Rightarrow> int \<Rightarrow> ('z io_scheme, unit) prog" where
  "move_all pid nr_p node = bnd (sysv (move_pages pid nr_p (map page_addr [0..<nat nr_p]) (replicate (nat nr_p) node))) (\<lambda>r.
     if r = - 1 then exit_failure else skip)"

record iter = io +
  iter_flag :: int

fun iterate_moves :: "nat \<Rightarrow> int \<Rightarrow> int \<Rightarrow> ('z iter_scheme, unit) prog" where
  "iterate_moves 0 pid nr_p = stop NoFuel"
| "iterate_moves (Suc n) pid nr_p = bnd (sysv Poll) (\<lambda>r. sqn (cond (r \<noteq> 0) (put (\<lambda>s. s\<lparr>iter_flag := 0\<rparr>)))
     (bnd (get iter_flag) (\<lambda>f. if f = 0 then skip
       else sqn (move_all pid nr_p 1) (sqn (move_all pid nr_p 0) (iterate_moves n pid nr_p)))))"

text \<open>Three arrays are allocated; none is checked.\<close>

definition alloc_arrays :: "nat \<Rightarrow> int \<Rightarrow> ('z io_scheme, bool) prog" where
  "alloc_arrays n nr_p = bnd (sysv (Malloc (8 * ul nr_p + 1))) (\<lambda>p. bnd (sysv (Malloc (8 * ul nr_p + 1))) (\<lambda>q.
     if n = 2 then ret (p \<noteq> 0 \<and> q \<noteq> 0)
     else bnd (sysv (Malloc (8 * ul nr_p + 1))) (\<lambda>r. ret (p \<noteq> 0 \<and> q \<noteq> 0 \<and> r \<noteq> 0))))"

definition main_iterate_move :: "nat \<Rightarrow> string list \<Rightarrow> ('z iter_scheme, int) prog" where
  "main_iterate_move fuel argv = (if length argv < 3 then stop (Fault NullDeref)
     else bnd (stop (nr_pages (s32 (strtol 0 (argv ! 1))))) (\<lambda>nr_p. let pid = s32 (strtol 0 (argv ! 2)) in
       bnd (alloc_arrays 3 nr_p) (\<lambda>ok. sqn (call (Sigaction SIGUSR1 1))
         (if \<not> ok \<and> 0 < nr_p then stop (Fault NullDeref) else sqn (iterate_moves fuel pid nr_p) (ret 0)))))"

text \<open>Entries of an array that were never set.\<close>

primrec unset :: "nat \<Rightarrow> ('z io_scheme, int list) prog" where
  "unset 0 = ret []"
| "unset (Suc n) = bnd (sysv Indet) (\<lambda>v. bnd (unset n) (\<lambda>vs. ret (v # vs)))"

text \<open>
  Only the first \<open>pct\<close> percent of the entries are set, but all are passed.  Without nodes (\<open>stat\<close>) the
  pointer to them is NULL.
\<close>

definition main_numa_move :: "string list \<Rightarrow> ('z io_scheme, int) prog" where
  "main_numa_move argv = (if length argv < 5 then stop (Fault NullDeref)
     else bnd (stop (nr_pages (s32 (strtol 0 (argv ! 1))))) (\<lambda>nr_p.
       let pid = s32 (strtol 0 (argv ! 2)); dst = s32 (strtol 0 (argv ! 3)); pct = s32 (strtol 0 (argv ! 4));
           stat = (5 < length argv \<and> argv ! 5 = ''stat''); n = nat (cdiv (nr_p * pct) 100) in
       if \<not> in_s32 (nr_p * pct) then stop (Fault Overflow)
       else bnd (alloc_arrays (if stat then 2 else 3) nr_p) (\<lambda>ok.
       if \<not> ok \<and> 0 < n then stop (Fault NullDeref)
       else if nat nr_p < n then stop (Fault OutOfBounds)
       else bnd (unset (nat nr_p - n)) (\<lambda>as. bnd (if stat then ret [] else unset (nat nr_p - n)) (\<lambda>ns.
         bnd (sysv (move_pages pid nr_p (map page_addr [0..<n] @ map ul as) (if stat then [] else replicate n dst @ ns))) (\<lambda>_.
         ret 0))))))"

section \<open>A hugepage used after it was poisoned\<close>

definition shm_at_base :: "int \<Rightarrow> u64 \<Rightarrow> (int \<Rightarrow> addr \<Rightarrow> ('z io_scheme, int) prog) \<Rightarrow> ('z io_scheme, int) prog" where
  "shm_at_base key hps f = bnd (sysv (Shmget key hps (IPC_CREAT OR SHM_R OR SHM_W OR SHM_HUGETLB))) (\<lambda>shmid.
     if shmid < 0 then ret (- 1)
     else bnd (sysv (Shmat shmid test_base 0)) (\<lambda>p.
       if ul p = - 1 then sqn (call (Shmctl shmid IPC_RMID)) (ret (- 1))
       else if ul p \<noteq> test_base then
         sqn (put_line (''Shared memory not attached to expected address ('' @ show_ptr test_base @ '' -> '' @ show_ptr (ul p) @ '') 1000 2000''))
         (sqn (call (Shmctl shmid IPC_RMID)) (ret (- 1)))
       else f shmid (ul p)))"

text \<open>The file descriptor is not set when shared memory is used.\<close>

definition with_fd :: "int option \<Rightarrow> (int \<Rightarrow> ('s, 'a) prog) \<Rightarrow> ('s, 'a) prog" where
  "with_fd fd f = (case fd of None \<Rightarrow> stop (Fault UnsetValue) | Some d \<Rightarrow> f d)"

definition rw_nofork :: "string option \<Rightarrow> int option \<Rightarrow> addr \<Rightarrow> u64 \<Rightarrow> ('z io_scheme, int) prog" where
  "rw_nofork act fd addr hps = (case act of None \<Rightarrow> stop (Fault NullDeref)
   | Some a \<Rightarrow> if a = ''read'' then with_fd fd (\<lambda>d. bnd (sys (Pread d 4096 0)) (\<lambda>r.
         sqn (put_line (''pread returned '' @ show_int (rv r) @ '', errno '' @ show_int (errno r))) (ret (if rv r \<noteq> 0 then errno r else 0))))
     else if a = ''write'' then with_fd fd (\<lambda>d. bnd (sys (Pwrite d (replicate 4096 (CHR ''a'')) 0)) (\<lambda>r.
         sqn (put_line (''pwrite returned '' @ show_int (rv r) @ '', errno '' @ show_int (errno r))) (ret (if rv r \<noteq> 0 then errno r else 0))))
     else sqn (if a = ''mmap'' then fill addr hps else skip) (ret 0))"

definition child_says :: "string \<Rightarrow> ('z io_scheme, unit) prog" where
  "child_says t = bnd (sysv Getpid) (\<lambda>pid. put_line (''[child '' @ show_int pid @ ''] '' @ t))"

definition child_sysrw :: "int \<Rightarrow> u64 \<Rightarrow> ('z io_scheme, int) prog" where
  "child_sysrw fd hps = bnd (sys (Pread fd 4096 0)) (\<lambda>r. if rv r \<noteq> - 1
     then sqn (child_says ''pread() hwpoison hugepage passed.'') (ret (- 1))
     else sqn (child_says (''pread() hwpoison hugepage failed as expected: '' @ show_int (errno r)))
     (bnd (sysv (Syscall ''fallocate'' [ul fd, 3, 0, hps])) (\<lambda>r. if r = - 1 then ret (- 1)
      else sqn (child_says ''fallocate() hwpoison hugepage passed.'')
      (bnd (sys (Pread fd 4096 0)) (\<lambda>r. if rv r = - 1
        then sqn (child_says (''pread() hwpoison hugepage failed: '' @ show_int (errno r))) (ret (- 1))
        else sqn (child_says ''pread() hwpoison hugepage passed (error was cancelled by fallocate().'') (ret 0))))))"

definition child_access :: "string \<Rightarrow> addr \<Rightarrow> u64 \<Rightarrow> ('z io_scheme, int) prog" where
  "child_access t addr hps = sqn (child_says t) (sqn (fill addr hps)
     (sqn (child_says ''access after hwpoison by parent process.'') (ret 0)))"

definition rw_child :: "string \<Rightarrow> string \<Rightarrow> int \<Rightarrow> int option \<Rightarrow> addr \<Rightarrow> u64 \<Rightarrow> ('z io_scheme, int) prog" where
  "rw_child target act key fd addr hps =
    (let again = child_access ''try to access to newly mmaped hwpoison memory by memset().'' in
     sqn (call (Usleep 1000000))
     (if act = ''sysrw'' then with_fd fd (\<lambda>d. child_sysrw d hps)
      else if act = ''mmap_again'' then
        if target = ''shmem'' then shm_at_base key hps (\<lambda>_ p. again p hps)
        else bnd (sysv (Open target O_RDWR 0)) (\<lambda>fd. if fd = - 1 then ret (- 1)
          else bnd (sysv (Mmap (test_base + hps) hps (PROT_READ OR PROT_WRITE) MAP_SHARED fd 0)) (\<lambda>p.
            if ul p \<noteq> test_base + hps then ret (- 1) else again (ul p) hps))
      else child_access ''try to access to hwpoison memory by memset().'' addr hps))"

text \<open>\<open>wait\<close> hands back the status in \<open>errno\<close>: 0 below the low seven bits is an exit.\<close>

definition rw_parent :: "addr \<Rightarrow> u64 \<Rightarrow> ('z io_scheme, int) prog" where
  "rw_parent addr hps = sqn (fill addr hps)
    (bnd (sysv (Madvise addr 4096 MADV_HWPOISON)) (\<lambda>r. bnd (sysv Getpid) (\<lambda>pid.
     sqn (put_line (''[parent '' @ show_int pid @ ''] madvise(MADV_HWPOISON) returned '' @ show_int r))
     (bnd (sys (Wait (- 1))) (\<lambda>w. let status = errno w in
      if status AND 0x7f = 0
      then sqn (put_line (''[parent '' @ show_int pid @ ''] child exited with status '' @ show_int (cdiv (status AND 0xff00) 256)))
        (ret (if cdiv (status AND 0xff00) 256 = 0 then 0 else 2))
      else sqn (put_line (''[parent '' @ show_int pid @ ''] child terminated by signal '' @ show_int (status AND 0x7f))) (ret 1))))))"

definition rw_run :: "string list \<Rightarrow> u64 \<Rightarrow> int \<Rightarrow> int option \<Rightarrow> addr \<Rightarrow> ('z io_scheme, int) prog" where
  "rw_run argv hps key fd addr = (if length argv < 3 then stop (Fault NullDeref)
     else if argv ! 2 = ''nofork'' then sqn (call (Syscall ''madvise'' [4096, 0]))
       (rw_nofork (if 3 < length argv then Some (argv ! 3) else None) fd addr hps)
     else bnd (sysv Fork) (\<lambda>pid. if pid \<noteq> 0 then rw_parent addr hps else rw_child (argv ! 1) (argv ! 2) key fd addr hps))"

text \<open>\<open>hps_env\<close> is the value of the environment variable \<open>HPS\<close>.\<close>

definition main_fork_rw :: "string option \<Rightarrow> string list \<Rightarrow> ('z io_scheme, int) prog" where
  "main_fork_rw hps_env argv = (if length argv < 2 then ret (- 1)
     else let hps = (if hps_env = Some ''1GB'' then GPS else 0x200000) in
       sqn (cond (hps_env = Some ''1GB'') (put_line ''HPS = 1GB''))
       (if argv ! 1 = ''shmem'' then shm_at_base 0 hps (\<lambda>shmid p. rw_run argv hps shmid None p)
        else bnd (sysv (Open (argv ! 1) O_RDWR 0)) (\<lambda>fd. if fd = - 1 then ret (- 1)
          else bnd (sysv (Mmap test_base hps (PROT_READ OR PROT_WRITE) MAP_SHARED fd 0)) (\<lambda>p.
            rw_run argv hps 0 (Some fd) (ul p)))))"

section \<open>Marking all pages idle\<close>

primrec idle_loop :: "(nat \<Rightarrow> sys) \<Rightarrow> nat list \<Rightarrow> ('z io_scheme, unit) prog" where
  "idle_loop c [] = skip"
| "idle_loop c (i # is) = bnd (sysv (c i)) (\<lambda>r. if r = - 1 then skip else idle_loop c is)"

definition main_mark_idle :: "string list \<Rightarrow> ('z io_scheme, unit) prog" where
  "main_mark_idle argv = bnd (sysv (Open ''/sys/kernel/mm/page_idle/bitmap'' O_RDWR 0)) (\<lambda>fd.
     if length argv < 2 then stop (Fault NullDeref)
     else if argv ! 1 = ''read'' then idle_loop (\<lambda>i. Pread fd 512 (of_nat i * 512)) [0..<65536]
     else if argv ! 1 = ''write'' then idle_loop (\<lambda>i. Pwrite fd (replicate 512 (CHR 0xFF)) (of_nat i * 512)) [0..<65536]
     else skip)"

end
