(* ===== verification/PageTests.thy ===== *)
theory PageTests
  imports SmallTests NumaOps
begin

text \<open>
  The remaining small memory tests: \<open>lib/test_folio_readahead.c\<close> (a page of a large folio is
  poisoned or soft-offlined), \<open>lib/test_splice.c\<close>, \<open>lib/test_ksm_madv_soft.c\<close>,
  \<open>lib/test_early_kill_pthread.c\<close>, \<open>lib/test_thp_mlock.c\<close>, \<open>lib/test_zero_pages.c\<close>,
  \<open>lib/test_hugetlb_pmd_share.c\<close>, \<open>lib/test_hugetlb_private_pagemap.c\<close>, and
  \<open>lib/misc/truncate_mapped_file.c\<close> and \<open>lib/misc/reproduce_220127.c\<close> (pages of a mapped file that are
  dropped).
\<close>

section \<open>A page of a large folio\<close>

definition folio_file :: string where "folio_file = ''tmp/testfile''"

definition open_folio :: "(int \<Rightarrow> ('z io_scheme, int) prog) \<Rightarrow> ('z io_scheme, int) prog" where
  "open_folio f = bnd (sysv (Open folio_file (O_CREAT OR O_RDWR) 0x1B6)) (\<lambda>fd. if fd = - 1 then ret (- 1) else f fd)"

definition put_ret :: "int \<Rightarrow> ('z io_scheme, unit) prog" where
  "put_ret r = put_line (''ret: '' @ show_int r)"

text \<open>The mapping: a failure ends the program with status 1.\<close>

definition map_folio :: "int \<Rightarrow> int \<Rightarrow> (addr \<Rightarrow> ('z io_scheme, int) prog) \<Rightarrow> ('z io_scheme, int) prog" where
  "map_folio fl fd f = bnd (sysv (Mmap test_base 0x200000 PROT_RW fl fd 0)) (\<lambda>p. if ul p = - 1 then ret 1 else f (ul p))"

text \<open>
  The folio under test with the descriptor and the last return value, which are both unset for
  anonymous memory.
\<close>

definition get_folio :: "string \<Rightarrow> (int \<Rightarrow> int \<Rightarrow> addr \<Rightarrow> ('z io_scheme, int) prog) \<Rightarrow> ('z io_scheme, int) prog" where
  "get_folio mode f =
    (if mode = ''thpanon'' then map_folio (MAP_SHARED OR MAP_ANONYMOUS) (- 1) (\<lambda>p.
       bnd (sysv Indet) (\<lambda>fd. bnd (sysv Indet) (\<lambda>r. f fd r p)))
     else open_folio (\<lambda>fd. bnd (sysv (Pwrite fd (replicate 0x200000 (CHR ''a'')) 0)) (\<lambda>r.
       sqn (put_ret r) (sqn (call (Fsync fd))
       (if mode = ''folio''
        then sqn (call (Close fd)) (sqn (call (System ''echo 3 > /proc/sys/vm/drop_caches''))
          (open_folio (\<lambda>fd. bnd (sysv (Pread fd 0x1000 0)) (\<lambda>r. map_folio MAP_SHARED fd (f fd r)))))
        else map_folio MAP_SHARED fd (f fd r))))))"

definition page_types_cmd :: "int \<Rightarrow> string" where
  "page_types_cmd pid = ''build/page-types -p '' @ show_int pid @ '' -a 0x700000000+10 -Nrl'' @ newl"

text \<open>What is done before the page is poisoned, by mode; \<open>None\<close>: it is soft-offlined instead.\<close>

definition folio_before :: "string \<Rightarrow> int \<Rightarrow> addr \<Rightarrow> sys list option" where
  "folio_before mode pid p = (let show = System (page_types_cmd pid) in
     if mode = ''hard'' then Some [show]
     else if mode = ''dirty_hard'' then Some [Store (p + 0x1000) (CHR ''x''), show]
     else if mode = ''split_hard'' then Some [show, System (''echo 1 > /sys/kernel/debug/split_huge_pages'' @ newl),
       Load p, Load (p + 0x1000), show]
     else if mode = ''split_hard2'' then Some [show,
       System (''echo '' @ show_int pid @ '',0x700000000000,0x700000200000 > /sys/kernel/debug/split_huge_pages'' @ newl), show]
     else None)"

definition folio_action :: "string \<Rightarrow> int \<Rightarrow> addr \<Rightarrow> ('z io_scheme, int) prog" where
  "folio_action mode pid p = (let show = System (page_types_cmd pid) in case folio_before mode pid p of
     Some cs \<Rightarrow> sqn (for_each cs call) (bnd (sysv (Madvise (p + 0x1000) 0x1000 MADV_HWPOISON)) (\<lambda>r.
       sqn (put_line ''access later'') (sqn (call show) (sqn (call (Store (p + 0x1000) (CHR ''c''))) (ret r)))))
   | None \<Rightarrow> bnd (sysv (Madvise (p + 0x1000) 0x1000 MADV_SOFT_OFFLINE)) (\<lambda>r.
       sqn (call show) (sqn (call (Store (p + 0x1000) (CHR ''c''))) (ret r))))"

definition main_folio :: "string list \<Rightarrow> ('z io_scheme, int) prog" where
  "main_folio argv = (if length argv < 3 then stop (Fault NullDeref)
     else get_folio (argv ! 2) (\<lambda>fd r p. sqn (put_ret r) (sqn (call (Load p)) (sqn (call (Load (p + 0x1000)))
       (bnd (sysv Getpid) (\<lambda>pid. bnd (folio_action (argv ! 1) pid p) (\<lambda>r.
        sqn (call (Munmap p 0x200000)) (sqn (call (Close fd)) (sqn (call (Unlink folio_file))
        (ret (if r < 0 then 1 else 0)))))))))))"

section \<open>A poisoned page and a pipe\<close>

text \<open>\<open>pipe\<close> stores two descriptors.\<close>

definition main_splice :: "string list \<Rightarrow> ('z io_scheme, int) prog" where
  "main_splice argv = (if length argv < 2 then ret (- 1)
     else bnd (sysv (Open (argv ! 1) (O_CREAT OR O_RDWR) 0x1B6)) (\<lambda>fd. if fd < 0 then ret (- 1)
     else bnd (sysv (Pwrite fd (replicate 4096 (CHR ''a'')) 0)) (\<lambda>r. sqn (put_line (''pwrite to fd1 returns '' @ show_int r))
     (bnd (sysv (Mmap 0 4096 PROT_RW MAP_SHARED fd 0)) (\<lambda>p. sqn (put_line (''mmap fd1 address is '' @ show_ptr (ul p)))
     (bnd (sysv (Madvise (ul p) 4096 MADV_HWPOISON)) (\<lambda>r. sqn (put_line (''madvise(MADV_HWPOISON) returns '' @ show_int r))
     (bnd (sysv (Syscall ''pipe'' [])) (\<lambda>r. if r < 0 then ret (- 1)
     else bnd (sysv (Syscall ''pipefd'' [0])) (\<lambda>a. bnd (sysv (Syscall ''pipefd'' [1])) (\<lambda>b.
     sqn (put_line (''pipe '' @ show_int a @ '' '' @ show_int b))
     (bnd (sysv (Syscall ''splice'' [ul fd, ul b, 4096, 1])) (\<lambda>r. sqn (put_line (''splice() returns '' @ show_int r))
     (ret (if r < 0 then - 1 else 0)))))))))))))))"

section \<open>Merged pages\<close>

definition main_ksm :: "('z io_scheme, int) prog" where
  "main_ksm = (let sz = 100000 * 0x1000; newmap = Mmap 0 sz PROT_RW (MAP_PRIVATE OR MAP_ANONYMOUS) (- 1) 0 in
     bnd (sysv newmap) (\<lambda>p1. sqn (put_line (''p1 '' @ show_ptr (ul p1)))
     (bnd (sysv newmap) (\<lambda>p2. sqn (put_line (''p2 '' @ show_ptr (ul p2)))
     (bnd (sysv (Madvise (ul p1) sz MADV_MERGEABLE)) (\<lambda>r. sqn (put_line (''madvise(p1) '' @ show_int r))
     (bnd (sysv (Madvise (ul p2) sz MADV_MERGEABLE)) (\<lambda>r. sqn (put_line (''madvise(p2) '' @ show_int r))
     (sqn (for_each [Stdout ''writing p1 ... '', Memset (ul p1) (CHR ''a'') sz, Stdout (''done'' @ newl),
        Stdout ''writing p2 ... '', Memset (ul p2) (CHR ''a'') sz, Stdout (''done'' @ newl),
        Stdout (''waiting for ksmd to merge the pages'' @ newl), Usleep 10000000, Stdout (''call soft offline'' @ newl)] call)
     (bnd (sysv (Madvise (ul p1) sz MADV_SOFT_OFFLINE)) (\<lambda>r. sqn (put_line (''soft offline returns '' @ show_int r))
     (if r \<noteq> 0 then exit_failure
      else sqn (for_each [Madvise (ul p1) sz MADV_UNMERGEABLE, Madvise (ul p2) sz MADV_UNMERGEABLE, Stdout (''OK'' @ newl)] call)
        (ret 0)))))))))))))"

section \<open>Early kill of a thread\<close>

definition kill_handler :: "('z io_scheme, unit) prog" where
  "kill_handler = bnd (sysv Getpid) (\<lambda>pid. bnd (sysv (Syscall ''gettid'' [])) (\<lambda>tid.
     put_line (''PTHREAD_RECEIVED_SIGBUS: pid:'' @ show_int pid @ '', tid:'' @ show_int tid @ '', get SIGBUS'')))"

text \<open>The thread: \<open>pause\<close> returns after the handler has run.\<close>

definition kill_thread :: "('z io_scheme, unit) prog" where
  "kill_thread = sqn (call (Sigaction SIGBUS 1)) (sqn (call (Prctl 33 1 1))
     (sqn (put_line ''child thread running.'') (sqn (call (Syscall ''pause'' [])) kill_handler)))"

text \<open>
  The value the thread ends with, a pointer, is stored into an array of one \<open>int\<close>; it is unset when
  there is no thread to join.
\<close>

definition main_early_kill :: "('z io_scheme, int) prog" where
  "main_early_kill = bnd (sysv (Malloc 8)) (\<lambda>t. sqn (call (Sigaction SIGBUS 1))
     (bnd (sysv (Mmap test_base 0x200000 PROT_RW (MAP_SHARED OR MAP_ANONYMOUS) (- 1) 0)) (\<lambda>p.
      sqn (fill (ul p) 0x1FFFFF)
      (sqn (call (Syscall ''pthread_create'' [ul t]))
      (if t = 0 then stop (Fault NullDeref)
       else bnd (sysv (Syscall ''pthread_join'' [ul t])) (\<lambda>r. if r = 0 then stop (Fault OutOfBounds)
         else sqn (call (Free (ul t))) (bnd (sysv Indet) (\<lambda>v.
           if v = 0 then sqn (put_line (''main thread done. '' @ show_int v)) (ret 0) else ret 1))))))))"

section \<open>Locked, zero and shared pages\<close>

definition main_thp_mlock :: "('z io_scheme, int) prog" where
  "main_thp_mlock = bnd (sysv (Mmap 0x20000000 0x200000 PROT_RW (MAP_PRIVATE OR MAP_ANONYMOUS OR 0x2000) (- 1) 0)) (\<lambda>p.
     bnd (sysv Fork) (\<lambda>pid. if pid \<noteq> 0 then sqn (call (Wait (- 1))) (ret 0)
       else sqn (call (Mlock (ul p) 0x1000)) (sqn (call (Mbind (ul p) 0x200000 0x4001 [2] 4 MPOL_MF_MOVE)) (ret 0))))"

definition unset_pagestat :: "('z io_scheme, pagestat) prog" where
  "unset_pagestat = bnd (sysv Indet) (\<lambda>a. bnd (sysv Indet) (\<lambda>b. bnd (sysv Indet) (\<lambda>c.
     ret \<lparr>pfn = ul a, pflags = ul b, pcount = ul c\<rparr>)))"

definition main_zero_pages :: "('z pfnst_scheme, int) prog" where
  "main_zero_pages = bnd (sysv (Mmap test_base 0x200000 PROT_RW (MAP_ANONYMOUS OR MAP_PRIVATE) (- 1) 0)) (\<lambda>p.
     if ul p = - 1 then ret 1
     else sqn (for_each [0..<512] (\<lambda>i. call (Load (ul p + of_nat i * PS))))
       (bnd unset_pagestat (\<lambda>ps. sqn (get_pagestat (ul p) ps) (sqn (call (Usleep 1000000000)) (ret 0)))))"

definition bind_to :: "nat \<Rightarrow> addr \<Rightarrow> u64 \<Rightarrow> u64 \<Rightarrow> sys" where
  "bind_to node p sz nodes = Mbind p sz MPOL_BIND (if node < unat nodes then [node] else []) (nodes + 1)
     (MPOL_MF_MOVE_ALL OR MPOL_MF_STRICT)"

definition pmd_share_action :: "string \<Rightarrow> addr \<Rightarrow> u64 \<Rightarrow> u64 \<Rightarrow> sys list" where
  "pmd_share_action what p sz nodes =
    (if what = ''mbind'' then [bind_to 1 p sz nodes, bind_to 0 p sz nodes]
     else if what = ''move_pages'' then [MovePages [p] [1] MPOL_MF_MOVE_ALL, MovePages [p] [0] MPOL_MF_MOVE_ALL]
     else if what = ''madv_soft'' then [Madvise p PS MADV_SOFT_OFFLINE] else [])"

definition main_pmd_share :: "int \<Rightarrow> string list \<Rightarrow> ('z mm_scheme, int) prog" where
  "main_pmd_share max_node argv = bnd (get HPS) (\<lambda>hps. let sz = 2 * hps in
     sqn create_hugetlbfs_file
     (bnd (set_mempolicy_node MPOL_BIND 0) (\<lambda>r. if r = - 1 then exit_failure
     else bnd (get protflag) (\<lambda>prot. bnd (get hugetlbfd) (\<lambda>fd.
       bnd (checked_mmap ADDR_INPUT 0x40000000 prot MAP_SHARED fd 0) (\<lambda>p.
       sqn (put_line (''phugetlb: '' @ show_ptr p @ '', 40000000''))
       (sqn (fill p sz)
       (bnd (set_mempolicy_node MPOL_DEFAULT 0) (\<lambda>r. if r = - 1 then exit_failure
       else sqn (if 1 < length argv
         then sqn (put (\<lambda>s. s\<lparr>nr_nodes := ul (max_node + 1)\<rparr>)) (sqn (call (Sigaction SIGUSR1 2))
           (sqn (call (Syscall ''pause'' [])) (for_each (pmd_share_action (argv ! 1) p sz (ul (max_node + 1))) call)))
         else skip)
       (sqn (call (Syscall ''pause'' [])) (ret 0)))))))))))"

definition main_private_pagemap :: "('z mm_scheme, int) prog" where
  "main_private_pagemap = bnd (get HPS) (\<lambda>hps. let sz = 2 * hps in
     sqn (put (\<lambda>s. s\<lparr>workdir := ''/dev/hugepages'', filebase := Some ''testfile''\<rparr>))
     (sqn create_hugetlbfs_file
     (bnd (get hugetlbfd) (\<lambda>fd. bnd (checked_mmap ADDR_INPUT sz PROT_RW MAP_PRIVATE fd 0) (\<lambda>p.
     sqn (put_line (''phugetlb: '' @ show_ptr p @ '', '' @ show_hex sz)) (sqn (fill p sz)
     (sqn (call (Syscall ''pause'' [])) (ret 0))))))))"

section \<open>Dropped pages of a mapped file\<close>

text \<open>\<open>while (i < size)\<close> in steps of a page; an \<open>int\<close> that would pass its largest value overflows, after the
  access at the offset before.\<close>

function region_loop :: "(int \<Rightarrow> ('s, unit) prog) \<Rightarrow> int \<Rightarrow> int \<Rightarrow> ('s, unit) prog" where
  "region_loop f i sz = (if i < sz
     then sqn (f i) (if in_s32 (i + 4096) then region_loop f (i + 4096) sz else stop (Fault Overflow))
     else skip)"
  by auto
termination
  by (relation "measure (\<lambda>(f, i, sz). nat (sz - i))") auto

declare region_loop.simps [simp del]

definition write_region :: "addr \<Rightarrow> int \<Rightarrow> ('z io_scheme, unit) prog" where
  "write_region a sz = region_loop (\<lambda>i. call (Store (a + ul i) (CHR 0x01))) 0 sz"

definition read_region :: "addr \<Rightarrow> int \<Rightarrow> ('z io_scheme, unit) prog" where
  "read_region a sz = region_loop (\<lambda>i. call (Load (a + ul i))) 0 sz"

definition check_region :: "addr \<Rightarrow> int \<Rightarrow> ('z io_scheme, unit) prog" where
  "check_region p sz = bnd (sysv Getpid) (\<lambda>pid.
     let cmd = ''/root/page-types -p '' @ show_int pid @ '' -a 0x'' @ show_hex (drop_bit 12 p) @ ''+'' @ show_int sz @ '' -Nrl'' in
     sqn (put_line cmd) (call (System cmd)))"

definition region_flags :: "string \<Rightarrow> int" where
  "region_flags a = (if s32 (strtol 0 a) \<noteq> 0 then MAP_SHARED else MAP_PRIVATE)"

definition new_region :: "int \<Rightarrow> int \<Rightarrow> ('z io_scheme, addr) prog" where
  "new_region fl fd = bnd (sysv (Mmap 0 0x200000 PROT_RW fl fd 0)) (\<lambda>p. sqn (write_region (ul p) 0x200000) (ret (ul p)))"

definition main_truncate_mapped :: "string list \<Rightarrow> ('z io_scheme, int) prog" where
  "main_truncate_mapped argv = (if length argv < 2 then stop (Fault NullDeref)
     else bnd (sysv (Open (argv ! 1) (O_CREAT OR O_RDWR) 0x1A4)) (\<lambda>fd.
     if length argv < 3 then stop (Fault NullDeref)
     else let fl = region_flags (argv ! 2) in
     sqn (put_line (''shared '' @ show_int (s32 (strtol 0 (argv ! 2))) @ '' 2''))
     (sqn (call (Syscall ''fallocate'' [ul fd, 0, 0, 0x200000]))
     (bnd (new_region fl fd) (\<lambda>p1. bnd (new_region fl fd) (\<lambda>p2.
     sqn (put_line (''p1 '' @ show_ptr p1 @ '', p2 '' @ show_ptr p2))
     (sqn (check_region p1 3) (sqn (check_region p2 3)
     (sqn (call (Madvise p1 0x200000 MADV_DONTNEED)) (sqn (call (Madvise p1 40960 MADV_DONTNEED))
     (sqn (check_region p1 3) (sqn (check_region p2 3)
     (sqn (call (Madvise p1 40960 MADV_REMOVE))
     (sqn (check_region p1 3) (sqn (check_region p2 3) (ret 0))))))))))))))))"

definition main_reproduce :: "string list \<Rightarrow> ('z io_scheme, int) prog" where
  "main_reproduce argv = (if length argv < 2 then stop (Fault NullDeref)
     else bnd (sysv (Open (argv ! 1) (O_CREAT OR O_RDWR) 0x1A4)) (\<lambda>fd.
     if length argv < 3 then stop (Fault NullDeref)
     else sqn (call (Syscall ''fallocate'' [ul fd, 0, 0, 0x200000]))
       (bnd (new_region (region_flags (argv ! 2)) fd) (\<lambda>p1.
        sqn (call (Madvise p1 (0x200000 - 4096) MADV_DONTNEED)) (ret 0)))))"

end
