(* ===== verification/SmallLaws.thy ===== *)
theory SmallLaws
  imports PageTests
begin

text \<open>
  Laws of the small memory tests: the pages a region is touched at, the pages that are moved between
  nodes, and the line that a residency map is printed as.
\<close>

section \<open>Touching a region\<close>

lemma pages_none: "(sz :: int) \<le> i \<Longrightarrow> (sz - i + 4095) div 4096 \<le> 0"
  using zdiv_mono1 [of "sz - i + 4095" 4095 4096] by simp

text \<open>The pages left from \<open>i\<close> on; beyond the \<open>int\<close> numbers there are none.\<close>

definition pages_left :: "int \<Rightarrow> int \<Rightarrow> nat" where
  "pages_left i sz = nat ((min sz (2 ^ 31) - i + 4095) div 4096)"

lemma pages_left_end: "sz \<le> i \<Longrightarrow> pages_left i sz = 0"
  using pages_none [of "min sz (2 ^ 31)" i] by (simp add: pages_left_def)

lemma pages_left_step:
  assumes "i < sz" "i < 2 ^ 31"
  shows "pages_left i sz = Suc (pages_left (i + 4096) sz)"
proof -
  let ?m = "min sz (2 ^ 31)"
  have "?m - i + 4095 = (?m - (i + 4096) + 4095) + 1 * 4096" by simp
  then have "(?m - i + 4095) div 4096 = (?m - (i + 4096) + 4095) div 4096 + 1"
    by (metis div_mult_self1 zero_neq_numeral add.commute)
  moreover have "0 \<le> (?m - (i + 4096) + 4095) div 4096" using assms by (simp add: pos_imp_zdiv_nonneg_iff)
  ultimately show ?thesis unfolding pages_left_def by linarith
qed

lemma pages_left_beyond: "2 ^ 31 \<le> i \<Longrightarrow> pages_left i sz = 0"
  using pages_none [of "min sz (2 ^ 31)" i] by (simp add: pages_left_def)

text \<open>The accesses of the loop, also of one that overflows.\<close>

lemma region_loop_calls:
  assumes "0 \<le> i" "i mod 4096 = 0" "i \<le> 2 ^ 31 - 4096"
  shows "region_loop (\<lambda>i. call (c i)) i sz k s = (if sz \<le> 2 ^ 31 - 4096 then Val () else Fault Overflow,
    s\<lparr>trace := trace s @ map (\<lambda>j. c (i + 4096 * int j)) [0..<pages_left i sz]\<rparr>)"
  using assms
proof (induction "\<lambda>i. call (c i) :: ('a io_scheme, unit) prog" i sz arbitrary: s rule: region_loop.induct)
  case (1 i sz)
  show ?case
  proof (cases "i < sz")
    case False
    then show ?thesis using "1.prems"(3) by (simp add: region_loop.simps pages_left_end prog_simps)
  next
    case lt: True
    have step: "pages_left i sz = Suc (pages_left (i + 4096) sz)" using lt "1.prems"(3) by (intro pages_left_step) simp_all
    have tr: "map (\<lambda>j. c (i + 4096 * int j)) [0..<pages_left i sz]
        = c i # map (\<lambda>j. c (i + 4096 + 4096 * int j)) [0..<pages_left (i + 4096) sz]"
      unfolding step by (simp add: map_upt_Suc algebra_simps del: upt_Suc)
    show ?thesis
    proof (cases "i = 2 ^ 31 - 4096")
      case True
      then have "\<not> in_s32 (i + 4096)" "pages_left (i + 4096) sz = 0" by (simp_all add: in_s32_def pages_left_beyond)
      moreover have "\<not> sz \<le> 2 ^ 31 - 4096" using True lt by simp
      ultimately show ?thesis unfolding tr using lt by (simp add: region_loop.simps [of _ i] prog_simps)
    next
      case False
      obtain m where m: "i = 4096 * m" using "1.prems"(2) by auto
      have i: "i + 4096 \<le> 2 ^ 31 - 4096" using "1.prems"(3) False by (simp add: m)
      then have fits: "in_s32 (i + 4096)" using "1.prems"(1) by (simp add: in_s32_def)
      note ih = "1.hyps" [OF lt fits _ _ i]
      show ?thesis unfolding tr using lt fits "1.prems"(1,2) by (simp add: region_loop.simps [of _ i] prog_simps ih)
    qed
  qed
qed

text \<open>
  C32: \<open>write_region\<close> ends for every size: it writes one byte at the start of each page the region has a
  byte in, in order.  When the size is at most \<open>2^31 - 4096\<close> it then returns; for a larger size the offset
  overflows, after every page below \<open>2^31\<close> was written.
\<close>

theorem write_region_pages:
  assumes "0 \<le> sz"
  shows "write_region a sz k s = (if sz \<le> 2 ^ 31 - 4096 then Val () else Fault Overflow,
     s\<lparr>trace := trace s @ map (\<lambda>j. Store (a + of_nat (4096 * j)) (CHR 0x01)) [0..<nat ((min sz (2 ^ 31) + 4095) div 4096)]\<rparr>)"
  unfolding write_region_def by (subst region_loop_calls) (simp_all add: pages_left_def)

theorem write_region_pages_witness:
  "write_region 0x1000 8192 (\<lambda>tr c. ok) \<lparr>trace = []\<rparr>
   = (Val (), \<lparr>trace = [Store 0x1000 (CHR 0x01), Store 0x2000 (CHR 0x01)]\<rparr>)"
proof -
  have "[0..<2] = [0, 1 :: nat]" by (simp add: upt_rec)
  then show ?thesis using write_region_pages [of 8192 "0x1000" "\<lambda>tr c. ok" "\<lparr>trace = []\<rparr>"] by simp
qed

section \<open>Moving pages\<close>

lemma nr_pages_ok: "0 \<le> n \<Longrightarrow> n < 1024 \<Longrightarrow> nr_pages n = Val (512 * n)"
  by (simp add: nr_pages_def in_s32_def cdiv_nonneg)

lemma nr_pages_overflow: "1024 \<le> n \<Longrightarrow> nr_pages n = Fault Overflow"
  by (simp add: nr_pages_def in_s32_def)



section \<open>Residency maps\<close>

text \<open>With a tag of 8 characters, as all tags are, the line holds the tag and one digit per page.\<close>

lemma mincore_line_text:
  assumes "length tag = 8" "CHR 0x00 \<notin> set tag"
  shows "mincore_line tag n vec = tag @ '':'' @ map (\<lambda>i. if vec ! i \<noteq> CHR 0x00 then CHR ''1'' else CHR ''0'') [0..<n] @ newl"
proof -
  let ?line = "tag @ '':'' @ map (\<lambda>i. if vec ! i \<noteq> CHR 0x00 then CHR ''1'' else CHR ''0'') [0..<n] @ newl"
  have "take 9 (tag @ '':'' @ [CHR 0x00]) = tag @ '':''" using assms(1) by simp
  then have "mincore_line tag n vec = takeWhile (\<lambda>c. c \<noteq> CHR 0x00) ?line" unfolding mincore_line_def by (simp only: append_assoc)
  moreover have "c \<noteq> CHR 0x00" if "c \<in> set ?line" for c :: char
  proof (cases "c \<in> set tag")
    case True
    then show ?thesis using assms(2) by metis
  next
    case False
    with that have "c \<in> {CHR '':'', CHR ''1'', CHR ''0'', CHR 0x0A}" by (auto simp: newl_def)
    then show ?thesis by (elim insertE emptyE) simp_all
  qed
  then have "takeWhile (\<lambda>c. c \<noteq> CHR 0x00) ?line = ?line" unfolding takeWhile_eq_all_conv by (intro ballI)
  ultimately show ?thesis by (rule trans)
qed

text \<open>Every tag the program uses is of this kind.\<close>

lemma shown_tags: "list_all (\<lambda>x. length (fst x) = 8 \<and> CHR 0x00 \<notin> set (fst x)) (shown ty has_file memsize ar)"
  by (simp add: shown_def)

end
