(* ===== verification/DaxTests.thy ===== *)
theory DaxTests
  imports SmallTests
begin

text \<open>
  Tests of persistent memory that is mapped directly: \<open>lib/test_dax.c\<close> (reads and writes of a device
  or file, mapped in pieces of 1 GB), \<open>lib/test_devdax_simple.c\<close>, \<open>lib/test_fsdax.c\<close> and the ioctl tool
  \<open>lib/ndctl_ioctl.c\<close>.  A call that stores into a variable hands the stored value back in \<open>errno\<close>.
\<close>

abbreviation (input) MAP_SYNC :: int where "MAP_SYNC \<equiv> 0x80000"

definition DAX_GB :: u64 where "DAX_GB = 0x40000000"
definition DAX_HPS :: u64 where "DAX_HPS = 0x200000"

section \<open>Reads and writes of mapped persistent memory\<close>

definition chunk_size :: "nat \<Rightarrow> u64 \<Rightarrow> u64" where
  "chunk_size index sz = (let tmp = sz - of_nat index * DAX_GB in if DAX_GB < tmp then DAX_GB else tmp)"

text \<open>One mapping per GB; the number is stored in an \<open>int\<close>.\<close>

definition nr_mmaps :: "u64 \<Rightarrow> int" where
  "nr_mmaps sz = int_of_ul ((sz - 1) div DAX_GB + 1)"

text \<open>The offset \<open>i*HPS\<close> is an \<open>int\<close>.\<close>

definition prepare_fsdax_file :: "int \<Rightarrow> u64 \<Rightarrow> ('z io_scheme, unit) prog" where
  "prepare_fsdax_file fd sz = bnd (sysv (Malloc DAX_HPS)) (\<lambda>buf. if buf = 0 then stop (Fault NullDeref)
     else sqn (call (Memset (ul buf) (CHR ''a'') DAX_HPS))
       (sqn (for_each [0..<unat (sz div DAX_HPS)] (\<lambda>i.
          if in_s32 (int i * 0x200000) then call (Pwrite fd (replicate 0x200000 (CHR ''a'')) (of_nat i * DAX_HPS))
          else stop (Fault Overflow)))
       (call (Free (ul buf)))))"

definition dax_sigbus_handler :: "int \<Rightarrow> u64 \<Rightarrow> u64 \<Rightarrow> ('z io_scheme, unit) prog" where
  "dax_sigbus_handler sig code status = sqn (put_line (''SIGBUS:'' @ show_int sig @ '', si_code:0x'' @ show_hex code
     @ '', si_status:0x'' @ show_hex status)) exit_failure"

text \<open>
  One sweep over the accesses: \<open>acc\<close> makes one access and says whether it succeeded, \<open>fin\<close> is what
  is done before the program exits because \<open>repeat\<close> has reached 0.  The result is the status
  to return with, or the value of \<open>repeat\<close>.
\<close>

primrec dax_sweep :: "(nat \<Rightarrow> ('s, bool) prog) \<Rightarrow> ('s, unit) prog \<Rightarrow> nat list \<Rightarrow> int \<Rightarrow> ('s, int + int) prog" where
  "dax_sweep acc fin [] rep = ret (Inr rep)"
| "dax_sweep acc fin (i # is) rep = (if 2 ^ 31 \<le> i then stop (Fault Overflow)
     else bnd (acc i) (\<lambda>good. if \<not> good then ret (Inl 1)
       else if rep = - (2 ^ 63) then stop (Fault Overflow)
       else if rep - 1 = 0 then sqn fin (stop (Exit 0))
       else dax_sweep acc fin is (rep - 1)))"

fun dax_sweeps :: "nat \<Rightarrow> (nat \<Rightarrow> ('s, bool) prog) \<Rightarrow> ('s, unit) prog \<Rightarrow> nat list \<Rightarrow> bool \<Rightarrow> int \<Rightarrow> ('s, int) prog" where
  "dax_sweeps 0 acc fin is norepeat rep = stop NoFuel"
| "dax_sweeps (Suc n) acc fin is norepeat rep = bnd (dax_sweep acc fin is rep) (\<lambda>x. case x of
     Inl c \<Rightarrow> ret c | Inr rep' \<Rightarrow> if norepeat then ret 0 else dax_sweeps n acc fin is norepeat rep')"

text \<open>\<open>size/iosize\<close> accesses, evaluated in every round.\<close>

definition io_indices :: "u64 \<Rightarrow> u64 \<Rightarrow> nat list outcome" where
  "io_indices sz iosize = (if iosize = 0 then Fault DivByZero else Val [0..<unat (sz div iosize)])"

definition dax_loop ::
  "nat \<Rightarrow> (nat \<Rightarrow> ('z io_scheme, bool) prog) \<Rightarrow> ('z io_scheme, unit) prog \<Rightarrow> u64 \<Rightarrow> u64 \<Rightarrow> bool \<Rightarrow> int \<Rightarrow> ('z io_scheme, int) prog" where
  "dax_loop fuel acc fin sz iosize norepeat rep =
    bnd (stop (io_indices sz iosize)) (\<lambda>is. dax_sweeps fuel acc fin is norepeat rep)"

definition mapped_addr :: "addr list \<Rightarrow> u64 \<Rightarrow> nat \<Rightarrow> addr outcome" where
  "mapped_addr addrs iosize i = (let off = of_nat i * iosize; j = unat (off div DAX_GB) in
     if j < length addrs then Val (addrs ! j + off mod DAX_GB) else Fault OutOfBounds)"

definition mapped_access :: "(addr \<Rightarrow> sys) \<Rightarrow> addr list \<Rightarrow> u64 \<Rightarrow> nat \<Rightarrow> ('z io_scheme, bool) prog" where
  "mapped_access c addrs iosize i = bnd (stop (mapped_addr addrs iosize i)) (\<lambda>a. sqn (call (c a)) (ret True))"

definition dax_write :: "nat \<Rightarrow> addr list \<Rightarrow> u64 \<Rightarrow> u64 \<Rightarrow> bool \<Rightarrow> int \<Rightarrow> ('z io_scheme, int) prog" where
  "dax_write fuel addrs sz iosize norepeat rep = sqn (put_line ''writing ...'')
     (dax_loop fuel (mapped_access (\<lambda>a. Memset a (CHR ''c'') iosize) addrs iosize) skip sz iosize norepeat rep)"

text \<open>A buffer of \<open>iosize\<close> bytes around the loop.\<close>

definition with_buffer :: "u64 \<Rightarrow> (addr \<Rightarrow> ('z io_scheme, int) prog) \<Rightarrow> ('z io_scheme, int) prog" where
  "with_buffer iosize f = bnd (sysv (Malloc iosize)) (\<lambda>buf. if buf = 0 then ret 1
     else bnd (f (ul buf)) (\<lambda>c. if c = 0 then sqn (call (Free (ul buf))) (ret c) else ret c))"

definition dax_read :: "nat \<Rightarrow> addr list \<Rightarrow> u64 \<Rightarrow> u64 \<Rightarrow> bool \<Rightarrow> int \<Rightarrow> ('z io_scheme, int) prog" where
  "dax_read fuel addrs sz iosize norepeat rep = with_buffer iosize (\<lambda>buf. sqn (put_line ''reading ...'')
     (dax_loop fuel (mapped_access (\<lambda>a. Memcpy buf a iosize) addrs iosize) skip sz iosize norepeat rep))"

definition sys_access :: "(u64 \<Rightarrow> sys) \<Rightarrow> u64 \<Rightarrow> nat \<Rightarrow> ('z io_scheme, bool) prog" where
  "sys_access c iosize i = bnd (sysv (c (of_nat i * iosize))) (\<lambda>r. ret (s32 r \<noteq> - 1))"

definition dax_syswrite :: "nat \<Rightarrow> int \<Rightarrow> u64 \<Rightarrow> u64 \<Rightarrow> bool \<Rightarrow> int \<Rightarrow> ('z io_scheme, int) prog" where
  "dax_syswrite fuel fd sz iosize norepeat rep = with_buffer iosize (\<lambda>buf.
     sqn (call (Memset buf (CHR ''x'') iosize)) (sqn (put_line ''sys writing ...'')
     (dax_loop fuel (sys_access (Pwrite fd (replicate (unat iosize) (CHR ''x''))) iosize) (call (Fsync fd)) sz iosize norepeat rep)))"

definition dax_sysread :: "nat \<Rightarrow> int \<Rightarrow> u64 \<Rightarrow> u64 \<Rightarrow> bool \<Rightarrow> int \<Rightarrow> ('z io_scheme, int) prog" where
  "dax_sysread fuel fd sz iosize norepeat rep = with_buffer iosize (\<lambda>buf. sqn (put_line ''sys reading ...'')
     (dax_loop fuel (sys_access (Pread fd iosize) iosize) skip sz iosize norepeat rep))"

text \<open>The mappings; \<open>None\<close> when one fails.\<close>

primrec map_gigabytes :: "u64 \<Rightarrow> int \<Rightarrow> int \<Rightarrow> nat list \<Rightarrow> ('z io_scheme, addr list option) prog" where
  "map_gigabytes sz mmapflag fd [] = ret (Some [])"
| "map_gigabytes sz mmapflag fd (i # is) =
     bnd (sysv (Mmap (test_base + of_nat i * DAX_GB) (chunk_size i sz) PROT_RW mmapflag fd (of_nat i * DAX_GB))) (\<lambda>p.
     if ul p = - 1 then ret None
     else bnd (map_gigabytes sz mmapflag fd is) (\<lambda>m. ret (case m of None \<Rightarrow> None | Some as \<Rightarrow> Some (ul p # as))))"

definition map_dax :: "u64 \<Rightarrow> int \<Rightarrow> int \<Rightarrow> (addr list \<Rightarrow> ('z io_scheme, int) prog) \<Rightarrow> ('z io_scheme, int) prog" where
  "map_dax sz mmapflag fd f = bnd (map_gigabytes sz mmapflag fd [0..<nat (nr_mmaps sz)]) (\<lambda>m. case m of
     None \<Rightarrow> sqn (put_line (''If you try mmap()ing for devdax device, make sure that the mapping size is aligned ''
       @ ''to devdax block size (might be 2MB).'')) (ret 1)
   | Some addrs \<Rightarrow> f addrs)"

definition dax_io :: "nat \<Rightarrow> string \<Rightarrow> int \<Rightarrow> int \<Rightarrow> u64 \<Rightarrow> u64 \<Rightarrow> bool \<Rightarrow> int \<Rightarrow> ('z io_scheme, int) prog" where
  "dax_io fuel iotype mmapflag fd sz iosize norepeat rep =
    (if iotype = ''write'' then map_dax sz mmapflag fd (\<lambda>as. dax_write fuel as sz iosize norepeat rep)
     else if iotype = ''read'' then map_dax sz mmapflag fd (\<lambda>as. dax_read fuel as sz iosize norepeat rep)
     else if iotype \<in> {''pmem_memset_write'', ''pmem_memset_persist_write'', ''pmem_memcpy_read''}
     then map_dax sz mmapflag fd (\<lambda>as. ret 0)
     else if iotype = ''syswrite'' then dax_syswrite fuel fd sz iosize norepeat rep
     else if iotype = ''sysread'' then dax_sysread fuel fd sz iosize norepeat rep
     else exit_failure)"

text \<open>
  The attribute of the file, when \<open>SET_STATX_ATTR_DAX\<close> is set in the environment.
\<close>

definition set_dax_attr :: "int \<Rightarrow> ('z io_scheme, unit) prog" where
  "set_dax_attr fd = bnd (sys (Syscall ''FS_IOC_GETFLAGS'' [ul fd])) (\<lambda>r. if rv r < 0 then exit_failure
     else bnd (sysv (Syscall ''FS_IOC_SETFLAGS'' [ul fd, ul (errno r OR 0x2000000)])) (\<lambda>r. if r < 0 then exit_failure else skip))"

definition env_number :: "(string \<Rightarrow> string option) \<Rightarrow> string \<Rightarrow> u64" where
  "env_number env name = (case env name of None \<Rightarrow> 0 | Some v \<Rightarrow> strtoul 0 v)"

definition warmup :: "int \<Rightarrow> u64 \<Rightarrow> ('z io_scheme, unit) prog" where
  "warmup fd sz = bnd (sys (Syscall ''fstat'' [ul fd])) (\<lambda>r. cond (errno r AND 0xF000 = 0x8000)
     (sqn (call (Stdout ''Warmup ... '')) (sqn (prepare_fsdax_file fd sz) (put_line ''done.''))))"

definition dax_report :: "u64 \<Rightarrow> u64 \<Rightarrow> string \<Rightarrow> int \<Rightarrow> int \<Rightarrow> int \<Rightarrow> ('z io_scheme, unit) prog" where
  "dax_report sz iosize iotype rep mmapflag attrs = put_line (''size: 0x'' @ show_hex sz @ '', iosize: 0x'' @ show_hex iosize
     @ '', iotype:'' @ iotype @ '', nr_mmaps:0x'' @ show_hex (ul (nr_mmaps sz)) @ '', repeat:'' @ show_int (s32 rep)
     @ '', mmapflag:'' @ show_hex (ul mmapflag) @ '', xattr:'' @ show_hex (ul attrs))"

definition dax_opened :: "nat \<Rightarrow> (string \<Rightarrow> string option) \<Rightarrow> string list \<Rightarrow> int \<Rightarrow> ('z io_scheme, int) prog" where
  "dax_opened fuel env argv fd = (let
       sz = (if 2 < length argv then strtoul 0 (argv ! 2) else DAX_HPS);
       iosize = (if 4 < length argv then strtoul 0 (argv ! 4) else DAX_HPS);
       rep = sint (env_number env ''REPEATS'');
       mmapflag = (if env_number env ''MAP_SYNC'' \<noteq> 0 then MAP_SHARED OR MAP_SYNC else MAP_SHARED) in
     sqn (cond (env ''SET_STATX_ATTR_DAX'' \<noteq> None) (set_dax_attr fd))
     (bnd (sysv (Malloc (8 * ul (nr_mmaps sz)))) (\<lambda>a. if a = 0 then exit_failure
     else sqn (cond (env_number env ''NO_WARMUP'' = 0) (warmup fd sz))
     (bnd (sys (Syscall ''statx'' [ul fd])) (\<lambda>st. if rv st \<noteq> 0 then exit_failure
     else if length argv < 4 then stop (Fault UnsetValue)
     else sqn (dax_report sz iosize (argv ! 3) rep mmapflag (errno st))
       (dax_io fuel (argv ! 3) mmapflag fd sz iosize (env_number env ''NO_REPEAT'' \<noteq> 0) rep))))))"

text \<open>Without a path \<open>open\<close> is given NULL, and fails.\<close>

definition main_dax :: "nat \<Rightarrow> (string \<Rightarrow> string option) \<Rightarrow> string list \<Rightarrow> ('z io_scheme, int) prog" where
  "main_dax fuel env argv = bnd (sysv (Sigaction SIGBUS 1)) (\<lambda>r. if r \<noteq> 0 then ret 1
     else sqn (call (Prctl 4 1 0))
     (if length argv < 2 then exit_failure
      else bnd (sysv (Open (argv ! 1) (O_RDWR OR O_CREAT) 0x1B6)) (\<lambda>fd. if fd = - 1 then exit_failure
        else dax_opened fuel env argv fd)))"

section \<open>Poison of a device page\<close>

definition main_devdax :: "('z io_scheme, int) prog" where
  "main_devdax = bnd (sysv (Open ''/dev/dax0.6'' (O_CREAT OR O_RDWR) 0x1B6)) (\<lambda>fd. if fd = - 1 then ret (- 1)
     else bnd (sysv (Mmap test_base 0x200000 PROT_RW (MAP_SHARED OR MAP_SYNC) fd DAX_GB)) (\<lambda>p. if ul p = - 1
       then sqn (put_line (''If you try mmap()ing for devdax device, make sure that the mapping size is aligned ''
         @ ''to devdax block size (might be 2MB).'')) (ret (- 1))
       else sqn (for_each [0..<512] (\<lambda>i. call (Memset (ul p + of_nat i * 4096) (CHR ''a'') 4096)))
         (sqn (call (Madvise (ul p) 4096 MADV_NORMAL))
         (bnd (sysv (Madvise (ul p) 4096 MADV_HWPOISON)) (\<lambda>r.
          sqn (call (Madvise (ul p) 4096 MADV_NORMAL))
          (if r < 0 then sqn (put_line ''madvise(MADV_HWPOISON) failed.'') (ret 1)
           else sqn (put_line ''madvise(MADV_HWPOISON) passed.'') (sqn (call (Load (ul p)))
             (sqn (put_line ''Accessing from poisoned memory wrongly succeeded?'') (ret 2)))))))))"

text \<open>
  The program returns before its mapping test; the file that is opened is not the one whose
  inode is printed.  When \<open>stat\<close> fails the inode is unset.
\<close>

definition main_fsdax :: "('z io_scheme, int) prog" where
  "main_fsdax = bnd (sysv (Malloc 4096)) (\<lambda>buf.
     bnd (sys (Syscall ''stat /mnt/pmem/ext4/data1'' [])) (\<lambda>st.
     sqn (put_line (''inode: '' @ show_hex (ul (errno st))))
     (bnd (sysv (Open ''/mnt/pmem/ext4/date1'' (O_RDWR OR O_CREAT) 0x1B6)) (\<lambda>fd.
      if buf = 0 then stop (Fault NullDeref)
      else sqn (call (Memset (ul buf) (CHR ''a'') 4096))
       (sqn (call (Pwrite fd (replicate 4096 (CHR ''a'')) 0))
       (bnd (sysv Getpid) (\<lambda>pid. sqn (call (System (''page-types -p '' @ show_int pid @ '' -Nrl''))) (ret 0))))))))"

end
