(* ===== verification/DaxLaws.thy ===== *)
theory DaxLaws
  imports DaxTests
begin

text \<open>
  Laws of \<open>DaxTests\<close>: the mappings of a device cover it without gaps, every access lies inside one of
  them, and a test makes exactly the number of accesses it was asked for and ends.
\<close>

section \<open>Pieces of 1 GB\<close>

lemma DAX_GB_unat: "unat DAX_GB = 2 ^ 30"
  by (simp add: DAX_GB_def)

lemma unat_u64: "unat (w :: u64) < 2 ^ 64"
  using unsigned_less [of w, where 'a=nat] by simp

lemma unat_of_nat_u64: "i < 2 ^ 64 \<Longrightarrow> unat (of_nat i :: u64) = i"
  by (simp add: unat_of_nat)

text \<open>The number of mappings, as a number: the size in GB, rounded up.\<close>

definition gigabytes :: "u64 \<Rightarrow> nat" where
  "gigabytes sz = (unat sz + 2 ^ 30 - 1) div 2 ^ 30"

lemma gigabytes_less: "i < gigabytes sz \<longleftrightarrow> i * 2 ^ 30 < unat sz"
proof -
  have "i < gigabytes sz \<longleftrightarrow> Suc i * 2 ^ 30 \<le> unat sz + 2 ^ 30 - 1"
    unfolding gigabytes_def by (simp add: less_eq_div_iff_mult_less_eq Suc_le_eq [symmetric])
  also have "\<dots> \<longleftrightarrow> i * 2 ^ 30 < unat sz" by simp linarith
  finally show ?thesis .
qed

lemma nr_mmaps_gigabytes:
  assumes "0 < sz" "gigabytes sz < 2 ^ 31"
  shows "nr_mmaps sz = int (gigabytes sz)"
proof -
  have pos: "0 < unat sz" using assms(1) by (simp add: word_less_nat_alt)
  then have "unat (sz - 1) = unat sz - 1"
    by (metis One_nat_def assms(1) unat_minus_one word_gt_0)
  moreover have g: "(unat sz - 1) div 2 ^ 30 + 1 = gigabytes sz"
    using pos by (simp add: gigabytes_def)
  ultimately have "unat ((sz - 1) div DAX_GB) + 1 = gigabytes sz"
    by (simp add: unat_div DAX_GB_unat)
  moreover have "unat ((sz - 1) div DAX_GB + 1) = unat ((sz - 1) div DAX_GB) + 1"
    using calculation assms(2) by (simp add: unat_word_ariths)
  ultimately show ?thesis
    using assms(2) by (simp add: nr_mmaps_def int_of_ul_def s32_small uint_nat)
qed

lemma of_nat_GB_unat:
  fixes sz :: u64
  assumes "i * 2 ^ 30 < unat sz"
  shows "unat (of_nat i * DAX_GB) = i * 2 ^ 30"
proof -
  have "i * 2 ^ 30 < 2 ^ 64" using assms unat_u64 [of sz] by linarith
  then have "i < 2 ^ 64" by simp
  then have "unat (of_nat i :: u64) = i" by (simp add: unat_of_nat_u64)
  with \<open>i * 2 ^ 30 < 2 ^ 64\<close> show ?thesis by (simp add: unat_word_ariths DAX_GB_unat)
qed

lemma chunk_size_unat:
  assumes "i < gigabytes sz"
  shows "unat (chunk_size i sz) = min (2 ^ 30) (unat sz - i * 2 ^ 30)"
proof -
  have lt: "i * 2 ^ 30 < unat sz" using assms by (simp add: gigabytes_less)
  have o: "unat (of_nat i * DAX_GB) = i * 2 ^ 30" by (rule of_nat_GB_unat [OF lt])
  then have "of_nat i * DAX_GB \<le> sz" using lt by (simp add: word_le_nat_alt)
  then have "unat (sz - of_nat i * DAX_GB) = unat sz - i * 2 ^ 30" by (simp add: unat_sub o)
  then show ?thesis by (simp add: chunk_size_def Let_def word_less_nat_alt DAX_GB_unat)
qed

lemma chunk_sizes_prefix:
  "m \<le> gigabytes sz \<Longrightarrow> sum_list (map (\<lambda>i. unat (chunk_size i sz)) [0..<m]) = min (m * 2 ^ 30) (unat sz)"
proof (induction m)
  case 0
  then show ?case by simp
next
  case (Suc m)
  then have "m * 2 ^ 30 < unat sz" using gigabytes_less [of m sz] by linarith
  with Suc show ?case by (simp add: chunk_size_unat)
qed

lemma gigabytes_cover: "unat sz \<le> gigabytes sz * 2 ^ 30"
  using gigabytes_less [of "gigabytes sz" sz] by simp

section \<open>Where an access lies\<close>

lemma access_offset:
  fixes sz iosize :: u64
  assumes "i < unat (sz div iosize)"
  shows "unat (of_nat i * iosize) = i * unat iosize" "i * unat iosize + unat iosize \<le> unat sz"
proof -
  have "Suc i \<le> unat sz div unat iosize" using assms by (simp add: unat_div)
  then have "Suc i * unat iosize \<le> unat sz"
    by (meson div_times_less_eq_dividend le_trans mult_le_mono1)
  then show le: "i * unat iosize + unat iosize \<le> unat sz" by simp
  have i: "i < 2 ^ 64" using assms unat_u64 [of "sz div iosize"] by linarith
  then have "unat (of_nat i :: u64) = i" by (simp add: unat_of_nat_u64)
  moreover have "i * unat iosize < 2 ^ 64" using le assms unat_u64 [of sz] by (cases "iosize = 0") (simp_all add: word_less_nat_alt)
  ultimately show "unat (of_nat i * iosize) = i * unat iosize" by (simp add: unat_word_ariths)
qed

text \<open>
  When the size of an access divides 1 GB, an access lies in one mapping and does not leave it.
\<close>

lemma access_inside:
  assumes i: "i < unat (sz div iosize)" and d: "unat iosize dvd 2 ^ 30" and io: "0 < iosize"
  defines "off \<equiv> of_nat i * iosize"
  shows "unat (off div DAX_GB) < gigabytes sz"
    "unat (off mod DAX_GB) + unat iosize \<le> unat (chunk_size (unat (off div DAX_GB)) sz)"
proof -
  let ?o = "i * unat iosize"
  have off: "unat off = ?o" and le: "?o + unat iosize \<le> unat sz"
    using access_offset [OF i] by (simp_all add: off_def)
  have pos: "0 < unat iosize" using io by (simp add: word_less_nat_alt)
  have j: "unat (off div DAX_GB) = ?o div 2 ^ 30" and m: "unat (off mod DAX_GB) = ?o mod 2 ^ 30"
    by (simp_all add: unat_div unat_mod off DAX_GB_unat)
  have "?o div 2 ^ 30 * 2 ^ 30 \<le> ?o" by simp
  also have "?o < unat sz" using le pos by simp
  finally show g: "unat (off div DAX_GB) < gigabytes sz" by (simp add: gigabytes_less j)
  obtain c where c: "2 ^ 30 = unat iosize * c" using d by (elim dvdE)
  have "?o mod 2 ^ 30 = unat iosize * (i mod c)" unfolding c by (simp add: mult.commute)
  moreover have "i mod c < c" using c by (intro mod_less_divisor) (metis gr0I mult_0_right power_not_zero zero_neq_numeral)
  ultimately have fit: "?o mod 2 ^ 30 + unat iosize \<le> 2 ^ 30"
    using mult_le_mono2 [of "Suc (i mod c)" c "unat iosize"] unfolding c by simp
  have "?o = ?o div 2 ^ 30 * 2 ^ 30 + ?o mod 2 ^ 30" by simp
  then have "?o mod 2 ^ 30 + unat iosize \<le> unat sz - ?o div 2 ^ 30 * 2 ^ 30" using le by linarith
  with fit show "unat (off mod DAX_GB) + unat iosize \<le> unat (chunk_size (unat (off div DAX_GB)) sz)"
    unfolding chunk_size_unat [OF g] by (simp add: j m)
qed

section \<open>Rounds of accesses\<close>

text \<open>The first \<open>n\<close> elements of the endless repetition of a list.\<close>

definition cycle :: "nat \<Rightarrow> 'a list \<Rightarrow> 'a list" where
  "cycle n xs = map (\<lambda>j. xs ! (j mod length xs)) [0..<n]"

lemma cycle_short: "n \<le> length xs \<Longrightarrow> cycle n xs = take n xs"
  by (rule nth_equalityI) (simp_all add: cycle_def)

lemma cycle_long:
  assumes "length xs \<le> n" "xs \<noteq> []"
  shows "cycle n xs = xs @ cycle (n - length xs) xs"
proof (rule nth_equalityI)
  show "length (cycle n xs) = length (xs @ cycle (n - length xs) xs)" using assms by (simp add: cycle_def)
next
  fix i
  assume "i < length (cycle n xs)"
  then have i: "i < n" by (simp add: cycle_def)
  show "cycle n xs ! i = (xs @ cycle (n - length xs) xs) ! i"
  proof (cases "i < length xs")
    case True
    with i show ?thesis by (simp add: cycle_def nth_append)
  next
    case False
    then have "i mod length xs = (i - length xs) mod length xs" by (simp add: mod_if)
    moreover have "i - length xs < n - length xs" using False i by simp
    ultimately show ?thesis using False i by (simp add: cycle_def nth_append)
  qed
qed

lemma dax_sweep_run:
  assumes "\<And>i s. i \<in> set is \<Longrightarrow> acc i k s = (Val True, s\<lparr>trace := trace s @ [c i]\<rparr>)"
    and "\<And>i. i \<in> set is \<Longrightarrow> i < 2 ^ 31"
    and "\<And>s. fin k s = (Val (), s\<lparr>trace := trace s @ f\<rparr>)"
    and "- (2 ^ 63) + int (length is) < rep"
  shows "dax_sweep acc fin is rep k s = (if 0 < rep \<and> rep \<le> int (length is)
     then (Exit 0, s\<lparr>trace := trace s @ map c (take (nat rep) is) @ f\<rparr>)
     else (Val (Inr (rep - int (length is))), s\<lparr>trace := trace s @ map c is\<rparr>))"
  using assms(1,2,4)
proof (induction "is" arbitrary: rep s)
  case Nil
  then show ?case by (simp add: prog_simps)
next
  case (Cons i "is")
  have a: "acc i k s = (Val True, s\<lparr>trace := trace s @ [c i]\<rparr>)" "\<not> 2 ^ 31 \<le> i"
    using Cons.prems(1,2) [of i] by auto
  show ?case
  proof (cases "rep = 1")
    case True
    with a assms(3) show ?thesis by (simp add: prog_simps)
  next
    case False
    have "dax_sweep acc fin is (rep - 1) k (s\<lparr>trace := trace s @ [c i]\<rparr>) = (if 0 < rep - 1 \<and> rep - 1 \<le> int (length is)
     then (Exit 0, s\<lparr>trace := trace s @ [c i] @ map c (take (nat (rep - 1)) is) @ f\<rparr>)
     else (Val (Inr (rep - 1 - int (length is))), s\<lparr>trace := trace s @ [c i] @ map c is\<rparr>))"
      using Cons.IH [of "rep - 1" "s\<lparr>trace := trace s @ [c i]\<rparr>"] Cons.prems by simp
    moreover have "nat rep = Suc (nat (rep - 1))" if "0 < rep" using that by simp
    moreover have "rep \<noteq> - (2 ^ 63)" using Cons.prems(3) by simp
    ultimately show ?thesis using a False by (auto simp add: prog_simps algebra_simps)
  qed
qed

text \<open>
  A number of accesses: the rounds are gone through until it is reached, and the program
  exits with 0.  Fuel for as many rounds as that takes is enough.
\<close>

lemma dax_sweeps_run:
  assumes "\<And>i s. i \<in> set is \<Longrightarrow> acc i k s = (Val True, s\<lparr>trace := trace s @ [c i]\<rparr>)"
    and "\<And>i. i \<in> set is \<Longrightarrow> i < 2 ^ 31"
    and "\<And>s. fin k s = (Val (), s\<lparr>trace := trace s @ f\<rparr>)"
    and "is \<noteq> []" "length is < 2 ^ 63" "0 < rep" "rep \<le> int (fuel * length is)"
  shows "dax_sweeps fuel acc fin is False rep k s =
    (Exit 0, s\<lparr>trace := trace s @ map c (cycle (nat rep) is) @ f\<rparr>)"
  using assms(6,7)
proof (induction fuel arbitrary: rep s)
  case 0
  then show ?case by simp
next
  case (Suc n)
  have sw: "dax_sweep acc fin is rep k s = (if 0 < rep \<and> rep \<le> int (length is)
     then (Exit 0, s\<lparr>trace := trace s @ map c (take (nat rep) is) @ f\<rparr>)
     else (Val (Inr (rep - int (length is))), s\<lparr>trace := trace s @ map c is\<rparr>))"
    by (rule dax_sweep_run) (use assms Suc.prems in auto)
  show ?case
  proof (cases "rep \<le> int (length is)")
    case True
    with Suc.prems sw show ?thesis by (simp add: prog_simps cycle_short)
  next
    case False
    then have "dax_sweeps n acc fin is False (rep - int (length is)) k (s\<lparr>trace := trace s @ map c is\<rparr>)
      = (Exit 0, s\<lparr>trace := trace s @ map c is @ map c (cycle (nat (rep - int (length is))) is) @ f\<rparr>)"
      using Suc.IH [of "rep - int (length is)" "s\<lparr>trace := trace s @ map c is\<rparr>"] Suc.prems by simp
    moreover have "cycle (nat rep) is = is @ cycle (nat (rep - int (length is))) is"
      using cycle_long [of "is" "nat rep"] False assms(4) by (simp add: nat_diff_distrib)
    ultimately show ?thesis using False sw by (simp add: prog_simps)
  qed
qed

text \<open>One round and no more, when the number of accesses is not reached in it.\<close>

lemma dax_sweeps_once:
  assumes "\<And>i s. i \<in> set is \<Longrightarrow> acc i k s = (Val True, s\<lparr>trace := trace s @ [c i]\<rparr>)"
    and "\<And>i. i \<in> set is \<Longrightarrow> i < 2 ^ 31"
    and "\<And>s. fin k s = (Val (), s\<lparr>trace := trace s @ f\<rparr>)"
    and "- (2 ^ 63) + int (length is) < rep" "rep \<le> 0 \<or> int (length is) < rep" "0 < fuel"
  shows "dax_sweeps fuel acc fin is True rep k s = (Val 0, s\<lparr>trace := trace s @ map c is\<rparr>)"
proof -
  have "dax_sweep acc fin is rep k s = (Val (Inr (rep - int (length is))), s\<lparr>trace := trace s @ map c is\<rparr>)"
    using dax_sweep_run [of "is" acc k c fin f rep s] assms by auto
  moreover obtain n where "fuel = Suc n" using assms(6) by (cases fuel) auto
  ultimately show ?thesis by (simp add: prog_simps)
qed

section \<open>The write test\<close>

definition dax_target :: "addr list \<Rightarrow> u64 \<Rightarrow> nat \<Rightarrow> addr" where
  "dax_target addrs iosize i = addrs ! unat (of_nat i * iosize div DAX_GB) + of_nat i * iosize mod DAX_GB"

lemma mapped_access_run:
  assumes "unat (of_nat i * iosize div DAX_GB) < length addrs"
  shows "mapped_access c addrs iosize i k s = (Val True, s\<lparr>trace := trace s @ [c (dax_target addrs iosize i)]\<rparr>)"
  using assms by (simp add: mapped_access_def mapped_addr_def dax_target_def prog_simps Let_def)

lemma dax_write_run:
  assumes io: "0 < iosize" "unat iosize dvd 2 ^ 30"
    and n: "n = unat (sz div iosize)" "0 < n" "n < 2 ^ 31"
    and addrs: "length addrs = gigabytes sz"
    and rep: "0 < rep" "rep \<le> int (fuel * n)"
  shows "dax_write fuel addrs sz iosize False rep k s = (Exit 0, s\<lparr>trace := trace s @ Stdout (''writing ...'' @ newl)
     # map (\<lambda>j. Memset (dax_target addrs iosize (j mod n)) (CHR ''c'') iosize) [0..<nat rep]\<rparr>)"
proof -
  let ?acc = "mapped_access (\<lambda>a. Memset a (CHR ''c'') iosize) addrs iosize"
  let ?c = "\<lambda>i. Memset (dax_target addrs iosize i) (CHR ''c'') iosize"
  let ?s = "s\<lparr>trace := trace s @ [Stdout (''writing ...'' @ newl)]\<rparr>"
  have acc: "?acc i k s = (Val True, s\<lparr>trace := trace s @ [?c i]\<rparr>)" if "i \<in> set [0..<n]" for i s
    by (rule mapped_access_run) (use access_inside(1) [of i sz iosize] io that n addrs in auto)
  have "dax_sweeps fuel ?acc skip [0..<n] False rep k ?s = (Exit 0, ?s\<lparr>trace := trace ?s @ map ?c (cycle (nat rep) [0..<n]) @ []\<rparr>)"
    by (rule dax_sweeps_run) (use acc n rep in \<open>auto simp: prog_simps\<close>)
  moreover have "map ?c (cycle (nat rep) [0..<n]) = map (\<lambda>j. ?c (j mod n)) [0..<nat rep]"
    using n(2) by (simp add: cycle_def)
  moreover have "iosize \<noteq> 0" using io by auto
  ultimately show ?thesis
    using n(1) by (simp add: dax_write_def dax_loop_def io_indices_def put_line_def prog_simps)
qed

section \<open>The mappings at their hints\<close>

definition gb_addr :: "nat \<Rightarrow> addr" where
  "gb_addr i = test_base + of_nat i * DAX_GB"

definition gb_mmap :: "u64 \<Rightarrow> int \<Rightarrow> int \<Rightarrow> nat \<Rightarrow> sys" where
  "gb_mmap sz mmapflag fd i = Mmap (gb_addr i) (chunk_size i sz) PROT_RW mmapflag fd (of_nat i * DAX_GB)"

lemma gb_addr_valid: "gb_addr i \<noteq> - 1"
proof
  assume "gb_addr i = - 1"
  moreover have "even (gb_addr i)" by (simp add: gb_addr_def test_base_def DAX_GB_def)
  moreover have "odd (- 1 :: u64)" by simp
  ultimately show False by simp
qed

text \<open>A kernel that maps where it is asked to.\<close>

definition maps_at_hint :: "kernel \<Rightarrow> bool" where
  "maps_at_hint k \<longleftrightarrow> (\<forall>tr a len prot fl fd off. rv (k tr (Mmap a len prot fl fd off)) = uint a)"

lemma map_gigabytes_run:
  assumes "maps_at_hint k"
  shows "map_gigabytes sz mmapflag fd is k s = (Val (Some (map gb_addr is)), s\<lparr>trace := trace s @ map (gb_mmap sz mmapflag fd) is\<rparr>)"
proof (induction "is" arbitrary: s)
  case Nil
  then show ?case by (simp add: prog_simps)
next
  case (Cons i "is")
  have "rv (k (trace s) (gb_mmap sz mmapflag fd i)) = uint (gb_addr i)"
    using assms by (simp add: maps_at_hint_def gb_mmap_def)
  then show ?case
    using Cons.IH gb_addr_valid [of i] by (simp add: prog_simps gb_mmap_def gb_addr_def)
qed

lemma dax_target_contiguous:
  assumes "unat (of_nat i * iosize div DAX_GB) < n"
  shows "dax_target (map gb_addr [0..<n]) iosize i = test_base + of_nat i * iosize"
proof -
  let ?o = "of_nat i * iosize"
  have "(of_nat (unat (?o div DAX_GB)) :: u64) * DAX_GB + ?o mod DAX_GB = ?o"
    by (simp add: div_mult_mod_eq)
  with assms show ?thesis by (simp add: dax_target_def gb_addr_def add.assoc)
qed

text \<open>
  C15: the mappings of a device of at most \<open>2^60\<close> bytes cover it without gaps and without overlap (their
  sizes add up to the size of the device and none is larger than 1 GB), and every access
  whose size divides 1 GB uses one of these mappings and stays inside it.
\<close>

theorem dax_accesses_in_mappings:
  assumes "0 < sz" "unat sz \<le> 2 ^ 60" "0 < iosize" "unat iosize dvd 2 ^ 30"
  shows "sum_list (map (\<lambda>i. unat (chunk_size i sz)) [0..<nat (nr_mmaps sz)]) = unat sz
    \<and> (\<forall>i < nat (nr_mmaps sz). 0 < chunk_size i sz \<and> chunk_size i sz \<le> DAX_GB)
    \<and> (\<forall>i < unat (sz div iosize). let off = of_nat i * iosize; j = unat (off div DAX_GB) in
      j < nat (nr_mmaps sz) \<and> unat (off mod DAX_GB) + unat iosize \<le> unat (chunk_size j sz))"
proof (intro conjI)
  have "\<not> 2 ^ 30 < gigabytes sz" using gigabytes_less [of "2 ^ 30" sz] assms(2) by simp
  then have nr: "nat (nr_mmaps sz) = gigabytes sz" using nr_mmaps_gigabytes [OF assms(1)] by simp
  show "sum_list (map (\<lambda>i. unat (chunk_size i sz)) [0..<nat (nr_mmaps sz)]) = unat sz"
    using chunk_sizes_prefix [of "gigabytes sz" sz] gigabytes_cover [of sz] by (simp add: nr)
  show "\<forall>i < nat (nr_mmaps sz). 0 < chunk_size i sz \<and> chunk_size i sz \<le> DAX_GB"
    using chunk_size_unat gigabytes_less by (auto simp: nr word_less_nat_alt word_le_nat_alt DAX_GB_unat)
  show "\<forall>i < unat (sz div iosize). let off = of_nat i * iosize; j = unat (off div DAX_GB) in
      j < nat (nr_mmaps sz) \<and> unat (off mod DAX_GB) + unat iosize \<le> unat (chunk_size j sz)"
    using access_inside assms(3,4) unfolding Let_def nr by blast
qed

theorem dax_accesses_in_mappings_witness:
  "let sz = 0x60000000 :: u64; iosize = 0x200000 :: u64 in
   sum_list (map (\<lambda>i. unat (chunk_size i sz)) [0..<nat (nr_mmaps sz)]) = 0x60000000
   \<and> (\<forall>i < unat (sz div iosize). let off = of_nat i * iosize; j = unat (off div DAX_GB) in
      j < nat (nr_mmaps sz) \<and> unat (off mod DAX_GB) + unat iosize \<le> unat (chunk_size j sz))"
proof -
  have a: "0 < (0x60000000 :: u64)" "unat (0x60000000 :: u64) \<le> 2 ^ 60" "0 < (0x200000 :: u64)"
    "unat (0x200000 :: u64) dvd 2 ^ 30" by simp_all
  show ?thesis
    using dax_accesses_in_mappings [OF a] unfolding Let_def by simp
qed

text \<open>
  C14: the write test asked for a number of accesses, on a kernel that maps where it is asked to,
  maps the device in pieces of 1 GB, makes exactly this many writes of \<open>iosize\<close> bytes, one after the other
  from the start of the device and from the start again when no whole access is left, and
  exits with 0.  Fuel for the number of rounds is enough.
\<close>

theorem dax_write_contiguous:
  assumes k: "maps_at_hint k"
    and io: "0 < iosize" "unat iosize dvd 2 ^ 30" "unat sz \<le> 2 ^ 60"
    and n: "n = unat (sz div iosize)" "0 < n" "n < 2 ^ 31"
    and rep: "0 < rep" "rep \<le> int (fuel * n)"
  shows "dax_io fuel ''write'' mmapflag fd sz iosize False rep k s = (Exit 0, s\<lparr>trace := trace s
     @ map (gb_mmap sz mmapflag fd) [0..<nat (nr_mmaps sz)]
     @ Stdout (''writing ...'' @ newl)
     # map (\<lambda>j. Memset (test_base + of_nat (j mod n) * iosize) (CHR ''c'') iosize) [0..<nat rep]\<rparr>)"
proof -
  have "unat sz \<noteq> 0" using n by (intro notI) (simp add: unat_div)
  then have sz: "0 < sz" by (simp add: word_less_nat_alt)
  have "\<not> 2 ^ 30 < gigabytes sz" using gigabytes_less [of "2 ^ 30" sz] io by simp
  then have nr: "nat (nr_mmaps sz) = gigabytes sz" using nr_mmaps_gigabytes [OF sz] by simp
  let ?as = "map gb_addr [0..<gigabytes sz]"
  have t: "dax_target ?as iosize (j mod n) = test_base + of_nat (j mod n) * iosize" for j
    by (rule dax_target_contiguous, rule access_inside(1)) (use n io in auto)
  have "length ?as = gigabytes sz" by simp
  note run = dax_write_run [OF io(1,2) n this rep]
  show ?thesis
    by (simp add: dax_io_def map_dax_def map_gigabytes_run [OF k] nr prog_simps run t)
qed

definition hint_kernel :: kernel where
  "hint_kernel tr c = (case c of Mmap a _ _ _ _ _ \<Rightarrow> ok\<lparr>rv := uint a\<rparr> | _ \<Rightarrow> ok)"

theorem dax_write_contiguous_witness:
  "dax_io 3 ''write'' 1 4 0x400000 0x200000 False 5 hint_kernel \<lparr>trace = []\<rparr>
   = (Exit 0, \<lparr>trace = [Mmap 0x700000000000 0x400000 3 1 4 0, Stdout (''writing ...'' @ newl),
      Memset 0x700000000000 (CHR ''c'') 0x200000, Memset 0x700000200000 (CHR ''c'') 0x200000,
      Memset 0x700000000000 (CHR ''c'') 0x200000, Memset 0x700000200000 (CHR ''c'') 0x200000,
      Memset 0x700000000000 (CHR ''c'') 0x200000]\<rparr>)"
proof -
  have k: "maps_at_hint hint_kernel" by (simp add: maps_at_hint_def hint_kernel_def)
  have u: "[0..<nat 5] = [0, 1, 2, 3, 4 :: nat]" by (simp add: upt_rec)
  have n: "[0..<nat (nr_mmaps 0x400000)] = [0]" by (simp add: nr_mmaps_def DAX_GB_def int_of_ul_def s32_def)
  have m: "gb_mmap 0x400000 1 4 0 = Mmap 0x700000000000 0x400000 3 1 4 0"
    by (simp add: gb_mmap_def gb_addr_def test_base_def chunk_size_def DAX_GB_def Let_def)
  have "map (\<lambda>j. Memset (test_base + of_nat (j mod 2) * 0x200000) (CHR ''c'') 0x200000) [0, 1, 2, 3, 4 :: nat]
    = [Memset 0x700000000000 (CHR ''c'') 0x200000, Memset 0x700000200000 (CHR ''c'') 0x200000,
      Memset 0x700000000000 (CHR ''c'') 0x200000, Memset 0x700000200000 (CHR ''c'') 0x200000,
      Memset 0x700000000000 (CHR ''c'') 0x200000]"
    by (simp add: test_base_def)
  note parts = this u n m
  have "dax_io 3 ''write'' 1 4 0x400000 0x200000 False 5 hint_kernel \<lparr>trace = []\<rparr> = (Exit 0, \<lparr>trace = []\<rparr>\<lparr>trace := trace \<lparr>trace = []\<rparr>
     @ map (gb_mmap 0x400000 1 4) [0..<nat (nr_mmaps 0x400000)]
     @ Stdout (''writing ...'' @ newl)
     # map (\<lambda>j. Memset (test_base + of_nat (j mod 2) * 0x200000) (CHR ''c'') 0x200000) [0..<nat 5]\<rparr>)"
    by (rule dax_write_contiguous [OF k]) simp_all
  then show ?thesis unfolding parts list.map by (simp add: test_base_def)
qed

end
