(* ===== verification/Pmem.thy ===== *)
theory Pmem
  imports SmallTests
begin

text \<open>
  The examples under \<open>lib/pmem\<close>: \<open>pmreorder_list.c\<close> (a linked list in persistent memory), \<open>simple_copy.c\<close>,
  \<open>pmemobj_tx1.c\<close>, \<open>pmemkv_basic.c\<close> and the programs for \<open>pmemcheck\<close>.

  The stores of \<open>pmreorder_list.c\<close> to the mapped file and its calls of \<open>pmem_persist\<close> are recorded in the
  order in which they are made, because what a crash leaves in the file depends on them.  The
  routines of the libraries that only hand back a result are calls by name.
\<close>

section \<open>The mapped list\<close>

abbreviation (input) MAX_NODES :: nat where "MAX_NODES \<equiv> 10"

record list_node =
  nvalue :: int
  nnext :: u64

record list_root =
  lhead :: u64
  lnodes :: "list_node list"

text \<open>The fields of the structure, each written by one store.\<close>

datatype loc = LHead | LValue nat | LNext nat

primrec rd :: "list_root \<Rightarrow> loc \<Rightarrow> int" where
  "rd r LHead = uint (lhead r)"
| "rd r (LValue i) = nvalue (lnodes r ! i)"
| "rd r (LNext i) = uint (nnext (lnodes r ! i))"

primrec set_loc :: "loc \<Rightarrow> int \<Rightarrow> list_root \<Rightarrow> list_root" where
  "set_loc LHead v r = r\<lparr>lhead := ul v\<rparr>"
| "set_loc (LValue i) v r = r\<lparr>lnodes := (lnodes r)[i := (lnodes r ! i)\<lparr>nvalue := v\<rparr>]\<rparr>"
| "set_loc (LNext i) v r = r\<lparr>lnodes := (lnodes r)[i := (lnodes r ! i)\<lparr>nnext := ul v\<rparr>]\<rparr>"

datatype pevent = PStore loc int | PPersist "loc list"

record pmst = io +
  pm_root :: list_root
  pm_log :: "pevent list"

definition pm_store :: "loc \<Rightarrow> int \<Rightarrow> ('z pmst_scheme, unit) prog" where
  "pm_store l v = put (\<lambda>s. s\<lparr>pm_root := set_loc l v (pm_root s), pm_log := pm_log s @ [PStore l v]\<rparr>)"

definition pmem_persist :: "loc list \<Rightarrow> ('z pmst_scheme, unit) prog" where
  "pmem_persist ls = put (\<lambda>s. s\<lparr>pm_log := pm_log s @ [PPersist ls]\<rparr>)"

text \<open>
  \<open>NODE_PTR(root, id)\<close>: NULL for 0.  The index is not checked; \<open>node_at\<close> is the access through the
  pointer.
\<close>

definition node_ptr :: "u64 \<Rightarrow> nat option" where
  "node_ptr i = (if i = 0 then None else Some (unat i))"

definition node_at :: "list_root \<Rightarrow> nat \<Rightarrow> list_node outcome" where
  "node_at r i = (if i < MAX_NODES \<and> i < length (lnodes r) then Val (lnodes r ! i) else Fault OutOfBounds)"

text \<open>The loop ends at a node without value or at the end of the list; a list with a cycle has no end.\<close>

fun check_loop :: "nat \<Rightarrow> list_root \<Rightarrow> nat \<Rightarrow> int outcome" where
  "check_loop 0 r i = NoFuel"
| "check_loop (Suc n) r i = (case node_at r i of
     Val nd \<Rightarrow> if nvalue nd = 0 then Val 1
       else (case node_ptr (nnext nd) of None \<Rightarrow> Val 0 | Some j \<Rightarrow> check_loop n r j)
   | Exit c \<Rightarrow> Exit c | Fault e \<Rightarrow> Fault e | NoFuel \<Rightarrow> NoFuel)"

definition check_consistency :: "nat \<Rightarrow> list_root \<Rightarrow> int outcome" where
  "check_consistency fuel r = (case node_ptr (lhead r) of None \<Rightarrow> Val 0 | Some i \<Rightarrow> check_loop fuel r i)"

fun print_loop :: "nat \<Rightarrow> list_root \<Rightarrow> nat \<Rightarrow> ('z io_scheme, unit) prog" where
  "print_loop 0 r i = stop NoFuel"
| "print_loop (Suc n) r i = bnd (stop (node_at r i)) (\<lambda>nd.
     sqn (call (Fputs (''Value: '' @ show_int (nvalue nd) @ newl)))
       (case node_ptr (nnext nd) of None \<Rightarrow> skip | Some j \<Rightarrow> print_loop n r j))"

definition list_print :: "nat \<Rightarrow> ('z pmst_scheme, unit) prog" where
  "list_print fuel = bnd (sysv (Fopen ''pmreorder_list.log'' ''w+'')) (\<lambda>fp. if fp = 0 then exit_failure
     else sqn (call (Fputs (''List:'' @ newl)))
       (bnd (get pm_root) (\<lambda>r. sqn (case node_ptr (lhead r) of None \<Rightarrow> call (Fputs ''List is empty'')
          | Some i \<Rightarrow> print_loop fuel r i) (call Fclose))))"

text \<open>A store through the pointer to a node.\<close>

definition new_node :: "u64 \<Rightarrow> (nat \<Rightarrow> ('z pmst_scheme, unit) prog) \<Rightarrow> ('z pmst_scheme, unit) prog" where
  "new_node node f = (case node_ptr node of None \<Rightarrow> stop (Fault NullDeref)
     | Some i \<Rightarrow> if i < MAX_NODES then f i else stop (Fault OutOfBounds))"

definition list_insert_consistent :: "u64 \<Rightarrow> int \<Rightarrow> ('z pmst_scheme, unit) prog" where
  "list_insert_consistent node v = new_node node (\<lambda>i. bnd (get pm_root) (\<lambda>r. seqs
     [pm_store (LValue i) v, pm_store (LNext i) (uint (lhead r)), pmem_persist [LValue i, LNext i],
      pm_store LHead (uint node), pmem_persist [LHead]]))"

definition list_insert_inconsistent :: "u64 \<Rightarrow> int \<Rightarrow> ('z pmst_scheme, unit) prog" where
  "list_insert_inconsistent node v = new_node node (\<lambda>i. bnd (get pm_root) (\<lambda>r. seqs
     [pm_store (LNext i) (uint (lhead r)), pmem_persist [LNext i],
      pm_store LHead (uint node), pmem_persist [LHead],
      pm_store (LValue i) v, pmem_persist [LValue i]]))"

text \<open>\<open>pmem_memset_persist(r, 0, ...)\<close> of the structure and of as many bytes again as its nodes take.\<close>

definition all_locs :: "loc list" where
  "all_locs = LHead # concat (map (\<lambda>i. [LValue i, LNext i]) [0..<MAX_NODES])"

definition zero_list :: "('z pmst_scheme, unit) prog" where
  "zero_list = sqn (for_each all_locs (\<lambda>l. pm_store l 0)) (pmem_persist all_locs)"

definition example_inserts :: "(u64 \<times> int) list" where
  "example_inserts = [(5, 55), (3, 33), (6, 66)]"

text \<open>
  \<open>strchr\<close> finds the end of the string too: an empty argument passes the first test, and the next one
  reads past it.
\<close>

definition main_pmreorder :: "nat \<Rightarrow> string list \<Rightarrow> ('z pmst_scheme, int) prog" where
  "main_pmreorder fuel argv = (let usage = sqn (put_line ''Usage: pmreorder_list <c|g|b> <path>'') exit_failure in
     if length argv \<noteq> 3 then usage
     else if argv ! 1 = [] then stop (Fault OutOfBounds)
     else if argv ! 1 \<notin> {''c'', ''g'', ''b''} then usage
     else bnd (sysv (Syscall ''pmem_map_file'' [])) (\<lambda>p. if p = 0 then exit_failure
       else if argv ! 1 = ''c'' then bnd (get pm_root) (\<lambda>r. stop (check_consistency fuel r))
       else sqn zero_list
         (sqn (for_each example_inserts (\<lambda>(node, v). if argv ! 1 = ''g'' then list_insert_consistent node v
            else list_insert_inconsistent node v))
         (sqn (list_print fuel) (sqn (call (Syscall ''pmem_unmap'' [])) (ret 0))))))"

section \<open>A copy to persistent memory\<close>

text \<open>\<open>is_pmem\<close> is what \<open>pmem_map_file\<close> stores: handed back in \<open>errno\<close>.\<close>

definition main_simple_copy :: "string list \<Rightarrow> ('z io_scheme, int) prog" where
  "main_simple_copy argv = (if length argv \<noteq> 3 then exit_failure
     else bnd (sysv (Open (argv ! 1) O_RDONLY 0)) (\<lambda>srcfd. if srcfd < 0 then exit_failure
     else bnd (sys (Syscall ''pmem_map_file'' [4096])) (\<lambda>m. if rv m = 0 then exit_failure
     else bnd (sys (Read srcfd 4096)) (\<lambda>r. let cc = s32 (rv r) in
       if cc < 0 then sqn (call (Syscall ''pmem_unmap'' [ul (rv m)])) exit_failure
       else sqn (if errno m \<noteq> 0 then call (Syscall ''pmem_memcpy_persist'' [ul (rv m), ul cc])
           else sqn (call (Syscall ''memcpy'' [ul (rv m), ul cc])) (call (Syscall ''pmem_msync'' [ul (rv m), ul cc])))
         (sqn (call (Close srcfd)) (sqn (call (Syscall ''pmem_unmap'' [ul (rv m)])) (stop (Exit 0))))))))"

section \<open>A transaction on two accounts\<close>

text \<open>An object is its offset in the pool; 0 is the null object.  The account holds the name and the balance.\<close>

record account =
  ac_name :: int
  ac_balance :: u64

definition new_account :: "string \<Rightarrow> int \<Rightarrow> ('z io_scheme, int \<times> account) prog" where
  "new_account name deposit = (let len = length name + 1 in
     bnd (sysv (Syscall ''pmemobj_reserve'' [of_nat len, 0])) (\<lambda>str. if str = 0 then exit_failure
     else sqn (call (Syscall ''pmemobj_memcpy'' [ul str, of_nat len]))
     (bnd (sysv (Syscall ''pmemobj_reserve'' [24, 1])) (\<lambda>acc. if acc = 0 then exit_failure
     else sqn (call (Syscall ''pmemobj_persist'' [ul acc, 24]))
       (sqn (call (Syscall ''pmemobj_publish'' [2]))
       (ret (acc, \<lparr>ac_name = str, ac_balance = ul deposit\<rparr>)))))))"

definition transfer :: "int \<Rightarrow> account \<times> account \<Rightarrow> account \<times> account" where
  "transfer price = (\<lambda>(a, b). (a\<lparr>ac_balance := ac_balance a - ul price\<rparr>, b\<lparr>ac_balance := ac_balance b + ul price\<rparr>))"

text \<open>
  The transaction: begun and the two balances added to its undo log; when one of these steps fails it is
  aborted and nothing is changed.
\<close>

definition transaction :: "int \<Rightarrow> account \<times> account \<Rightarrow> ('z io_scheme, account \<times> account) prog" where
  "transaction price ab = bnd (sysv (Syscall ''pmemobj_tx_begin'' [])) (\<lambda>r. if r \<noteq> 0 then ret ab
     else bnd (sysv (Syscall ''pmemobj_tx_add_range_direct'' [0])) (\<lambda>r. if r \<noteq> 0 then ret ab
     else bnd (sysv (Syscall ''pmemobj_tx_add_range_direct'' [1])) (\<lambda>r. if r \<noteq> 0 then ret ab
     else bnd (sysv (Syscall ''pmemobj_tx_commit'' [])) (\<lambda>_. ret (transfer price ab)))))"

definition main_tx :: "('z io_scheme, int) prog" where
  "main_tx = bnd (sysv (Syscall ''pmemobj_create'' [])) (\<lambda>p. if p = 0 then exit_failure
     else bnd (new_account ''Julius Caesar'' 100) (\<lambda>(_, a). bnd (new_account ''Mark Anthony'' 50) (\<lambda>(_, b).
     bnd (transaction 42 (a, b)) (\<lambda>(a, b).
     sqn (put_line (''A '' @ show_int (s32 (uint (ac_balance a))) @ '', B '' @ show_int (s32 (uint (ac_balance b)))))
     (sqn (call (Syscall ''pmemobj_close'' [])) (ret 0))))))"

section \<open>A key-value store\<close>

text \<open>\<open>ASSERT\<close> prints the message of the library and aborts (status 134 of \<open>SIGABRT\<close>).\<close>

definition kv_assert :: "bool \<Rightarrow> ('z io_scheme, unit) prog" where
  "kv_assert b = (if b then skip else sqn (call (Syscall ''puts pmemkv_errormsg'' [])) (stop (Exit 134)))"

definition kv_ok :: "string \<Rightarrow> u64 list \<Rightarrow> ('z io_scheme, unit) prog" where
  "kv_ok f args = bnd (sysv (Syscall f args)) (\<lambda>st. kv_assert (st = 0))"

text \<open>The macro evaluates its argument twice; a call in it is made twice.\<close>

definition kv_status_twice :: "string \<Rightarrow> u64 list \<Rightarrow> int \<Rightarrow> ('z io_scheme, unit) prog" where
  "kv_status_twice f args st = bnd (sysv (Syscall f args)) (\<lambda>a.
     sqn (cond (a \<noteq> st) (call (Syscall ''puts pmemkv_errormsg'' [])))
     (bnd (sysv (Syscall f args)) (\<lambda>b. if b = st then skip else stop (Exit 134))))"

definition get_kv_callback :: "string \<Rightarrow> ('z io_scheme, int) prog" where
  "get_kv_callback key = sqn (put_line (''   visited: '' @ key)) (ret 0)"

text \<open>\<open>pmemkv_get_all\<close> calls back for every key until a call does not return 0.\<close>

primrec visit_keys :: "string list \<Rightarrow> ('z io_scheme, unit) prog" where
  "visit_keys [] = skip"
| "visit_keys (key # ks) = bnd (get_kv_callback key) (\<lambda>r. if r \<noteq> 0 then skip else visit_keys ks)"

definition main_pmemkv :: "string list \<Rightarrow> ('z io_scheme, int) prog" where
  "main_pmemkv argv = (if length argv < 2 then exit_failure else sqn (seqs
     [put_line ''Creating config'', bnd (sysv (Syscall ''pmemkv_config_new'' [])) (\<lambda>c. kv_assert (c \<noteq> 0)),
      kv_ok ''pmemkv_config_put_path'' [], kv_ok ''pmemkv_config_put_size'' [0x40000000],
      kv_ok ''pmemkv_config_put_create_if_missing'' [1],
      put_line ''Opening pmemkv database with 'cmap' engine'',
      bnd (sys (Syscall ''pmemkv_open'' [])) (\<lambda>r. sqn (kv_assert (rv r = 0)) (kv_assert (errno r \<noteq> 0))),
      put_line ''Putting new key'', kv_ok ''pmemkv_put key1'' [4, 6],
      bnd (sys (Syscall ''pmemkv_count_all'' [])) (\<lambda>r. sqn (kv_assert (rv r = 0)) (kv_assert (errno r = 1))),
      put_line ''Reading key back'',
      bnd (sys (Syscall ''pmemkv_get_copy key1'' [4, 64])) (\<lambda>r. sqn (kv_assert (rv r = 0)) (kv_assert (bytes r = ''value1''))),
      put_line ''Iterating existing keys'', call (Syscall ''pmemkv_put key2'' [4, 6]), call (Syscall ''pmemkv_put key3'' [4, 6]),
      bnd (sys (Syscall ''pmemkv_get_all'' [])) (\<lambda>r. visit_keys (entries r)),
      put_line ''Removing existing key'', kv_ok ''pmemkv_remove key1'' [4],
      kv_status_twice ''pmemkv_exists key1'' [4] 2,
      put_line ''Defragmenting the database'', kv_ok ''pmemkv_defrag'' [0, 100],
      put_line ''Closing database'', call (Syscall ''pmemkv_close'' [])]) (ret 0))"

section \<open>Programs for the checker of persistent stores\<close>

text \<open>
  \<open>pmemcheck.c\<close> to \<open>pmemcheck5.c\<close> store to a variable \<open>ip\<close> registered as persistent memory and flush it,
  or fail to.  The requests to the checker and the calls of the library are calls by name; \<open>ip\<close> is at
  the address \<open>a\<close> and has four bytes.  \<open>main\<close> has no \<open>return\<close> and gives 0.
\<close>

definition with_pmem_mapping :: "addr \<Rightarrow> ('z io_scheme, unit) prog list \<Rightarrow> ('z io_scheme, int) prog" where
  "with_pmem_mapping a ps = sqn (seqs (call (Syscall ''VALGRIND_PMC_REGISTER_PMEM_MAPPING'' [a, 4]) # ps
     @ [call (Syscall ''VALGRIND_PMC_REMOVE_PMEM_MAPPING'' [a, 4])])) (ret 0)"

definition main_pmemcheck :: "addr \<Rightarrow> ('z io_scheme, int) prog" where
  "main_pmemcheck a = with_pmem_mapping a [call (StoreN a 4 5)]"

definition main_pmemcheck2 :: "addr \<Rightarrow> ('z io_scheme, int) prog" where
  "main_pmemcheck2 a = with_pmem_mapping a
     [call (StoreN a 4 5), call (Syscall ''VALGRIND_PMC_DO_FLUSH'' [a, 4]), call (Syscall ''VALGRIND_PMC_DO_FENCE'' [])]"

definition main_pmemcheck3 :: "addr \<Rightarrow> ('z io_scheme, int) prog" where
  "main_pmemcheck3 a = with_pmem_mapping a [call (StoreN a 4 5), call (Syscall ''pmem_persist'' [a, 4])]"

definition main_pmemcheck4 :: "addr \<Rightarrow> ('z io_scheme, int) prog" where
  "main_pmemcheck4 a = with_pmem_mapping a [call (StoreN a 4 5), call (StoreN a 4 4)]"

definition main_pmemcheck5 :: "addr \<Rightarrow> ('z io_scheme, int) prog" where
  "main_pmemcheck5 a = with_pmem_mapping a [call (StoreN a 4 5), call (Syscall ''pmem_flush'' [a, 4]),
     call (Syscall ''pmem_flush'' [a, 4]), call (Syscall ''pmem_flush'' [a + 4, 4])]"

end
