(* ===== verification/PmemLaws.thy ===== *)
theory PmemLaws
  imports Pmem
begin

text \<open>
  Laws of the persistent list: what a crash can leave in the file, and that the list inserted into in
  the consistent way passes the check after a crash at any moment, with either the elements before
  or those after the insertion that was under way.
\<close>

section \<open>Crash images\<close>

text \<open>
  The values a field may have in the file: those stored since it was persisted last, and the one that
  was persisted then, the most recent first.  \<open>pmem_persist\<close> makes the current value the only one;
  a store without it may or may not have reached the file.
\<close>

primrec candidates :: "int list \<Rightarrow> pevent list \<Rightarrow> loc \<Rightarrow> int list" where
  "candidates vs [] l = vs"
| "candidates vs (e # es) l = candidates (case e of PStore l' v \<Rightarrow> if l' = l then v # vs else vs
     | PPersist ls \<Rightarrow> if l \<in> set ls then [hd vs] else vs) es l"

definition crash_image :: "list_root \<Rightarrow> pevent list \<Rightarrow> list_root \<Rightarrow> bool" where
  "crash_image r es r' \<longleftrightarrow> length (lnodes r') = MAX_NODES
     \<and> (\<forall>l \<in> set all_locs. rd r' l \<in> set (candidates [rd r l] es l))"

lemma candidates_append: "candidates vs (es @ fs) l = candidates (candidates vs es l) fs l"
  by (induction es arbitrary: vs) simp_all

lemma all_locs_iff:
  "l \<in> set all_locs \<longleftrightarrow> (case l of LHead \<Rightarrow> True | LValue i \<Rightarrow> i < MAX_NODES | LNext i \<Rightarrow> i < MAX_NODES)"
  by (cases l) (auto simp: all_locs_def)

text \<open>Events after which every field has one candidate only can be replaced by their effect.\<close>

lemma crash_image_append:
  assumes "\<And>l. l \<in> set all_locs \<Longrightarrow> candidates [rd r l] es l = [rd r1 l]"
  shows "crash_image r (es @ fs) r' \<longleftrightarrow> crash_image r1 fs r'"
  using assms by (simp add: crash_image_def candidates_append)

section \<open>The elements of the list\<close>

text \<open>The list that starts at a node id: the nodes with their values, all of them set.\<close>

fun path :: "list_root \<Rightarrow> int \<Rightarrow> (nat \<times> int) list \<Rightarrow> bool" where
  "path r h [] \<longleftrightarrow> h = 0"
| "path r h ((i, v) # ps) \<longleftrightarrow> h = int i \<and> 0 < i \<and> i < MAX_NODES \<and> rd r (LValue i) = v \<and> v \<noteq> 0
     \<and> path r (rd r (LNext i)) ps"

abbreviation elements :: "list_root \<Rightarrow> (nat \<times> int) list \<Rightarrow> bool" where
  "elements r ps \<equiv> path r (rd r LHead) ps"

lemma path_frame:
  assumes "\<And>i. i \<in> fst ` set ps \<Longrightarrow> rd r' (LValue i) = rd r (LValue i) \<and> rd r' (LNext i) = rd r (LNext i)"
  shows "path r' h ps = path r h ps"
  using assms
proof (induction ps arbitrary: h)
  case (Cons p ps)
  then show ?case by (cases p) auto
qed simp

lemma path_nodes: "path r h ps \<Longrightarrow> fst ` set ps \<subseteq> {1..9}"
  by (induction r h ps rule: path.induct) auto

lemma path_node: "path r h ps \<Longrightarrow> i \<in> fst ` set ps \<Longrightarrow> i < MAX_NODES"
  using path_nodes by fastforce

lemma uint_nonzero: "h \<noteq> 0 \<Longrightarrow> uint h \<noteq> 0"
  by (simp add: word_uint_eq_iff)

lemma check_loop_path:
  fixes h :: u64
  assumes "path r (uint h) ps" "h \<noteq> 0" "length ps \<le> fuel" "length (lnodes r) = MAX_NODES"
  shows "check_loop fuel r (unat h) = Val 0"
  using assms
proof (induction fuel arbitrary: h ps)
  case 0
  then show ?case using uint_nonzero [of h] by auto
next
  case (Suc n)
  have "uint h \<noteq> 0" by (rule uint_nonzero [OF Suc.prems(2)])
  with Suc.prems(1) obtain i v qs where ps: "ps = (i, v) # qs" by (cases ps) auto
  with Suc.prems have i: "unat h = i" "i < MAX_NODES" "nvalue (lnodes r ! i) \<noteq> 0"
    and qs: "path r (uint (nnext (lnodes r ! i))) qs" "length qs \<le> n"
    by (auto simp: unat_eq_nat_uint)
  let ?nx = "nnext (lnodes r ! i)"
  have "check_loop n r (unat ?nx) = Val 0" if "?nx \<noteq> 0"
    using Suc.IH [OF qs(1) that qs(2)] Suc.prems(4) by simp
  with i Suc.prems(4) show ?case by (simp add: node_at_def node_ptr_def)
qed

text \<open>
  A list in the file passes the check; fuel for its nodes is enough, and there are at most 9.
\<close>

lemma check_elements:
  assumes "elements r ps" "distinct (map fst ps)" "length (lnodes r) = MAX_NODES"
  shows "check_consistency 9 r = Val 0"
proof -
  have "length ps = card (fst ` set ps)" using assms(2) by (metis distinct_card length_map set_map)
  also have "\<dots> \<le> card {1..9::nat}" by (rule card_mono) (use path_nodes [OF assms(1)] in auto)
  finally have "length ps \<le> 9" by simp
  then show ?thesis
    using check_loop_path [of r "lhead r" ps 9] assms by (simp add: check_consistency_def node_ptr_def)
qed

section \<open>One insertion\<close>

definition insert_log :: "u64 \<Rightarrow> int \<Rightarrow> u64 \<Rightarrow> pevent list" where
  "insert_log node v h = (let i = unat node in [PStore (LValue i) v, PStore (LNext i) (uint h),
     PPersist [LValue i, LNext i], PStore LHead (uint node), PPersist [LHead]])"

definition insert_root :: "u64 \<Rightarrow> int \<Rightarrow> list_root \<Rightarrow> list_root" where
  "insert_root node v r = (let i = unat node in
     set_loc LHead (uint node) (set_loc (LNext i) (uint (lhead r)) (set_loc (LValue i) v r)))"

definition valid_insert :: "u64 \<times> int \<Rightarrow> bool" where
  "valid_insert = (\<lambda>(node, v). 0 < node \<and> unat node < MAX_NODES \<and> v \<noteq> 0)"

lemma insert_run:
  assumes "valid_insert (node, v)"
  shows "list_insert_consistent node v k s = (Val (), s\<lparr>pm_root := insert_root node v (pm_root s),
     pm_log := pm_log s @ insert_log node v (lhead (pm_root s))\<rparr>)"
  using assms by (simp add: list_insert_consistent_def new_node_def node_ptr_def valid_insert_def word_gt_0 prog_simps
      pm_store_def pmem_persist_def insert_root_def insert_log_def Let_def)

lemma rd_insert_root:
  assumes "length (lnodes r) = MAX_NODES" "unat node < MAX_NODES" "l \<in> set all_locs"
  shows "rd (insert_root node v r) l = (if l = LHead then uint node else if l = LValue (unat node) then v
     else if l = LNext (unat node) then uint (lhead r) else rd r l)"
  using assms by (cases l) (auto simp: insert_root_def Let_def nth_list_update)

lemma length_insert_root [simp]: "length (lnodes (insert_root node v r)) = length (lnodes r)"
  by (simp add: insert_root_def Let_def)

text \<open>A complete insertion is in the file.\<close>

lemma insert_durable:
  assumes "length (lnodes r) = MAX_NODES" "unat node < MAX_NODES" "l \<in> set all_locs"
  shows "candidates [rd r l] (insert_log node v (lhead r)) l = [rd (insert_root node v r) l]"
  unfolding rd_insert_root [OF assms] by (auto simp: insert_log_def Let_def)

text \<open>An insertion that was cut off: the elements before it or, once the new node is in the file, after it.\<close>

lemma insert_crash:
  assumes r: "elements r ps" and x: "valid_insert (node, v)" and new: "unat node \<notin> fst ` set ps"
    and n: "n < 5" and c: "crash_image r (take n (insert_log node v (lhead r))) r'"
  shows "elements r' ps \<or> n = 4 \<and> elements r' ((unat node, v) # ps)"
proof -
  let ?i = "unat node" and ?log = "take n (insert_log node v (lhead r))"
  have i: "?i < MAX_NODES" "0 < ?i" "v \<noteq> 0" using x by (auto simp: valid_insert_def word_less_nat_alt)
  have cand: "rd r' l \<in> set (candidates [rd r l] ?log l)" if "l \<in> set all_locs" for l
    using c that by (simp add: crash_image_def)
  have cases: "n = 0 \<or> n = 1 \<or> n = 2 \<or> n = 3 \<or> n = 4" using n by linarith
  have other: "rd r' l = rd r l" if "l \<in> set all_locs" "l \<noteq> LHead" "l \<noteq> LValue ?i" "l \<noteq> LNext ?i" for l
    using cand [OF that(1)] that cases by (auto simp: insert_log_def Let_def)
  have frame: "path r' h ps = path r h ps" for h
  proof (intro path_frame)
    fix j
    assume j: "j \<in> fst ` set ps"
    with new have "j \<noteq> ?i" by blast
    with path_node [OF r j] show "rd r' (LValue j) = rd r (LValue j) \<and> rd r' (LNext j) = rd r (LNext j)"
      by (intro conjI other) (simp_all add: all_locs_iff)
  qed
  have head: "rd r' LHead = rd r LHead \<or> n = 4 \<and> rd r' LHead = uint node"
    using cand [of LHead] cases by (auto simp: insert_log_def Let_def all_locs_iff)
  have fields: "rd r' (LValue ?i) = v \<and> rd r' (LNext ?i) = rd r LHead" if "n = 4"
    using cand [of "LValue ?i"] cand [of "LNext ?i"] that i by (auto simp: insert_log_def Let_def all_locs_iff)
  from head show ?thesis
  proof
    assume "rd r' LHead = rd r LHead"
    with r show ?thesis unfolding frame by simp
  next
    assume h: "n = 4 \<and> rd r' LHead = uint node"
    with fields have f: "rd r' (LValue ?i) = v" "rd r' (LNext ?i) = rd r LHead" by simp_all
    have "uint node = int ?i" by simp
    with h f i r show ?thesis unfolding path.simps frame by metis
  qed
qed

section \<open>Sequences of insertions\<close>

primrec inserts_log :: "(u64 \<times> int) list \<Rightarrow> list_root \<Rightarrow> pevent list" where
  "inserts_log [] r = []"
| "inserts_log (x # xs) r = insert_log (fst x) (snd x) (lhead r) @ inserts_log xs (insert_root (fst x) (snd x) r)"

primrec inserts_root :: "(u64 \<times> int) list \<Rightarrow> list_root \<Rightarrow> list_root" where
  "inserts_root [] r = r"
| "inserts_root (x # xs) r = inserts_root xs (insert_root (fst x) (snd x) r)"

lemma inserts_run:
  assumes "\<And>x. x \<in> set xs \<Longrightarrow> valid_insert x"
  shows "for_each xs (\<lambda>(node, v). list_insert_consistent node v) k s =
    (Val (), s\<lparr>pm_root := inserts_root xs (pm_root s), pm_log := pm_log s @ inserts_log xs (pm_root s)\<rparr>)"
  using assms
proof (induction xs arbitrary: s)
  case Nil
  then show ?case by (simp add: prog_simps)
next
  case (Cons x xs)
  obtain node v where x: "x = (node, v)" by (cases x)
  with Cons.prems have "valid_insert (node, v)" by simp
  with Cons show ?case by (simp add: prog_simps x insert_run)
qed

lemma length_insert_log [simp]: "length (insert_log node v h) = 5"
  by (simp add: insert_log_def Let_def)

definition node_of :: "u64 \<times> int \<Rightarrow> nat \<times> int" where
  "node_of x = (unat (fst x), snd x)"

lemma insert_elements:
  assumes "elements r ps" "valid_insert (node, v)" "unat node \<notin> fst ` set ps" "length (lnodes r) = MAX_NODES"
  shows "elements (insert_root node v r) ((unat node, v) # ps)"
proof -
  have i: "unat node < MAX_NODES" "0 < unat node" "v \<noteq> 0" using assms(2) by (auto simp: valid_insert_def word_less_nat_alt)
  note rd = rd_insert_root [OF assms(4) i(1), of _ v]
  have "path (insert_root node v r) h ps = path r h ps" for h
  proof (intro path_frame)
    fix j
    assume j: "j \<in> fst ` set ps"
    with assms(3) have "j \<noteq> unat node" by blast
    with path_node [OF assms(1) j]
    show "rd (insert_root node v r) (LValue j) = rd r (LValue j) \<and> rd (insert_root node v r) (LNext j) = rd r (LNext j)"
      by (simp add: rd all_locs_iff del: rd.simps)
  qed
  moreover have "rd (insert_root node v r) LHead = int (unat node)" "rd (insert_root node v r) (LValue (unat node)) = v"
    "rd (insert_root node v r) (LNext (unat node)) = rd r LHead"
    using i by (subst rd, simp add: all_locs_iff, simp)+
  ultimately show ?thesis using assms(1) i unfolding path.simps by metis
qed

text \<open>
  After a crash the list holds the insertions that were complete, and possibly the next one when its
  new head had already been stored.
\<close>

lemma inserts_crash:
  assumes "elements r ps" "length (lnodes r) = MAX_NODES" "\<And>x. x \<in> set xs \<Longrightarrow> valid_insert x"
    and "distinct (map fst (rev (map node_of xs) @ ps))"
    and "n \<le> 5 * length xs" "crash_image r (take n (inserts_log xs r)) r'"
  shows "\<exists>m. (m = n div 5 \<or> n mod 5 = 4 \<and> m = Suc (n div 5)) \<and> elements r' (rev (map node_of (take m xs)) @ ps)"
  using assms
proof (induction xs arbitrary: r ps n)
  case Nil
  have eq: "rd r' l = rd r l" if "l \<in> set all_locs" for l
    using Nil.prems(6) that by (simp add: crash_image_def)
  have "path r' h ps = path r h ps" for h
    by (intro path_frame conjI eq) (simp_all add: all_locs_iff path_node [OF Nil.prems(1)])
  moreover have "rd r' LHead = rd r LHead" by (rule eq) (simp add: all_locs_iff)
  ultimately show ?case using Nil.prems by simp
next
  case (Cons x xs)
  obtain node v where x: "x = (node, v)" by (cases x)
  have valid: "valid_insert (node, v)" using Cons.prems(3) x by simp
  then have i: "unat node < MAX_NODES" by (simp add: valid_insert_def)
  have new: "unat node \<notin> fst ` set ps" using Cons.prems(4) by (auto simp: x node_of_def)
  let ?r = "insert_root node v r"
  show ?case
  proof (cases "n < 5")
    case True
    then have "crash_image r (take n (insert_log node v (lhead r))) r'" using Cons.prems(6) by (simp add: x)
    from insert_crash [OF Cons.prems(1) valid new True this] True show ?thesis
      by (elim disjE) (auto simp: x node_of_def)
  next
    case False
    then obtain m where m: "n = 5 + m" by (metis le_add_diff_inverse not_less)
    have "crash_image ?r (take m (inserts_log xs ?r)) r'"
      using Cons.prems(6) crash_image_append [OF insert_durable [OF Cons.prems(2) i]] by (simp add: x m)
    moreover have "elements ?r ((unat node, v) # ps)"
      by (rule insert_elements [OF Cons.prems(1) valid new Cons.prems(2)])
    ultimately have "\<exists>j. (j = m div 5 \<or> m mod 5 = 4 \<and> j = Suc (m div 5))
        \<and> elements r' (rev (map node_of (take j xs)) @ (unat node, v) # ps)"
      by (intro Cons.IH) (use Cons.prems m in \<open>auto simp: x node_of_def\<close>)
    then obtain j where j: "j = m div 5 \<or> m mod 5 = 4 \<and> j = Suc (m div 5)"
      "elements r' (rev (map node_of (take j xs)) @ (unat node, v) # ps)" by blast
    show ?thesis
      by (rule exI [of _ "Suc j"]) (use j m in \<open>auto simp: x node_of_def [of "(node, v)"]\<close>)
  qed
qed

lemma inserts_safe:
  assumes "elements r ps" "length (lnodes r) = MAX_NODES" "\<And>x. x \<in> set xs \<Longrightarrow> valid_insert x"
    and dist: "distinct (map fst (rev (map node_of xs) @ ps))"
    and "n \<le> 5 * length xs" and c: "crash_image r (take n (inserts_log xs r)) r'"
  shows "check_consistency 9 r' = Val 0 \<and>
    (\<exists>m. (m = n div 5 \<or> n mod 5 = 4 \<and> m = Suc (n div 5)) \<and> elements r' (rev (map node_of (take m xs)) @ ps))"
proof -
  obtain m where m: "m = n div 5 \<or> n mod 5 = 4 \<and> m = Suc (n div 5)" "elements r' (rev (map node_of (take m xs)) @ ps)"
    using inserts_crash [OF assms] by blast
  have d: "distinct (rev (map fst (map node_of xs)) @ map fst ps)" using dist by (simp only: map_append rev_map)
  have "map fst (rev (map node_of (take m xs))) = rev (take m (map fst (map node_of xs)))"
    by (simp add: rev_map take_map)
  moreover have "set (take m (map fst (map node_of xs))) \<subseteq> set (map fst (map node_of xs))" by (rule set_take_subset)
  moreover have "distinct (map fst (map node_of xs))" "set (map fst (map node_of xs)) \<inter> set (map fst ps) = {}" "distinct (map fst ps)"
    using d by (simp_all only: distinct_append distinct_rev set_rev)
  ultimately have "distinct (map fst (rev (map node_of (take m xs)) @ ps))"
    by (auto simp del: set_map map_map intro: distinct_take)
  with m c show ?thesis using check_elements by (auto simp: crash_image_def)
qed

section \<open>Any memory that keeps the promise of \<open>pmem_persist\<close>\<close>

text \<open>
  What the list relies on: a memory may leave any of its images behind after a crash, as long as every
  field has one of its candidates.  Every such memory keeps the list.
\<close>

locale persistent_memory =
  fixes image :: "list_root \<Rightarrow> pevent list \<Rightarrow> list_root \<Rightarrow> bool"
  assumes image_length: "image r es r' \<Longrightarrow> length (lnodes r') = MAX_NODES"
    and image_field: "image r es r' \<Longrightarrow> l \<in> set all_locs \<Longrightarrow> rd r' l \<in> set (candidates [rd r l] es l)"
begin

lemma image_bound: "image r es r' \<Longrightarrow> crash_image r es r'"
  by (simp add: crash_image_def image_length image_field)

lemma persisted_field:
  assumes "image r (es @ [PPersist ls]) r'" "l \<in> set ls" "l \<in> set all_locs"
  shows "rd r' l = hd (candidates [rd r l] es l)"
  using image_field [OF assms(1,3)] assms(2) by (simp add: candidates_append)

lemma inserts_recover:
  assumes "elements r ps" "length (lnodes r) = MAX_NODES" "\<And>x. x \<in> set xs \<Longrightarrow> valid_insert x"
    and "distinct (map fst (rev (map node_of xs) @ ps))"
    and "n \<le> 5 * length xs" "image r (take n (inserts_log xs r)) r'"
  shows "check_consistency 9 r' = Val 0 \<and>
    (\<exists>m. (m = n div 5 \<or> n mod 5 = 4 \<and> m = Suc (n div 5)) \<and> elements r' (rev (map node_of (take m xs)) @ ps))"
  by (rule inserts_safe [OF assms(1-5) image_bound [OF assms(6)]])

end

interpretation pmem: persistent_memory crash_image
  by unfold_locales (simp_all add: crash_image_def)

section \<open>The program\<close>

definition zero_log :: "pevent list" where
  "zero_log = map (\<lambda>l. PStore l 0) all_locs @ [PPersist all_locs]"

definition zeroed :: "list_root \<Rightarrow> list_root" where
  "zeroed r = fold (\<lambda>l. set_loc l 0) all_locs r"

lemma length_zero_log: "length zero_log = 22"
  by (simp add: zero_log_def all_locs_def upt_rec)

lemma stores_run:
  "for_each ls (\<lambda>l. pm_store l 0) k s =
    (Val (), s\<lparr>pm_root := fold (\<lambda>l. set_loc l 0) ls (pm_root s), pm_log := pm_log s @ map (\<lambda>l. PStore l 0) ls\<rparr>)"
  by (induction ls arbitrary: s) (simp_all add: prog_simps pm_store_def)

lemma zero_list_run:
  "zero_list k s = (Val (), s\<lparr>pm_root := zeroed (pm_root s), pm_log := pm_log s @ zero_log\<rparr>)"
  by (simp add: zero_list_def prog_simps stores_run pmem_persist_def zeroed_def zero_log_def)

lemma length_set_loc [simp]: "length (lnodes (set_loc l v r)) = length (lnodes r)"
  by (cases l) simp_all

lemma length_zeroed [simp]: "length (lnodes (zeroed r)) = length (lnodes r)"
proof -
  have "length (lnodes (fold (\<lambda>l. set_loc l 0) ls r)) = length (lnodes r)" for ls
    by (induction ls arbitrary: r) simp_all
  then show ?thesis by (simp add: zeroed_def)
qed

lemma rd_set_zero:
  assumes "length (lnodes r) = MAX_NODES" "l \<in> set all_locs" "l' \<in> set all_locs"
  shows "rd (set_loc l 0 r) l' = (if l = l' then 0 else rd r l')"
  using assms by (cases l; cases l') (auto simp: all_locs_iff nth_list_update)

lemma rd_zeroed:
  assumes "length (lnodes r) = MAX_NODES" "l \<in> set all_locs"
  shows "rd (zeroed r) l = 0"
proof -
  have "rd (fold (\<lambda>l. set_loc l 0) ls r) l = (if l \<in> set ls then 0 else rd r l)" if "set ls \<subseteq> set all_locs" for ls
    using that assms(1)
  proof (induction ls arbitrary: r)
    case (Cons a ls)
    then show ?case using rd_set_zero [of r a l] assms(2) by (cases "a = l") simp_all
  qed simp
  then show ?thesis using assms(2) by (simp add: zeroed_def)
qed

lemma zero_durable:
  assumes "length (lnodes r) = MAX_NODES" "l \<in> set all_locs"
  shows "candidates [rd r l] zero_log l = [rd (zeroed r) l]"
proof -
  have "hd (candidates vs (map (\<lambda>l. PStore l 0) ls) l) = 0" if "l \<in> set ls \<or> hd vs = 0" for ls vs
    using that by (induction ls arbitrary: vs) auto
  then show ?thesis using assms by (simp add: zero_log_def candidates_append rd_zeroed)
qed

lemma elements_zeroed: "length (lnodes r) = MAX_NODES \<Longrightarrow> elements (zeroed r) []"
  using rd_zeroed [of r LHead] by (simp add: all_locs_iff)

text \<open>Printing a list that ends writes its values.\<close>

definition value_line :: "nat \<times> int \<Rightarrow> sys" where
  "value_line p = Fputs (''Value: '' @ show_int (snd p) @ newl)"

lemma print_loop_path:
  fixes h :: u64 and s :: "'z io_scheme"
  assumes "path r (uint h) ps" "h \<noteq> 0" "length ps \<le> fuel" "length (lnodes r) = MAX_NODES"
  shows "print_loop fuel r (unat h) k s = (Val (), s\<lparr>trace := trace s @ map value_line ps\<rparr>)"
  using assms
proof (induction fuel arbitrary: h ps s)
  case 0
  then show ?case using uint_nonzero [of h] by auto
next
  case (Suc n)
  have "uint h \<noteq> 0" by (rule uint_nonzero [OF Suc.prems(2)])
  with Suc.prems(1) obtain i v qs where ps: "ps = (i, v) # qs" by (cases ps) auto
  with Suc.prems have i: "unat h = i" "i < MAX_NODES" "nvalue (lnodes r ! i) = v"
    and qs: "path r (uint (nnext (lnodes r ! i))) qs" "length qs \<le> n"
    by (auto simp: unat_eq_nat_uint)
  let ?nx = "nnext (lnodes r ! i)"
  have "print_loop n r (unat ?nx) k s' = (Val (), s'\<lparr>trace := trace s' @ map value_line qs\<rparr>)" if "?nx \<noteq> 0" for s' :: "'z io_scheme"
    using Suc.IH [OF qs(1) that qs(2)] Suc.prems(4) by simp
  moreover have "qs = []" if "?nx = 0" using qs(1) that by (cases qs) auto
  ultimately show ?case using i Suc.prems(4) by (simp add: prog_simps node_at_def node_ptr_def ps value_line_def)
qed

lemma list_print_run:
  assumes "elements (pm_root s) ps" "ps \<noteq> []" "length ps \<le> fuel" "length (lnodes (pm_root s)) = MAX_NODES"
    and "rv (k (trace s) (Fopen ''pmreorder_list.log'' ''w+'')) \<noteq> 0"
  shows "list_print fuel k s = (Val (), s\<lparr>trace := trace s @ [Fopen ''pmreorder_list.log'' ''w+'', Fputs (''List:'' @ newl)]
     @ map value_line ps @ [Fclose]\<rparr>)"
proof -
  have h: "lhead (pm_root s) \<noteq> 0" using assms(1,2) by (cases ps) auto
  have "path (pm_root s) (uint (lhead (pm_root s))) ps" using assms(1) by simp
  note print = print_loop_path [OF this h assms(3,4)]
  show ?thesis using assms(5) h by (simp add: list_print_def prog_simps node_ptr_def print)
qed

lemma inserts_elements:
  assumes "elements r ps" "length (lnodes r) = MAX_NODES" "\<And>x. x \<in> set xs \<Longrightarrow> valid_insert x"
    and "distinct (map fst (rev (map node_of xs) @ ps))"
  shows "elements (inserts_root xs r) (rev (map node_of xs) @ ps) \<and> length (lnodes (inserts_root xs r)) = MAX_NODES"
  using assms
proof (induction xs arbitrary: r ps)
  case (Cons x xs)
  obtain node v where x: "x = (node, v)" by (cases x)
  have valid: "valid_insert (node, v)" using Cons.prems(3) x by simp
  have new: "unat node \<notin> fst ` set ps" using Cons.prems(4) by (auto simp: x node_of_def)
  have "elements (insert_root node v r) ((unat node, v) # ps)"
    by (rule insert_elements [OF Cons.prems(1) valid new Cons.prems(2)])
  then have "elements (inserts_root xs (insert_root node v r)) (rev (map node_of xs) @ (unat node, v) # ps)
     \<and> length (lnodes (inserts_root xs (insert_root node v r))) = MAX_NODES"
    by (intro Cons.IH) (use Cons.prems in \<open>auto simp: x node_of_def\<close>)
  then show ?case by (simp add: x node_of_def [of "(node, v)"])
qed simp

lemma length_inserts_log: "length (inserts_log xs r) = 5 * length xs"
  by (induction xs arbitrary: r) simp_all

section \<open>The insertion in the wrong order\<close>

definition bad_log :: "u64 \<Rightarrow> int \<Rightarrow> u64 \<Rightarrow> pevent list" where
  "bad_log node v h = (let i = unat node in [PStore (LNext i) (uint h), PPersist [LNext i],
     PStore LHead (uint node), PPersist [LHead], PStore (LValue i) v, PPersist [LValue i]])"

lemma bad_insert_log:
  assumes "valid_insert (node, v)"
  obtains r where "list_insert_inconsistent node v k s =
    (Val (), s\<lparr>pm_root := r, pm_log := pm_log s @ bad_log node v (lhead (pm_root s))\<rparr>)"
  using assms by (simp add: list_insert_inconsistent_def new_node_def node_ptr_def valid_insert_def word_gt_0 prog_simps
      pm_store_def pmem_persist_def bad_log_def Let_def)

text \<open>What is written later only adds to the log.\<close>

definition extends :: "pevent list \<Rightarrow> ('z pmst_scheme, 'a) prog \<Rightarrow> bool" where
  "extends L m \<longleftrightarrow> keeps (\<lambda>s. \<exists>zs. pm_log s = L @ zs) m"

lemma extends_store [keeps_intros]: "keeps (\<lambda>s. \<exists>zs. pm_log s = L @ zs) (pm_store l v)"
  unfolding pm_store_def by (intro keeps_put) auto

lemma extends_persist [keeps_intros]: "keeps (\<lambda>s. \<exists>zs. pm_log s = L @ zs) (pmem_persist ls)"
  unfolding pmem_persist_def by (intro keeps_put) auto

lemma extends_bad_insert: "extends L (list_insert_inconsistent node v)"
  unfolding extends_def list_insert_inconsistent_def new_node_def by (intro keeps_intros)

lemma extends_print_loop [keeps_intros]: "keeps (\<lambda>s. \<exists>zs. pm_log s = L @ zs) (print_loop fuel r i)"
  by (induction fuel arbitrary: i) (auto intro!: keeps_intros)

lemma extends_list_print: "extends L (list_print fuel)"
  unfolding extends_def list_print_def by (intro keeps_intros) simp_all

lemma extends_after_first:
  "extends L (sqn (for_each xs (\<lambda>(node, v). list_insert_inconsistent node v))
    (sqn (list_print fuel) (sqn (call c) (ret a))))"
  unfolding extends_def
  by (intro keeps_intros keeps_prod extends_bad_insert [unfolded extends_def] extends_list_print [unfolded extends_def]) simp_all

lemma extends_rest:
  assumes "extends L m" "pm_log s = L @ zs" "m k s = (r, s')"
  shows "take (length L) (pm_log s') = L"
proof -
  have "\<exists>zs. pm_log s' = L @ zs"
    using assms(1) unfolding extends_def by (rule keepsD) (use assms(2,3) in auto)
  then show ?thesis by auto
qed

text \<open>
  C5: insertions in the consistent way into a list in the file, of distinct free nodes and with values
  other than 0, survive a crash after any number of the stores and persists they make: in everything
  a crash can leave in the file, the check ends and finds the list consistent, and the list
  holds exactly the elements of the insertions completed before it (and possibly of the one whose new
  head was just being stored), before those it had at the start.
\<close>

theorem inserts_survive_crash:
  assumes "elements (pm_root s) ps" "length (lnodes (pm_root s)) = MAX_NODES"
    and "\<forall>x \<in> set xs. valid_insert x" "distinct (map fst (rev (map node_of xs) @ ps))"
  shows "\<exists>s' es. for_each xs (\<lambda>(node, v). list_insert_consistent node v) k s = (Val (), s')
     \<and> pm_log s' = pm_log s @ es \<and> length es = 5 * length xs
     \<and> (\<forall>n r. n \<le> length es \<longrightarrow> crash_image (pm_root s) (take n es) r \<longrightarrow>
          check_consistency 9 r = Val 0
        \<and> (\<exists>m. (m = n div 5 \<or> n mod 5 = 4 \<and> m = Suc (n div 5)) \<and> elements r (rev (map node_of (take m xs)) @ ps)))"
proof -
  let ?es = "inserts_log xs (pm_root s)" and ?s' = "s\<lparr>pm_root := inserts_root xs (pm_root s), pm_log := pm_log s @ inserts_log xs (pm_root s)\<rparr>"
  have run: "for_each xs (\<lambda>(node, v). list_insert_consistent node v) k s = (Val (), ?s')"
    by (rule inserts_run) (use assms(3) in blast)
  have "check_consistency 9 r = Val 0 \<and>
      (\<exists>m. (m = n div 5 \<or> n mod 5 = 4 \<and> m = Suc (n div 5)) \<and> elements r (rev (map node_of (take m xs)) @ ps))"
    if "n \<le> length ?es" "crash_image (pm_root s) (take n ?es) r" for n r
    by (rule pmem.inserts_recover) (use assms that in \<open>auto simp: length_inserts_log\<close>)
  then show ?thesis
    using run length_inserts_log [of xs "pm_root s"] by (intro exI [of _ ?s'] exI [of _ ?es] conjI) simp_all
qed

definition empty_root :: list_root where
  "empty_root = \<lparr>lhead = 0, lnodes = replicate MAX_NODES \<lparr>nvalue = 0, nnext = 0\<rparr>\<rparr>"

definition pm0 :: pmst where
  "pm0 = \<lparr>trace = [], pm_root = empty_root, pm_log = []\<rparr>"

theorem inserts_survive_crash_witness:
  "\<exists>s' es. for_each [(5, 55), (3, 33)] (\<lambda>(node, v). list_insert_consistent node v) (\<lambda>tr c. ok) pm0 = (Val (), s')
     \<and> pm_log s' = es \<and> length es = 10
     \<and> (\<forall>r. crash_image empty_root (take 6 es) r \<longrightarrow> check_consistency 9 r = Val 0 \<and> elements r [(5, 55)])"
proof -
  have "elements (pm_root pm0) []" "length (lnodes (pm_root pm0)) = MAX_NODES"
    "\<forall>x \<in> set [(5, 55), (3, 33)]. valid_insert x" "distinct (map fst (rev (map node_of [(5, 55), (3, 33)]) @ []))"
    by (simp_all add: pm0_def empty_root_def valid_insert_def node_of_def)
  from inserts_survive_crash [OF this, of "\<lambda>tr c. ok"]
  obtain s' es where s': "for_each [(5, 55), (3, 33)] (\<lambda>(node, v). list_insert_consistent node v) (\<lambda>tr c. ok) pm0 = (Val (), s')"
    "pm_log s' = pm_log pm0 @ es" "length es = 5 * length [(5::u64, 55::int), (3, 33)]"
    and safe: "\<forall>n r. n \<le> length es \<longrightarrow> crash_image (pm_root pm0) (take n es) r \<longrightarrow>
          check_consistency 9 r = Val 0
        \<and> (\<exists>m. (m = n div 5 \<or> n mod 5 = 4 \<and> m = Suc (n div 5)) \<and> elements r (rev (map node_of (take m [(5, 55), (3, 33)])) @ []))"
    by blast
  have "check_consistency 9 r = Val 0 \<and> elements r [(5, 55)]" if "crash_image empty_root (take 6 es) r" for r
    using safe [rule_format, of 6 r] s'(3) that by (simp add: pm0_def node_of_def)
  with s' show ?thesis by (simp add: pm0_def)
qed

section \<open>The two modes of the program\<close>

lemma example_valid: "\<And>x. x \<in> set example_inserts \<Longrightarrow> valid_insert x"
  by (auto simp: example_inserts_def valid_insert_def)

lemma example_distinct: "distinct (map fst (rev (map node_of example_inserts) @ []))"
  by (simp add: example_inserts_def node_of_def)

lemma example_nodes: "rev (map node_of example_inserts) @ [] = [(6, 66), (3, 33), (5, 55)]"
  by (simp add: example_inserts_def node_of_def)

lemma length_example: "length example_inserts = 3"
  by (simp add: example_inserts_def)

definition maps_file :: "kernel \<Rightarrow> bool" where
  "maps_file k \<longleftrightarrow> (\<forall>tr. rv (k tr (Syscall ''pmem_map_file'' [])) \<noteq> 0
     \<and> rv (k tr (Fopen ''pmreorder_list.log'' ''w+'')) \<noteq> 0)"

text \<open>
  C16: the program in mode \<open>g\<close> ends with 0 and leaves the three elements in the list, and when it is cut off by a
  crash at any moment after the file was cleared, the check of whatever is found in the file
  ends and reports consistency.
\<close>

theorem pmreorder_good:
  assumes k: "maps_file k" and argv: "length argv = 3" "argv ! 1 = ''g''"
    and s: "length (lnodes (pm_root s)) = MAX_NODES" "pm_log s = []"
  shows "\<exists>s'. main_pmreorder 9 argv k s = (Val 0, s') \<and> elements (pm_root s') [(6, 66), (3, 33), (5, 55)]
     \<and> length (pm_log s') = 37
     \<and> (\<forall>n r. 22 \<le> n \<longrightarrow> n \<le> 37 \<longrightarrow> crash_image (pm_root s) (take n (pm_log s')) r \<longrightarrow> check_consistency 9 r = Val 0)"
proof -
  let ?z = "zeroed (pm_root s)" and ?es = "inserts_log example_inserts (zeroed (pm_root s))"
  let ?s1 = "s\<lparr>trace := trace s @ [Syscall ''pmem_map_file'' []], pm_root := inserts_root example_inserts ?z, pm_log := zero_log @ ?es\<rparr>"
  let ?s' = "?s1\<lparr>trace := trace ?s1 @ [Fopen ''pmreorder_list.log'' ''w+'', Fputs (''List:'' @ newl)]
     @ map value_line [(6, 66), (3, 33), (5, 55)] @ [Fclose] @ [Syscall ''pmem_unmap'' []]\<rparr>"
  have z: "length (lnodes ?z) = MAX_NODES" using s(1) by simp
  have "elements (inserts_root example_inserts ?z) (rev (map node_of example_inserts) @ [])
      \<and> length (lnodes (inserts_root example_inserts ?z)) = MAX_NODES"
    by (rule inserts_elements [OF elements_zeroed [OF s(1)] z example_valid example_distinct])
  then have el: "elements (pm_root ?s1) [(6, 66), (3, 33), (5, 55)]" "length (lnodes (pm_root ?s1)) = MAX_NODES"
    unfolding example_nodes by simp_all
  have fopen: "rv (k (trace ?s1) (Fopen ''pmreorder_list.log'' ''w+'')) \<noteq> 0"
    using k by (simp add: maps_file_def)
  have print: "list_print 9 k ?s1 = (Val (), ?s1\<lparr>trace := trace ?s1 @ [Fopen ''pmreorder_list.log'' ''w+'', Fputs (''List:'' @ newl)]
     @ map value_line [(6, 66), (3, 33), (5, 55)] @ [Fclose]\<rparr>)"
    by (rule list_print_run) (fact el | fact fopen | simp)+
  have ins: "for_each example_inserts (\<lambda>(node, v). list_insert_consistent node v) k
      (s\<lparr>trace := trace s @ [Syscall ''pmem_map_file'' []], pm_root := ?z, pm_log := zero_log\<rparr>) = (Val (), ?s1)"
    using inserts_run [OF example_valid, where k=k and s="s\<lparr>trace := trace s @ [Syscall ''pmem_map_file'' []], pm_root := ?z, pm_log := zero_log\<rparr>"]
    by simp
  have run: "main_pmreorder 9 argv k s = (Val 0, ?s')"
    using k argv s(2) print by (simp add: main_pmreorder_def prog_simps maps_file_def zero_list_run ins)
  have len: "length (pm_log ?s') = 37" by (simp add: length_zero_log length_inserts_log length_example)
  have safe: "check_consistency 9 r = Val 0" if n: "22 \<le> n" "n \<le> 37" and c: "crash_image (pm_root s) (take n (pm_log ?s')) r" for n r
  proof -
    have "take n (pm_log ?s') = zero_log @ take (n - 22) ?es" using n(1) by (simp add: length_zero_log)
    with c have "crash_image (pm_root s) (zero_log @ take (n - 22) ?es) r" by simp
    then have "crash_image ?z (take (n - 22) ?es) r" using crash_image_append [OF zero_durable [OF s(1)]] by blast
    moreover have "n - 22 \<le> 5 * length example_inserts" using n(2) by (simp add: length_example)
    ultimately show ?thesis
      using inserts_safe [OF elements_zeroed [OF s(1)] z example_valid example_distinct] by blast
  qed
  show ?thesis
    by (intro exI [of _ ?s'] conjI run len) (use el(1) safe in \<open>simp_all del: path.simps\<close>)
qed

theorem pmreorder_good_witness:
  "\<exists>s'. main_pmreorder 9 [''pmreorder_list'', ''g'', ''file''] (\<lambda>tr c. ok\<lparr>rv := 1\<rparr>) pm0 = (Val 0, s') \<and> length (pm_log s') = 37
     \<and> (\<forall>r. crash_image empty_root (take 26 (pm_log s')) r \<longrightarrow> check_consistency 9 r = Val 0)"
proof -
  have "maps_file (\<lambda>tr c. ok\<lparr>rv := 1\<rparr>)" by (simp add: maps_file_def)
  note * = pmreorder_good [OF this, of "[''pmreorder_list'', ''g'', ''file'']" pm0]
  have "length (lnodes (pm_root pm0)) = MAX_NODES" "pm_log pm0 = []" "pm_root pm0 = empty_root" by (simp_all add: pm0_def empty_root_def)
  with * obtain s' where "main_pmreorder 9 [''pmreorder_list'', ''g'', ''file''] (\<lambda>tr c. ok\<lparr>rv := 1\<rparr>) pm0 = (Val 0, s')"
    "length (pm_log s') = 37"
    "\<forall>n r. 22 \<le> n \<longrightarrow> n \<le> 37 \<longrightarrow> crash_image empty_root (take n (pm_log s')) r \<longrightarrow> check_consistency 9 r = Val 0"
    by auto
  moreover have "\<forall>r. crash_image empty_root (take 26 (pm_log s')) r \<longrightarrow> check_consistency 9 r = Val 0"
    using calculation(3) by (elim allE [of _ 26]) simp
  ultimately show ?thesis by blast
qed

text \<open>
  C31: in mode \<open>b\<close> a crash after the second persist of the first insertion leaves a list whose node has no value:
  there is such an image, and the check reports an inconsistency for it.
\<close>

theorem pmreorder_bad:
  assumes k: "maps_file k" and argv: "length argv = 3" "argv ! 1 = ''b''"
    and s: "length (lnodes (pm_root s)) = MAX_NODES" "pm_log s = []"
    and run: "main_pmreorder 9 argv k s = (res, s')"
  shows "(\<exists>r. crash_image (pm_root s) (take 26 (pm_log s')) r)
     \<and> (\<forall>r. crash_image (pm_root s) (take 26 (pm_log s')) r \<longrightarrow> check_consistency 9 r = Val 1)"
proof -
  let ?z = "zeroed (pm_root s)"
  let ?s0 = "s\<lparr>trace := trace s @ [Syscall ''pmem_map_file'' []], pm_root := ?z, pm_log := zero_log\<rparr>"
  let ?rest = "sqn (for_each [(3, 33), (6, 66)] (\<lambda>(node, v). list_insert_inconsistent node v))
    (sqn (list_print 9) (sqn (call (Syscall ''pmem_unmap'' [])) (ret 0)))"
  have h: "lhead ?z = 0" using rd_zeroed [OF s(1), of LHead] uint_nonzero [of "lhead ?z"] by (auto simp: all_locs_iff)
  have "valid_insert (5, 55)" by (simp add: valid_insert_def)
  then obtain r1 where first: "list_insert_inconsistent 5 55 k ?s0 = (Val (), ?s0\<lparr>pm_root := r1, pm_log := zero_log @ bad_log 5 55 0\<rparr>)"
    using bad_insert_log [of 5 55 k ?s0] h by auto
  have rest: "?rest k (?s0\<lparr>pm_root := r1, pm_log := zero_log @ bad_log 5 55 0\<rparr>) = (res, s')"
    using run k argv s(2) by (simp add: main_pmreorder_def prog_simps maps_file_def zero_list_run example_inserts_def first)
  have "take (length (zero_log @ bad_log 5 55 0)) (pm_log s') = zero_log @ bad_log 5 55 0"
    by (rule extends_rest [where zs="[]" and m="?rest" and k=k and r=res and
          s="?s0\<lparr>pm_root := r1, pm_log := zero_log @ bad_log 5 55 0\<rparr>"], rule extends_after_first, simp, rule rest)
  then have "take 26 (take 28 (pm_log s')) = take 26 (zero_log @ bad_log 5 55 0)" by (simp add: length_zero_log bad_log_def Let_def)
  then have log: "take 26 (pm_log s') = zero_log @ take 4 (bad_log 5 55 0)" by (simp add: length_zero_log)
  have image: "crash_image (pm_root s) (take 26 (pm_log s')) r \<longleftrightarrow> crash_image ?z (take 4 (bad_log 5 55 0)) r" for r
    unfolding log using crash_image_append [OF zero_durable [OF s(1)]] by blast
  have zero: "rd ?z l = 0" if "l \<in> set all_locs" for l by (rule rd_zeroed [OF s(1) that])
  have cand: "candidates [rd ?z l] (take 4 (bad_log 5 55 0)) l = [if l = LHead then 5 else 0]" if "l \<in> set all_locs" for l
    using zero [OF that] by (simp add: bad_log_def Let_def)
  have "crash_image ?z (take 4 (bad_log 5 55 0)) (?z\<lparr>lhead := 5\<rparr>)"
    unfolding crash_image_def
  proof (intro conjI ballI)
    fix l
    assume l: "l \<in> set all_locs"
    show "rd (?z\<lparr>lhead := 5\<rparr>) l \<in> set (candidates [rd ?z l] (take 4 (bad_log 5 55 0)) l)"
      unfolding cand [OF l] using zero [OF l] by (cases l) simp_all
  qed (use s(1) in simp)
  moreover have "check_consistency 9 r = Val 1" if c: "crash_image ?z (take 4 (bad_log 5 55 0)) r" for r
  proof -
    have "rd r l = (if l = LHead then 5 else 0)" if l: "l \<in> set all_locs" for l
    proof -
      have "rd r l \<in> set (candidates [rd ?z l] (take 4 (bad_log 5 55 0)) l)"
        using c l unfolding crash_image_def by blast
      then show ?thesis unfolding cand [OF l] by simp
    qed
    from this [of LHead] this [of "LValue 5"]
    have "uint (lhead r) = 5" "nvalue (lnodes r ! 5) = 0" by (simp_all add: all_locs_iff)
    moreover have "lhead r = 5" using calculation(1) by (metis word_of_int_numeral word_of_int_uint)
    moreover have "length (lnodes r) = MAX_NODES" using c by (simp add: crash_image_def)
    ultimately have "check_loop (Suc 8) r 5 = Val 1" "lhead r = 5" by (simp_all only: check_loop.simps) (simp_all add: node_at_def)
    then show ?thesis by (simp add: check_consistency_def node_ptr_def)
  qed
  ultimately show ?thesis unfolding image by blast
qed

theorem pmreorder_bad_witness:
  "\<exists>r. crash_image empty_root (take 26 (pm_log (snd (main_pmreorder 9 [''pmreorder_list'', ''b'', ''file''] (\<lambda>tr c. ok\<lparr>rv := 1\<rparr>) pm0)))) r
     \<and> check_consistency 9 r = Val 1"
proof -
  have k: "maps_file (\<lambda>tr c. ok\<lparr>rv := 1\<rparr>)" by (simp add: maps_file_def)
  have s: "length (lnodes (pm_root pm0)) = MAX_NODES" "pm_log pm0 = []" "pm_root pm0 = empty_root" by (simp_all add: pm0_def empty_root_def)
  obtain res s' where run: "main_pmreorder 9 [''pmreorder_list'', ''b'', ''file''] (\<lambda>tr c. ok\<lparr>rv := 1\<rparr>) pm0 = (res, s')"
    by (metis surj_pair)
  show ?thesis using pmreorder_bad [OF k _ _ s(1,2) run] run s(3) by auto
qed

end
