(* ===== verification/Ndctl.thy ===== *)
theory Ndctl
  imports SmallTests Bytes
begin

text \<open>
  \<open>lib/ndctl_ioctl.c\<close>: the commands of an NVDIMM bus (address range scrub, clearing and injecting
  errors).  A structure is handed to \<open>ioctl\<close> as its bytes, and the bytes it has afterwards come back in the
  result.
\<close>

section \<open>Structures\<close>

type_synonym nd_u32 = "32 word"

definition le64 :: "u64 \<Rightarrow> string" where "le64 w = le_bytes 8 (unat w)"
definition le32 :: "nd_u32 \<Rightarrow> string" where "le32 w = le_bytes 4 (unat w)"

record nd_cmd_clear_error =
  ce_address :: u64
  ce_length :: u64

text \<open>\<open>status\<close>, \<open>reserved\<close> and \<open>cleared\<close> are 0 before the call.\<close>

definition clear_error_bytes :: "nd_cmd_clear_error \<Rightarrow> string" where
  "clear_error_bytes c = le64 (ce_address c) @ le64 (ce_length c) @ le32 0 @ replicate 4 (CHR 0x00) @ le64 0"

record nd_cmd_ars_start =
  as_address :: u64
  as_length :: u64
  as_type :: "16 word"
  as_flags :: "8 word"

definition ars_start_bytes :: "nd_cmd_ars_start \<Rightarrow> string" where
  "ars_start_bytes a = le64 (as_address a) @ le64 (as_length a) @ le_bytes 2 (unat (as_type a))
     @ le_bytes 1 (unat (as_flags a)) @ replicate 5 (CHR 0x00) @ le32 0 @ le32 0"

text \<open>What a query of the scrub status stores: the fields the tool reads, at their offsets.\<close>

record nd_cmd_ars_status =
  ars_status_word :: nd_u32
  ars_address :: u64
  ars_num_records :: nd_u32
  ars_out_length :: nd_u32
  ars_err_address :: u64
  ars_err_length :: u64

definition read_ars_status :: "string \<Rightarrow> nd_cmd_ars_status" where
  "read_ars_status b = \<lparr>ars_status_word = field 0 4 b, ars_address = field 8 8 b, ars_num_records = field 44 4 b,
     ars_out_length = field 4 4 b, ars_err_address = field 56 8 b, ars_err_length = field 64 8 b\<rparr>"

record nd_cmd_pkg =
  nd_family :: u64
  nd_command :: u64
  nd_size_in :: nd_u32
  nd_size_out :: nd_u32
  nd_payload :: string

definition pkg0 :: nd_cmd_pkg where
  "pkg0 = \<lparr>nd_family = 0, nd_command = 0, nd_size_in = 0, nd_size_out = 0, nd_payload = replicate 32 (CHR 0x00)\<rparr>"

definition pkg_bytes :: "nd_cmd_pkg \<Rightarrow> string" where
  "pkg_bytes p = le64 (nd_family p) @ le64 (nd_command p) @ le32 (nd_size_in p) @ le32 (nd_size_out p)
     @ replicate 36 (CHR 0x00) @ le32 0 @ nd_payload p"

text \<open>\<open>memcpy(cmd_pkg.nd_payload, &x, n)\<close> into the 32 bytes of the payload.\<close>

definition put_payload :: "string \<Rightarrow> nd_cmd_pkg \<Rightarrow> nd_cmd_pkg" where
  "put_payload b p = p\<lparr>nd_payload := b @ drop (length b) (nd_payload p)\<rparr>"

record ars_error_inject =
  inj_base :: u64
  inj_length :: u64
  inj_option :: "8 word"

text \<open>17 bytes of the structure, whose size is 24.\<close>

definition inject_bytes :: "ars_error_inject \<Rightarrow> string" where
  "inject_bytes i = le64 (inj_base i) @ le64 (inj_length i) @ le_bytes 1 (unat (inj_option i))"

record ars_error_inject_clear =
  injc_base :: u64
  injc_length :: u64

definition inject_clear_bytes :: "ars_error_inject_clear \<Rightarrow> string" where
  "inject_clear_bytes i = le64 (injc_base i) @ le64 (injc_length i)"

definition error_inject_bytes :: "u64 \<Rightarrow> u64 \<Rightarrow> string" where
  "error_inject_bytes fl fld = le64 fl @ le64 fld"

section \<open>Commands\<close>

definition ND_CMD_ARS_START :: u64 where "ND_CMD_ARS_START = 0xffff0002"
definition ND_CMD_ARS_STATUS :: u64 where "ND_CMD_ARS_STATUS = 0xffff0003"
definition ND_CMD_CLEAR_ERROR :: u64 where "ND_CMD_CLEAR_ERROR = 0xffff0004"
definition ND_CMD_CALL :: u64 where "ND_CMD_CALL = 0xffff000a"

definition byte_words :: "string \<Rightarrow> u64 list" where
  "byte_words b = map (\<lambda>c. of_nat (of_char c)) b"

definition ioctl :: "int \<Rightarrow> u64 \<Rightarrow> string \<Rightarrow> sys" where
  "ioctl fd cmd b = Syscall ''ioctl'' (ul fd # cmd # byte_words b)"

definition put_hex :: "string \<Rightarrow> u64 \<Rightarrow> ('z io_scheme, unit) prog" where
  "put_hex t v = put_line (t @ '': '' @ show_hex v)"

definition put_result :: "int \<Rightarrow> ('z io_scheme, unit) prog" where
  "put_result r = put_line (''ret: '' @ show_int r)"

definition start_ars :: "int \<Rightarrow> ('z io_scheme, unit) prog" where
  "start_ars fd = bnd (sysv (Syscall ''address_of_ars_start'' [])) (\<lambda>a. sqn (put_line (''ars_start: '' @ show_ptr (ul a)))
     (bnd (sys (ioctl fd ND_CMD_ARS_START (ars_start_bytes
        \<lparr>as_address = 0x840000000, as_length = 0x3f00000000, as_type = 2, as_flags = 2\<rparr>))) (\<lambda>r.
      sqn (put_result (rv r)) (sqn (put_hex ''ars_start.status'' (field 24 4 (bytes r)))
        (put_hex ''ars_start.scrub_time'' (field 28 4 (bytes r)))))))"

definition clear_error :: "int \<Rightarrow> u64 \<Rightarrow> u64 \<Rightarrow> ('z io_scheme, unit) prog" where
  "clear_error fd a len = bnd (sys (ioctl fd ND_CMD_CLEAR_ERROR (clear_error_bytes \<lparr>ce_address = a, ce_length = len\<rparr>))) (\<lambda>r.
     sqn (put_result (rv r)) (sqn (put_hex ''clear_error.status'' (field 16 4 (bytes r)))
       (put_hex ''clear_error.cleared'' (field 24 8 (bytes r)))))"

definition clear_range :: "int \<Rightarrow> u64 \<Rightarrow> u64 \<Rightarrow> ('z io_scheme, unit) prog" where
  "clear_range fd a len = sqn (put_line (''calling clear_error method for sector [0x'' @ show_hex a @ '', 0x'' @ show_hex (a + len) @ '')''))
     (clear_error fd a len)"

text \<open>The buffer of the query is allocated and not checked; only \<open>out_length\<close> is set.\<close>

definition query_ars :: "int \<Rightarrow> int \<Rightarrow> addr \<Rightarrow> ('z io_scheme, unit) prog" where
  "query_ars cmd fd buf = (if buf = 0 then stop (Fault NullDeref)
     else sqn (put_line (''ars_status: '' @ show_ptr buf))
     (bnd (sys (Syscall ''ioctl'' [ul fd, ND_CMD_ARS_STATUS, buf, 72])) (\<lambda>r. let st = read_ars_status (bytes r) in
      sqn (seqs [put_result (rv r), put_hex ''ars_status->status'' (ucast (ars_status_word st)),
        put_hex ''ars_status->address'' (ars_address st), put_hex ''ars_status->num_records'' (ucast (ars_num_records st)),
        put_hex ''ars_status->out_length'' (ucast (ars_out_length st)),
        put_hex ''ars_status->records[0].err_address'' (ars_err_address st),
        put_hex ''ars_status->records[0].length'' (ars_err_length st)])
      (if 0 < ars_num_records st \<and> cmd = 4
       then sqn (put_line ''calling clear_error method...'') (clear_error fd (ars_err_address st) (ars_err_length st))
       else skip))))"

definition call_pkg :: "int \<Rightarrow> nd_cmd_pkg \<Rightarrow> ('z io_scheme, int) prog" where
  "call_pkg fd p = bnd (sysv (ioctl fd ND_CMD_CALL (pkg_bytes p))) (\<lambda>r. sqn (put_result r) (ret r))"

definition nd_arg :: "string list \<Rightarrow> nat \<Rightarrow> u64 \<Rightarrow> u64" where
  "nd_arg argv n d = (if n < length argv then strtoul 0 (argv ! n) else d)"

definition spa_pkg :: "u64 \<Rightarrow> nd_cmd_pkg" where
  "spa_pkg spa = put_payload (le64 spa) (pkg0\<lparr>nd_command := 5, nd_size_in := 8, nd_size_out := 36\<rparr>)"

definition inject_pkg :: "u64 \<Rightarrow> u64 \<Rightarrow> nd_cmd_pkg" where
  "inject_pkg base len = put_payload (inject_bytes \<lparr>inj_base = base, inj_length = len, inj_option = 1\<rparr>)
     (pkg0\<lparr>nd_command := 7, nd_size_in := 17, nd_size_out := 4\<rparr>)"

definition inject_clear_pkg :: "u64 \<Rightarrow> u64 \<Rightarrow> nd_cmd_pkg" where
  "inject_clear_pkg base len = put_payload (inject_clear_bytes \<lparr>injc_base = base, injc_length = len\<rparr>)
     (pkg0\<lparr>nd_command := 8, nd_size_in := 16, nd_size_out := 4\<rparr>)"

definition inject_get_pkg :: nd_cmd_pkg where
  "inject_get_pkg = pkg0\<lparr>nd_command := 9, nd_size_in := 0, nd_size_out := 32\<rparr>"

text \<open>
  One command.  The result is the status of the program when it returns at once, which only the
  translation of an address does.
\<close>

definition nd_command_run :: "int \<Rightarrow> string list \<Rightarrow> addr \<Rightarrow> int \<Rightarrow> int \<Rightarrow> ('z io_scheme, int option) prog" where
  "nd_command_run cmd argv buf fd fd2 =
    (if cmd = 2 then sqn (start_ars fd) (ret None)
     else if cmd = 4 \<and> length argv = 4
     then sqn (clear_range fd (strtoul 0 (argv ! 2)) (strtoul 0 (argv ! 3))) (ret None)
     else if cmd = 3 \<or> cmd = 4 then sqn (query_ars cmd fd buf) (ret None)
     else if cmd = 5 then bnd (call_pkg fd (spa_pkg (nd_arg argv 2 0x840000000))) (\<lambda>r. ret (Some r))
     else if cmd = 7 then bnd (call_pkg fd (inject_pkg (nd_arg argv 2 0x840000000) (nd_arg argv 3 0x3f00000000))) (\<lambda>r. ret None)
     else if cmd = 8 then bnd (call_pkg fd (inject_clear_pkg (nd_arg argv 2 0x840000000) (nd_arg argv 3 0x3f00000000))) (\<lambda>r. ret None)
     else if cmd = 9 then bnd (call_pkg fd inject_get_pkg) (\<lambda>r. ret None)
     else if cmd = 18 then bnd (sysv (ioctl fd2 18 (error_inject_bytes 8 (push_bit 48 1)))) (\<lambda>r. sqn (put_result r) (ret None))
     else ret None)"

definition main_ndctl :: "string list \<Rightarrow> ('z io_scheme, int) prog" where
  "main_ndctl argv = bnd (sysv (Malloc 0x200000)) (\<lambda>buf.
     bnd (sysv (Open ''/dev/ndctl0'' O_RDWR 0x1B6)) (\<lambda>fd. sqn (put_line (''fd: '' @ show_int fd))
     (bnd (sysv (Open ''/dev/nmem0'' O_RDWR 0x1B6)) (\<lambda>fd2. sqn (put_line (''fd2: '' @ show_int fd2))
     (if length argv < 2 then stop (Fault NullDeref)
      else bnd (nd_command_run (int_of_ul (strtoul 0 (argv ! 1))) argv (ul buf) fd fd2) (\<lambda>x. case x of
        Some r \<Rightarrow> ret r
      | None \<Rightarrow> sqn (call (System ''dmesg | tail -n 30'')) (ret 0)))))))"

section \<open>What the device is told\<close>

text \<open>What the firmware finds in a package: the command and, for an injection, the range and the option.\<close>

definition read_pkg :: "string \<Rightarrow> u64 \<times> nd_u32 \<times> nd_u32 \<times> string" where
  "read_pkg b = (field 8 8 b, field 16 4 b, field 20 4 b, take (unat (field 16 4 b :: nd_u32)) (drop 64 b))"

definition read_inject :: "string \<Rightarrow> u64 \<times> u64 \<times> 8 word" where
  "read_inject b = (field 0 8 b, field 8 8 b, field 16 1 b)"

definition wf_pkg :: "nd_cmd_pkg \<Rightarrow> bool" where
  "wf_pkg p \<longleftrightarrow> length (nd_payload p) = 32 \<and> nd_size_in p \<le> 32"

lemma length_le [simp]: "length (le64 w) = 8" "length (le32 v) = 4"
  by (simp_all add: le64_def le32_def)

lemma field_le:
  "field 0 8 (le64 w @ b) = w" "field 0 8 (le64 w) = w" "field 0 4 (le32 v @ b) = v"
  by (simp_all add: le64_def le32_def field_here del: le_bytes.simps)

lemma wf_put_payload: "wf_pkg p \<Longrightarrow> length b \<le> 32 \<Longrightarrow> wf_pkg (put_payload b p)"
  by (simp add: wf_pkg_def put_payload_def)

lemma pkg_bytes_read:
  assumes "wf_pkg p"
  shows "length (pkg_bytes p) = 96"
    "read_pkg (pkg_bytes p) = (nd_command p, nd_size_in p, nd_size_out p, take (unat (nd_size_in p)) (nd_payload p))"
proof -
  show "length (pkg_bytes p) = 96" using assms by (simp add: pkg_bytes_def wf_pkg_def)
  have "field 16 4 (pkg_bytes p) = nd_size_in p"
    by (simp add: pkg_bytes_def field_at field_le)
  moreover have "drop 64 (pkg_bytes p) = nd_payload p" by (simp add: pkg_bytes_def)
  ultimately show "read_pkg (pkg_bytes p) = (nd_command p, nd_size_in p, nd_size_out p, take (unat (nd_size_in p)) (nd_payload p))"
    by (simp add: read_pkg_def) (simp add: pkg_bytes_def field_at field_le)
qed

lemma inject_pkg_wf: "wf_pkg (inject_pkg base len)"
  unfolding inject_pkg_def by (rule wf_put_payload) (simp_all add: wf_pkg_def pkg0_def inject_bytes_def)

lemma inject_pkg_read:
  "read_pkg (pkg_bytes (inject_pkg base len)) = (7, 17, 4, inject_bytes \<lparr>inj_base = base, inj_length = len, inj_option = 1\<rparr>)"
  unfolding pkg_bytes_read(2) [OF inject_pkg_wf]
  by (simp add: inject_pkg_def put_payload_def inject_bytes_def)

lemma inject_bytes_read: "read_inject (inject_bytes i) = (inj_base i, inj_length i, inj_option i)"
  by (simp add: read_inject_def inject_bytes_def field_at field_le sizes [THEN field_here(2)] del: le_bytes.simps One_nat_def)

text \<open>
  C17: the injection command with a start and a length makes one \<open>ioctl\<close> of the vendor command, and the firmware that reads
  the 96 bytes of the package finds command 7 with 17 bytes of input and 4 of output, and in the
  input the start and the length that were given, and the option 1.
\<close>

theorem ndctl_inject_roundtrip:
  "\<exists>s' b pl. main_ndctl [p, ''7'', start, len] k s = (Val 0, s')
     \<and> ioctl (rv (k (trace s @ [Malloc 0x200000]) (Open ''/dev/ndctl0'' O_RDWR 0x1B6))) ND_CMD_CALL b \<in> set (drop (length (trace s)) (trace s'))
     \<and> length (trace s') = length (trace s) + 8
     \<and> length b = 96 \<and> read_pkg b = (7, 17, 4, pl) \<and> read_inject pl = (strtoul 0 start, strtoul 0 len, 1)"
proof -
  let ?i = "\<lparr>inj_base = strtoul 0 start, inj_length = strtoul 0 len, inj_option = 1\<rparr>"
  let ?b = "pkg_bytes (inject_pkg (strtoul 0 start) (strtoul 0 len))"
  have seven: "int_of_ul (strtoul 0 ''7'') = 7"
    by (simp add: strtoul_def strto_def strto_digits_def isspace_def digit_val_def int_of_ul_def s32_def)
  have args: "nd_arg [p, ''7'', start, len] 2 d = strtoul 0 start" "nd_arg [p, ''7'', start, len] 3 d = strtoul 0 len" for d
    by (simp_all add: nd_arg_def)
  have "\<exists>s'. main_ndctl [p, ''7'', start, len] k s = (Val 0, s')
     \<and> ioctl (rv (k (trace s @ [Malloc 0x200000]) (Open ''/dev/ndctl0'' O_RDWR 0x1B6))) ND_CMD_CALL ?b \<in> set (drop (length (trace s)) (trace s'))
     \<and> length (trace s') = length (trace s) + 8"
    by (simp add: main_ndctl_def nd_command_run_def seven args call_pkg_def put_result_def put_line_def prog_simps)
  then obtain s' where s': "main_ndctl [p, ''7'', start, len] k s = (Val 0, s')"
    "ioctl (rv (k (trace s @ [Malloc 0x200000]) (Open ''/dev/ndctl0'' O_RDWR 0x1B6))) ND_CMD_CALL ?b \<in> set (drop (length (trace s)) (trace s'))"
    "length (trace s') = length (trace s) + 8" by blast
  have "read_pkg ?b = (7, 17, 4, inject_bytes ?i)" "read_inject (inject_bytes ?i) = (strtoul 0 start, strtoul 0 len, 1)"
    by (simp_all add: inject_pkg_read inject_bytes_read)
  with s' pkg_bytes_read(1) [OF inject_pkg_wf] show ?thesis by blast
qed

end
