(* ===== verification/RasModules.thy ===== *)
theory RasModules
  imports Hornet Bytes
begin

text \<open>
  \<open>lib/ras-tools/memattr.c\<close> and the two kernel modules beside it, \<open>pgprot-drv/pgprot_drv.c\<close> (a device whose pages are mapped
  with a chosen memory type) and \<open>ras-tolerance/ras_tolerance.c\<close> (a probe that lowers the severity of an error
  before the kernel handles it).  The routines of the kernel that the modules call are
  calls by name; what they store through a pointer is handed back in \<open>errno\<close> or, for a buffer, in
  \<open>bytes\<close>.
\<close>

section \<open>The memory attribute tool\<close>

definition memattr_wfile :: "string \<Rightarrow> u64 \<Rightarrow> ('z io_scheme, unit) prog" where
  "memattr_wfile fname val = bnd (sysv (Fopen fname ''w'')) (\<lambda>fp. if fp = 0 then stop (Exit 1)
     else sqn (call (Fputs (''0x'' @ show_hex val @ eol)))
       (bnd (sysv Fclose) (\<lambda>r. if r = - 1 then stop (Exit 1) else skip)))"

definition memattr_inject_uc :: "u64 \<Rightarrow> int \<Rightarrow> ('z io_scheme, unit) prog" where
  "memattr_inject_uc a notrig = seqs [memattr_wfile EINJ_ETYPE 0x20, memattr_wfile EINJ_ADDR a, memattr_wfile EINJ_MASK (- 1),
     memattr_wfile EINJ_FLAGS 2, memattr_wfile EINJ_NOTRIGGER (ul notrig), memattr_wfile EINJ_DOIT 1]"

definition memattr_privileged :: "('z io_scheme, bool) prog" where
  "memattr_privileged = bnd (sysv Getuid) (\<lambda>u. ret (u = 0))"

definition memattr_trigger_write :: "addr \<Rightarrow> ('z io_scheme, int) prog" where
  "memattr_trigger_write a = sqn (call (Store a (CHR 0x69))) (ret 0)"

text \<open>The chain of pointers: 32 slots of 128 bytes, each holding the address of the next.\<close>

definition ring_slot :: "addr \<Rightarrow> nat \<Rightarrow> addr" where
  "ring_slot mem i = mem + of_nat i * 128"

definition ring_stores :: "addr \<Rightarrow> sys list" where
  "ring_stores mem = map (\<lambda>i. StoreN (ring_slot mem i) 8 (ring_slot mem (i + 1))) [0..<31]
     @ [StoreN (ring_slot mem 31) 8 (ring_slot mem 0)]"

primrec chase :: "nat \<Rightarrow> addr \<Rightarrow> ('z io_scheme, addr) prog" where
  "chase 0 p = ret p"
| "chase (Suc n) p = bnd (sysv (LoadN p 8)) (\<lambda>q. chase n (ul q))"

text \<open>The time between two readings of the clock, in seconds and microseconds.\<close>

definition elapsed :: "u64 \<times> u64 \<Rightarrow> u64 \<times> u64 \<Rightarrow> u64 \<times> u64" where
  "elapsed = (\<lambda>(s1, u1) (s2, u2). if sint u2 < sint u1 then (s2 - s1 - 1, 1000000 + u2 - u1) else (s2 - s1, u2 - u1))"

definition read_clock :: "('z io_scheme, u64 \<times> u64) prog" where
  "read_clock = bnd (sys Gettimeofday) (\<lambda>r. ret (ul (rv r), ul (errno r)))"

definition pad6 :: "string \<Rightarrow> string" where
  "pad6 t = replicate (6 - length t) (CHR ''0'') @ t"

text \<open>
  The number of rounds is computed from \<open>count\<close>, which is never set.  \<open>latency\<close> prints the floating
  point quotient of the time and the number of loads.
\<close>

definition memattr_bench :: "(u64 \<Rightarrow> u64 \<Rightarrow> int \<Rightarrow> string) \<Rightarrow> addr \<Rightarrow> ('z io_scheme, unit) prog" where
  "memattr_bench latency mem = bnd (sysv (Malloc 128)) (\<lambda>idx. if idx = 0 then stop (Fault NullDeref)
     else sqn (for_each (ring_stores mem) call)
     (bnd (sysv Indet) (\<lambda>count. let rounds = cdiv (s32 count) 100 in
      bnd read_clock (\<lambda>tv1. bnd (chase (100 * nat rounds) mem) (\<lambda>p. bnd read_clock (\<lambda>tv2.
      case elapsed tv1 tv2 of (sec, usec) \<Rightarrow>
        println (''Buffer size: 4 KB, stride 128, time '' @ show_int (s32 (uint sec)) @ ''.'' @ pad6 (show_int (s32 (uint usec)))
          @ '' s, latency '' @ latency sec usec rounds @ '' ns'')))))))"

definition memattr_poison :: "addr \<Rightarrow> ('z io_scheme, unit) prog" where
  "memattr_poison vaddr = bnd (sysv (LoadN (vaddr + 8) 8)) (\<lambda>paddr.
     sqn (println (''vaddr = '' @ show_ptr vaddr @ '' paddr = '' @ show_hex (ul paddr)))
     (sqn (memattr_inject_uc (ul paddr) 1) (sqn (call (Sleep 3)) (sqn (memattr_trigger_write vaddr) skip))))"

definition main_memattr :: "(u64 \<Rightarrow> u64 \<Rightarrow> int \<Rightarrow> string) \<Rightarrow> string \<Rightarrow> ('z io_scheme, int) prog" where
  "main_memattr latency opts = bnd memattr_privileged (\<lambda>root. if \<not> root then stop (Exit 1)
     else bnd (sysv (Open ''/dev/pgprot_drv'' (O_RDWR OR O_NONBLOCK) 0)) (\<lambda>kfd. if kfd < 0
       then sqn (println ''open file /dev/pgprot_drv error: Is the pgprot_drv.ko module loaded?'') (ret (- 1))
     else bnd (sysv (Mmap 0 4096 (PROT_READ OR PROT_WRITE) MAP_SHARED kfd 0)) (\<lambda>v. if ul v = - 1
       then sqn (println ''allocate mem fail 4096!!!'') (stop (Exit 1))
     else bnd (sysv (LoadN (ul v) 4)) (\<lambda>num. bnd (sysv (LoadN (ul v + 8) 8)) (\<lambda>paddr.
       sqn (println (''check ctx: vaddr = '' @ show_ptr (ul v) @ '', num '' @ show_int num @ '', paddr '' @ show_hex (ul paddr)))
       (sqn (cond (CHR ''b'' \<in> set opts) (memattr_bench latency (ul v)))
       (sqn (cond (CHR ''p'' \<in> set opts) (memattr_poison (ul v)))
       (sqn (call (Munmap (ul v) 4096)) (ret 0)))))))))"

section \<open>The device with a memory type\<close>

text \<open>\<open>sh_mem\<close>: the pages of the last mapping; \<open>pgprot\<close>: the module parameter.\<close>

record pgd = io +
  sh_mem :: addr
  pgprot :: int

definition printk :: "string \<Rightarrow> ('z io_scheme, unit) prog" where
  "printk t = call (Stdout t)"

text \<open>
  The walk through the page tables: at each level the entry is read and printed; the walk ends
  where an entry is empty or bad (\<open>errno\<close> of the pseudo call is not 0).
\<close>

primrec walk :: "addr \<Rightarrow> (string \<times> string) list \<Rightarrow> ('z io_scheme, bool) prog" where
  "walk a [] = ret True"
| "walk a (l # ls) = bnd (sys (Syscall (fst l) [a])) (\<lambda>r. sqn (printk (snd l @ show_hex (ul (rv r))))
     (if errno r \<noteq> 0 then ret False else walk a ls))"

definition walk_levels :: "addr \<Rightarrow> (string \<times> string) list" where
  "walk_levels a = [(''pgd'', ''['' @ show_hex a @ ''] pgd=''), (''p4d'', '', p4d=''), (''pud'', '', pud=''), (''pmd'', '', pmd='')]"

definition dump_pte :: "addr \<Rightarrow> ('z io_scheme, unit) prog" where
  "dump_pte a = bnd (walk a (walk_levels a)) (\<lambda>found. if \<not> found then skip
     else bnd (sys (Syscall ''pte'' [a])) (\<lambda>r. sqn (printk ('', pte='' @ show_hex (ul (rv r)) @ eol))
       (sqn (cond (bit (rv r) 0) (printk ('', pte present'' @ eol))) (call (Syscall ''pte_unmap'' [])))))"

text \<open>
  The protection of the mapping by type; \<open>mt\<close> is the numbering of the memory types of the kernel.  An
  unknown type is mapped as normal memory.
\<close>

definition prot_for :: "(string \<Rightarrow> int) \<Rightarrow> int \<Rightarrow> u64 \<Rightarrow> ('z io_scheme, u64) prog" where
  "prot_for mt pg prot = (let change = (\<lambda>f name. bnd (sysv (Syscall f [prot])) (\<lambda>p. sqn (printk (''Memory Atrr: '' @ name @ eol)) (ret (ul p)))) in
     if pg = mt ''MT_NORMAL'' then sqn (printk (''Memory Atrr: MT_NORMAL'' @ eol)) (ret prot)
     else if pg = mt ''MT_NORMAL_TAGGED'' then change ''pgprot_tagged'' ''MT_NORMAL_TAGGED''
     else if pg = mt ''MT_NORMAL_NC'' then change ''pgprot_writecombine'' ''MT_NORMAL_NC''
     else if pg = mt ''MT_DEVICE_nGnRnE'' then change ''pgprot_noncached'' ''MT_DEVICE_nGnRnE''
     else if pg = mt ''MT_DEVICE_nGnRE'' then change ''pgprot_device'' ''MT_DEVICE_nGnRE''
     else sqn (printk (''Memory Atrr: MT_NORMAL'' @ eol)) (ret prot))"

text \<open>When no pages are left, the result is a variable that was not set.\<close>

definition pgprot_map_pages :: "(string \<Rightarrow> int) \<Rightarrow> addr \<Rightarrow> u64 \<Rightarrow> u64 \<Rightarrow> addr \<Rightarrow> ('z pgd_scheme, int) prog" where
  "pgprot_map_pages mt vm_start sz prot p = (if p = 0 then sqn (printk (''kmalloc error'' @ eol)) (sysv Indet)
     else bnd (sysv (Syscall ''virt_to_pfn'' [p])) (\<lambda>frame.
       sqn (printk (''kmalloc pfn: '' @ show_hex (ul frame) @ eol))
       (sqn (call (StoreN p 4 56)) (sqn (call (StoreN (p + 8) 8 (push_bit 12 (ul frame))))
       (sqn (printk (''vma->vm_start = '' @ show_hex vm_start))
       (bnd (get pgprot) (\<lambda>pg. bnd (prot_for mt pg prot) (\<lambda>pr.
        bnd (sysv (Syscall ''virt_to_page'' [p])) (\<lambda>page.
        bnd (sysv (Syscall ''remap_pfn_range'' [vm_start, ul page, sz, pr])) (\<lambda>r.
          if r \<noteq> 0 then ret r else sqn (dump_pte vm_start) (ret 0)))))))))))"

definition pgprot_drv_mmap :: "(string \<Rightarrow> int) \<Rightarrow> addr \<Rightarrow> addr \<Rightarrow> u64 \<Rightarrow> ('z pgd_scheme, int) prog" where
  "pgprot_drv_mmap mt vm_start vm_end prot = (let sz = vm_end - vm_start in
     if 0x2000 < sz then ret (- 22)
     else bnd (sysv (Syscall ''__get_free_pages'' [1])) (\<lambda>p. sqn (put (\<lambda>s. s\<lparr>sh_mem := ul p\<rparr>))
       (pgprot_map_pages mt vm_start sz prot (ul p))))"

definition pgprot_drv_init :: "('z io_scheme, int) prog" where
  "pgprot_drv_init = bnd (sysv (Syscall ''misc_register'' [])) (\<lambda>r. if r \<noteq> 0
     then sqn (printk (''register misc device error'' @ eol)) (ret r) else sqn (printk (''register misc ok'' @ eol)) (ret 0))"

definition pgprot_drv_exit :: "('z pgd_scheme, unit) prog" where
  "pgprot_drv_exit = sqn (call (Syscall ''misc_deregister'' [])) (bnd (get sh_mem) (\<lambda>p. call (Syscall ''free_pages'' [p, 1])))"

section \<open>The severity of an error\<close>

text \<open>
  The status block of an error source: its bytes, of which the first 20 are the header
  (\<open>block_status\<close>, \<open>raw_data_offset\<close>, \<open>raw_data_length\<close>, \<open>data_length\<close>, \<open>error_severity\<close>).
\<close>

record ghes = io +
  estatus :: string
  error_block_length :: "32 word"
  source_id :: int

definition block_status :: "string \<Rightarrow> 32 word" where "block_status b = field 0 4 b"
definition raw_data_offset :: "string \<Rightarrow> 32 word" where "raw_data_offset b = field 4 4 b"
definition raw_data_length :: "string \<Rightarrow> 32 word" where "raw_data_length b = field 8 4 b"
definition data_length :: "string \<Rightarrow> 32 word" where "data_length b = field 12 4 b"
definition error_severity :: "string \<Rightarrow> 32 word" where "error_severity b = field 16 4 b"

definition set_severity :: "32 word \<Rightarrow> string \<Rightarrow> string" where
  "set_severity v b = take 16 b @ le_bytes 4 (unat v) @ drop 20 b"

text \<open>
  A copy from physical memory into the block: as many bytes as asked for, which have to fit into
  it.
\<close>

definition copy_from_phys :: "u64 \<Rightarrow> 32 word \<Rightarrow> ('z ghes_scheme, unit) prog" where
  "copy_from_phys paddr len = bnd (sys (Syscall ''ghes_copy_tofrom_phys'' [paddr, ucast len, 1])) (\<lambda>r.
     bnd (get estatus) (\<lambda>b. if length b < unat len then stop (Fault OutOfBounds)
       else put (\<lambda>s. s\<lparr>estatus := take (unat len) (bytes r @ b) @ drop (unat len) b\<rparr>)))"

text \<open>A copy to physical memory: the address and the bytes.\<close>

definition copy_to_phys :: "u64 \<Rightarrow> 32 word \<Rightarrow> ('z ghes_scheme, unit) prog" where
  "copy_to_phys paddr len = bnd (get estatus) (\<lambda>b. if length b < unat len then stop (Fault OutOfBounds)
     else call (Syscall ''ghes_copy_tofrom_phys'' (paddr # ucast len # 0 # map (\<lambda>c. of_nat (of_char c)) (take (unat len) b))))"

definition EIO :: int where "EIO = 5"
definition ENOENT :: int where "ENOENT = 2"

text \<open>The address of the block and the result.\<close>

definition ghes_peek_estatus :: "('z ghes_scheme, u64 \<times> int) prog" where
  "ghes_peek_estatus = bnd (sys (Syscall ''apei_read'' [])) (\<lambda>r. if rv r \<noteq> 0
     then bnd (get source_id) (\<lambda>i. sqn (call (Stdout (''Failed to read error status block address for hardware error source: '' @ show_int i @ ''.'' @ eol)))
       (ret (0, - EIO)))
     else let paddr = ul (errno r) in if paddr = 0 then ret (paddr, - ENOENT)
     else sqn (copy_from_phys paddr 20) (bnd (get estatus) (\<lambda>b. if block_status b = 0 then ret (0, - ENOENT) else ret (paddr, 0))))"

definition ghes_read_block :: "u64 \<Rightarrow> 32 word \<Rightarrow> ('z ghes_scheme, int) prog" where
  "ghes_read_block paddr len = sqn (copy_from_phys paddr len)
     (bnd (sysv (Syscall ''cper_estatus_check'' [])) (\<lambda>r. if r \<noteq> 0
       then sqn (call (Stdout (''Failed to read error status block!'' @ eol))) (ret (- EIO)) else ret 0))"

text \<open>The sums are of 32 bits.\<close>

definition cper_estatus_len :: "string \<Rightarrow> 32 word" where
  "cper_estatus_len b = (if raw_data_length b \<noteq> 0 then raw_data_offset b + raw_data_length b else 20 + data_length b)"

definition ghes_check_estatus :: "('z ghes_scheme, int) prog" where
  "ghes_check_estatus = bnd (get estatus) (\<lambda>b. bnd (get error_block_length) (\<lambda>mx. let len = cper_estatus_len b in
     if len < 20 then sqn (call (Stdout (''Truncated error status block!'' @ eol))) (ret (- EIO))
     else if mx < len then sqn (call (Stdout (''Invalid error status block length!'' @ eol))) (ret (- EIO))
     else bnd (sysv (Syscall ''cper_estatus_check_header'' [])) (\<lambda>r. if r \<noteq> 0
       then sqn (call (Stdout (''Invalid CPER header!'' @ eol))) (ret (- EIO)) else ret 0)))"

definition ghes_read_estatus :: "('z ghes_scheme, u64 \<times> int) prog" where
  "ghes_read_estatus = bnd ghes_peek_estatus (\<lambda>(paddr, rc). if rc \<noteq> 0 then ret (paddr, rc)
     else bnd ghes_check_estatus (\<lambda>rc. if rc \<noteq> 0 then ret (paddr, rc)
     else bnd (get estatus) (\<lambda>b. bnd (ghes_read_block paddr (cper_estatus_len b)) (\<lambda>rc. ret (paddr, rc)))))"

text \<open>The handler: the result of the reading is not used.  \<open>CPER_SEV_RECOVERABLE\<close> is 0.\<close>

definition handler_pre :: "('z ghes_scheme, int) prog" where
  "handler_pre = bnd ghes_read_estatus (\<lambda>(paddr, rc). bnd (get estatus) (\<lambda>b.
     sqn (put (\<lambda>s. s\<lparr>estatus := set_severity 0 (estatus s)\<rparr>))
     (sqn (call (Syscall ''pr_info Overwrite'' [ucast (error_severity b AND 0xffff), 0]))
     (sqn (copy_to_phys paddr 20) (ret 0)))))"

definition handler_post :: "string \<Rightarrow> u64 \<Rightarrow> u64 \<Rightarrow> ('z io_scheme, unit) prog" where
  "handler_post name a pstate = call (Stdout (''<'' @ name @ ''> p->addr = '' @ show_ptr a @ '', pstate = 0x'' @ show_hex pstate @ eol))"

text \<open>The probe is registered first; when the routine it calls is not found it stays registered.\<close>

definition kprobe_init :: "('z io_scheme, int) prog" where
  "kprobe_init = bnd (sysv (Syscall ''register_kprobe'' [])) (\<lambda>r. if r < 0
     then sqn (call (Stdout (''register_kprobe failed, returned '' @ show_int r @ eol))) (ret r)
     else sqn (call (Stdout (''Planted kprobe'' @ eol)))
       (bnd (sysv (Syscall ''kallsyms_lookup_name'' [])) (\<lambda>a. if a = 0
          then sqn (call (Stdout (''kallsyms_lookup_name: ghes_copy_tofrom_phys'' @ eol))) (ret (- 22)) else ret 0)))"

definition kprobe_exit :: "('z io_scheme, unit) prog" where
  "kprobe_exit = sqn (call (Syscall ''unregister_kprobe'' [])) (call (Stdout (''kprobe unregistered'' @ eol)))"

end
