(* ===== verification/ModuleLaws.thy ===== *)
theory ModuleLaws
  imports RasModules
begin

text \<open>
  Laws of the kernel modules and of the memory attribute tool: a status block is never overrun, the
  severity that is written back is the lowered one, the device keeps only its last pages, and the chain of
  pointers is walked around.
\<close>

section \<open>Status blocks\<close>

text \<open>The buffer has the size that the error source declares, and room for the header.  (The kernel allocates it with that
  length; it cuts a declared length of more than 64 KB, which is not covered here.)\<close>

definition ghes_ok :: "'z ghes_scheme \<Rightarrow> bool" where
  "ghes_ok s \<longleftrightarrow> length (estatus s) = unat (error_block_length s) \<and> 20 \<le> unat (error_block_length s)"

definition same_source :: "'z ghes_scheme \<Rightarrow> 'z ghes_scheme \<Rightarrow> bool" where
  "same_source s s' \<longleftrightarrow> ghes_ok s' \<and> error_block_length s' = error_block_length s \<and> length (estatus s') = length (estatus s)"

text \<open>A program that returns, in a state with the same source.\<close>

definition returns :: "('z ghes_scheme \<Rightarrow> bool) \<Rightarrow> ('z ghes_scheme, 'a) prog \<Rightarrow> ('z ghes_scheme \<Rightarrow> 'a \<Rightarrow> bool) \<Rightarrow> bool" where
  "returns P m Q \<longleftrightarrow> (\<forall>k s. ghes_ok s \<longrightarrow> P s \<longrightarrow> (\<exists>a s'. m k s = (Val a, s') \<and> same_source s s' \<and> Q s' a))"

lemma returnsI: "(\<And>k s. ghes_ok s \<Longrightarrow> P s \<Longrightarrow> \<exists>a s'. m k s = (Val a, s') \<and> same_source s s' \<and> Q s' a) \<Longrightarrow> returns P m Q"
  by (simp add: returns_def)

lemma same_source_trans: "same_source s s' \<Longrightarrow> same_source s' s'' \<Longrightarrow> same_source s s''"
  by (simp add: same_source_def)

lemma same_source_trace [simp]: "ghes_ok s \<Longrightarrow> same_source s (s\<lparr>trace := t\<rparr>)" "ghes_ok s \<Longrightarrow> same_source s s"
  by (simp_all add: same_source_def ghes_ok_def)

named_theorems returns_rules \<open>programs that return\<close>

lemma returns_bnd:
  assumes "returns P m Q" "\<And>a. returns (\<lambda>s. Q s a) (f a) R"
  shows "returns P (bnd m f) R"
proof (rule returnsI)
  fix k s
  assume "ghes_ok s" "P s"
  with assms(1) obtain a s' where a: "m k s = (Val a, s')" "same_source s s'" "Q s' a" unfolding returns_def by blast
  then have "ghes_ok s'" by (simp add: same_source_def)
  with assms(2) a(3) obtain b s'' where b: "f a k s' = (Val b, s'')" "same_source s' s''" "R s'' b" unfolding returns_def by blast
  with a show "\<exists>b s''. bnd m f k s = (Val b, s'') \<and> same_source s s'' \<and> R s'' b"
    by (metis (no_types, lifting) bnd_eval outcome.case(1) prod.case same_source_trans)
qed

lemma returns_weaken: "returns P m Q \<Longrightarrow> (\<And>s. P' s \<Longrightarrow> P s) \<Longrightarrow> (\<And>s a. Q s a \<Longrightarrow> Q' s a) \<Longrightarrow> returns P' m Q'"
  unfolding returns_def by blast

lemma returns_ret: "(\<And>s. P s \<Longrightarrow> Q s a) \<Longrightarrow> returns P (ret a) Q"
  by (rule returnsI) (auto simp: prog_simps)

lemma returns_get: "(\<And>s. P s \<Longrightarrow> Q s (f s)) \<Longrightarrow> returns P (get f) Q"
  by (rule returnsI) (auto simp: prog_simps)

lemma returns_any:
  "returns P (sys c) (\<lambda>s r. True)" "returns P (sysv c) (\<lambda>s r. True)" "returns P (call c) (\<lambda>s r. True)"
  by (rule returnsI, auto simp: prog_simps)+

lemma returns_if: "(b \<Longrightarrow> returns P m Q) \<Longrightarrow> (\<not> b \<Longrightarrow> returns P n Q) \<Longrightarrow> returns P (if b then m else n) Q"
  by simp

lemma returns_sqn: "returns P m (\<lambda>s a. R s) \<Longrightarrow> returns R n Q \<Longrightarrow> returns P (sqn m n) Q"
  unfolding sqn_def by (rule returns_bnd)

text \<open>A copy into the block that is not longer than the block.\<close>

lemma copy_from_phys_returns:
  "returns (\<lambda>s. unat len \<le> length (estatus s)) (copy_from_phys paddr len) (\<lambda>s a. True)"
proof (rule returnsI)
  fix k :: kernel and s :: "'a ghes_scheme"
  assume "ghes_ok s" "unat len \<le> length (estatus s)"
  then show "\<exists>a s'. copy_from_phys paddr len k s = (Val a, s') \<and> same_source s s' \<and> True"
    by (simp add: copy_from_phys_def prog_simps same_source_def ghes_ok_def)
qed

lemma ghes_peek_returns:
  "returns (\<lambda>s. True) ghes_peek_estatus (\<lambda>s x. fst x = 0 \<or> snd x = 0)"
proof (rule returnsI)
  fix k :: kernel and s :: "'a ghes_scheme"
  assume s: "ghes_ok s"
  let ?r = "k (trace s) (Syscall ''apei_read'' [])" and ?s = "s\<lparr>trace := trace s @ [Syscall ''apei_read'' []]\<rparr>"
  have "ghes_ok ?s" "unat (20 :: 32 word) \<le> length (estatus ?s)" using s by (simp_all add: ghes_ok_def)
  with copy_from_phys_returns [of 20 "ul (errno ?r)"] obtain s' where
    "copy_from_phys (ul (errno ?r)) 20 k ?s = (Val (), s')" "same_source ?s s'"
    unfolding returns_def by (metis old.unit.exhaust)
  moreover have "same_source s s'" using calculation(2) by (simp add: same_source_def)
  ultimately show "\<exists>x s'. ghes_peek_estatus k s = (Val x, s') \<and> same_source s s' \<and> (fst x = 0 \<or> snd x = 0)"
    using s by (auto simp: ghes_peek_estatus_def prog_simps Let_def)
qed

text \<open>After a successful check the length of the block fits.\<close>

lemma ghes_check_returns:
  "returns (\<lambda>s. True) ghes_check_estatus (\<lambda>s rc. rc = 0 \<longrightarrow> unat (cper_estatus_len (estatus s)) \<le> length (estatus s))"
proof (rule returnsI)
  fix k :: kernel and s :: "'a ghes_scheme"
  assume s: "ghes_ok s"
  show "\<exists>rc s'. ghes_check_estatus k s = (Val rc, s') \<and> same_source s s'
      \<and> (rc = 0 \<longrightarrow> unat (cper_estatus_len (estatus s')) \<le> length (estatus s'))"
    using s by (auto simp: ghes_check_estatus_def prog_simps Let_def EIO_def ghes_ok_def word_less_nat_alt not_less)
qed

lemma ghes_read_block_returns:
  "returns (\<lambda>s. unat len \<le> length (estatus s)) (ghes_read_block paddr len) (\<lambda>s a. True)"
  unfolding ghes_read_block_def
  by (intro returns_sqn [OF copy_from_phys_returns] returns_bnd [OF returns_any(2)] returns_if
      returns_sqn [OF returns_any(3)] returns_ret TrueI)

lemma ghes_read_returns: "returns (\<lambda>s. True) ghes_read_estatus (\<lambda>s x. True)"
  unfolding ghes_read_estatus_def
proof (rule returns_bnd [OF ghes_peek_returns], clarify)
  fix paddr rc
  have block: "returns (\<lambda>s. unat (cper_estatus_len (estatus s)) \<le> length (estatus s))
      (bnd (get estatus) (\<lambda>b. bnd (ghes_read_block paddr (cper_estatus_len b)) (\<lambda>rc. ret (paddr, rc)))) (\<lambda>s x. True)"
    by (rule returns_bnd [OF returns_get [where Q="\<lambda>s b. unat (cper_estatus_len b) \<le> length (estatus s)"]])
      (auto intro: returns_bnd [OF ghes_read_block_returns] returns_ret)
  show "returns (\<lambda>s. fst (paddr, rc) = 0 \<or> snd (paddr, rc) = 0) (if rc \<noteq> 0 then ret (paddr, rc)
       else bnd ghes_check_estatus (\<lambda>rc. if rc \<noteq> 0 then ret (paddr, rc)
         else bnd (get estatus) (\<lambda>b. bnd (ghes_read_block paddr (cper_estatus_len b)) (\<lambda>rc. ret (paddr, rc)))))
     (\<lambda>s x. True)"
    by (intro returns_if returns_ret TrueI returns_weaken [OF returns_bnd [OF ghes_check_returns]])
      (auto intro: returns_ret returns_weaken [OF block])
qed

lemma ghes_read_failed:
  assumes "rv (k (trace s) (Syscall ''apei_read'' [])) \<noteq> 0"
  shows "\<exists>s'. ghes_read_estatus k s = (Val (0, - EIO), s')"
  using assms by (simp add: ghes_read_estatus_def ghes_peek_estatus_def prog_simps EIO_def)

section \<open>The severity\<close>

lemma length_set_severity: "20 \<le> length b \<Longrightarrow> length (set_severity v b) = length b"
  by (simp add: set_severity_def)

lemma error_severity_set: "20 \<le> length b \<Longrightarrow> error_severity (set_severity v b) = v"
  by (simp add: error_severity_def set_severity_def field_at sizes [THEN field_here(1)] del: le_bytes.simps)

definition phys_write :: "u64 \<Rightarrow> string \<Rightarrow> sys" where
  "phys_write paddr b = Syscall ''ghes_copy_tofrom_phys'' (paddr # of_nat (length b) # 0 # map (\<lambda>c. of_nat (of_char c)) b)"

text \<open>
  C8: the probe never reads past the status block of the error source, whatever the firmware has
  put there (lengths that wrap around included): it returns 0 and its last action is to write
  the 20 bytes of the header, with the severity of a recoverable error, back to physical
  memory.  It does so even when the address of the block could not be read, and then writes to
  address 0.
\<close>

theorem handler_pre_lowers_severity:
  assumes "ghes_ok s"
  shows "\<exists>paddr s'. handler_pre k s = (Val 0, s') \<and> ghes_ok s' \<and> error_severity (estatus s') = 0
     \<and> last (trace s') = phys_write paddr (take 20 (estatus s'))
     \<and> (rv (k (trace s) (Syscall ''apei_read'' [])) \<noteq> 0 \<longrightarrow> paddr = 0)"
proof -
  obtain paddr rc s1 where read: "ghes_read_estatus k s = (Val (paddr, rc), s1)" "same_source s s1"
    using ghes_read_returns assms unfolding returns_def by (metis surj_pair)
  then have s1: "ghes_ok s1" "20 \<le> length (estatus s1)" by (auto simp: same_source_def ghes_ok_def)
  let ?b = "set_severity 0 (estatus s1)"
  have len: "length ?b = length (estatus s1)" by (rule length_set_severity [OF s1(2)])
  have "\<exists>s'. handler_pre k s = (Val 0, s') \<and> estatus s' = ?b \<and> error_block_length s' = error_block_length s1
      \<and> last (trace s') = phys_write paddr (take 20 ?b)"
    using read(1) s1(2) len by (simp add: handler_pre_def prog_simps copy_to_phys_def phys_write_def)
  then obtain s' where s': "handler_pre k s = (Val 0, s')" "estatus s' = ?b" "error_block_length s' = error_block_length s1"
    "last (trace s') = phys_write paddr (take 20 ?b)" by blast
  have "paddr = 0" if "rv (k (trace s) (Syscall ''apei_read'' [])) \<noteq> 0"
    using ghes_read_failed [of k s] that read(1) by auto
  moreover have "ghes_ok s'" using s1(1) len s' by (simp add: ghes_ok_def)
  moreover have "error_severity (estatus s') = 0" unfolding s'(2) by (rule error_severity_set [OF s1(2)])
  ultimately show ?thesis using s' by auto
qed

definition ghes_example :: ghes where
  "ghes_example = \<lparr>trace = [], estatus = replicate 32 (CHR 0x01), error_block_length = 32, source_id = 0\<rparr>"

theorem handler_pre_lowers_severity_witness:
  "\<exists>s'. handler_pre (\<lambda>tr c. ok\<lparr>rv := 1\<rparr>) ghes_example = (Val 0, s') \<and> error_severity (estatus s') = 0
     \<and> last (trace s') = phys_write 0 (take 20 (estatus s'))"
proof -
  have "ghes_ok ghes_example" by (simp add: ghes_example_def ghes_ok_def)
  from handler_pre_lowers_severity [OF this, of "\<lambda>tr c. ok\<lparr>rv := 1\<rparr>"] show ?thesis by auto
qed

section \<open>The pages of the device\<close>

text \<open>Whatever a mapping ends with, the device remembers the pages of this mapping only.\<close>

lemma walk_keeps [keeps_intros]: "(\<And>s t. P s \<Longrightarrow> P (s\<lparr>trace := t\<rparr>)) \<Longrightarrow> keeps P (walk a ls)"
  by (induction ls) (auto simp: printk_def intro!: keeps_intros)

lemma dump_pte_keeps [keeps_intros]: "(\<And>s t. P s \<Longrightarrow> P (s\<lparr>trace := t\<rparr>)) \<Longrightarrow> keeps P (dump_pte a)"
  unfolding dump_pte_def printk_def by (intro keeps_intros) auto

lemma prot_for_keeps [keeps_intros]: "(\<And>s t. P s \<Longrightarrow> P (s\<lparr>trace := t\<rparr>)) \<Longrightarrow> keeps P (prot_for mt pg prot)"
  unfolding prot_for_def printk_def Let_def by (intro keeps_intros) auto

definition got_pages :: "kernel \<Rightarrow> 'z pgd_scheme \<Rightarrow> addr" where
  "got_pages k s = ul (rv (k (trace s) (Syscall ''__get_free_pages'' [1])))"

lemma mmap_pages:
  assumes "vm_end - vm_start \<le> 0x2000" "pgprot_drv_mmap mt vm_start vm_end prot k s = (r, s')"
  shows "sh_mem s' = got_pages k s"
proof -
  let ?p = "got_pages k s"
  let ?s = "s\<lparr>trace := trace s @ [Syscall ''__get_free_pages'' [1]], sh_mem := ?p\<rparr>"
  let ?rest = "pgprot_map_pages mt vm_start (vm_end - vm_start) prot ?p"
  have "keeps (\<lambda>s. sh_mem s = ?p) ?rest"
    unfolding pgprot_map_pages_def printk_def by (intro keeps_intros) auto
  moreover have "(0x2000 < vm_end - vm_start) = False" using assms(1) by (simp add: not_less)
  then have "?rest k ?s = (r, s')"
    using assms(2) by (simp add: pgprot_drv_mmap_def got_pages_def prog_simps Let_def)
  moreover have "sh_mem ?s = ?p" by simp
  ultimately show ?thesis using keepsD [of "\<lambda>s. sh_mem s = ?p"] by blast
qed

text \<open>Of the pages of two mappings the removal of the device frees the second ones only.\<close>

lemma pgprot_frees_last_pages:
  assumes "e1 - a1 \<le> 0x2000" "e2 - a2 \<le> 0x2000"
    and "pgprot_drv_mmap mt a1 e1 prot k s = (r1, s1)" "pgprot_drv_mmap mt a2 e2 prot k s1 = (r2, s2)"
  shows "sh_mem s1 = got_pages k s \<and> sh_mem s2 = got_pages k s1
     \<and> pgprot_drv_exit k s2 = (Val (), s2\<lparr>trace := trace s2 @ [Syscall ''misc_deregister'' [], Syscall ''free_pages'' [got_pages k s1, 1]]\<rparr>)"
  using mmap_pages [OF assms(1,3)] mmap_pages [OF assms(2,4)] by (simp add: pgprot_drv_exit_def prog_simps)

section \<open>The chain of pointers\<close>

text \<open>A memory that gives back what was stored last.\<close>

definition loads_ring :: "kernel \<Rightarrow> addr \<Rightarrow> bool" where
  "loads_ring k mem \<longleftrightarrow> (\<forall>tr. \<forall>i < 32. rv (k tr (LoadN (ring_slot mem i) 8)) = uint (ring_slot mem (Suc i mod 32)))"

lemma ring_stores_slots: "ring_stores mem = map (\<lambda>i. StoreN (ring_slot mem i) 8 (ring_slot mem (Suc i mod 32))) [0..<32]"
proof -
  have "[0..<32] = [0..<31] @ [31 :: nat]" using upt_Suc_append [of 0 31] by (simp del: upt_Suc upt_Suc_append)
  then show ?thesis by (simp add: ring_stores_def)
qed

lemma chase_ring:
  assumes "loads_ring k mem" "i < 32"
  shows "\<exists>tr. chase n (ring_slot mem i) k s = (Val (ring_slot mem ((i + n) mod 32)), s\<lparr>trace := trace s @ tr\<rparr>)"
  using assms(2)
proof (induction n arbitrary: i s)
  case 0
  then show ?case by (auto simp: prog_simps intro: exI [of _ "[]"])
next
  case (Suc n)
  have "rv (k (trace s) (LoadN (ring_slot mem i) 8)) = uint (ring_slot mem (Suc i mod 32))"
    using assms(1) Suc.prems by (simp add: loads_ring_def)
  moreover have "Suc i mod 32 < 32" by simp
  from Suc.IH [OF this, of "s\<lparr>trace := trace s @ [LoadN (ring_slot mem i) 8]\<rparr>"]
  obtain tr where "chase n (ring_slot mem (Suc i mod 32)) k (s\<lparr>trace := trace s @ [LoadN (ring_slot mem i) 8]\<rparr>)
      = (Val (ring_slot mem ((Suc i mod 32 + n) mod 32)), s\<lparr>trace := trace s @ [LoadN (ring_slot mem i) 8] @ tr\<rparr>)" by auto
  moreover have "(Suc i mod 32 + n) mod 32 = (i + Suc n) mod 32" by (simp add: mod_add_left_eq)
  ultimately show ?case by (auto simp: prog_simps)
qed

end
