(* ===== verification/SampleTests.thy ===== *)
theory SampleTests
  imports SmallTests
begin

text \<open>
  The samples of the framework: \<open>test_core/sample_test/lib/test_sample.c\<close> (a region that is kept busy until a
  signal) and \<open>test_sample_for_both_mode.c\<close> (four checkpoints).
\<close>

record sample = core +
  s_flag :: int
  s_HPS :: int

record sample_opts =
  so_nr :: int
  so_mapflag :: int
  so_reserveonly :: bool

definition sample_pipe :: "string \<Rightarrow> ('z core_scheme, unit) prog" where
  "sample_pipe optarg = sqn (put (\<lambda>s. s\<lparr>testpipe := Some optarg\<rparr>))
     (bnd (sysv (Lstat optarg)) (\<lambda>m. if m AND 0xF000 = 0x1000 then skip else exit_failure))"

definition sample_option :: "char \<times> string \<Rightarrow> sample_opts \<Rightarrow> ('z sample_scheme, sample_opts) prog" where
  "sample_option = (\<lambda>(c, optarg) so.
     if c = CHR ''h'' then sqn (put (\<lambda>s. s\<lparr>s_HPS := int_of_ul (strtoul 10 optarg * 1024)\<rparr>)) (ret (so\<lparr>so_mapflag := so_mapflag so OR MAP_HUGETLB\<rparr>))
     else if c = CHR ''r'' then ret (so\<lparr>so_reserveonly := True\<rparr>)
     else if c = CHR ''m'' then
       (if optarg = ''private'' then ret (so\<lparr>so_mapflag := (so_mapflag so OR MAP_PRIVATE) AND NOT MAP_SHARED\<rparr>)
        else if optarg = ''shared'' then ret (so\<lparr>so_mapflag := so_mapflag so OR MAP_SHARED\<rparr>)
        else exit_failure)
     else if c = CHR ''p'' then sqn (sample_pipe optarg) (ret so)
     else if c = CHR ''n'' then ret (so\<lparr>so_nr := int_of_ul (strtoul 10 optarg)\<rparr>)
     else if c = CHR ''v'' then sqn (put (\<lambda>s. s\<lparr>verbose := 1\<rparr>)) (ret so)
     else ret so)"

primrec sample_options :: "(char \<times> string) list \<Rightarrow> sample_opts \<Rightarrow> ('z sample_scheme, sample_opts) prog" where
  "sample_options [] so = ret so"
| "sample_options (x # xs) so = bnd (sample_option x so) (sample_options xs)"

text \<open>\<open>nr * HPS\<close> is a product of \<open>int\<close>s.\<close>

definition sample_memsize :: "int \<Rightarrow> ('z sample_scheme, u64) prog" where
  "sample_memsize nr = bnd (get s_HPS) (\<lambda>hps. if 0 < hps
     then sqn (validate_hugepage_size (ul hps)) (if in_s32 (nr * hps) then ret (ul (nr * hps)) else stop (Fault Overflow))
     else ret (ul nr * PS))"

text \<open>The variable \<open>flag\<close> is cleared by the handler of the signal.\<close>

fun sample_busy :: "nat \<Rightarrow> ('z sample_scheme, unit) prog \<Rightarrow> ('z sample_scheme, unit) prog" where
  "sample_busy 0 work = stop NoFuel"
| "sample_busy (Suc n) work = bnd (sysv Poll) (\<lambda>r. sqn (cond (r \<noteq> 0) (put (\<lambda>s. s\<lparr>s_flag := 0\<rparr>)))
     (bnd (get s_flag) (\<lambda>f. if f = 0 then skip
       else sqn (call (Usleep 1000)) (sqn work (sample_busy n work)))))"

definition say :: "string \<Rightarrow> ('z core_scheme, unit) prog" where
  "say t = bnd (pprintf (t @ newl)) (\<lambda>_. skip)"

definition main_sample :: "nat \<Rightarrow> string \<Rightarrow> (char \<times> string) list \<Rightarrow> ('z sample_scheme, int) prog" where
  "main_sample fuel argv0 opts = bnd (sample_options opts \<lparr>so_nr = 2, so_mapflag = MAP_ANONYMOUS OR MAP_SHARED, so_reserveonly = False\<rparr>) (\<lambda>so.
     sqn (call (Sigaction SIGUSR1 2))
     (bnd (sample_memsize (so_nr so)) (\<lambda>memsize. bnd (get s_HPS) (\<lambda>hps.
      sqn (Dprintf (''memsize = 0x'' @ show_hex memsize @ '', hpsize = '' @ show_int hps @ '', mapflag = 0x'' @ show_hex (ul (so_mapflag so)) @ newl))
      (bnd (checked_mmap test_base memsize (PROT_READ OR PROT_WRITE) (so_mapflag so) (- 1) 0) (\<lambda>p.
       let work = cond (\<not> so_reserveonly so) (fill p memsize) in
       sqn work (sqn (call (Sigaction SIGUSR1 1)) (sqn (say ''busy loop to check pageflags'')
       (sqn (sample_busy fuel work) (sqn (say (argv0 @ '' exit''))
       (sqn (call (Syscall ''pause'' [])) (stop (Exit 0)))))))))))))"

definition both_option :: "char \<times> string \<Rightarrow> ('z core_scheme, unit) prog" where
  "both_option = (\<lambda>(c, optarg). if c = CHR ''p'' then sample_pipe optarg
     else if c = CHR ''v'' then put (\<lambda>s. s\<lparr>verbose := 1\<rparr>) else skip)"

definition main_both :: "nat \<Rightarrow> (char \<times> string) list \<Rightarrow> ('z sample_scheme, int) prog" where
  "main_both fuel opts = sqn (for_each opts both_option) (sqn (call (Sigaction SIGUSR1 2))
     (sqn (say ''checkpoint_1'') (sqn (call (Syscall ''pause'' []))
     (sqn (pprintf_wait fuel SIGUSR1 (''checkpoint_2'' @ newl))
     (sqn (call (Sigaction SIGUSR1 1)) (sqn (say ''checkpoint_3'')
     (sqn (sample_busy fuel skip) (sqn (say ''checkpoint_4'')
     (sqn (call (Syscall ''pause'' [])) (stop (Exit 0)))))))))))"

section \<open>Keeping busy\<close>

section \<open>The capability register\<close>

text \<open>
  \<open>cap_check.c\<close>, a kernel module that prints the register \<open>MSR_IA32_MCG_CAP\<close>, with sixteen digits; the
  reading of the register is a call.
\<close>

definition cap_check_init :: "('z io_scheme, int) prog" where
  "cap_check_init = bnd (sysv (Syscall ''rdmsrl MSR_IA32_MCG_CAP'' [])) (\<lambda>cap. let d = show_hex (ul cap) in
     sqn (put_line (''mcgcap=0x'' @ replicate (16 - length d) (CHR ''0'') @ d)) (ret 0))"

text \<open>The region is kept busy until the signal arrives: one round of work per look at the flag before it.\<close>

lemma sample_busy_ends:
  assumes "\<And>tr. rv (k tr Poll) = (if n \<le> length (filter (\<lambda>c. c = Poll) tr) then 1 else 0)"
    and "s_flag s = 1" "length (filter (\<lambda>c. c = Poll) (trace s)) + m = n" "m < fuel"
    and "\<And>s. \<exists>tr. work k s = (Val (), s\<lparr>trace := trace s @ tr\<rparr>) \<and> filter (\<lambda>c. c = Poll) tr = []"
  shows "\<exists>s'. sample_busy fuel work k s = (Val (), s') \<and> s_flag s' = 0"
  using assms(2-4)
proof (induction fuel arbitrary: m s)
  case (Suc fuel)
  let ?s = "s\<lparr>trace := trace s @ [Poll]\<rparr>"
  show ?case
  proof (cases m)
    case 0
    then have "rv (k (trace s) Poll) = 1" using assms(1) Suc.prems(2) by simp
    then show ?thesis by (simp add: prog_simps)
  next
    case (Suc m')
    then have r: "rv (k (trace s) Poll) = 0" using assms(1) Suc.prems(2) by simp
    let ?u = "s\<lparr>trace := trace s @ [Poll, Usleep 1000]\<rparr>"
    obtain tr where w: "work k ?u = (Val (), ?u\<lparr>trace := trace ?u @ tr\<rparr>)" "filter (\<lambda>c. c = Poll) tr = []"
      using assms(5) by blast
    have "\<exists>s'. sample_busy fuel work k (?u\<lparr>trace := trace ?u @ tr\<rparr>) = (Val (), s') \<and> s_flag s' = 0"
      by (rule Suc.IH [of _ m']) (use Suc.prems Suc w(2) in auto)
    with r w(1) Suc.prems(1) show ?thesis by (auto simp: prog_simps)
  qed
qed simp

end
