(* ===== verification/Spec2Isabelle.thy ===== *)
theory Spec2Isabelle
  imports OpLaws RingLaws Hugetlb1gb EinjArm ProcLaws LmceLaws RasLaws MceLaws SmallLaws
    DaxLaws PmemLaws Ndctl ModuleLaws SampleTests
begin

text \<open>
  A verification development for the C tools of the memory-management regression suite
  (the sources are under \<open>src/\<close>).

  \<^bold>\<open>The program.\<close>  Test cases are shell scripts that start small C tools and steer them
  through a pipe and a signal.  The main tool, \<open>lib/test_alloc_generic.c\<close>, reads its options,
  sets up test memory of one or more backends (page cache, anonymous, transparent and explicit
  hugepages, shared memory, KSM, zero pages, device memory) and then interprets a list of
  operation strings such as \<open>mmap access:type=read munmap:hp_partial\<close>.  The operations, the
  chunks of test memory and the interpreter are in \<open>lib/include.h\<close>, on top of
  \<open>test_core/lib/include.h\<close> (checked system calls, the handshake with the script),
  \<open>lib/pfn.h\<close> (page frames and page flags) and \<open>lib/hugepage.h\<close>.  Beside it stand an
  interpreter of the same kind for gigantic pages, \<open>lib/hugetlb_1gb.c\<close>, the test of \<open>io_uring\<close>,
  \<open>lib/test-io_uring.c\<close>, and the RAS tools under \<open>lib/ras-tools/\<close>, which inject memory errors
  through the EINJ files of debugfs and consume them: \<open>einj_mem_uc.c\<close> (with \<open>proc_cpuinfo.c\<close>,
  \<open>proc_interrupt.c\<close> and \<open>proc_pagemap.c\<close>), \<open>hornet.c\<close>, \<open>lmce.c\<close>, \<open>vtop.c\<close>, \<open>victim.c\<close>,
  \<open>cmcistorm.c\<close>, \<open>rep_ce_page.c\<close> and \<open>mca-recover.c\<close>.  \<open>lib/test_mce-srar.c\<close> and
  \<open>lib/test_multiple_mappings_srar.c\<close> inject machine checks through \<open>/dev/mcelog\<close>.  \<open>memattr.c\<close> measures
  and poisons memory mapped by the driver \<open>pgprot_drv.c\<close>, and the module \<open>ras_tolerance.c\<close> rewrites the
  severity of error records.  Around these stand the tests of one behaviour each (\<open>lib/test_mincore.c\<close>,
  \<open>lib/hugetlb_fork_rw.c\<close> and others), the tests of DAX devices and NVDIMM commands (\<open>lib/test_dax.c\<close>,
  \<open>lib/ndctl_ioctl.c\<close>), the persistent memory programs under \<open>lib/pmem/\<close> and the samples of the framework.

  \<^bold>\<open>The model.\<close>  Every routine is a function on an explicit process state, in the monad of
  \<^theory_text>\<open>Prelude\<close>: it returns a value, exits with a status, does something C leaves undefined
  (\<open>Fault\<close>), or has used up the fuel of a loop that need not end (\<open>NoFuel\<close>).  The state is a
  chain of records, one per header, holding the global variables of that header and the
  sequence of system calls and memory accesses made so far (\<open>trace\<close>).  The kernel is a
  parameter: a function from the calls made so far and the call being made to its result.
  What a theorem needs of the kernel is one of its hypotheses (\<open>grants\<close>, \<open>script_kernel\<close>,
  \<open>setup_kernel\<close>, \<open>coherent\<close>, ...), and each has a witness with a concrete kernel.  The value of
  a function that ends without \<open>return\<close> is supplied by the environment as well (\<open>Indet\<close>).
  Memory that the kernel writes behind the program's back, the rings of \<open>io_uring\<close>, is a function
  \<open>shared\<close> applied where the code reads it.  Floating point expressions (a delay in seconds, a
  fraction of a range) are parameters too, and so is the order \<open>sched\<close> in which the threads of an
  injection run.
  C integers are words or truncated integers where their width matters; a write past the
  end of a C array, the use of an unset variable, a division by zero are faults.

  \<^bold>\<open>Theories.\<close>
  \<^item> \<open>Prelude\<close>: integers, system calls, programs and their evaluation, programs that keep a
    property (\<open>keeps\<close>).
  \<^item> \<open>CLib\<close>: the C library routines used: \<open>strtok\<close>, \<open>strtol\<close>, \<open>sscanf\<close> patterns, printing.
  \<^item> \<open>TestCore\<close>: \<open>test_core/lib/include.h\<close>; the handshake returns after the signal and
    only then.
  \<^item> \<open>Pfn\<close>: \<open>lib/pfn.h\<close>; flag names and filters against reference functions, frame lookup.
  \<^item> \<open>Hugepage\<close>: \<open>lib/hugepage.h\<close>; the fill pattern reads back, segments do not leak.
  \<^item> \<open>KeyValue\<close>, \<open>OpControl\<close>: operation descriptions; the key/value interface is the locale
    \<open>kv_store\<close>, interpreted by the \<open>op_control\<close> structure; the parser is sound and inverts
    printing.
  \<^item> \<open>Chunks\<close>, \<open>ChunkLaws\<close>: test memory; the layout of the chunks, their sizes, mapping and
    unmapping as changes of a footprint (pages, attachments and shared memory segments, read off the calls and
    the answers of the kernel), accesses.
  \<^item> \<open>NumaOps\<close>, \<open>MemOps\<close>, \<open>MemLaws\<close>: the other operations and what they do to the chunks.
  \<^item> \<open>OpLoop\<close>, \<open>OpLaws\<close>: the dispatcher, the options, \<open>setup\<close> and \<open>main\<close>.
  \<^item> \<open>IoUring\<close>, \<open>RingLaws\<close>: \<open>lib/test-io_uring.c\<close>; submission and completion rings refine
    queues, the interfaces \<open>fifo_in\<close> and \<open>fifo_out\<close>, across the wrap-around of their indices.
  \<^item> \<open>Hugetlb1gb\<close>: \<open>lib/hugetlb_1gb.c\<close>; its operation descriptions are a second interpretation of
    \<open>kv_store\<close> and refine those of \<open>OpControl\<close>, and the two parsers agree.
  \<^item> \<open>ProcFiles\<close>, \<open>ProcLaws\<close>: the readers of \<open>/proc\<close>: interrupt counts are the sums of their
    columns, the address translations agree.
  \<^item> \<open>Einj\<close>, \<open>EinjLaws\<close>, \<open>EinjArm\<close>: \<open>einj_mem_uc.c\<close>; the order of the writes of an injection, the rotation of
    the tests, the division by an unset number of processors; the parts for aarch64.
  \<^item> \<open>Hornet\<close>: \<open>hornet.c\<close>; the search for a present page ends, and where its offset can overflow.
  \<^item> \<open>Lmce\<close>, \<open>LmceLaws\<close>: \<open>lmce.c\<close>; masks of processors are read back, the processors picked are
    related as asked for.
  \<^item> \<open>RasTools\<close>, \<open>RasLaws\<close>: \<open>cmcistorm.c\<close>, \<open>rep_ce_page.c\<close>, \<open>mca-recover.c\<close>, \<open>victim.c\<close>; the storm ends
    at the tenth refused write at the latest, the verdict on a page taken offline, the address option.
  \<^item> \<open>Bytes\<close>: fields of structures as little-endian bytes, and that they read back.
  \<^item> \<open>Mce\<close>, \<open>MceLaws\<close>: \<open>mce.h\<close> and the two tests on \<open>/dev/mcelog\<close>; who gets which
    record in which order, with which flags.
  \<^item> \<open>RasModules\<close>, \<open>ModuleLaws\<close>: \<open>memattr.c\<close>, \<open>pgprot_drv.c\<close> and \<open>ras_tolerance.c\<close>, whose kernel functions are
    calls; the probe stays inside the status block and writes the lowered severity back.
  \<^item> \<open>SmallTests\<close>, \<open>PageTests\<close>, \<open>SmallLaws\<close>: the tests of one behaviour each; the pages they write and move
    and where their counters overflow.
  \<^item> \<open>DaxTests\<close>, \<open>DaxLaws\<close>: \<open>test_dax.c\<close>, \<open>test_devdax_simple.c\<close>, \<open>test_fsdax.c\<close>; the mappings cover the device,
    the accesses stay inside them and follow each other.
  \<^item> \<open>Ndctl\<close>: \<open>ndctl_ioctl.c\<close>; the commands as the bytes that the firmware reads back.
  \<^item> \<open>Pmem\<close>, \<open>PmemLaws\<close>: the programs under \<open>lib/pmem/\<close>.  A store reaches persistent memory at its persist or
    at any time before (\<open>crash_image\<close>, an interpretation of the locale \<open>persistent_memory\<close>); the list
    survives a crash at every moment of a consistent insertion, and does not in an inconsistent one.
  \<^item> \<open>SampleTests\<close>: the samples of the framework and \<open>cap_check.c\<close>.

  \<^bold>\<open>Fuel.\<close>  Loops that wait for a signal or test a flag no one clears take fuel; the theorems
  either show that enough fuel gives the result (\<open>wait_func_handshake\<close>,
  \<open>madvise_step_ranges\<close>, \<open>pickaddr_search_ends\<close>, \<open>rotation_visits_safe_tests\<close>, \<open>storm_ends\<close>,
  \<open>dax_write_contiguous\<close>, \<open>inserts_survive_crash\<close>, whose bounds on the fuel are the number of tests before the
  signal, the number of pages of a chunk, twice the pages of the range, the number of tests, ten
  failed writes, the rounds over the device, and the nine usable nodes of the list) or that no fuel
  is enough.  All other loops are structural or have a termination proof.

  \<^bold>\<open>Not modelled.\<close>  Messages to the error stream, and to the standard output where no test reads them;
  the shell scripts and the job files; the kernel, the firmware and the libraries for persistent
  memory, which are calls; the timing of signals, which is the answer to the pseudo-call \<open>Poll\<close>.
  Code that is compiled for old kernels only (\<open>LINUX_VERSION_CODE\<close> in \<open>einj_mem_uc.c\<close>) is left out.
  The copies of \<open>test_mce-srar.c\<close> and \<open>mce.h\<close> under \<open>lib/ras-tools/\<close> have the text of the originals and
  the code behind the unconditional return of \<open>test_fsdax.c\<close> is never run.
\<close>

section \<open>Properties that span components\<close>

text \<open>C1: a complete run of the generic tool.  When the options are accepted (not verbose, 1 to \<open>2^27\<close> pages at the default
  address, \<open>devmem\<close> only alone) and ask for the operations
  \<open>mmap\<close>, \<open>access\<close> and \<open>munmap\<close>, then on a kernel that grants the requests, and with 0 for the
  results that chunk functions never set, \<open>main\<close> returns 0, and every page the run mapped (also where the kernel chose the place),
  every attachment and every shared memory segment it created is gone.\<close>

theorem generic_run_releases:
  fixes s0 :: "'z mm_scheme"
  assumes "setup_kernel k" "indet_zero k"
    and "for_each opts main_option k
      (s0\<lparr>nr_nodes := ul (max_node + 1), nodemask := push_bit (nat (max_node + 1)) 1 - 1,
          trace := trace s0 @ [Sigaction SIGUSR1 2]\<rparr>) = (Val (), s)"
    and "options_ok s" "op_strings s = [''mmap'', ''access'', ''munmap'']"
  shows "\<exists>s'. main_alloc_generic fuel max_node opts k s0 = (Val 0, s')
    \<and> foot_le (footprint k (trace s')) (footprint k (trace s))"
proof -
  obtain s1 where s1: "setup_area k s = (Val (), s1)" "chunks_ready s1" "same_options s s1"
      "foot_le (footprint k (trace s1)) (footprint k (trace s))"
    using setup_area_ok [OF assms(1,4)] by blast
  have v: "verbose s1 = 0" "op_strings s1 = [''mmap'', ''access'', ''munmap'']"
    using s1(3) assms(4,5) by (simp_all add: same_options_def options_ok_def)
  obtain s2 where s2: "for_each [''mmap'', ''access'', ''munmap''] (run_operation fuel) k s1 = (Val (), s2)"
      "foot_le (footprint k (trace s2)) (footprint k (trace s1))"
    by (rule mmap_access_munmap_run [OF assms(1,2) s1(2) v(1)])
  have "main_alloc_generic fuel max_node opts k s0 = (Val 0, s2)"
    using assms(3) s1(1) s2(1) v(2)
    by (simp add: main_alloc_generic_def do_operation_loop_def sqn_eval bnd_eval get_eval put_eval call_eval ret_eval)
  moreover have "foot_le (footprint k (trace s2)) (footprint k (trace s))"
    using s2(2) s1(4) by (rule foot_le_trans)
  ultimately show ?thesis by blast
qed

theorem generic_run_releases_witness:
  "\<exists>s'. main_alloc_generic 0 1 [(CHR ''B'', ''anonymous''), (CHR ''B'', ''normal_shmem''),
       (CHR ''L'', ''mmap access munmap'')] setup_grant_kernel mm0 = (Val 0, s')
    \<and> footprint setup_grant_kernel (trace s') = ({}, {}, {})"
proof -
  let ?s0 = "mm0\<lparr>nr_nodes := 2, nodemask := 3, trace := [Sigaction SIGUSR1 2]\<rparr>"
  let ?s = "?s0\<lparr>backend_bitmap := BE ANONYMOUS OR BE NORMAL_SHMEM, op_strings := [''mmap'', ''access'', ''munmap'']\<rparr>"
  have t: "tokens '' '' ''mmap access munmap'' = [''mmap'', ''access'', ''munmap'']" by code_simp
  have b: "backend_bits ''anonymous'' = BE ANONYMOUS" "backend_bits ''normal_shmem'' = BE NORMAL_SHMEM"
    by (simp_all add: backend_bits_def backend_names_def)
  have opts: "for_each [(CHR ''B'', ''anonymous''), (CHR ''B'', ''normal_shmem''),
       (CHR ''L'', ''mmap access munmap'')] main_option setup_grant_kernel
      (mm0\<lparr>nr_nodes := ul (1 + 1), nodemask := push_bit (nat (1 + 1)) 1 - 1,
          trace := trace mm0 @ [Sigaction SIGUSR1 2]\<rparr>) = (Val (), ?s)"
    by (simp add: prog_simps main_option_def b parse_operations_def t Let_def, simp add: mm0_def)
  have "options_ok ?s"
    by (simp add: options_ok_def mm0_def BE_def bit_simps bit_numeral_rec)
  moreover have "op_strings ?s = [''mmap'', ''access'', ''munmap'']" by simp
  moreover have "footprint setup_grant_kernel (trace ?s) = ({}, {}, {})" by (simp add: footprint_def)
  ultimately obtain s' where "main_alloc_generic 0 1 [(CHR ''B'', ''anonymous''), (CHR ''B'', ''normal_shmem''),
       (CHR ''L'', ''mmap access munmap'')] setup_grant_kernel mm0 = (Val 0, s')"
      "foot_le (footprint setup_grant_kernel (trace s')) ({}, {}, {})"
    using generic_run_releases [OF setup_grant_kernel_ok opts, of 0] by auto
  then show ?thesis by (cases "footprint setup_grant_kernel (trace s')") auto
qed

end
